(* ===== verification/Prelude.thy ===== *)
theory Prelude
  imports Main "HOL-Library.Word"
begin

text \<open>
  Shared vocabulary of the development: Rust's fixed-width integers, its \<open>Result\<close> type and the
  \<open>?\<close> operator, the checked and saturating arithmetic and the little-endian byte conversion of
  the Rust standard library, and the generic lemmas on them that the component theories use.
  A computation that may panic has type \<open>'a option\<close>, with \<open>None\<close> for the panic.
\<close>

unbundle bit_operations_syntax

type_synonym u8 = "8 word"
type_synonym u32 = "32 word"
type_synonym u64 = "64 word"
type_synonym u128 = "128 word"

named_theorems attempt_simps "introduction and inversion of programs built with the ? operator"


section \<open>Results and the question mark operator\<close>

datatype ('a, 'e) result = Ok (unwrap: 'a) | Err (unwrap_err: 'e)

fun is_ok :: "('a, 'e) result \<Rightarrow> bool" where
  "is_ok (Ok a) = True"
| "is_ok (Err e) = False"

definition ok_or :: "'a option \<Rightarrow> 'e \<Rightarrow> ('a, 'e) result" where
  "ok_or x e = (case x of None \<Rightarrow> Err e | Some a \<Rightarrow> Ok a)"

definition map_err :: "('e \<Rightarrow> 'f) \<Rightarrow> ('a, 'e) result \<Rightarrow> ('a, 'f) result" where
  "map_err f r = (case r of Ok a \<Rightarrow> Ok a | Err e \<Rightarrow> Err (f e))"

definition ensure :: "bool \<Rightarrow> 'e \<Rightarrow> (unit, 'e) result" where
  "ensure b e = (if b then Ok () else Err e)"

text \<open>
  \<open>attempt r k\<close> is a fallible, state-changing step \<open>r\<close> followed by \<open>?\<close> and the rest \<open>k\<close> of the
  function: on an error the state reached so far is kept and the error is returned.
\<close>

definition attempt ::
  "('a, 'e) result \<times> 's \<Rightarrow> ('a \<Rightarrow> 's \<Rightarrow> ('b, 'e) result \<times> 's) \<Rightarrow> ('b, 'e) result \<times> 's" where
  "attempt r k = (case r of (Ok a, s) \<Rightarrow> k a s | (Err e, s) \<Rightarrow> (Err e, s))"

lemma attempt_Ok [simp]: "attempt (Ok a, s) k = k a s"
  by (simp add: attempt_def)

lemma attempt_Err [simp]: "attempt (Err e, s) k = (Err e, s)"
  by (simp add: attempt_def)

lemma attempt_eq_Ok [attempt_simps]:
  "attempt r k = (Ok b, s') \<longleftrightarrow> (\<exists>a s. r = (Ok a, s) \<and> k a s = (Ok b, s'))"
  by (auto simp: attempt_def split: prod.splits result.splits)

lemma attempt_eq_Err [attempt_simps]:
  "attempt r k = (Err e, s') \<longleftrightarrow>
     r = (Err e, s') \<or> (\<exists>a s. r = (Ok a, s) \<and> k a s = (Err e, s'))"
  by (auto simp: attempt_def split: prod.splits result.splits)

lemma ok_or_simps [simp]:
  "ok_or None e = Err e" "ok_or (Some a) e = Ok a"
  by (simp_all add: ok_or_def)

lemma ok_or_eq [simp]:
  "ok_or x e = Ok a \<longleftrightarrow> x = Some a"
  "ok_or x e = Err e' \<longleftrightarrow> x = None \<and> e' = e"
  by (auto simp: ok_or_def split: option.splits)

lemma ensure_simps [simp]:
  "ensure True e = Ok ()" "ensure False e = Err e"
  by (simp_all add: ensure_def)

lemma ensure_eq [simp]:
  "ensure b e = Ok u \<longleftrightarrow> b"
  "ensure b e = Err e' \<longleftrightarrow> \<not> b \<and> e' = e"
  by (auto simp: ensure_def)

lemma map_err_simps [simp]:
  "map_err f (Ok a) = Ok a" "map_err f (Err e) = Err (f e)"
  by (simp_all add: map_err_def)

lemma map_err_eq [simp]:
  "map_err f r = Ok a \<longleftrightarrow> r = Ok a"
  "map_err f r = Err e \<longleftrightarrow> (\<exists>e0. r = Err e0 \<and> e = f e0)"
  by (cases r; auto)+

lemma result_unit_cases:
  obtains (ok) "r = Ok ()" | (err) e where "r = Err e"
  by (cases r) auto


section \<open>Checked and saturating arithmetic\<close>

definition checked_add :: "'a::len word \<Rightarrow> 'a word \<Rightarrow> 'a word option" where
  "checked_add a b = (if unat a + unat b < 2 ^ LENGTH('a) then Some (a + b) else None)"

definition saturating_add :: "'a::len word \<Rightarrow> 'a word \<Rightarrow> 'a word" where
  "saturating_add a b = (if unat a + unat b < 2 ^ LENGTH('a) then a + b else - 1)"

lemma unat_bound: "unat a < 2 ^ LENGTH('a)" for a :: "'a::len word"
  by (rule unsigned_less)

lemma unat_max_word: "unat (- 1 :: 'a::len word) = 2 ^ LENGTH('a) - 1"
  by (simp add: unsigned_minus_1_eq_mask mask_eq_exp_minus_1)

lemma checked_add_Some:
  "checked_add a b = Some c \<longleftrightarrow> unat a + unat b < 2 ^ LENGTH('a) \<and> c = a + b"
  for a b c :: "'a::len word"
  by (auto simp: checked_add_def)

lemma unat_checked_add: "checked_add a b = Some c \<Longrightarrow> unat c = unat a + unat b"
  by (auto simp: checked_add_Some unat_word_ariths)

lemma unat_saturating_add:
  "unat (saturating_add a b) = min (unat a + unat b) (2 ^ LENGTH('a) - 1)"
  for a b :: "'a::len word"
proof (cases "unat a + unat b < 2 ^ LENGTH('a)")
  case True
  then show ?thesis by (simp add: saturating_add_def unat_word_ariths)
next
  case False
  then show ?thesis by (simp add: saturating_add_def unat_max_word)
qed

lemma saturating_add_ge: "a \<le> saturating_add a b"
proof -
  have "unat a \<le> unat (saturating_add a b)"
    using unat_bound [of a] unat_saturating_add [of a b] by linarith
  then show ?thesis by (simp add: word_le_nat_alt)
qed

lemma word_neq_max_iff: "a \<noteq> - 1 \<longleftrightarrow> unat a + 1 < 2 ^ LENGTH('a)"
  for a :: "'a::len word"
proof -
  have "a = - 1 \<longleftrightarrow> unat a = 2 ^ LENGTH('a) - 1"
    by (metis unat_max_word word_unat_eq_iff)
  then show ?thesis using unat_bound [of a] by linarith
qed

lemma less_imp_not_max: "a < b \<Longrightarrow> a \<noteq> - 1" for a b :: "'a::len word"
  by (metis not_less word_n1_ge)

lemma unat_plus_one: "a \<noteq> - 1 \<Longrightarrow> unat (a + 1) = unat a + 1" for a :: "'a::len word"
  by (simp add: word_neq_max_iff unat_word_ariths)

lemma less_plus_one_iff: "a \<noteq> - 1 \<Longrightarrow> b < a + 1 \<longleftrightarrow> b < a \<or> b = a" for a b :: "'a::len word"
  by (auto simp: word_less_nat_alt unat_plus_one less_Suc_eq word_unat_eq_iff)

lemma checked_add_one: "checked_add a 1 = (if a = - 1 then None else Some (a + 1))" for a :: "'a::len word"
  using word_neq_max_iff [of a] by (cases "a = - 1") (simp_all add: checked_add_def)

lemma saturating_add_one_max [simp]: "saturating_add (- 1) 1 = (- 1 :: u32)"
  using unat_max_word [where 'a = 32] by (simp add: saturating_add_def)

lemma saturating_add_one_strict:
  assumes "a \<noteq> - 1" shows "a < saturating_add a (1 :: u32)"
proof -
  have "unat (saturating_add a 1) = unat a + 1"
    using assms by (simp add: unat_saturating_add word_neq_max_iff)
  then show ?thesis by (simp add: word_less_nat_alt)
qed


section \<open>Integer conversions\<close>

text \<open>\<open>TryInto::<u32>::try_into\<close>: the value if it fits, an error otherwise.\<close>

definition try_into_u32 :: "'a::len word \<Rightarrow> u32 option" where
  "try_into_u32 x = (if unat x < 2 ^ 32 then Some (ucast x) else None)"

lemma try_into_u32_u32 [simp]: "try_into_u32 (x :: u32) = Some x"
  using unat_bound [of x] by (simp add: try_into_u32_def)

lemma try_into_u32_Some: "try_into_u32 x = Some y \<Longrightarrow> unat y = unat x"
  by (auto simp: try_into_u32_def unsigned_ucast_eq take_bit_nat_eq_self split: if_splits)


lemma unat_ucast_u128: "unat (ucast x :: u128) = unat x" for x :: u32
proof -
  have "unat x < 2 ^ 128" by (rule order_less_le_trans [OF unat_bound]) simp
  then show ?thesis by (simp add: unsigned_ucast_eq take_bit_nat_eq_self)
qed

lemma ucast_u128_eq_0 [simp]: "(ucast x :: u128) = 0 \<longleftrightarrow> x = 0" for x :: u32
  by (metis unat_eq_zero unat_ucast_u128)


section \<open>Little-endian bytes\<close>

text \<open>\<open>u128::from_le_bytes\<close> and its inverse: byte \<open>i\<close> holds bits \<open>8 i\<close> to \<open>8 i + 7\<close>.\<close>

fun from_le_bytes :: "u8 list \<Rightarrow> u128" where
  "from_le_bytes [] = 0"
| "from_le_bytes (b # bs) = ucast b OR push_bit 8 (from_le_bytes bs)"

fun to_le_bytes :: "nat \<Rightarrow> u128 \<Rightarrow> u8 list" where
  "to_le_bytes 0 x = []"
| "to_le_bytes (Suc n) x = ucast x # to_le_bytes n (drop_bit 8 x)"

lemma length_to_le_bytes [simp]: "length (to_le_bytes n x) = n"
  by (induction n arbitrary: x) simp_all

lemma bit_from_le_bytes:
  "bit (from_le_bytes bs) n \<longleftrightarrow> n < 128 \<and> n < 8 * length bs \<and> bit (bs ! (n div 8)) (n mod 8)"
proof (induction bs arbitrary: n)
  case Nil
  then show ?case by simp
next
  case (Cons b bs)
  show ?case
  proof (cases "n < 8")
    case True
    then show ?thesis by (simp add: bit_simps)
  next
    case False
    then obtain m where n: "n = m + 8" by (metis add.commute le_Suc_ex not_less)
    have "\<not> bit b (m + 8)" by (auto dest: bit_imp_le_length)
    moreover have "(m + 8) div 8 - Suc 0 = m div 8" by simp
    ultimately show ?thesis using Cons.IH [of m] by (auto simp: n bit_simps)
  qed
qed

lemma to_from_le_bytes: "length bs \<le> 16 \<Longrightarrow> to_le_bytes (length bs) (from_le_bytes bs) = bs"
proof (induction bs)
  case Nil
  then show ?case by simp
next
  case (Cons b bs)
  have low: "ucast (ucast b OR push_bit 8 (from_le_bytes bs)) = b"
    by (rule bit_word_eqI) (simp add: bit_simps)
  have "drop_bit 8 (ucast b OR push_bit 8 (from_le_bytes bs)) = from_le_bytes bs"
  proof (rule bit_word_eqI)
    fix n assume "n < LENGTH(128)"
    have "\<not> bit b (8 + n)" by (auto dest: bit_imp_le_length)
    moreover have "bit (from_le_bytes bs) n \<Longrightarrow> n < 120"
      using Cons.prems by (auto simp: bit_from_le_bytes)
    ultimately show "bit (drop_bit 8 (ucast b OR push_bit 8 (from_le_bytes bs))) n =
        bit (from_le_bytes bs) n"
      by (auto simp: bit_simps)
  qed
  with Cons low show ?case by simp
qed

lemma from_to_le_bytes: "from_le_bytes (to_le_bytes n x) = take_bit (8 * n) x"
proof (induction n arbitrary: x)
  case 0
  then show ?case by simp
next
  case (Suc n)
  show ?case
    by (rule bit_word_eqI) (auto simp: Suc bit_simps dest: bit_imp_le_length)
qed

lemma from_le_bytes_surj: "from_le_bytes (to_le_bytes 16 x) = x"
  using take_bit_length_eq [of x] by (simp add: from_to_le_bytes)

lemma from_le_bytes_inj:
  assumes "length xs = 16" "length ys = 16" "from_le_bytes xs = from_le_bytes ys"
  shows "xs = ys"
proof -
  have "xs = to_le_bytes 16 (from_le_bytes xs)"
    using to_from_le_bytes [of xs] assms(1) by simp
  also have "\<dots> = to_le_bytes 16 (from_le_bytes ys)" by (simp only: assms(3))
  also have "\<dots> = ys" using to_from_le_bytes [of ys] assms(2) by simp
  finally show ?thesis .
qed

lemma bij_from_le_bytes: "bij_betw from_le_bytes {bs. length bs = 16} UNIV"
  unfolding bij_betw_def
proof
  show "inj_on from_le_bytes {bs. length bs = 16}"
    by (auto intro: inj_onI from_le_bytes_inj)
  have "x \<in> from_le_bytes ` {bs. length bs = 16}" for x
    by (rule image_eqI [of _ _ "to_le_bytes 16 x"]) (simp_all add: from_le_bytes_surj)
  then show "from_le_bytes ` {bs. length bs = 16} = UNIV" by blast
qed

lemma card_word_less: "card {x. x < k} = unat k" for k :: "'a::len word"
proof -
  have "unat ` {x. x < k} = {..<unat k}"
  proof
    show "unat ` {x. x < k} \<subseteq> {..<unat k}" by (auto simp: word_less_nat_alt)
    show "{..<unat k} \<subseteq> unat ` {x. x < k}"
    proof
      fix m assume "m \<in> {..<unat k}"
      then have "m < 2 ^ LENGTH('a)" using unat_bound [of k] by (metis lessThan_iff order_less_trans)
      then have "unat (of_nat m :: 'a word) = m" by (simp add: unat_of_nat)
      with \<open>m \<in> {..<unat k}\<close> show "m \<in> unat ` {x. x < k}"
        by (intro image_eqI [of _ _ "of_nat m"]) (simp_all add: word_less_nat_alt)
    qed
  qed
  moreover have "inj_on unat {x. x < k}" by (auto intro: inj_onI simp: word_unat_eq_iff)
  ultimately show ?thesis by (metis card_image card_lessThan)
qed

end
