(* ===== verification/Frame.thy ===== *)
theory Frame
  imports Prelude
begin

text \<open>
  The constructs of the FRAME pallet language that the pallets under \<open>src/pallets\<close> are written in:
  origins, dispatch errors, storage values and maps, and the \<open>#[transactional]\<close> attribute.
  A pallet's storage is a record; a storage map is seen through its getter and its setter, and
  the locale \<open>storage_map\<close> states what a client of a storage map relies on.
  The locale \<open>call_machine\<close> is the contract between a pallet and whatever sequence of calls
  reaches it: an invariant kept by each call holds after any sequence of calls.
\<close>

section \<open>Origins and dispatch errors\<close>

datatype 'acc origin = Root | Signed 'acc | NoOrigin

text \<open>
  \<open>'p\<close> is the error enum of the pallet at hand, \<open>'e\<close> the type of the errors that
  code outside the repository (\<open>orml_nft\<close>, the currency) returns.
\<close>

datatype ('p, 'e) dispatch_error = BadOrigin | PalletError 'p | External 'e

fun ensure_signed :: "'acc origin \<Rightarrow> ('acc, ('p, 'e) dispatch_error) result" where
  "ensure_signed (Signed who) = Ok who"
| "ensure_signed Root = Err BadOrigin"
| "ensure_signed NoOrigin = Err BadOrigin"

fun ensure_none :: "'acc origin \<Rightarrow> (unit, ('p, 'e) dispatch_error) result" where
  "ensure_none NoOrigin = Ok ()"
| "ensure_none Root = Err BadOrigin"
| "ensure_none (Signed who) = Err BadOrigin"

lemma ensure_signed_eq [simp]:
  "ensure_signed orig = Ok who \<longleftrightarrow> orig = Signed who"
  "ensure_signed orig = Err e \<longleftrightarrow> e = BadOrigin \<and> (\<forall>who. orig \<noteq> Signed who)"
  by (cases orig; auto)+

lemma ensure_none_eq [simp]:
  "ensure_none orig = Ok u \<longleftrightarrow> orig = NoOrigin"
  "ensure_none orig = Err e \<longleftrightarrow> e = BadOrigin \<and> orig \<noteq> NoOrigin"
  by (cases orig; auto)+


section \<open>Transactional calls\<close>

definition transactional ::
  "('s \<Rightarrow> ('a, 'e) result \<times> 's) \<Rightarrow> 's \<Rightarrow> ('a, 'e) result \<times> 's" where
  "transactional f s = (case f s of (Ok a, s') \<Rightarrow> (Ok a, s') | (Err e, s') \<Rightarrow> (Err e, s))"

lemma transactional_eq_Ok [attempt_simps]: "transactional f s = (Ok a, s') \<longleftrightarrow> f s = (Ok a, s')"
  by (auto simp: transactional_def split: prod.splits result.splits)

lemma transactional_eq_Err [attempt_simps]:
  "transactional f s = (Err e, s') \<longleftrightarrow> s' = s \<and> (\<exists>t. f s = (Err e, t))"
  by (auto simp: transactional_def split: prod.splits result.splits)


section \<open>Storage maps\<close>

text \<open>
  A storage map with \<open>OptionQuery\<close> inside a storage record \<open>'s\<close>: \<open>get s k\<close> reads a key,
  \<open>put k v s\<close> writes it (\<open>None\<close> removes it).
\<close>

definition map_remove :: "('k \<Rightarrow> 'v option \<Rightarrow> 's \<Rightarrow> 's) \<Rightarrow> 'k \<Rightarrow> 's \<Rightarrow> 's" where
  "map_remove put k s = put k None s"

definition map_mutate_exists ::
  "('s \<Rightarrow> 'k \<Rightarrow> 'v option) \<Rightarrow> ('k \<Rightarrow> 'v option \<Rightarrow> 's \<Rightarrow> 's) \<Rightarrow>
   'k \<Rightarrow> ('v option \<Rightarrow> 'v option) \<Rightarrow> 's \<Rightarrow> 's" where
  "map_mutate_exists get put k f s = put k (f (get s k)) s"

text \<open>
  The closure of \<open>try_mutate_exists\<close> receives the current value and the storage, and returns its
  result, the value it leaves in the slot and the storage it has changed meanwhile. The slot is
  written back only if the closure succeeds.
\<close>

definition map_try_mutate_exists ::
  "('s \<Rightarrow> 'k \<Rightarrow> 'v option) \<Rightarrow> ('k \<Rightarrow> 'v option \<Rightarrow> 's \<Rightarrow> 's) \<Rightarrow> 'k \<Rightarrow>
   ('v option \<Rightarrow> 's \<Rightarrow> ('a, 'e) result \<times> 'v option \<times> 's) \<Rightarrow> 's \<Rightarrow> ('a, 'e) result \<times> 's" where
  "map_try_mutate_exists get put k f s =
     (case f (get s k) s of
        (Ok a, v, s') \<Rightarrow> (Ok a, put k v s')
      | (Err e, v, s') \<Rightarrow> (Err e, s'))"

lemma map_try_mutate_exists_eq [attempt_simps]:
  "map_try_mutate_exists get put k f s = (Ok a, t) \<longleftrightarrow>
     (\<exists>v s'. f (get s k) s = (Ok a, v, s') \<and> t = put k v s')"
  "map_try_mutate_exists get put k f s = (Err e, t) \<longleftrightarrow>
     (\<exists>v. f (get s k) s = (Err e, v, t))"
  by (auto simp: map_try_mutate_exists_def split: prod.splits result.splits)

locale storage_map =
  fixes get :: "'s \<Rightarrow> 'k \<Rightarrow> 'v option"
    and put :: "'k \<Rightarrow> 'v option \<Rightarrow> 's \<Rightarrow> 's"
  assumes get_put: "get (put k v s) k' = (if k' = k then v else get s k')"
    and put_put: "put k v (put k w s) = put k v s"
    and put_get: "put k (get s k) s = s"
begin

lemma get_remove: "get (map_remove put k s) k' = (if k' = k then None else get s k')"
  by (simp add: map_remove_def get_put)

lemma get_mutate_exists:
  "get (map_mutate_exists get put k f s) k' = (if k' = k then f (get s k) else get s k')"
  by (simp add: map_mutate_exists_def get_put)

lemma remove_absent: "get s k = None \<Longrightarrow> map_remove put k s = s"
  using put_get [of k s] by (simp add: map_remove_def)

lemma mutate_exists_twice:
  "map_mutate_exists get put k (\<lambda>_. w) (map_mutate_exists get put k (\<lambda>_. v) s) =
   map_mutate_exists get put k (\<lambda>_. w) s"
  by (simp add: map_mutate_exists_def put_put)

lemma remove_after_set:
  "map_remove put k (map_mutate_exists get put k (\<lambda>_. v) s) = map_remove put k s"
  by (simp add: map_remove_def map_mutate_exists_def put_put)

end


section \<open>Sequences of calls\<close>

text \<open>
  A machine driven by inputs, and an invariant that every single input keeps. A client that only
  knows this contract can rely on the invariant after any sequence of inputs.
\<close>

fun run_calls :: "('i \<Rightarrow> 's \<Rightarrow> 's) \<Rightarrow> 'i list \<Rightarrow> 's \<Rightarrow> 's" where
  "run_calls exec [] s = s"
| "run_calls exec (i # is) s = run_calls exec is (exec i s)"

lemma run_calls_append [simp]:
  "run_calls exec (is @ js) s = run_calls exec js (run_calls exec is s)"
  by (induction "is" arbitrary: s) simp_all

locale call_machine =
  fixes exec :: "'i \<Rightarrow> 's \<Rightarrow> 's"
    and inv :: "'s \<Rightarrow> bool"
  assumes inv_exec: "inv s \<Longrightarrow> inv (exec i s)"
begin

lemma inv_run: "inv s \<Longrightarrow> inv (run_calls exec is s)"
  by (induction "is" arbitrary: s) (simp_all add: inv_exec)

end

text \<open>A machine whose steps also never decrease an observation of the state.\<close>

locale monotone_machine = call_machine exec inv
  for exec :: "'i \<Rightarrow> 's \<Rightarrow> 's" and inv :: "'s \<Rightarrow> bool" +
  fixes obs :: "'s \<Rightarrow> 'o::order"
  assumes obs_exec: "inv s \<Longrightarrow> obs s \<le> obs (exec i s)"
begin

lemma obs_run: "inv s \<Longrightarrow> obs s \<le> obs (run_calls exec is s)"
proof (induction "is" arbitrary: s)
  case Nil
  then show ?case by simp
next
  case (Cons i "is")
  then have "obs s \<le> obs (exec i s)" "obs (exec i s) \<le> obs (run_calls exec is (exec i s))"
    by (auto intro: obs_exec inv_exec)
  then show ?case by (metis order.trans run_calls.simps(2))
qed

end

end
