(* ===== verification/Kitty.thy ===== *)
theory Kitty
  imports Frame
begin

text \<open>
  The kitty itself (\<open>src/pallets/kitties/src/lib.rs\<close>, lines 35 to 53 and 266 to 268, and the loop of
  \<open>do_breed\<close>): its sixteen bytes of DNA, its gender, and how the DNA of two parents is mixed under
  a random selector. The Rust arrays \<open>[u8; 16]\<close> are byte lists; \<open>wf_kitty\<close> is the length that the
  array type fixes, and it is proved to hold of every kitty the pallet stores.
\<close>

section \<open>Kitties and their gender\<close>

datatype Kitty = Kitty (dna: "u8 list")

datatype KittyGender = Male | Female

definition gender :: "Kitty \<Rightarrow> KittyGender" where
  "gender k = (if dna k ! 0 mod 2 = 0 then Male else Female)"

definition wf_dna :: "u8 list \<Rightarrow> bool" where
  "wf_dna d \<longleftrightarrow> length d = 16"

definition wf_kitty :: "Kitty \<Rightarrow> bool" where
  "wf_kitty k \<longleftrightarrow> wf_dna (dna k)"

definition combine_dna :: "u8 \<Rightarrow> u8 \<Rightarrow> u8 \<Rightarrow> u8" where
  "combine_dna dna1 dna2 selector = (NOT selector AND dna1) OR (selector AND dna2)"

text \<open>The loop of \<open>do_breed\<close>: the array of zeros is overwritten index by index.\<close>

definition breed_dna :: "u8 list \<Rightarrow> u8 list \<Rightarrow> u8 list \<Rightarrow> u8 list" where
  "breed_dna kitty1_dna kitty2_dna selector =
     fold (\<lambda>i new_dna. new_dna[i := combine_dna (kitty1_dna ! i) (kitty2_dna ! i) (selector ! i)])
       [0..<length kitty1_dna] (replicate 16 0)"


section \<open>Two genders\<close>

instantiation KittyGender :: enum
begin

definition "enum_KittyGender = [Male, Female]"

definition "enum_all_KittyGender P \<longleftrightarrow> P Male \<and> P Female"

definition "enum_ex_KittyGender P \<longleftrightarrow> P Male \<or> P Female"

instance
proof
  show "(UNIV :: KittyGender set) = set enum_class.enum"
    using KittyGender.exhaust by (auto simp: enum_KittyGender_def)
  show "distinct (enum_class.enum :: KittyGender list)"
    by (simp add: enum_KittyGender_def)
  show "enum_class.enum_all P \<longleftrightarrow> Ball UNIV P" for P :: "KittyGender \<Rightarrow> bool"
    by (metis (full_types) KittyGender.exhaust UNIV_I enum_all_KittyGender_def)
  show "enum_class.enum_ex P \<longleftrightarrow> Bex UNIV P" for P :: "KittyGender \<Rightarrow> bool"
    by (metis (full_types) KittyGender.exhaust UNIV_I enum_ex_KittyGender_def)
qed

end

lemma gender_cases_third: "g \<noteq> h \<Longrightarrow> k = g \<or> k = h" for g h k :: KittyGender
  by (cases g; cases h; cases k) simp_all

lemma even_byte_iff: "b mod 2 = 0 \<longleftrightarrow> \<not> bit b 0" for b :: u8
  by (simp add: bit_0 even_iff_mod_2_eq_zero)

lemma gender_bit: "gender k = (if bit (dna k ! 0) 0 then Female else Male)"
  by (simp add: gender_def even_byte_iff)

lemma gender_neq_bit: "gender k \<noteq> gender l \<longleftrightarrow> bit (dna k ! 0) 0 \<noteq> bit (dna l ! 0) 0"
  by (simp add: gender_bit)


section \<open>Mixing bytes under a selector\<close>

text \<open>
  What breeding relies on from the byte mixer: each bit of the result is the bit of one parent,
  chosen by the selector.
\<close>

locale byte_mixer =
  fixes mix :: "u8 \<Rightarrow> u8 \<Rightarrow> u8 \<Rightarrow> u8"
  assumes bit_mix: "bit (mix a b s) n \<longleftrightarrow> (if bit s n then bit b n else n < 8 \<and> bit a n)"
begin

lemma mix_same: "mix a a s = a"
  by (rule bit_word_eqI) (simp add: bit_mix)

lemma mix_none: "mix a b 0 = a"
  by (rule bit_word_eqI) (simp add: bit_mix)

lemma mix_all: "mix a b (- 1) = b"
  by (rule bit_word_eqI) (simp add: bit_mix)

lemma mix_swap: "mix a b (NOT s) = mix b a s"
  by (rule bit_word_eqI) (simp add: bit_mix bit_not_iff)

lemma mix_inherits: "bit (mix a b s) n \<Longrightarrow> bit a n \<or> bit b n"
  by (simp add: bit_mix split: if_splits)

lemma mix_keeps_common: "bit a n \<Longrightarrow> bit b n \<Longrightarrow> bit (mix a b s) n"
  using bit_imp_le_length [of a n] by (simp add: bit_mix)

end

interpretation combine: byte_mixer combine_dna
proof
  fix a b s :: u8 and n
  show "bit (combine_dna a b s) n \<longleftrightarrow> (if bit s n then bit b n else n < 8 \<and> bit a n)"
    using bit_imp_le_length [of a n] bit_imp_le_length [of s n]
    by (auto simp: combine_dna_def bit_simps)
qed


section \<open>The breeding loop\<close>

lemma fold_update_nth:
  "n \<le> length ys \<Longrightarrow> fold (\<lambda>i zs. zs[i := f i]) [0..<n] ys = map f [0..<n] @ drop n ys"
proof (induction n)
  case 0
  then show ?case by simp
next
  case (Suc n)
  then have "fold (\<lambda>i zs. zs[i := f i]) [0..<Suc n] ys = (map f [0..<n] @ drop n ys)[n := f n]"
    by simp
  also have "drop n ys = ys ! n # drop (Suc n) ys"
    using Suc.prems by (simp add: Cons_nth_drop_Suc)
  finally show ?case by (simp add: list_update_append)
qed

lemma breed_dna_eq:
  assumes "wf_dna d1"
  shows "breed_dna d1 d2 s = map (\<lambda>i. combine_dna (d1 ! i) (d2 ! i) (s ! i)) [0..<16]"
  using assms
    fold_update_nth [of 16 "replicate 16 0" "\<lambda>i. combine_dna (d1 ! i) (d2 ! i) (s ! i)"]
  by (simp add: breed_dna_def wf_dna_def)

lemma wf_breed_dna: "wf_dna d1 \<Longrightarrow> wf_dna (breed_dna d1 d2 s)"
  by (simp add: breed_dna_eq) (simp add: wf_dna_def)

lemma breed_dna_nth:
  "wf_dna d1 \<Longrightarrow> i < 16 \<Longrightarrow> breed_dna d1 d2 s ! i = combine_dna (d1 ! i) (d2 ! i) (s ! i)"
  by (simp add: breed_dna_eq)

text \<open>
  C19: The array written by the loop of \<open>do_breed\<close> is the byte-wise combination of both parents
  under the selector (no byte of the initial zero array survives), and each of its 128 bits is the
  bit at the same position of the second parent where the selector has a one and of the first parent
  where it has a zero.
\<close>

theorem breed_dna_inherits:
  assumes "wf_dna d1" "wf_dna d2" "wf_dna s" "i < 16" "n < 8"
  shows "breed_dna d1 d2 s = map2 (\<lambda>(a, b). combine_dna a b) (zip d1 d2) s \<and>
    bit (breed_dna d1 d2 s ! i) n = (if bit (s ! i) n then bit (d2 ! i) n else bit (d1 ! i) n)"
proof
  show "breed_dna d1 d2 s = map2 (\<lambda>(a, b). combine_dna a b) (zip d1 d2) s"
    using assms(1-3) by (intro nth_equalityI) (simp_all add: breed_dna_eq, simp_all add: wf_dna_def)
  show "bit (breed_dna d1 d2 s ! i) n = (if bit (s ! i) n then bit (d2 ! i) n else bit (d1 ! i) n)"
    using assms by (simp add: breed_dna_nth combine.bit_mix)
qed

theorem breed_dna_inherits_witness:
  "breed_dna (replicate 16 12) (replicate 16 10) (replicate 16 6) = replicate 16 10 \<and>
   bit (breed_dna (replicate 16 12) (replicate 16 10) (replicate 16 6) ! 3) 1"
proof -
  have w: "wf_dna (replicate 16 12)" "wf_dna (replicate 16 10)" "wf_dna (replicate 16 6)"
    by (simp_all add: wf_dna_def)
  have "map2 (\<lambda>(a, b). combine_dna a b) (zip (replicate 16 12) (replicate 16 10)) (replicate 16 6) =
      replicate 16 (10 :: u8)"
    by (simp add: combine_dna_def zip_replicate)
  moreover have "bit (10 :: u8) 1" by simp
  ultimately show ?thesis
    using breed_dna_inherits [OF w, of 3 1] by simp
qed

text \<open>
  The gender of a kitten is the gender of one of its parents, and which one is decided by
  the lowest bit of the first selector byte alone; parents that pass the gender check of
  \<open>do_breed\<close> can therefore have kittens of both genders.
\<close>

theorem breed_gender:
  assumes "wf_kitty k1" "wf_kitty k2"
  shows "gender (Kitty (breed_dna (dna k1) (dna k2) s)) =
    gender (if bit (s ! 0) 0 then k2 else k1)"
  using assms by (simp add: wf_kitty_def gender_bit breed_dna_nth combine.bit_mix)

theorem breed_gender_witness:
  "gender (Kitty (breed_dna (replicate 16 0) (replicate 16 1) (replicate 16 5))) = Female"
proof -
  have "wf_kitty (Kitty (replicate 16 0))" "wf_kitty (Kitty (replicate 16 1))"
    by (simp_all add: wf_kitty_def wf_dna_def)
  from breed_gender [OF this, of "replicate 16 5"]
  show ?thesis by (simp add: gender_bit)
qed

end
