(* ===== verification/Kitties.thy ===== *)
theory Kitties
  imports Kitty
begin

text \<open>
  The pallet of \<open>src/pallets/kitties/src/lib.rs\<close>: configuration, storage, events, errors, genesis, the
  dispatchable calls, the unsigned-transaction validator and their helper functions, in the order
  of the source. The types are those of the runtime (\<open>src/runtime/src/lib.rs\<close>): \<open>u32\<close> class and
  token ids, \<open>u128\<close> balances; account ids are a type parameter.

  The record \<open>kitties_config\<close> holds the code the pallet calls but the repository does not contain:
  \<open>orml_nft\<close> with its storage \<open>'n\<close>, the currency with its storage \<open>'c\<close>, the randomness source and
  \<open>frame_system\<close> with their storage \<open>'sys\<close>, the SCALE encoding of the two hashed payloads, and
  BLAKE2. An external call returns its result and the storage it leaves behind, also when it fails.
\<close>

section \<open>Configuration and storage\<close>

record 'acc token_info =
  ti_owner :: 'acc
  ti_data :: Kitty

datatype ExistenceRequirement = KeepAlive | AllowDeath

record ('acc, 'n, 'c, 'sys, 'e) kitties_config =
  nft_create_class :: "'acc \<Rightarrow> u8 list \<Rightarrow> unit \<Rightarrow> 'n \<Rightarrow> (u32, 'e) result \<times> 'n"
  nft_mint :: "'acc \<Rightarrow> u32 \<Rightarrow> u8 list \<Rightarrow> Kitty \<Rightarrow> 'n \<Rightarrow> (u32, 'e) result \<times> 'n"
  nft_transfer :: "'acc \<Rightarrow> 'acc \<Rightarrow> u32 \<times> u32 \<Rightarrow> 'n \<Rightarrow> (unit, 'e) result \<times> 'n"
  nft_tokens :: "'n \<Rightarrow> u32 \<Rightarrow> u32 \<Rightarrow> 'acc token_info option"
  nft_tokens_by_owner :: "'n \<Rightarrow> 'acc \<Rightarrow> u32 \<times> u32 \<Rightarrow> bool"
  nft_next_token_id :: "'n \<Rightarrow> u32 \<Rightarrow> u32"
  currency_transfer ::
    "'acc \<Rightarrow> 'acc \<Rightarrow> u128 \<Rightarrow> ExistenceRequirement \<Rightarrow> 'c \<Rightarrow> (unit, 'e) result \<times> 'c"
  random_seed :: "'sys \<Rightarrow> u8 list \<times> u32"
  extrinsic_index :: "'sys \<Rightarrow> u32 option"
  encode_random :: "u8 list \<times> 'acc \<times> u32 option \<Rightarrow> u8 list"
  encode_solution :: "u32 \<times> u32 \<times> u32 \<times> u128 \<Rightarrow> u8 list"
  blake2_128 :: "u8 list \<Rightarrow> u8 list"
  default_account :: 'acc
  default_difficulty :: u32

datatype 'acc Event =
    KittyCreated 'acc u32 Kitty
  | KittyBred 'acc u32 Kitty
  | KittyTransferred 'acc 'acc u32
  | KittyPriceUpdated 'acc u32 "u128 option"
  | KittySold 'acc 'acc u32 u128

datatype Error = InvalidKittyId | SameGender | NotOwner | NotForSale | PriceTooLow | BuyFromSelf

type_synonym 'e kitties_error = "(Error, 'e) dispatch_error"

text \<open>
  The pallet's storage items, next to the storage of the code it calls; \<open>events\<close> is the
  sequence of the pallet's \<open>deposit_event\<close> calls, oldest first.
\<close>

record ('acc, 'n, 'c, 'sys) kitties_storage =
  kitty_prices :: "u32 \<Rightarrow> u128 option"
  class_id :: u32
  auto_breed_nonce :: u32
  nft :: 'n
  currency :: 'c
  sys :: 'sys
  events :: "'acc Event list"

type_synonym ('acc, 'n, 'c, 'sys, 'e) dispatch =
  "('acc, 'n, 'c, 'sys) kitties_storage \<Rightarrow>
   (unit, 'e kitties_error) result \<times> ('acc, 'n, 'c, 'sys) kitties_storage"

definition put_kitty_price ::
  "u32 \<Rightarrow> u128 option \<Rightarrow> ('acc, 'n, 'c, 'sys) kitties_storage \<Rightarrow> ('acc, 'n, 'c, 'sys) kitties_storage" where
  "put_kitty_price k v st = st\<lparr>kitty_prices := (kitty_prices st)(k := v)\<rparr>"

definition deposit_event ::
  "'acc Event \<Rightarrow> ('acc, 'n, 'c, 'sys) kitties_storage \<Rightarrow> ('acc, 'n, 'c, 'sys) kitties_storage" where
  "deposit_event e st = st\<lparr>events := events st @ [e]\<rparr>"


section \<open>External calls on the pallet's storage\<close>

definition orml_mint ::
  "('acc, 'n, 'c, 'sys, 'e) kitties_config \<Rightarrow> 'acc \<Rightarrow> u32 \<Rightarrow> u8 list \<Rightarrow> Kitty \<Rightarrow>
   ('acc, 'n, 'c, 'sys) kitties_storage \<Rightarrow>
   (u32, 'e kitties_error) result \<times> ('acc, 'n, 'c, 'sys) kitties_storage" where
  "orml_mint T who cls metadata data st =
     (case nft_mint T who cls metadata data (nft st) of (r, n) \<Rightarrow> (map_err External r, st\<lparr>nft := n\<rparr>))"

definition orml_transfer ::
  "('acc, 'n, 'c, 'sys, 'e) kitties_config \<Rightarrow> 'acc \<Rightarrow> 'acc \<Rightarrow> u32 \<times> u32 \<Rightarrow> ('acc, 'n, 'c, 'sys, 'e) dispatch" where
  "orml_transfer T from to token st =
     (case nft_transfer T from to token (nft st) of (r, n) \<Rightarrow> (map_err External r, st\<lparr>nft := n\<rparr>))"

definition pay ::
  "('acc, 'n, 'c, 'sys, 'e) kitties_config \<Rightarrow> 'acc \<Rightarrow> 'acc \<Rightarrow> u128 \<Rightarrow> ExistenceRequirement \<Rightarrow>
   ('acc, 'n, 'c, 'sys, 'e) dispatch" where
  "pay T from to amount er st =
     (case currency_transfer T from to amount er (currency st) of
        (r, c) \<Rightarrow> (map_err External r, st\<lparr>currency := c\<rparr>))"


section \<open>Genesis\<close>

text \<open>\<open>None\<close> is the panic of \<open>expect\<close>.\<close>

definition genesis_build ::
  "('acc, 'n, 'c, 'sys, 'e) kitties_config \<Rightarrow> ('acc, 'n, 'c, 'sys) kitties_storage \<Rightarrow>
   ('acc, 'n, 'c, 'sys) kitties_storage option" where
  "genesis_build T st =
     (case nft_create_class T (default_account T) [] () (nft st) of
        (Ok cls, n) \<Rightarrow> Some (st\<lparr>nft := n, class_id := cls\<rparr>)
      | (Err e, n) \<Rightarrow> None)"


section \<open>Helper functions\<close>

definition kitties ::
  "('acc, 'n, 'c, 'sys, 'e) kitties_config \<Rightarrow> ('acc, 'n, 'c, 'sys) kitties_storage \<Rightarrow> 'acc \<Rightarrow> u32 \<Rightarrow>
   Kitty option" where
  "kitties T st owner kitty_id =
     Option.bind (nft_tokens T (nft st) (class_id st) kitty_id)
       (\<lambda>x. if ti_owner x = owner then Some (ti_data x) else None)"

definition random_value ::
  "('acc, 'n, 'c, 'sys, 'e) kitties_config \<Rightarrow> ('acc, 'n, 'c, 'sys) kitties_storage \<Rightarrow> 'acc \<Rightarrow> u8 list" where
  "random_value T st sender =
     blake2_128 T (encode_random T (fst (random_seed T (sys st)), sender, extrinsic_index T (sys st)))"

definition do_breed ::
  "('acc, 'n, 'c, 'sys, 'e) kitties_config \<Rightarrow> 'acc \<Rightarrow> Kitty \<Rightarrow> Kitty \<Rightarrow> ('acc, 'n, 'c, 'sys, 'e) dispatch" where
  "do_breed T owner kitty1 kitty2 st =
     attempt (ensure (gender kitty1 \<noteq> gender kitty2) (PalletError SameGender), st) (\<lambda>_ st.
     let kitty1_dna = dna kitty1;
         kitty2_dna = dna kitty2;
         selector = random_value T st owner;
         new_kitty = Kitty (breed_dna kitty1_dna kitty2_dna selector)
     in attempt (orml_mint T owner (class_id st) [] new_kitty st) (\<lambda>kitty_id st.
        (Ok (), deposit_event (KittyBred owner kitty_id new_kitty) st)))"

text \<open>\<open>None\<close> is the panic of a division by a zero difficulty.\<close>

definition validate_solution ::
  "('acc, 'n, 'c, 'sys, 'e) kitties_config \<Rightarrow> u32 \<Rightarrow> u32 \<Rightarrow> u32 \<Rightarrow> u128 \<Rightarrow> bool option" where
  "validate_solution T kitty_id_1 kitty_id_2 nonce solution =
     (let payload = (kitty_id_1, kitty_id_2, nonce, solution);
          hash = blake2_128 T (encode_solution T payload);
          hash_value = from_le_bytes hash;
          difficulty = default_difficulty T
      in if (ucast difficulty :: u128) = 0 then None
         else Some (hash_value < - 1 div ucast difficulty))"


section \<open>Dispatchable calls\<close>

definition create ::
  "('acc, 'n, 'c, 'sys, 'e) kitties_config \<Rightarrow> 'acc origin \<Rightarrow> ('acc, 'n, 'c, 'sys, 'e) dispatch" where
  "create T origin st =
     attempt (ensure_signed origin, st) (\<lambda>sender st.
     let dna = random_value T st sender;
         kitty = Kitty dna
     in attempt (orml_mint T sender (class_id st) [] kitty st) (\<lambda>kitty_id st.
        (Ok (), deposit_event (KittyCreated sender kitty_id kitty) st)))"

definition breed ::
  "('acc, 'n, 'c, 'sys, 'e) kitties_config \<Rightarrow> 'acc origin \<Rightarrow> u32 \<Rightarrow> u32 \<Rightarrow> ('acc, 'n, 'c, 'sys, 'e) dispatch" where
  "breed T origin kitty_id_1 kitty_id_2 st =
     attempt (ensure_signed origin, st) (\<lambda>sender st.
     attempt (ok_or (kitties T st sender kitty_id_1) (PalletError InvalidKittyId), st) (\<lambda>kitty1 st.
     attempt (ok_or (kitties T st sender kitty_id_2) (PalletError InvalidKittyId), st) (\<lambda>kitty2 st.
     do_breed T sender kitty1 kitty2 st)))"

definition transfer ::
  "('acc, 'n, 'c, 'sys, 'e) kitties_config \<Rightarrow> 'acc origin \<Rightarrow> 'acc \<Rightarrow> u32 \<Rightarrow> ('acc, 'n, 'c, 'sys, 'e) dispatch" where
  "transfer T origin to kitty_id st =
     attempt (ensure_signed origin, st) (\<lambda>sender st.
     attempt (orml_transfer T sender to (class_id st, kitty_id) st) (\<lambda>_ st.
     if sender \<noteq> to
     then (Ok (), deposit_event (KittyTransferred sender to kitty_id)
                    (map_remove put_kitty_price kitty_id st))
     else (Ok (), st)))"

definition set_price ::
  "('acc, 'n, 'c, 'sys, 'e) kitties_config \<Rightarrow> 'acc origin \<Rightarrow> u32 \<Rightarrow> u128 option \<Rightarrow>
   ('acc, 'n, 'c, 'sys, 'e) dispatch" where
  "set_price T origin kitty_id new_price st =
     attempt (ensure_signed origin, st) (\<lambda>sender st.
     attempt (ensure (nft_tokens_by_owner T (nft st) sender (class_id st, kitty_id))
                (PalletError NotOwner), st) (\<lambda>_ st.
     (Ok (), deposit_event (KittyPriceUpdated sender kitty_id new_price)
               (map_mutate_exists kitty_prices put_kitty_price kitty_id (\<lambda>_. new_price) st))))"

text \<open>
  The closure that \<open>buy\<close> hands to \<open>try_mutate_exists\<close>; \<open>price.take()\<close> empties the slot on every path.
\<close>

definition buy_closure ::
  "('acc, 'n, 'c, 'sys, 'e) kitties_config \<Rightarrow> 'acc \<Rightarrow> 'acc \<Rightarrow> u32 \<Rightarrow> u128 \<Rightarrow> u128 option \<Rightarrow>
   ('acc, 'n, 'c, 'sys) kitties_storage \<Rightarrow>
   (unit, 'e kitties_error) result \<times> u128 option \<times> ('acc, 'n, 'c, 'sys) kitties_storage" where
  "buy_closure T sender owner kitty_id max_price slot st =
     (case attempt (ok_or slot (PalletError NotForSale), st) (\<lambda>price st.
           attempt (ensure (max_price \<ge> price) (PalletError PriceTooLow), st) (\<lambda>_ st.
           attempt (orml_transfer T owner sender (class_id st, kitty_id) st) (\<lambda>_ st.
           attempt (pay T sender owner price KeepAlive st) (\<lambda>_ st.
           (Ok (), deposit_event (KittySold owner sender kitty_id price) st)))))
      of (r, st) \<Rightarrow> (r, None, st))"

definition buy ::
  "('acc, 'n, 'c, 'sys, 'e) kitties_config \<Rightarrow> 'acc origin \<Rightarrow> 'acc \<Rightarrow> u32 \<Rightarrow> u128 \<Rightarrow>
   ('acc, 'n, 'c, 'sys, 'e) dispatch" where
  "buy T origin owner kitty_id max_price =
     transactional (\<lambda>st.
       attempt (ensure_signed origin, st) (\<lambda>sender st.
       attempt (ensure (sender \<noteq> owner) (PalletError BuyFromSelf), st) (\<lambda>_ st.
       map_try_mutate_exists kitty_prices put_kitty_price kitty_id
         (buy_closure T sender owner kitty_id max_price) st)))"

definition auto_breed ::
  "('acc, 'n, 'c, 'sys, 'e) kitties_config \<Rightarrow> 'acc origin \<Rightarrow> u32 \<Rightarrow> u32 \<Rightarrow> u32 \<Rightarrow> u128 \<Rightarrow>
   ('acc, 'n, 'c, 'sys, 'e) dispatch" where
  "auto_breed T origin kitty_id_1 kitty_id_2 nonce solution st =
     attempt (ensure_none origin, st) (\<lambda>_ st.
     attempt (ok_or (nft_tokens T (nft st) (class_id st) kitty_id_1) (PalletError InvalidKittyId), st)
       (\<lambda>kitty1 st.
     attempt (ok_or (nft_tokens T (nft st) (class_id st) kitty_id_2) (PalletError InvalidKittyId), st)
       (\<lambda>kitty2 st.
     do_breed T (ti_owner kitty1) (ti_data kitty1) (ti_data kitty2) st)))"

text \<open>The enum that \<open>#[pallet::call]\<close> derives from the calls, and its dispatch.\<close>

datatype 'acc Call =
    Call_create
  | Call_breed u32 u32
  | Call_transfer 'acc u32
  | Call_set_price u32 "u128 option"
  | Call_buy 'acc u32 u128
  | Call_auto_breed u32 u32 u32 u128

fun dispatch_call ::
  "('acc, 'n, 'c, 'sys, 'e) kitties_config \<Rightarrow> 'acc Call \<Rightarrow> 'acc origin \<Rightarrow> ('acc, 'n, 'c, 'sys, 'e) dispatch" where
  "dispatch_call T Call_create origin st = create T origin st"
| "dispatch_call T (Call_breed k1 k2) origin st = breed T origin k1 k2 st"
| "dispatch_call T (Call_transfer to k) origin st = transfer T origin to k st"
| "dispatch_call T (Call_set_price k p) origin st = set_price T origin k p st"
| "dispatch_call T (Call_buy owner k m) origin st = buy T origin owner k m st"
| "dispatch_call T (Call_auto_breed k1 k2 n s) origin st = auto_breed T origin k1 k2 n s st"


section \<open>Validation of unsigned transactions\<close>

datatype TransactionSource = InBlock | Local | SourceExternal

datatype InvalidTransaction = InvalidCall | BadProof

record ValidTransaction =
  priority :: u64
  requires :: "u8 list list"
  provides :: "u8 list list"
  longevity :: u64
  propagate :: bool

text \<open>
  What \<open>ValidTransaction::with_tag_prefix("kitties").longevity(64).propagate(true).build()\<close> builds,
  as the test \<open>can_validate_unsigned\<close> of the pallet spells it out.
\<close>

definition kitties_valid :: ValidTransaction where
  "kitties_valid =
     \<lparr>priority = 0, requires = [], provides = [], longevity = 64, propagate = True\<rparr>"

definition validate_unsigned ::
  "('acc, 'n, 'c, 'sys, 'e) kitties_config \<Rightarrow> TransactionSource \<Rightarrow> 'acc Call \<Rightarrow>
   ('acc, 'n, 'c, 'sys) kitties_storage \<Rightarrow>
   (ValidTransaction, InvalidTransaction) result option \<times> ('acc, 'n, 'c, 'sys) kitties_storage" where
  "validate_unsigned T source call st =
     (case call of
        Call_auto_breed kitty_id_1 kitty_id_2 nonce solution \<Rightarrow>
          (case validate_solution T kitty_id_1 kitty_id_2 nonce solution of
             None \<Rightarrow> (None, st)
           | Some True \<Rightarrow>
               if nonce \<noteq> auto_breed_nonce st then (Some (Err BadProof), st)
               else (Some (Ok kitties_valid),
                     st\<lparr>auto_breed_nonce := saturating_add (auto_breed_nonce st) 1\<rparr>)
           | Some False \<Rightarrow> (Some (Err BadProof), st))
      | _ \<Rightarrow> (Some (Err InvalidCall), st))"


section \<open>The price map as a storage map\<close>

interpretation prices: storage_map kitty_prices put_kitty_price
  by unfold_locales (auto simp: put_kitty_price_def)

end
