(* ===== verification/Kitties_Contract.thy ===== *)
theory Kitties_Contract
  imports Kitties
begin

text \<open>
  What the pallet relies on from the code it calls, as predicates on the configuration: the
  documented behaviour of \<open>orml_nft\<close> (mint, transfer, class creation and the owner index) on its
  valid storages \<open>V\<close>, of the currency's \<open>KeepAlive\<close> transfer on the free balances \<open>B\<close>, and the
  output length of BLAKE2-128. They are hypotheses of the theorems that need them; the sample
  configuration at the end, a small ledger, shows that they can all hold together and is what the
  witnesses run on.
\<close>

section \<open>Contracts\<close>

definition nft_class_contract :: "('acc, 'n, 'c, 'sys, 'e) kitties_config \<Rightarrow> ('n \<Rightarrow> bool) \<Rightarrow> bool" where
  "nft_class_contract T V \<longleftrightarrow>
     (\<forall>who md n cls n'. V n \<longrightarrow> nft_create_class T who md () n = (Ok cls, n') \<longrightarrow>
        V n' \<and> nft_tokens T n' cls = (\<lambda>_. None) \<and> nft_next_token_id T n' cls = 0)"

definition nft_mint_contract :: "('acc, 'n, 'c, 'sys, 'e) kitties_config \<Rightarrow> ('n \<Rightarrow> bool) \<Rightarrow> bool" where
  "nft_mint_contract T V \<longleftrightarrow>
     (\<forall>who cls md d n r n'. V n \<longrightarrow> nft_mint T who cls md d n = (r, n') \<longrightarrow>
        (case r of
           Err e \<Rightarrow> n' = n
         | Ok t \<Rightarrow> V n' \<and> t = nft_next_token_id T n cls \<and> t \<noteq> - 1 \<and>
             nft_next_token_id T n' = (nft_next_token_id T n)(cls := t + 1) \<and>
             nft_tokens T n' = (nft_tokens T n)
               (cls := (nft_tokens T n cls)(t \<mapsto> \<lparr>ti_owner = who, ti_data = d\<rparr>))))"

definition nft_transfer_contract :: "('acc, 'n, 'c, 'sys, 'e) kitties_config \<Rightarrow> ('n \<Rightarrow> bool) \<Rightarrow> bool" where
  "nft_transfer_contract T V \<longleftrightarrow>
     (\<forall>from to cls t n r n'. V n \<longrightarrow> nft_transfer T from to (cls, t) n = (r, n') \<longrightarrow>
        (case r of
           Err e \<Rightarrow> n' = n \<and> (\<forall>x. nft_tokens T n cls t = Some x \<longrightarrow> ti_owner x \<noteq> from)
         | Ok u \<Rightarrow> V n' \<and> nft_next_token_id T n' = nft_next_token_id T n \<and>
             (\<exists>x. nft_tokens T n cls t = Some x \<and> ti_owner x = from \<and>
                nft_tokens T n' = (nft_tokens T n)
                  (cls := (nft_tokens T n cls)(t \<mapsto> x\<lparr>ti_owner := to\<rparr>)))))"

definition nft_index_contract :: "('acc, 'n, 'c, 'sys, 'e) kitties_config \<Rightarrow> ('n \<Rightarrow> bool) \<Rightarrow> bool" where
  "nft_index_contract T V \<longleftrightarrow>
     (\<forall>n who cls t. V n \<longrightarrow>
        (nft_tokens_by_owner T n who (cls, t) \<longleftrightarrow>
           (\<exists>x. nft_tokens T n cls t = Some x \<and> ti_owner x = who)))"

definition nft_contract :: "('acc, 'n, 'c, 'sys, 'e) kitties_config \<Rightarrow> ('n \<Rightarrow> bool) \<Rightarrow> bool" where
  "nft_contract T V \<longleftrightarrow> nft_class_contract T V \<and> nft_mint_contract T V \<and>
     nft_transfer_contract T V \<and> nft_index_contract T V"

definition currency_contract ::
  "('acc, 'n, 'c, 'sys, 'e) kitties_config \<Rightarrow> ('c \<Rightarrow> 'acc \<Rightarrow> u128) \<Rightarrow> bool" where
  "currency_contract T B \<longleftrightarrow>
     (\<forall>from to v c u c'. from \<noteq> to \<longrightarrow> currency_transfer T from to v KeepAlive c = (Ok u, c') \<longrightarrow>
        v \<le> B c from \<and> unat (B c to) + unat v < 2 ^ 128 \<and>
        B c' = (B c)(from := B c from - v, to := B c to + v))"

definition hash_contract :: "('acc, 'n, 'c, 'sys, 'e) kitties_config \<Rightarrow> bool" where
  "hash_contract T \<longleftrightarrow> (\<forall>bs. length (blake2_128 T bs) = 16)"


section \<open>Reading the contracts\<close>

lemma nft_mint_law:
  assumes "nft_contract T V" "V n" "nft_mint T who cls md d n = (r, n')"
  shows "case r of
      Err e \<Rightarrow> n' = n
    | Ok t \<Rightarrow> V n' \<and> t = nft_next_token_id T n cls \<and> t \<noteq> - 1 \<and>
        nft_next_token_id T n' = (nft_next_token_id T n)(cls := t + 1) \<and>
        nft_tokens T n' = (nft_tokens T n)
          (cls := (nft_tokens T n cls)(t \<mapsto> \<lparr>ti_owner = who, ti_data = d\<rparr>))"
  using assms unfolding nft_contract_def nft_mint_contract_def by blast

lemma nft_mintD:
  assumes "nft_contract T V" "V n" "nft_mint T who cls md d n = (Ok t, n')"
  shows "V n'" "t = nft_next_token_id T n cls" "t \<noteq> - 1"
    "nft_next_token_id T n' = (nft_next_token_id T n)(cls := t + 1)"
    "nft_tokens T n' = (nft_tokens T n)
       (cls := (nft_tokens T n cls)(t \<mapsto> \<lparr>ti_owner = who, ti_data = d\<rparr>))"
  using nft_mint_law [OF assms] unfolding result.case by blast+

lemma nft_mint_ErrD:
  assumes "nft_contract T V" "V n" "nft_mint T who cls md d n = (Err e, n')"
  shows "n' = n"
  using nft_mint_law [OF assms] by simp

lemma nft_transfer_law:
  assumes "nft_contract T V" "V n" "nft_transfer T from to (cls, t) n = (r, n')"
  shows "case r of
      Err e \<Rightarrow> n' = n \<and> (\<forall>x. nft_tokens T n cls t = Some x \<longrightarrow> ti_owner x \<noteq> from)
    | Ok u \<Rightarrow> V n' \<and> nft_next_token_id T n' = nft_next_token_id T n \<and>
        (\<exists>x. nft_tokens T n cls t = Some x \<and> ti_owner x = from \<and>
           nft_tokens T n' = (nft_tokens T n)
             (cls := (nft_tokens T n cls)(t \<mapsto> x\<lparr>ti_owner := to\<rparr>)))"
  using assms unfolding nft_contract_def nft_transfer_contract_def by blast

lemma nft_transferD:
  assumes "nft_contract T V" "V n" "nft_transfer T from to (cls, t) n = (Ok u, n')"
  shows "V n'" "nft_next_token_id T n' = nft_next_token_id T n"
    "\<exists>x. nft_tokens T n cls t = Some x \<and> ti_owner x = from \<and>
       nft_tokens T n' = (nft_tokens T n)
         (cls := (nft_tokens T n cls)(t \<mapsto> x\<lparr>ti_owner := to\<rparr>))"
  using nft_transfer_law [OF assms] by simp_all

lemma nft_transfer_ErrD:
  assumes "nft_contract T V" "V n" "nft_transfer T from to (cls, t) n = (Err e, n')"
  shows "n' = n" "nft_tokens T n cls t = Some x \<Longrightarrow> ti_owner x \<noteq> from"
  using nft_transfer_law [OF assms] by simp_all

lemma nft_transfer_succeeds:
  assumes "nft_contract T V" "V n" "nft_tokens T n cls t = Some x"
  shows "\<exists>n'. nft_transfer T (ti_owner x) to (cls, t) n = (Ok (), n')"
proof (cases "nft_transfer T (ti_owner x) to (cls, t) n")
  case (Pair r n')
  from nft_transfer_law [OF assms(1,2) this] assms(3) Pair show ?thesis
    by (cases r) auto
qed

lemma nft_indexD:
  "nft_contract T V \<Longrightarrow> V n \<Longrightarrow> nft_tokens_by_owner T n who (cls, t) \<longleftrightarrow>
     (\<exists>x. nft_tokens T n cls t = Some x \<and> ti_owner x = who)"
  by (simp add: nft_contract_def nft_index_contract_def)

lemma nft_classD:
  assumes "nft_contract T V" "V n" "nft_create_class T who md () n = (Ok cls, n')"
  shows "V n'" "nft_tokens T n' cls = (\<lambda>_. None)" "nft_next_token_id T n' cls = 0"
  using assms by (auto simp: nft_contract_def nft_class_contract_def)

lemma currencyD:
  assumes "currency_contract T B" "from \<noteq> to"
    and "currency_transfer T from to v KeepAlive c = (Ok u, c')"
  shows "v \<le> B c from" "unat (B c to) + unat v < 2 ^ 128"
    "B c' = (B c)(from := B c from - v, to := B c to + v)"
  using assms unfolding currency_contract_def by blast+

lemma wf_random_value: "hash_contract T \<Longrightarrow> wf_dna (random_value T st who)"
  by (simp add: hash_contract_def wf_dna_def random_value_def)


section \<open>A sample configuration\<close>

text \<open>
  A ledger of classes and tokens, accounts with \<open>u128\<close> balances, and stand-ins for the hash and
  the encodings that are simple enough to compute with. Account \<open>0\<close> plays the default account.
\<close>

record 'acc sample_nft =
  sn_classes :: u32
  sn_next :: "u32 \<Rightarrow> u32"
  sn_tokens :: "u32 \<Rightarrow> u32 \<Rightarrow> 'acc token_info option"

datatype sample_error = NoAvailableTokenId | ClassNotFound | TokenNotFound | NoPermission | InsufficientBalance

definition sample_create_class ::
  "'acc \<Rightarrow> u8 list \<Rightarrow> unit \<Rightarrow> 'acc sample_nft \<Rightarrow> (u32, sample_error) result \<times> 'acc sample_nft" where
  "sample_create_class who md u n =
     (let c = sn_classes n in
      (Ok c, n\<lparr>sn_classes := c + 1, sn_next := (sn_next n)(c := 0),
               sn_tokens := (sn_tokens n)(c := (\<lambda>_. None))\<rparr>))"

definition sample_mint ::
  "'acc \<Rightarrow> u32 \<Rightarrow> u8 list \<Rightarrow> Kitty \<Rightarrow> 'acc sample_nft \<Rightarrow> (u32, sample_error) result \<times> 'acc sample_nft" where
  "sample_mint who cls md d n =
     (let t = sn_next n cls in
      if t = - 1 then (Err NoAvailableTokenId, n)
      else if \<not> cls < sn_classes n then (Err ClassNotFound, n)
      else (Ok t, n\<lparr>sn_next := (sn_next n)(cls := t + 1),
                    sn_tokens := (sn_tokens n)
                      (cls := (sn_tokens n cls)(t \<mapsto> \<lparr>ti_owner = who, ti_data = d\<rparr>))\<rparr>))"

definition sample_transfer ::
  "'acc \<Rightarrow> 'acc \<Rightarrow> u32 \<times> u32 \<Rightarrow> 'acc sample_nft \<Rightarrow> (unit, sample_error) result \<times> 'acc sample_nft" where
  "sample_transfer from to token n =
     (case token of (cls, t) \<Rightarrow>
      (case sn_tokens n cls t of
         None \<Rightarrow> (Err TokenNotFound, n)
       | Some x \<Rightarrow>
           if ti_owner x \<noteq> from then (Err NoPermission, n)
           else (Ok (), n\<lparr>sn_tokens := (sn_tokens n)
                            (cls := (sn_tokens n cls)(t \<mapsto> x\<lparr>ti_owner := to\<rparr>))\<rparr>)))"

definition sample_by_owner :: "'acc sample_nft \<Rightarrow> 'acc \<Rightarrow> u32 \<times> u32 \<Rightarrow> bool" where
  "sample_by_owner n who token =
     (case sn_tokens n (fst token) (snd token) of None \<Rightarrow> False | Some x \<Rightarrow> ti_owner x = who)"

definition sample_pay ::
  "'acc \<Rightarrow> 'acc \<Rightarrow> u128 \<Rightarrow> ExistenceRequirement \<Rightarrow> ('acc \<Rightarrow> u128) \<Rightarrow>
   (unit, sample_error) result \<times> ('acc \<Rightarrow> u128)" where
  "sample_pay from to v er c =
     (if from = to then (Ok (), c)
      else if v \<le> c from \<and> unat (c to) + unat v < 2 ^ 128
      then (Ok (), c(from := c from - v, to := c to + v))
      else (Err InsufficientBalance, c))"

definition sample_blake2 :: "u8 list \<Rightarrow> u8 list" where
  "sample_blake2 bs = take 16 (bs @ replicate 16 0)"

definition sample_config :: "(nat, nat sample_nft, nat \<Rightarrow> u128, u8 list, sample_error) kitties_config" where
  "sample_config =
     \<lparr>nft_create_class = sample_create_class, nft_mint = sample_mint, nft_transfer = sample_transfer,
      nft_tokens = sn_tokens,
      nft_tokens_by_owner = sample_by_owner,
      nft_next_token_id = sn_next, currency_transfer = sample_pay,
      random_seed = (\<lambda>s. (s, 0)), extrinsic_index = (\<lambda>s. Some 0),
      encode_random = (\<lambda>(seed, who, i). seed),
      encode_solution = (\<lambda>(k1, k2, nonce, solution). to_le_bytes 16 solution),
      blake2_128 = sample_blake2, default_account = 0, default_difficulty = 3\<rparr>"

text \<open>A storage with one class, a male kitty \<open>0\<close> of account \<open>1\<close> on sale for \<open>40\<close>, and a female
  kitty \<open>1\<close> of account \<open>2\<close>; the accounts hold \<open>100\<close> each.\<close>

definition sample_nft_state :: "nat sample_nft" where
  "sample_nft_state =
     \<lparr>sn_classes = 1, sn_next = (\<lambda>_. 0)(0 := 2),
      sn_tokens = (\<lambda>_ _. None)(0 := [0 \<mapsto> \<lparr>ti_owner = 1, ti_data = Kitty (replicate 16 0)\<rparr>,
                                      1 \<mapsto> \<lparr>ti_owner = 2, ti_data = Kitty (replicate 16 1)\<rparr>])\<rparr>"

definition sample_state :: "(nat, nat sample_nft, nat \<Rightarrow> u128, u8 list) kitties_storage" where
  "sample_state =
     \<lparr>kitty_prices = [0 \<mapsto> 40], class_id = 0, auto_breed_nonce = 0, nft = sample_nft_state,
      currency = (\<lambda>_. 100), sys = [], events = []\<rparr>"

definition sample_initial :: "(nat, nat sample_nft, nat \<Rightarrow> u128, u8 list) kitties_storage" where
  "sample_initial =
     \<lparr>kitty_prices = Map.empty, class_id = 0, auto_breed_nonce = 0,
      nft = \<lparr>sn_classes = 0, sn_next = (\<lambda>_. 0), sn_tokens = (\<lambda>_ _. None)\<rparr>,
      currency = (\<lambda>_. 100), sys = [], events = []\<rparr>"

lemma sample_simps [simp]:
  "nft_create_class sample_config = sample_create_class"
  "nft_mint sample_config = sample_mint"
  "nft_transfer sample_config = sample_transfer"
  "nft_tokens sample_config = sn_tokens"
  "nft_next_token_id sample_config = sn_next"
  "nft_tokens_by_owner sample_config = sample_by_owner"
  "currency_transfer sample_config = sample_pay"
  "blake2_128 sample_config = sample_blake2"
  "default_difficulty sample_config = 3"
  "default_account sample_config = 0"
  by (simp_all add: sample_config_def)

text \<open>The contracts, for every configuration over the sample ledger.\<close>

lemma sample_nft_contract_of:
  assumes "nft_create_class T = sample_create_class" "nft_mint T = sample_mint" "nft_transfer T = sample_transfer"
    and "nft_tokens T = sn_tokens" "nft_next_token_id T = sn_next" "nft_tokens_by_owner T = sample_by_owner"
  shows "nft_contract T (\<lambda>_. True)"
proof -
  have "nft_class_contract T (\<lambda>_. True)"
    by (auto simp: nft_class_contract_def sample_create_class_def Let_def assms)
  moreover have "nft_mint_contract T (\<lambda>_. True)"
    by (auto simp: nft_mint_contract_def sample_mint_def Let_def assms split: if_splits)
  moreover have "nft_transfer_contract T (\<lambda>_. True)"
    by (auto simp: nft_transfer_contract_def sample_transfer_def assms split: option.splits if_splits)
  moreover have "nft_index_contract T (\<lambda>_. True)"
    by (auto simp: nft_index_contract_def sample_by_owner_def assms split: option.splits)
  ultimately show ?thesis by (simp add: nft_contract_def)
qed

lemma sample_currency_contract_of: "currency_transfer T = sample_pay \<Longrightarrow> currency_contract T (\<lambda>c. c)"
  by (auto simp: currency_contract_def sample_pay_def split: if_splits)

lemma sample_nft_contract: "nft_contract sample_config (\<lambda>_. True)"
  by (rule sample_nft_contract_of) (simp_all add: sample_config_def)

lemma sample_currency_contract: "currency_contract sample_config (\<lambda>c. c)"
  by (rule sample_currency_contract_of) simp

lemma sample_hash_contract: "hash_contract sample_config"
  by (auto simp: hash_contract_def sample_blake2_def)

lemmas sample_contracts = sample_nft_contract sample_currency_contract sample_hash_contract

end
