(* ===== verification/Kitties_Calls.thy ===== *)
theory Kitties_Calls
  imports Kitties_Contract
begin

text \<open>
  The behaviour of each dispatchable call of the kitties pallet: when it succeeds, the storage and
  the event it then leaves behind; when it fails, with which error, and that nothing changed.
  The equations \<open>*_Ok\<close> and \<open>*_Err\<close> characterise the calls with no assumption on the external code;
  the properties add the contracts of \<open>Kitties_Contract\<close>.
\<close>

section \<open>External calls\<close>

lemma orml_mint_eq [attempt_simps]:
  "orml_mint T who cls md d st = (Ok t, st') \<longleftrightarrow>
     (\<exists>n. nft_mint T who cls md d (nft st) = (Ok t, n) \<and> st' = st\<lparr>nft := n\<rparr>)"
  "orml_mint T who cls md d st = (Err e, st') \<longleftrightarrow>
     (\<exists>n x. nft_mint T who cls md d (nft st) = (Err x, n) \<and> e = External x \<and> st' = st\<lparr>nft := n\<rparr>)"
  by (auto simp: orml_mint_def split: prod.splits)

lemma orml_transfer_eq [attempt_simps]:
  "orml_transfer T from to tok st = (Ok u, st') \<longleftrightarrow>
     (\<exists>n. nft_transfer T from to tok (nft st) = (Ok u, n) \<and> st' = st\<lparr>nft := n\<rparr>)"
  "orml_transfer T from to tok st = (Err e, st') \<longleftrightarrow>
     (\<exists>n x. nft_transfer T from to tok (nft st) = (Err x, n) \<and> e = External x \<and> st' = st\<lparr>nft := n\<rparr>)"
  by (auto simp: orml_transfer_def split: prod.splits)

lemma pay_eq [attempt_simps]:
  "pay T from to v er st = (Ok u, st') \<longleftrightarrow>
     (\<exists>c. currency_transfer T from to v er (currency st) = (Ok u, c) \<and> st' = st\<lparr>currency := c\<rparr>)"
  "pay T from to v er st = (Err e, st') \<longleftrightarrow>
     (\<exists>c x. currency_transfer T from to v er (currency st) = (Err x, c) \<and> e = External x \<and>
        st' = st\<lparr>currency := c\<rparr>)"
  by (auto simp: pay_def split: prod.splits)

lemmas storage_defs = deposit_event_def put_kitty_price_def map_remove_def map_mutate_exists_def


section \<open>Characterisation of the calls\<close>

lemma create_Ok:
  "create T orig st = (Ok u, st') \<longleftrightarrow>
     (\<exists>who t n k. orig = Signed who \<and> k = Kitty (random_value T st who) \<and>
        nft_mint T who (class_id st) [] k (nft st) = (Ok t, n) \<and>
        st' = st\<lparr>nft := n, events := events st @ [KittyCreated who t k]\<rparr>)"
  by (auto simp: create_def Let_def attempt_simps storage_defs)

lemma create_Err:
  "create T orig st = (Err e, st') \<longleftrightarrow>
     (\<forall>who. orig \<noteq> Signed who) \<and> e = BadOrigin \<and> st' = st \<or>
     (\<exists>who n x. orig = Signed who \<and> e = External x \<and> st' = st\<lparr>nft := n\<rparr> \<and>
        nft_mint T who (class_id st) [] (Kitty (random_value T st who)) (nft st) = (Err x, n))"
  by (auto simp: create_def Let_def attempt_simps)

lemma do_breed_Ok:
  "do_breed T owner k1 k2 st = (Ok u, st') \<longleftrightarrow>
     (\<exists>t n k. gender k1 \<noteq> gender k2 \<and> k = Kitty (breed_dna (dna k1) (dna k2) (random_value T st owner)) \<and>
        nft_mint T owner (class_id st) [] k (nft st) = (Ok t, n) \<and>
        st' = st\<lparr>nft := n, events := events st @ [KittyBred owner t k]\<rparr>)"
  by (auto simp: do_breed_def Let_def attempt_simps storage_defs)

lemma do_breed_Err:
  "do_breed T owner k1 k2 st = (Err e, st') \<longleftrightarrow>
     gender k1 = gender k2 \<and> e = PalletError SameGender \<and> st' = st \<or>
     (\<exists>n x. gender k1 \<noteq> gender k2 \<and> e = External x \<and> st' = st\<lparr>nft := n\<rparr> \<and>
        nft_mint T owner (class_id st) []
          (Kitty (breed_dna (dna k1) (dna k2) (random_value T st owner))) (nft st) = (Err x, n))"
  by (auto simp: do_breed_def Let_def attempt_simps)

lemma kitties_eq_Some:
  "kitties T st who t = Some k \<longleftrightarrow>
     (\<exists>x. nft_tokens T (nft st) (class_id st) t = Some x \<and> ti_owner x = who \<and> ti_data x = k)"
  by (auto simp: kitties_def bind_eq_Some_conv)

lemma breed_Ok:
  "breed T orig t1 t2 st = (Ok u, st') \<longleftrightarrow>
     (\<exists>who k1 k2. orig = Signed who \<and> kitties T st who t1 = Some k1 \<and> kitties T st who t2 = Some k2 \<and>
        do_breed T who k1 k2 st = (Ok u, st'))"
  by (auto simp: breed_def attempt_simps)

lemma breed_Err:
  "breed T orig t1 t2 st = (Err e, st') \<longleftrightarrow>
     (\<forall>who. orig \<noteq> Signed who) \<and> e = BadOrigin \<and> st' = st \<or>
     (\<exists>who. orig = Signed who \<and> (kitties T st who t1 = None \<or> kitties T st who t2 = None) \<and>
        e = PalletError InvalidKittyId \<and> st' = st) \<or>
     (\<exists>who k1 k2. orig = Signed who \<and> kitties T st who t1 = Some k1 \<and> kitties T st who t2 = Some k2 \<and>
        do_breed T who k1 k2 st = (Err e, st'))"
  by (auto simp: breed_def attempt_simps)

lemma transfer_Ok:
  "transfer T orig to t st = (Ok u, st') \<longleftrightarrow>
     (\<exists>who n. orig = Signed who \<and> nft_transfer T who to (class_id st, t) (nft st) = (Ok (), n) \<and>
        st' = (if who = to then st\<lparr>nft := n\<rparr>
               else st\<lparr>nft := n, kitty_prices := (kitty_prices st)(t := None),
                       events := events st @ [KittyTransferred who to t]\<rparr>))"
proof (cases "orig = Signed to")
  case True
  then show ?thesis by (auto simp: transfer_def attempt_simps storage_defs)
next
  case False
  then show ?thesis by (cases orig) (auto simp: transfer_def attempt_simps storage_defs)
qed

lemma transfer_Err:
  "transfer T orig to t st = (Err e, st') \<longleftrightarrow>
     (\<forall>who. orig \<noteq> Signed who) \<and> e = BadOrigin \<and> st' = st \<or>
     (\<exists>who n x. orig = Signed who \<and> e = External x \<and> st' = st\<lparr>nft := n\<rparr> \<and>
        nft_transfer T who to (class_id st, t) (nft st) = (Err x, n))"
  by (auto simp: transfer_def attempt_simps split: if_splits)

lemma set_price_Ok:
  "set_price T orig t p st = (Ok u, st') \<longleftrightarrow>
     (\<exists>who. orig = Signed who \<and> nft_tokens_by_owner T (nft st) who (class_id st, t) \<and>
        st' = st\<lparr>kitty_prices := (kitty_prices st)(t := p),
                 events := events st @ [KittyPriceUpdated who t p]\<rparr>)"
  by (auto simp: set_price_def attempt_simps storage_defs)

lemma set_price_Err:
  "set_price T orig t p st = (Err e, st') \<longleftrightarrow>
     st' = st \<and> ((\<forall>who. orig \<noteq> Signed who) \<and> e = BadOrigin \<or>
       (\<exists>who. orig = Signed who \<and> \<not> nft_tokens_by_owner T (nft st) who (class_id st, t) \<and>
          e = PalletError NotOwner))"
  by (auto simp: set_price_def attempt_simps)

lemma take_slot_eq:
  "(case x of (r, st) \<Rightarrow> (r, None, st)) = (r', v, st') \<longleftrightarrow> x = (r', st') \<and> v = None"
  by (auto split: prod.splits)

lemma buy_closure_Ok:
  "buy_closure T who owner t m slot st = (Ok u, v, st') \<longleftrightarrow>
     (\<exists>p n c. v = None \<and> slot = Some p \<and> p \<le> m \<and>
        nft_transfer T owner who (class_id st, t) (nft st) = (Ok (), n) \<and>
        currency_transfer T who owner p KeepAlive (currency st) = (Ok u, c) \<and>
        st' = st\<lparr>nft := n, currency := c, events := events st @ [KittySold owner who t p]\<rparr>)"
  by (auto simp: buy_closure_def take_slot_eq attempt_simps storage_defs)

lemma buy_Ok:
  "buy T orig owner t m st = (Ok u, st') \<longleftrightarrow>
     (\<exists>who p n c. orig = Signed who \<and> who \<noteq> owner \<and> kitty_prices st t = Some p \<and> p \<le> m \<and>
        nft_transfer T owner who (class_id st, t) (nft st) = (Ok (), n) \<and>
        currency_transfer T who owner p KeepAlive (currency st) = (Ok (), c) \<and>
        st' = st\<lparr>nft := n, currency := c, kitty_prices := (kitty_prices st)(t := None),
                 events := events st @ [KittySold owner who t p]\<rparr>)"
  by (auto simp: buy_def attempt_simps buy_closure_Ok put_kitty_price_def)

lemma buy_Err_unchanged: "buy T orig owner t m st = (Err e, st') \<Longrightarrow> st' = st"
  by (simp add: buy_def transactional_eq_Err)

lemma auto_breed_Ok:
  "auto_breed T orig t1 t2 nonce sol st = (Ok u, st') \<longleftrightarrow>
     (\<exists>x1 x2. orig = NoOrigin \<and> nft_tokens T (nft st) (class_id st) t1 = Some x1 \<and>
        nft_tokens T (nft st) (class_id st) t2 = Some x2 \<and>
        do_breed T (ti_owner x1) (ti_data x1) (ti_data x2) st = (Ok u, st'))"
  by (auto simp: auto_breed_def attempt_simps)

lemma auto_breed_Err:
  "auto_breed T orig t1 t2 nonce sol st = (Err e, st') \<longleftrightarrow>
     orig \<noteq> NoOrigin \<and> e = BadOrigin \<and> st' = st \<or>
     orig = NoOrigin \<and> (nft_tokens T (nft st) (class_id st) t1 = None \<or>
         nft_tokens T (nft st) (class_id st) t2 = None) \<and>
       e = PalletError InvalidKittyId \<and> st' = st \<or>
     (\<exists>x1 x2. orig = NoOrigin \<and> nft_tokens T (nft st) (class_id st) t1 = Some x1 \<and>
        nft_tokens T (nft st) (class_id st) t2 = Some x2 \<and>
        do_breed T (ti_owner x1) (ti_data x1) (ti_data x2) st = (Err e, st'))"
  by (auto simp: auto_breed_def attempt_simps)

section \<open>Failed calls\<close>

text \<open>
  Only \<open>buy\<close> is transactional; for the other calls an error leaves the storage as it was because the
  external operation that fails does so before it writes.
\<close>

lemma do_breed_Err_unchanged:
  assumes "nft_contract T V" "V (nft st)" "do_breed T who k1 k2 st = (Err e, st')"
  shows "st' = st"
  using assms(3) by (auto simp: do_breed_Err dest: nft_mint_ErrD [OF assms(1,2)])

lemma create_Err_unchanged:
  assumes "nft_contract T V" "V (nft st)" "create T orig st = (Err e, st')"
  shows "st' = st"
  using assms(3) by (auto simp: create_Err dest: nft_mint_ErrD [OF assms(1,2)])

lemma breed_Err_unchanged:
  assumes "nft_contract T V" "V (nft st)" "breed T orig t1 t2 st = (Err e, st')"
  shows "st' = st"
  using assms(3) by (auto simp: breed_Err dest: do_breed_Err_unchanged [OF assms(1,2)])

lemma auto_breed_Err_unchanged:
  assumes "nft_contract T V" "V (nft st)" "auto_breed T orig t1 t2 nonce sol st = (Err e, st')"
  shows "st' = st"
  using assms(3) by (auto simp: auto_breed_Err dest: do_breed_Err_unchanged [OF assms(1,2)])

lemma transfer_Err_unchanged:
  assumes "nft_contract T V" "V (nft st)" "transfer T orig to t st = (Err e, st')"
  shows "st' = st"
  using assms(3) by (auto simp: transfer_Err dest: nft_transfer_ErrD(1) [OF assms(1,2)])

lemma set_price_Err_unchanged: "set_price T orig t p st = (Err e, st') \<Longrightarrow> st' = st"
  by (simp add: set_price_Err)

lemma dispatch_Err_unchanged:
  assumes "nft_contract T V" "V (nft st)" "dispatch_call T call orig st = (Err e, st')"
  shows "st' = st"
  using assms(3)
  by (cases call) (auto dest: create_Err_unchanged [OF assms(1,2)] breed_Err_unchanged [OF assms(1,2)]
      transfer_Err_unchanged [OF assms(1,2)] set_price_Err_unchanged buy_Err_unchanged
      auto_breed_Err_unchanged [OF assms(1,2)])

lemmas call_Ok = create_Ok breed_Ok transfer_Ok set_price_Ok buy_Ok auto_breed_Ok do_breed_Ok
lemmas call_Err = create_Err breed_Err transfer_Err set_price_Err auto_breed_Err do_breed_Err

end
