(* ===== verification/Kitties_Machine.thy ===== *)
theory Kitties_Machine
  imports Kitties_Calls
begin

text \<open>
  The kitties pallet as a machine: its inputs are dispatched calls with any origin, validations of
  unsigned transactions, and arbitrary progress of the rest of the chain (balances, randomness,
  extrinsic index). The storage invariant is kept by every input, and the pallet is an instance of
  the contracts \<open>call_machine\<close> and \<open>monotone_machine\<close> of theory \<open>Frame\<close>.
\<close>

section \<open>Inputs and their execution\<close>

datatype ('acc, 'c, 'sys) input =
    Dispatch "'acc origin" "'acc Call"
  | Validate TransactionSource "'acc Call"
  | Environment 'c 'sys

fun exec_input ::
  "('acc, 'n, 'c, 'sys, 'e) kitties_config \<Rightarrow> ('acc, 'c, 'sys) input \<Rightarrow>
   ('acc, 'n, 'c, 'sys) kitties_storage \<Rightarrow> ('acc, 'n, 'c, 'sys) kitties_storage" where
  "exec_input T (Dispatch origin call) st = snd (dispatch_call T call origin st)"
| "exec_input T (Validate source call) st = snd (validate_unsigned T source call st)"
| "exec_input T (Environment c s) st = st\<lparr>currency := c, sys := s\<rparr>"

abbreviation token ::
  "('acc, 'n, 'c, 'sys, 'e) kitties_config \<Rightarrow> ('acc, 'n, 'c, 'sys) kitties_storage \<Rightarrow> u32 \<Rightarrow>
   'acc token_info option" where
  "token T st \<equiv> nft_tokens T (nft st) (class_id st)"


section \<open>The storage invariant\<close>

text \<open>
  Token ids of the kitty class are exactly those below the next id, every stored kitty has its
  sixteen bytes, and only existing kitties have a price.
\<close>

definition store_inv ::
  "('acc, 'n, 'c, 'sys, 'e) kitties_config \<Rightarrow> ('n \<Rightarrow> bool) \<Rightarrow> u32 \<Rightarrow> 'n \<Rightarrow> (u32 \<Rightarrow> u128 option) \<Rightarrow> bool" where
  "store_inv T V cls n prices \<longleftrightarrow>
     V n \<and>
     (\<forall>t. nft_tokens T n cls t \<noteq> None \<longleftrightarrow> t < nft_next_token_id T n cls) \<and>
     (\<forall>t x. nft_tokens T n cls t = Some x \<longrightarrow> wf_kitty (ti_data x)) \<and>
     (\<forall>t. prices t \<noteq> None \<longrightarrow> nft_tokens T n cls t \<noteq> None)"

definition kitties_inv ::
  "('acc, 'n, 'c, 'sys, 'e) kitties_config \<Rightarrow> ('n \<Rightarrow> bool) \<Rightarrow> ('acc, 'n, 'c, 'sys) kitties_storage \<Rightarrow> bool" where
  "kitties_inv T V st \<longleftrightarrow>
     nft_contract T V \<and> hash_contract T \<and> store_inv T V (class_id st) (nft st) (kitty_prices st)"

lemma kitties_invD:
  assumes "kitties_inv T V st"
  shows "nft_contract T V" "hash_contract T" "V (nft st)"
    "token T st t \<noteq> None \<longleftrightarrow> t < nft_next_token_id T (nft st) (class_id st)"
    "token T st t = Some x \<Longrightarrow> wf_kitty (ti_data x)"
    "kitty_prices st t = Some p \<Longrightarrow> \<exists>x. token T st t = Some x"
  using assms unfolding kitties_inv_def store_inv_def by blast+

lemma kitties_inv_cong:
  "class_id st' = class_id st \<Longrightarrow> nft st' = nft st \<Longrightarrow> kitty_prices st' = kitty_prices st \<Longrightarrow>
   kitties_inv T V st' \<longleftrightarrow> kitties_inv T V st"
  by (simp add: kitties_inv_def)

lemma kitties_inv_nonce [simp]: "kitties_inv T V (st\<lparr>auto_breed_nonce := n\<rparr>) \<longleftrightarrow> kitties_inv T V st"
  by (simp add: kitties_inv_def)

lemma store_inv_mint:
  assumes "nft_contract T V" "store_inv T V cls n prices" "wf_kitty k"
    and "nft_mint T who cls md k n = (Ok t, n')"
  shows "store_inv T V cls n' prices"
proof -
  have V: "V n" using assms(2) by (simp add: store_inv_def)
  note m = nft_mintD [OF assms(1) V assms(4)]
  have "nft_tokens T n' cls t' \<noteq> None \<longleftrightarrow> t' < nft_next_token_id T n' cls" for t'
    using assms(2) m(2,3) less_plus_one_iff [of t t']
    unfolding store_inv_def m(4,5) by (cases "t' = t") auto
  moreover have "nft_tokens T n' cls t' \<noteq> None" if "prices t' \<noteq> None" for t'
  proof -
    from that assms(2) have "nft_tokens T n cls t' \<noteq> None" unfolding store_inv_def by blast
    then show ?thesis by (simp add: m(5))
  qed
  ultimately show ?thesis
    using assms(2,3) m(1) unfolding store_inv_def by (auto simp: m(5) split: if_splits)
qed

lemma store_inv_transfer:
  assumes "nft_contract T V" "store_inv T V cls n prices"
    and "nft_transfer T from to (cls, t) n = (Ok u, n')"
  shows "store_inv T V cls n' (prices(t := p))"
proof -
  have V: "V n" using assms(2) by (simp add: store_inv_def)
  note m = nft_transferD [OF assms(1) V assms(3)]
  from m(3) obtain x where x: "nft_tokens T n cls t = Some x"
    "nft_tokens T n' = (nft_tokens T n)(cls := (nft_tokens T n cls)(t \<mapsto> x\<lparr>ti_owner := to\<rparr>))"
    by blast
  have "wf_kitty (ti_data x)" "t < nft_next_token_id T n cls"
    using assms(2) x(1) unfolding store_inv_def by force+
  then show ?thesis
    using assms(2) m(1) unfolding store_inv_def x(2) m(2) by auto
qed

lemma store_inv_price:
  assumes "store_inv T V cls n prices" "nft_tokens T n cls t = Some x"
  shows "store_inv T V cls n (prices(t := p))"
  using assms unfolding store_inv_def by auto


section \<open>Every call keeps the invariant\<close>

text \<open>A failed call changes nothing, so only the successful ones matter.\<close>

lemma inv_do_breed:
  assumes inv: "kitties_inv T V st" and wf: "wf_kitty k1"
    and ok: "do_breed T who k1 k2 st = (Ok u, st')"
  shows "kitties_inv T V st'"
proof -
  from ok obtain t n k where *: "k = Kitty (breed_dna (dna k1) (dna k2) (random_value T st who))"
    "nft_mint T who (class_id st) [] k (nft st) = (Ok t, n)"
    "st' = st\<lparr>nft := n, events := events st @ [KittyBred who t k]\<rparr>"
    by (auto simp: do_breed_Ok)
  have "wf_kitty k" using wf by (simp add: *(1) wf_kitty_def wf_breed_dna)
  with inv *(2) show ?thesis by (auto simp: *(3) kitties_inv_def intro: store_inv_mint)
qed

lemma inv_create:
  assumes inv: "kitties_inv T V st" and ok: "create T orig st = (Ok u, st')"
  shows "kitties_inv T V st'"
proof -
  from ok obtain who t n k where *: "k = Kitty (random_value T st who)"
    "nft_mint T who (class_id st) [] k (nft st) = (Ok t, n)"
    "st' = st\<lparr>nft := n, events := events st @ [KittyCreated who t k]\<rparr>"
    by (auto simp: create_Ok)
  have "wf_kitty k" using kitties_invD(2) [OF inv] by (simp add: *(1) wf_kitty_def wf_random_value)
  with inv *(2) show ?thesis by (auto simp: *(3) kitties_inv_def intro: store_inv_mint)
qed

lemma inv_breed:
  "kitties_inv T V st \<Longrightarrow> breed T orig t1 t2 st = (Ok u, st') \<Longrightarrow> kitties_inv T V st'"
  by (auto simp: breed_Ok kitties_eq_Some intro: inv_do_breed dest: kitties_invD(5))

lemma inv_auto_breed:
  "kitties_inv T V st \<Longrightarrow> auto_breed T orig t1 t2 nonce sol st = (Ok u, st') \<Longrightarrow> kitties_inv T V st'"
  by (auto simp: auto_breed_Ok intro: inv_do_breed dest: kitties_invD(5))

lemma inv_transfer:
  assumes inv: "kitties_inv T V st" and ok: "transfer T orig to t st = (Ok u, st')"
  shows "kitties_inv T V st'"
proof -
  from ok obtain who n where *: "nft_transfer T who to (class_id st, t) (nft st) = (Ok (), n)"
    "st' = (if who = to then st\<lparr>nft := n\<rparr>
       else st\<lparr>nft := n, kitty_prices := (kitty_prices st)(t := None),
               events := events st @ [KittyTransferred who to t]\<rparr>)"
    by (auto simp: transfer_Ok)
  have "store_inv T V (class_id st) n ((kitty_prices st)(t := p))" for p
    using inv *(1) by (auto simp: kitties_inv_def intro: store_inv_transfer)
  from this [of None] this [of "kitty_prices st t"] show ?thesis
    using inv by (auto simp: *(2) kitties_inv_def)
qed

lemma inv_set_price:
  assumes inv: "kitties_inv T V st" and ok: "set_price T orig t p st = (Ok u, st')"
  shows "kitties_inv T V st'"
  using assms nft_indexD [OF kitties_invD(1,3) [OF inv]]
  by (auto simp: set_price_Ok kitties_inv_def intro: store_inv_price)

lemma inv_buy:
  "kitties_inv T V st \<Longrightarrow> buy T orig owner t m st = (Ok u, st') \<Longrightarrow> kitties_inv T V st'"
  by (auto simp: buy_Ok kitties_inv_def intro: store_inv_transfer)

lemmas inv_calls = inv_create inv_breed inv_transfer inv_set_price inv_buy inv_auto_breed

lemma inv_dispatch:
  assumes "kitties_inv T V st" "dispatch_call T call orig st = (r, st')"
  shows "kitties_inv T V st'"
proof (cases r)
  case (Ok u)
  with assms show ?thesis by (cases call) (auto intro: inv_calls)
next
  case (Err e)
  with assms dispatch_Err_unchanged [OF kitties_invD(1,3) [OF assms(1)]] show ?thesis by auto
qed

lemma validate_unsigned_frame:
  "validate_unsigned T source call st = (r, st') \<Longrightarrow> \<exists>k. st' = st\<lparr>auto_breed_nonce := k\<rparr>"
  by (cases call) (auto simp: validate_unsigned_def split: option.splits bool.splits if_splits
      intro: exI [of _ "auto_breed_nonce st"])

lemma inv_exec_input: "kitties_inv T V st \<Longrightarrow> kitties_inv T V (exec_input T i st)"
proof (cases i)
  case (Dispatch orig call)
  then show "kitties_inv T V st \<Longrightarrow> ?thesis" by (metis exec_input.simps(1) inv_dispatch prod.collapse)
next
  case (Validate source call)
  obtain r st' where v: "validate_unsigned T source call st = (r, st')" by fastforce
  then obtain k where "st' = st\<lparr>auto_breed_nonce := k\<rparr>" using validate_unsigned_frame by blast
  then show "kitties_inv T V st \<Longrightarrow> ?thesis" by (simp add: Validate v kitties_inv_def)
next
  case (Environment c s)
  then show "kitties_inv T V st \<Longrightarrow> ?thesis" by (simp add: kitties_inv_def)
qed

lemma sample_state_inv: "kitties_inv sample_config (\<lambda>_. True) sample_state"
proof -
  have lt2: "t < 2 \<longleftrightarrow> t = 0 \<or> t = 1" for t :: u32
    using less_plus_one_iff [of 1 t] less_plus_one_iff [of 0 t] by auto
  show ?thesis
    using sample_contracts(1,3)
    by (auto simp: kitties_inv_def store_inv_def sample_state_def sample_nft_state_def lt2
        wf_kitty_def wf_dna_def split: if_splits)
qed


section \<open>Accepted validations\<close>

lemma validate_unsigned_accepts:
  "validate_unsigned T source call st = (Some (Ok v), st') \<longleftrightarrow>
     (\<exists>t1 t2 solution. call = Call_auto_breed t1 t2 (auto_breed_nonce st) solution \<and>
        validate_solution T t1 t2 (auto_breed_nonce st) solution = Some True \<and> v = kitties_valid \<and>
        st' = st\<lparr>auto_breed_nonce := saturating_add (auto_breed_nonce st) 1\<rparr>)"
  by (cases call) (auto simp: validate_unsigned_def split: option.splits bool.splits if_splits)

lemma unat_threshold: "unat ((- 1 :: u128) div ucast (d :: u32)) = (2 ^ 128 - 1) div unat d"
  using unat_max_word [where 'a = 128] by (simp add: unat_div unat_ucast_u128)

lemma validate_solution_nat:
  assumes "default_difficulty T \<noteq> 0"
  shows "validate_solution T t1 t2 nonce solution =
    Some (unat (from_le_bytes (blake2_128 T (encode_solution T (t1, t2, nonce, solution)))) <
      (2 ^ 128 - 1) div unat (default_difficulty T))"
  using assms by (simp add: validate_solution_def Let_def word_less_nat_alt unat_threshold)

lemma validate_solution_panics:
  "validate_solution T t1 t2 nonce solution = None \<longleftrightarrow> default_difficulty T = 0"
  by (simp add: validate_solution_def Let_def)


section \<open>The pallet as a call machine\<close>

interpretation pallet: call_machine "exec_input T" "kitties_inv T V" for T V
  by unfold_locales (rule inv_exec_input)

end
