(* ===== verification/Kitties_Ledger.thy ===== *)
theory Kitties_Ledger
  imports Kitties_Machine
begin

text \<open>
  An abstract specification of the kitties pallet and the proof that the pallet implements it.
  The specification is a ledger of kitties (owner and DNA) and prices that changes only by the
  pallet's events, each under the condition that makes it legitimate: a price is set by the owner, a
  transfer is away from the owner, a sale is away from the owner at the listed price, a kitten
  descends from two listed kitties of different gender. The locale \<open>event_sourced\<close> states the
  simulation contract; the pallet satisfies it, so its storage is at all times the ledger obtained by
  replaying its event log.
\<close>

section \<open>The ledger specification\<close>

record 'acc ledger =
  l_tokens :: "u32 \<Rightarrow> 'acc token_info option"
  l_prices :: "u32 \<Rightarrow> u128 option"

definition empty_ledger :: "'acc ledger" where
  "empty_ledger = \<lparr>l_tokens = (\<lambda>_. None), l_prices = (\<lambda>_. None)\<rparr>"

inductive ledger_step :: "'acc ledger \<Rightarrow> 'acc Event \<Rightarrow> 'acc ledger \<Rightarrow> bool" where
  created: "l_tokens L t = None \<Longrightarrow> wf_kitty k \<Longrightarrow>
     ledger_step L (KittyCreated who t k)
       (L\<lparr>l_tokens := (l_tokens L)(t \<mapsto> \<lparr>ti_owner = who, ti_data = k\<rparr>)\<rparr>)"
| bred: "l_tokens L t = None \<Longrightarrow> l_tokens L p = Some x \<Longrightarrow> l_tokens L q = Some y \<Longrightarrow>
     gender (ti_data x) \<noteq> gender (ti_data y) \<Longrightarrow>
     k = Kitty (breed_dna (dna (ti_data x)) (dna (ti_data y)) s) \<Longrightarrow>
     ledger_step L (KittyBred (ti_owner x) t k)
       (L\<lparr>l_tokens := (l_tokens L)(t \<mapsto> \<lparr>ti_owner = ti_owner x, ti_data = k\<rparr>)\<rparr>)"
| transferred: "l_tokens L t = Some x \<Longrightarrow> ti_owner x \<noteq> to \<Longrightarrow>
     ledger_step L (KittyTransferred (ti_owner x) to t)
       (L\<lparr>l_tokens := (l_tokens L)(t \<mapsto> x\<lparr>ti_owner := to\<rparr>), l_prices := (l_prices L)(t := None)\<rparr>)"
| priced: "l_tokens L t = Some x \<Longrightarrow>
     ledger_step L (KittyPriceUpdated (ti_owner x) t p) (L\<lparr>l_prices := (l_prices L)(t := p)\<rparr>)"
| sold: "l_tokens L t = Some x \<Longrightarrow> ti_owner x \<noteq> buyer \<Longrightarrow> l_prices L t = Some p \<Longrightarrow>
     ledger_step L (KittySold (ti_owner x) buyer t p)
       (L\<lparr>l_tokens := (l_tokens L)(t \<mapsto> x\<lparr>ti_owner := buyer\<rparr>), l_prices := (l_prices L)(t := None)\<rparr>)"

inductive_cases soldE: "ledger_step L (KittySold a b t p) L'"
inductive_cases transferredE: "ledger_step L (KittyTransferred a b t) L'"

inductive replay :: "('l \<Rightarrow> 'ev \<Rightarrow> 'l \<Rightarrow> bool) \<Rightarrow> 'l \<Rightarrow> 'ev list \<Rightarrow> 'l \<Rightarrow> bool" for step where
  replay_nil: "replay step L [] L"
| replay_snoc: "replay step L es L' \<Longrightarrow> step L' e L'' \<Longrightarrow> replay step L (es @ [e]) L''"

inductive_simps replay_nil_iff [simp]: "replay step L [] L'"


section \<open>Event-sourced machines\<close>

locale event_sourced = call_machine exec inv
  for exec :: "'i \<Rightarrow> 's \<Rightarrow> 's" and inv :: "'s \<Rightarrow> bool" +
  fixes log :: "'s \<Rightarrow> 'ev list"
    and view :: "'s \<Rightarrow> 'l"
    and step :: "'l \<Rightarrow> 'ev \<Rightarrow> 'l \<Rightarrow> bool"
  assumes simulates: "inv s \<Longrightarrow>
      log (exec i s) = log s \<and> view (exec i s) = view s \<or>
      (\<exists>e. log (exec i s) = log s @ [e] \<and> step (view s) e (view (exec i s)))"
begin

lemma replay_exec:
  assumes "inv s" "replay step L (log s) (view s)"
  shows "replay step L (log (exec i s)) (view (exec i s))"
  using simulates [OF assms(1), of i] assms(2) by (auto intro: replay_snoc)

lemma replay_run:
  "inv s \<Longrightarrow> replay step L (log s) (view s) \<Longrightarrow>
   replay step L (log (run_calls exec is s)) (view (run_calls exec is s))"
  by (induction "is" arbitrary: s) (simp_all add: inv_exec replay_exec)

end


section \<open>The pallet implements the ledger\<close>

definition ledger_of ::
  "('acc, 'n, 'c, 'sys, 'e) kitties_config \<Rightarrow> ('acc, 'n, 'c, 'sys) kitties_storage \<Rightarrow> 'acc ledger" where
  "ledger_of T st = \<lparr>l_tokens = token T st, l_prices = kitty_prices st\<rparr>"

lemma ledger_of_simps [simp]:
  "l_tokens (ledger_of T st) = token T st" "l_prices (ledger_of T st) = kitty_prices st"
  by (simp_all add: ledger_of_def)

lemma fresh_token:
  assumes "kitties_inv T V st" "nft_mint T who (class_id st) md k (nft st) = (Ok t, n)"
  shows "token T st t = None"
  using kitties_invD(4) [OF assms(1), of t] nft_mintD(2) [OF kitties_invD(1,3) [OF assms(1)] assms(2)]
  by simp

lemma ledger_mint:
  assumes "kitties_inv T V st" "nft_mint T who (class_id st) md k (nft st) = (Ok t, n)"
  shows "ledger_of T (st\<lparr>nft := n, events := es\<rparr>) = (ledger_of T st)
    \<lparr>l_tokens := (token T st)(t \<mapsto> \<lparr>ti_owner = who, ti_data = k\<rparr>)\<rparr>"
  using nft_mintD(5) [OF kitties_invD(1,3) [OF assms(1)] assms(2)] by (simp add: ledger_of_def)

lemma sim_create:
  assumes "kitties_inv T V st" "create T orig st = (Ok u, st')"
  shows "\<exists>e. events st' = events st @ [e] \<and> ledger_step (ledger_of T st) e (ledger_of T st')"
proof -
  from assms(2) obtain who t n k where *: "k = Kitty (random_value T st who)"
    "nft_mint T who (class_id st) [] k (nft st) = (Ok t, n)"
    "st' = st\<lparr>nft := n, events := events st @ [KittyCreated who t k]\<rparr>"
    by (auto simp: create_Ok)
  have "wf_kitty k" using kitties_invD(2) [OF assms(1)] by (simp add: *(1) wf_kitty_def wf_random_value)
  with created [of "ledger_of T st" t k who] fresh_token [OF assms(1) *(2)] ledger_mint [OF assms(1) *(2)]
  show ?thesis by (simp add: *(3))
qed

lemma sim_do_breed:
  assumes "kitties_inv T V st" "token T st p = Some x" "token T st q = Some y"
    and "do_breed T (ti_owner x) (ti_data x) (ti_data y) st = (Ok u, st')"
  shows "\<exists>e. events st' = events st @ [e] \<and> ledger_step (ledger_of T st) e (ledger_of T st')"
proof -
  from assms(4) obtain t n k where *: "gender (ti_data x) \<noteq> gender (ti_data y)"
    "k = Kitty (breed_dna (dna (ti_data x)) (dna (ti_data y)) (random_value T st (ti_owner x)))"
    "nft_mint T (ti_owner x) (class_id st) [] k (nft st) = (Ok t, n)"
    "st' = st\<lparr>nft := n, events := events st @ [KittyBred (ti_owner x) t k]\<rparr>"
    by (auto simp: do_breed_Ok)
  from bred [of "ledger_of T st" t p x q y k, OF _ _ _ *(1,2)]
  show ?thesis
    using fresh_token [OF assms(1) *(3)] ledger_mint [OF assms(1) *(3)] assms(2,3) by (simp add: *(4))
qed

lemma sim_breed:
  assumes "kitties_inv T V st" "breed T orig t1 t2 st = (Ok u, st')"
  shows "\<exists>e. events st' = events st @ [e] \<and> ledger_step (ledger_of T st) e (ledger_of T st')"
  using assms by (auto simp: breed_Ok kitties_eq_Some intro: sim_do_breed)

lemma sim_auto_breed:
  assumes "kitties_inv T V st" "auto_breed T orig t1 t2 nonce sol st = (Ok u, st')"
  shows "\<exists>e. events st' = events st @ [e] \<and> ledger_step (ledger_of T st) e (ledger_of T st')"
  using assms by (auto simp: auto_breed_Ok intro: sim_do_breed)

lemma ledger_transfer:
  assumes "kitties_inv T V st" "nft_transfer T from to (class_id st, t) (nft st) = (Ok (), n)"
  shows "\<exists>x. token T st t = Some x \<and> ti_owner x = from \<and>
    nft_tokens T n (class_id st) = (token T st)(t \<mapsto> x\<lparr>ti_owner := to\<rparr>)"
  using nft_transferD(3) [OF kitties_invD(1,3) [OF assms(1)] assms(2)] by auto

lemma sim_transfer:
  assumes "kitties_inv T V st" "transfer T orig to t st = (Ok u, st')"
  shows "events st' = events st \<and> ledger_of T st' = ledger_of T st \<or>
    (\<exists>e. events st' = events st @ [e] \<and> ledger_step (ledger_of T st) e (ledger_of T st'))"
proof -
  from assms(2) obtain who n where *: "nft_transfer T who to (class_id st, t) (nft st) = (Ok (), n)"
    "st' = (if who = to then st\<lparr>nft := n\<rparr>
       else st\<lparr>nft := n, kitty_prices := (kitty_prices st)(t := None),
               events := events st @ [KittyTransferred who to t]\<rparr>)"
    by (auto simp: transfer_Ok)
  from ledger_transfer [OF assms(1) *(1)] obtain x where x: "token T st t = Some x" "ti_owner x = who"
    "nft_tokens T n (class_id st) = (token T st)(t \<mapsto> x\<lparr>ti_owner := to\<rparr>)"
    by blast
  show ?thesis
  proof (cases "who = to")
    case True
    with x have "ledger_of T st' = ledger_of T st"
      by (auto simp: *(2) ledger_of_def fun_upd_idem)
    with True show ?thesis by (simp add: *(2))
  next
    case False
    with transferred [of "ledger_of T st" t x to] x show ?thesis
      by (simp add: *(2)) (simp add: ledger_of_def)
  qed
qed

lemma sim_set_price:
  assumes "kitties_inv T V st" "set_price T orig t p st = (Ok u, st')"
  shows "\<exists>e. events st' = events st @ [e] \<and> ledger_step (ledger_of T st) e (ledger_of T st')"
proof -
  from assms(2) obtain who where *: "nft_tokens_by_owner T (nft st) who (class_id st, t)"
    "st' = st\<lparr>kitty_prices := (kitty_prices st)(t := p),
              events := events st @ [KittyPriceUpdated who t p]\<rparr>"
    by (auto simp: set_price_Ok)
  from *(1) obtain x where "token T st t = Some x" "ti_owner x = who"
    using nft_indexD [OF kitties_invD(1,3) [OF assms(1)]] by blast
  with priced [of "ledger_of T st" t x p] show ?thesis
    by (simp add: *(2)) (simp add: ledger_of_def)
qed

lemma sim_buy:
  assumes "kitties_inv T V st" "buy T orig owner t m st = (Ok u, st')"
  shows "\<exists>e. events st' = events st @ [e] \<and> ledger_step (ledger_of T st) e (ledger_of T st')"
proof -
  from assms(2) obtain who p n c where *: "who \<noteq> owner" "kitty_prices st t = Some p"
    "nft_transfer T owner who (class_id st, t) (nft st) = (Ok (), n)"
    "st' = st\<lparr>nft := n, currency := c, kitty_prices := (kitty_prices st)(t := None),
                 events := events st @ [KittySold owner who t p]\<rparr>"
    by (auto simp: buy_Ok)
  from ledger_transfer [OF assms(1) *(3)] obtain x where x: "token T st t = Some x" "ti_owner x = owner"
    "nft_tokens T n (class_id st) = (token T st)(t \<mapsto> x\<lparr>ti_owner := who\<rparr>)"
    by blast
  with sold [of "ledger_of T st" t x who p] *(1,2) show ?thesis
    by (simp add: *(4)) (simp add: ledger_of_def)
qed

lemma sim_exec_input:
  assumes inv: "kitties_inv T V st"
  shows "events (exec_input T i st) = events st \<and> ledger_of T (exec_input T i st) = ledger_of T st \<or>
    (\<exists>e. events (exec_input T i st) = events st @ [e] \<and>
       ledger_step (ledger_of T st) e (ledger_of T (exec_input T i st)))"
proof (cases i)
  case (Dispatch orig call)
  obtain r st' where d: "dispatch_call T call orig st = (r, st')" by fastforce
  show ?thesis
  proof (cases r)
    case (Ok u)
    with d Dispatch show ?thesis
      using sim_create [OF inv] sim_breed [OF inv] sim_transfer [OF inv] sim_set_price [OF inv]
        sim_buy [OF inv] sim_auto_breed [OF inv]
      by (cases call) simp_all
  next
    case (Err e)
    with d have "st' = st" using dispatch_Err_unchanged [OF kitties_invD(1,3) [OF inv]] by blast
    with d Dispatch show ?thesis by simp
  qed
next
  case (Validate source call)
  obtain r st' where v: "validate_unsigned T source call st = (r, st')" by fastforce
  then obtain k where "st' = st\<lparr>auto_breed_nonce := k\<rparr>" using validate_unsigned_frame by blast
  then show ?thesis by (simp add: Validate v ledger_of_def)
next
  case (Environment c s)
  then show ?thesis by (simp add: ledger_of_def)
qed

interpretation sourced:
  event_sourced "exec_input T" "kitties_inv T V" events "ledger_of T" ledger_step for T V
  by unfold_locales (rule sim_exec_input)

end
