(* ===== verification/Weights.thy ===== *)
theory Weights
  imports Kitties
begin

text \<open>
  Dispatch weights: the trait \<open>WeightInfo\<close> and its implementations for \<open>SubstrateWeight<T>\<close> and \<open>()\<close>
  in \<open>src/pallets/kitties/src/weights.rs\<close>, the runtime's implementation in
  \<open>src/runtime/src/weights/pallet_kitties.rs\<close>, and the weight attributes of the calls. The trait is a
  record of its five functions. The database weights of \<open>frame_support\<close> are a parameter. The locale
  \<open>weight_info\<close> is what a user of the trait relies on, and all three implementations satisfy it.
\<close>

section \<open>The trait and its implementations\<close>

record db_weight =
  db_reads :: "u64 \<Rightarrow> u64"
  db_writes :: "u64 \<Rightarrow> u64"
  db_reads_writes :: "u64 \<Rightarrow> u64 \<Rightarrow> u64"

record WeightInfo =
  wi_create :: u64
  wi_breed :: u64
  wi_transfer :: u64
  wi_set_price :: u64
  wi_buy :: u64

definition SubstrateWeight :: "db_weight \<Rightarrow> WeightInfo" where
  "SubstrateWeight DbWeight = \<lparr>
     wi_create = saturating_add (saturating_add 37000000 (db_reads DbWeight 5)) (db_writes DbWeight 4),
     wi_breed = saturating_add (saturating_add 45000000 (db_reads DbWeight 7)) (db_writes DbWeight 4),
     wi_transfer = saturating_add (saturating_add 27000000 (db_reads DbWeight 2)) (db_writes DbWeight 4),
     wi_set_price = saturating_add (saturating_add 23000000 (db_reads DbWeight 3)) (db_writes DbWeight 1),
     wi_buy = saturating_add (saturating_add 70000000 (db_reads DbWeight 4)) (db_writes DbWeight 5)\<rparr>"

definition unit_WeightInfo :: "db_weight \<Rightarrow> WeightInfo" where
  "unit_WeightInfo RocksDbWeight = \<lparr>
     wi_create = saturating_add (saturating_add 37000000 (db_reads RocksDbWeight 5)) (db_writes RocksDbWeight 4),
     wi_breed = saturating_add (saturating_add 45000000 (db_reads RocksDbWeight 7)) (db_writes RocksDbWeight 4),
     wi_transfer = saturating_add (saturating_add 27000000 (db_reads RocksDbWeight 2)) (db_writes RocksDbWeight 4),
     wi_set_price = saturating_add (saturating_add 23000000 (db_reads RocksDbWeight 3)) (db_writes RocksDbWeight 1),
     wi_buy = saturating_add (saturating_add 70000000 (db_reads RocksDbWeight 4)) (db_writes RocksDbWeight 5)\<rparr>"

definition runtime_WeightInfo :: "db_weight \<Rightarrow> WeightInfo" where
  "runtime_WeightInfo DbWeight = \<lparr>
     wi_create = saturating_add (saturating_add 36000000 (db_reads DbWeight 5)) (db_writes DbWeight 4),
     wi_breed = saturating_add (saturating_add 46000000 (db_reads DbWeight 7)) (db_writes DbWeight 4),
     wi_transfer = saturating_add (saturating_add 26000000 (db_reads DbWeight 2)) (db_writes DbWeight 4),
     wi_set_price = saturating_add (saturating_add 21000000 (db_reads DbWeight 3)) (db_writes DbWeight 1),
     wi_buy = saturating_add (saturating_add 67000000 (db_reads DbWeight 4)) (db_writes DbWeight 5)\<rparr>"

text \<open>The \<open>#[pallet::weight]\<close> attributes of the calls.\<close>

fun call_weight :: "WeightInfo \<Rightarrow> 'acc Call \<Rightarrow> u64" where
  "call_weight W Call_create = wi_create W"
| "call_weight W (Call_breed k1 k2) = wi_breed W"
| "call_weight W (Call_transfer to k) = wi_transfer W"
| "call_weight W (Call_set_price k p) = wi_set_price W"
| "call_weight W (Call_buy owner k m) = wi_buy W"
| "call_weight W (Call_auto_breed k1 k2 n s) = 1000"


section \<open>The contract of the trait\<close>

text \<open>
  Reads and writes the benchmarks counted for each call; \<open>auto_breed\<close> was not benchmarked and has
  none on record.
\<close>

fun db_cost :: "db_weight \<Rightarrow> 'acc Call \<Rightarrow> nat" where
  "db_cost D Call_create = unat (db_reads D 5) + unat (db_writes D 4)"
| "db_cost D (Call_breed k1 k2) = unat (db_reads D 7) + unat (db_writes D 4)"
| "db_cost D (Call_transfer to k) = unat (db_reads D 2) + unat (db_writes D 4)"
| "db_cost D (Call_set_price k p) = unat (db_reads D 3) + unat (db_writes D 1)"
| "db_cost D (Call_buy owner k m) = unat (db_reads D 4) + unat (db_writes D 5)"
| "db_cost D (Call_auto_breed k1 k2 n s) = 0"

lemma unat_weight:
  "unat (saturating_add (saturating_add a b) c) = min (unat a + (unat b + unat c)) (2 ^ 64 - 1)" for a b c :: u64
  by (simp add: unat_saturating_add min_def)

locale weight_info =
  fixes W :: "db_weight \<Rightarrow> WeightInfo"
    and base :: "'acc Call \<Rightarrow> nat"
  assumes weight_eq: "(\<forall>k1 k2 n s. call \<noteq> Call_auto_breed k1 k2 n s) \<Longrightarrow>
      unat (call_weight (W D) call) = min (base call + db_cost D call) (2 ^ 64 - 1)"
begin

lemma covers_db: "db_cost D call < 2 ^ 64 \<Longrightarrow> db_cost D call \<le> unat (call_weight (W D) call)" for call :: "'acc Call"
  using weight_eq [of call D] by (cases call) (auto simp: min_def)

lemma exact_below_limit:
  "(\<forall>k1 k2 n s. call \<noteq> Call_auto_breed k1 k2 n s) \<Longrightarrow> base call + db_cost D call < 2 ^ 64 \<Longrightarrow>
   unat (call_weight (W D) call) = base call + db_cost D call"
  by (simp add: weight_eq)

lemma weight_mono:
  "(\<forall>k1 k2 n s. call \<noteq> Call_auto_breed k1 k2 n s) \<Longrightarrow> db_cost D call \<le> db_cost D' call \<Longrightarrow>
   call_weight (W D) call \<le> call_weight (W D') call" for call :: "'acc Call"
  by (simp add: word_le_nat_alt weight_eq)

end

fun pallet_base :: "'acc Call \<Rightarrow> nat" where
  "pallet_base Call_create = 37000000"
| "pallet_base (Call_breed k1 k2) = 45000000"
| "pallet_base (Call_transfer to k) = 27000000"
| "pallet_base (Call_set_price k p) = 23000000"
| "pallet_base (Call_buy owner k m) = 70000000"
| "pallet_base (Call_auto_breed k1 k2 n s) = 0"

fun runtime_base :: "'acc Call \<Rightarrow> nat" where
  "runtime_base Call_create = 36000000"
| "runtime_base (Call_breed k1 k2) = 46000000"
| "runtime_base (Call_transfer to k) = 26000000"
| "runtime_base (Call_set_price k p) = 21000000"
| "runtime_base (Call_buy owner k m) = 67000000"
| "runtime_base (Call_auto_breed k1 k2 n s) = 0"

interpretation substrate: weight_info SubstrateWeight pallet_base
  by (unfold_locales, case_tac call) (simp_all add: SubstrateWeight_def unat_weight)

interpretation unit_weights: weight_info unit_WeightInfo pallet_base
  by (unfold_locales, case_tac call) (simp_all add: unit_WeightInfo_def unat_weight)

interpretation runtime_weights: weight_info runtime_WeightInfo runtime_base
  by (unfold_locales, case_tac call) (simp_all add: runtime_WeightInfo_def unat_weight)


section \<open>Properties\<close>

text \<open>
  C34: In all three implementations the weight of every benchmarked call is its measured base plus the
  cost of its database reads and writes, capped at the largest \<open>u64\<close>: it never wraps around to a small
  weight, and it always covers the database cost. The test implementation for \<open>()\<close> is
  \<open>SubstrateWeight\<close> at the RocksDB weights.
\<close>

theorem weights_never_wrap:
  assumes "\<forall>k1 k2 n s. call \<noteq> Call_auto_breed k1 k2 n s"
  shows "unat (call_weight (SubstrateWeight D) call) = min (pallet_base call + db_cost D call) (2 ^ 64 - 1) \<and>
    unat (call_weight (runtime_WeightInfo D) call) = min (runtime_base call + db_cost D call) (2 ^ 64 - 1) \<and>
    unit_WeightInfo D = SubstrateWeight D"
  using substrate.weight_eq [OF assms] runtime_weights.weight_eq [OF assms]
  by (simp add: unit_WeightInfo_def SubstrateWeight_def)

definition sample_db_weight :: db_weight where
  "sample_db_weight = \<lparr>db_reads = (\<lambda>n. 25 * n), db_writes = (\<lambda>n. 100 * n),
     db_reads_writes = (\<lambda>r w. 25 * r + 100 * w)\<rparr>"

theorem weights_never_wrap_witness:
  "unat (call_weight (runtime_WeightInfo sample_db_weight) (Call_buy (1 :: nat) 0 5)) = 67000600"
  using weights_never_wrap [of "Call_buy 1 0 5" sample_db_weight]
  by (simp add: sample_db_weight_def)

text \<open>
  C35: \<open>auto_breed\<close> does the work of \<open>breed\<close> for a fixed weight of 1000: in the runtime's weights
  it costs less than any other call, at most a twenty-one-thousandth of the cheapest one, whatever
  the database weights are.
\<close>

theorem auto_breed_underweight:
  assumes "\<forall>k1 k2 n s. call \<noteq> Call_auto_breed k1 k2 n s"
  shows "unat (call_weight (runtime_WeightInfo D) (Call_auto_breed t1 t2 nonce solution)) * 21000 \<le>
    unat (call_weight (runtime_WeightInfo D) call)"
proof -
  have "21000000 \<le> runtime_base call" using assms by (cases call) simp_all
  then show ?thesis
    unfolding runtime_weights.weight_eq [OF assms] by simp
qed

theorem auto_breed_underweight_witness:
  "unat (call_weight (runtime_WeightInfo sample_db_weight) (Call_auto_breed 0 1 0 0 :: nat Call)) * 21000 \<le>
    unat (call_weight (runtime_WeightInfo sample_db_weight) (Call_breed 0 1 :: nat Call))"
  by (rule auto_breed_underweight) simp

end
