(* ===== verification/Template.thy ===== *)
theory Template
  imports Frame Weights
begin

text \<open>
  The template pallet of \<open>src/pallets/template/src/lib.rs\<close>: one optional \<open>u32\<close>, a call that sets it
  and logs an event, and a call that increments it and fails if there is no value or no room.
\<close>

section \<open>The pallet\<close>

datatype 'acc TemplateEvent = SomethingStored u32 'acc

datatype TemplateError = NoneValue | StorageOverflow

record 'acc template_storage =
  something :: "u32 option"
  template_events :: "'acc TemplateEvent list"

type_synonym ('acc, 'e) template_dispatch =
  "'acc template_storage \<Rightarrow> (unit, (TemplateError, 'e) dispatch_error) result \<times> 'acc template_storage"

definition do_something :: "'acc origin \<Rightarrow> u32 \<Rightarrow> ('acc, 'e) template_dispatch" where
  "do_something origin v st =
     attempt (ensure_signed origin, st) (\<lambda>who st.
     let st = st\<lparr>something := Some v\<rparr>;
         st = st\<lparr>template_events := template_events st @ [SomethingStored v who]\<rparr>
     in (Ok (), st))"

definition cause_error :: "'acc origin \<Rightarrow> ('acc, 'e) template_dispatch" where
  "cause_error origin st =
     attempt (ensure_signed origin, st) (\<lambda>_ st.
     case something st of
       None \<Rightarrow> (Err (PalletError NoneValue), st)
     | Some old \<Rightarrow>
         attempt (ok_or (checked_add old 1) (PalletError StorageOverflow), st) (\<lambda>new st.
         (Ok (), st\<lparr>something := Some new\<rparr>)))"

datatype TemplateCall = Call_do_something u32 | Call_cause_error

fun dispatch_template :: "TemplateCall \<Rightarrow> 'acc origin \<Rightarrow> ('acc, 'e) template_dispatch" where
  "dispatch_template (Call_do_something v) origin st = do_something origin v st"
| "dispatch_template Call_cause_error origin st = cause_error origin st"

text \<open>The weight attributes; the addition is Rust's \<open>+\<close> on \<open>u64\<close>.\<close>

fun template_weight :: "db_weight \<Rightarrow> TemplateCall \<Rightarrow> u64" where
  "template_weight D (Call_do_something v) = 10000 + db_writes D 1"
| "template_weight D Call_cause_error = 10000 + db_reads_writes D 1 1"


section \<open>The pallet as a call machine\<close>

definition exec_template :: "'acc origin \<times> TemplateCall \<Rightarrow> 'acc template_storage \<Rightarrow> 'acc template_storage" where
  "exec_template i st =
     snd (dispatch_template (snd i) (fst i) st ::
       (unit, (TemplateError, unit) dispatch_error) result \<times> 'acc template_storage)"

definition template_inv :: "'acc template_storage \<Rightarrow> bool" where
  "template_inv st \<longleftrightarrow> (something st = None \<longleftrightarrow> template_events st = [])"

lemma exec_template_simps [simp]:
  "exec_template (Signed who, Call_do_something v) st =
     st\<lparr>something := Some v, template_events := template_events st @ [SomethingStored v who]\<rparr>"
  "exec_template (Signed who, Call_cause_error) st =
     (case something st of None \<Rightarrow> st
      | Some old \<Rightarrow> (case checked_add old 1 of None \<Rightarrow> st | Some new \<Rightarrow> st\<lparr>something := Some new\<rparr>))"
  "exec_template (Root, c) st = st" "exec_template (NoOrigin, c) st = st"
  by (cases c; simp add: exec_template_def do_something_def cause_error_def Let_def split: option.splits)+

interpretation template: call_machine exec_template template_inv
proof
  fix st :: "'a template_storage" and i
  show "template_inv st \<Longrightarrow> template_inv (exec_template i st)"
    by (cases i rule: prod.exhaust; cases "fst i"; cases "snd i")
      (auto simp: template_inv_def split: option.splits)
qed


section \<open>Properties\<close>

text \<open>
  The exact behaviour of \<open>cause_error\<close>: without a signature \<open>BadOrigin\<close>, without a value
  \<open>NoneValue\<close>, at \<open>u32::MAX\<close> \<open>StorageOverflow\<close>, each changing nothing; otherwise the stored value
  grows by exactly one, with no wrap-around and no event.
\<close>

theorem cause_error_behaviour:
  "cause_error origin st =
    (case origin of
       Signed who \<Rightarrow>
         (case something st of
            None \<Rightarrow> (Err (PalletError NoneValue), st)
          | Some old \<Rightarrow> if old = - 1 then (Err (PalletError StorageOverflow), st)
                        else (Ok (), st\<lparr>something := Some (old + 1)\<rparr>))
     | _ \<Rightarrow> (Err BadOrigin, st)) \<and>
   (\<forall>old. old \<noteq> - 1 \<longrightarrow> unat (old + 1 :: u32) = unat old + 1)"
proof
  show "cause_error origin st =
    (case origin of
       Signed who \<Rightarrow>
         (case something st of
            None \<Rightarrow> (Err (PalletError NoneValue), st)
          | Some old \<Rightarrow> if old = - 1 then (Err (PalletError StorageOverflow), st)
                        else (Ok (), st\<lparr>something := Some (old + 1)\<rparr>))
     | _ \<Rightarrow> (Err BadOrigin, st))"
    by (auto simp: cause_error_def checked_add_one split: origin.splits option.splits)
  show "\<forall>old. old \<noteq> - 1 \<longrightarrow> unat (old + 1 :: u32) = unat old + 1"
    by (simp add: unat_plus_one)
qed

theorem cause_error_behaviour_witness:
  "cause_error (Signed 1) \<lparr>something = Some 41, template_events = []\<rparr> =
     (Ok () :: (unit, (TemplateError, unit) dispatch_error) result, \<lparr>something = Some 42, template_events = ([] :: nat TemplateEvent list)\<rparr>)"
  by (rule trans [OF cause_error_behaviour [THEN conjunct1]]) simp

text \<open>A sequence of calls with all their results.\<close>

fun run_template ::
  "('acc origin \<times> TemplateCall) list \<Rightarrow> 'acc template_storage \<Rightarrow>
   (unit, (TemplateError, 'e) dispatch_error) result list \<times> 'acc template_storage" where
  "run_template [] st = ([], st)"
| "run_template ((origin, call) # is) st =
     (case dispatch_template call origin st of
        (r, st) \<Rightarrow> (case run_template is st of (rs, st) \<Rightarrow> (r # rs, st)))"

lemma run_cause_error:
  fixes st :: "'acc template_storage"
  assumes "something st = Some w"
  shows "(run_template (replicate n (Signed who, Call_cause_error)) st ::
      (unit, (TemplateError, 'e) dispatch_error) result list \<times> 'acc template_storage) =
    (replicate (min n (2 ^ 32 - 1 - unat w)) (Ok ()) @
       replicate (n - (2 ^ 32 - 1 - unat w)) (Err (PalletError StorageOverflow)),
     st\<lparr>something := Some (of_nat (min (unat w + n) (2 ^ 32 - 1)))\<rparr>)"
  using assms
proof (induction n arbitrary: st w)
  case 0
  have "min (unat w) (2 ^ 32 - 1) = unat w" using unat_bound [of w] by simp
  then show ?case using 0 by (cases st) simp
next
  case (Suc n)
  show ?case
  proof (cases "w = - 1")
    case True
    then have "unat w = 2 ^ 32 - 1" using unat_max_word [where 'a = 32] by simp
    then show ?thesis
      using Suc.IH [OF Suc.prems] Suc.prems True by (simp add: cause_error_def checked_add_one)
  next
    case False
    then have u: "unat (w + 1) = unat w + 1" by (rule unat_plus_one)
    have r: "2 ^ 32 - 1 - unat w = Suc (2 ^ 32 - 1 - unat (w + 1))"
      using unat_bound [of "w + 1"] u by simp
    let ?step = "\<lambda>r. case r of (rs, st) \<Rightarrow> (Ok () # rs, st)"
    have "run_template (replicate (Suc n) (Signed who, Call_cause_error)) st =
        (?step (run_template (replicate n (Signed who, Call_cause_error)) (st\<lparr>something := Some (w + 1)\<rparr>)) ::
           (unit, (TemplateError, 'e) dispatch_error) result list \<times> 'acc template_storage)"
      using Suc.prems False by (simp add: cause_error_def checked_add_one)
    moreover note Suc.IH [of "st\<lparr>something := Some (w + 1)\<rparr>" "w + 1"]
    ultimately show ?thesis unfolding r by (simp add: u)
  qed
qed

text \<open>
  C32: Before there is a value, every signed \<open>cause_error\<close> returns \<open>NoneValue\<close> and changes nothing. After a
  \<open>do_something\<close> with a value, \<open>n\<close> of them count up from it: each returns \<open>Ok\<close> while the sum fits into \<open>u32\<close>, and
  from then on every one returns \<open>StorageOverflow\<close> and the value stays at \<open>u32::MAX\<close>; only the first call logs an event.
\<close>

theorem template_counts:
  assumes "something st0 = None"
  shows "run_template (replicate n (Signed who', Call_cause_error)) st0 =
      (replicate n (Err (PalletError NoneValue)), st0) \<and>
    run_template ((Signed who, Call_do_something v) # replicate n (Signed who', Call_cause_error)) st =
      (Ok () # replicate (min n (2 ^ 32 - 1 - unat v)) (Ok ()) @
         replicate (n - (2 ^ 32 - 1 - unat v)) (Err (PalletError StorageOverflow)),
       \<lparr>something = Some (of_nat (min (unat v + n) (2 ^ 32 - 1))),
        template_events = template_events st @ [SomethingStored v who]\<rparr>)"
proof
  show "run_template (replicate n (Signed who', Call_cause_error)) st0 =
      (replicate n (Err (PalletError NoneValue)), st0)"
    using assms by (induction n) (simp_all add: cause_error_def)
qed (simp add: do_something_def run_cause_error)

theorem template_counts_witness:
  "run_template ((Signed (7 :: nat), Call_do_something 4294967295) # replicate (Suc (Suc 0)) (Signed 8, Call_cause_error))
     \<lparr>something = None, template_events = []\<rparr> =
   ([Ok (), Err (PalletError StorageOverflow), Err (PalletError StorageOverflow)] ::
      (unit, (TemplateError, unit) dispatch_error) result list,
    \<lparr>something = Some 4294967295, template_events = [SomethingStored 4294967295 7]\<rparr>)"
proof -
  note template_counts [of "\<lparr>something = None, template_events = []\<rparr>" "Suc (Suc 0)" "8 :: nat" 7 4294967295
      "\<lparr>something = None, template_events = []\<rparr>", THEN conjunct2]
  then show ?thesis by (simp del: run_template.simps replicate.simps) simp
qed

text \<open>
  In every state the pallet reaches from one that satisfies it, a value is stored exactly if an
  event has been logged: only \<open>do_something\<close> makes the first value.
\<close>

theorem template_value_logged:
  assumes "something st = None \<longleftrightarrow> template_events st = []"
  shows "something (run_calls exec_template is st) = None \<longleftrightarrow> template_events (run_calls exec_template is st) = []"
  using template.inv_run [of st "is"] assms by (simp add: template_inv_def)

theorem template_value_logged_witness:
  "something (run_calls exec_template [(Signed (1 :: nat), Call_cause_error)] \<lparr>something = None, template_events = []\<rparr>) = None"
  using template_value_logged [of "\<lparr>something = None, template_events = []\<rparr>" "[(Signed (1 :: nat), Call_cause_error)]"]
  by simp

end
