(* ===== verification/Runtime.thy ===== *)
theory Runtime
  imports Kitties_Ledger Template
begin

text \<open>
  The runtime of \<open>src/runtime/src/lib.rs\<close>: its version, its time and economic constants, the
  configuration it gives to the kitties pallet, the pallets it is composed of with the parts of each
  (\<open>construct_runtime!\<close>), and the dispatch of a runtime call and the validation of an unsigned one that
  follow from this composition. The calls of the pallets that are not in the repository are an
  opaque type \<open>'o\<close> with their dispatch as a parameter.
\<close>

section \<open>Version and constants\<close>

record 'apis RuntimeVersion =
  spec_name :: string
  impl_name :: string
  authoring_version :: u32
  spec_version :: u32
  impl_version :: u32
  apis :: 'apis
  transaction_version :: u32

definition VERSION :: "'apis \<Rightarrow> 'apis RuntimeVersion" where
  "VERSION RUNTIME_API_VERSIONS =
     \<lparr>spec_name = ''node-template'', impl_name = ''node-template'', authoring_version = 1,
      spec_version = 100, impl_version = 1, apis = RUNTIME_API_VERSIONS, transaction_version = 1\<rparr>"

record ('apis, 'ver) NativeVersion =
  runtime_version :: "'apis RuntimeVersion"
  can_author_with :: "'ver list"

definition native_version :: "'apis \<Rightarrow> ('apis, 'ver) NativeVersion" where
  "native_version api_versions = \<lparr>runtime_version = VERSION api_versions, can_author_with = []\<rparr>"

definition MILLISECS_PER_BLOCK :: u64 where "MILLISECS_PER_BLOCK = 2000"

definition SLOT_DURATION :: u64 where "SLOT_DURATION = MILLISECS_PER_BLOCK"

definition MINUTES :: u32 where "MINUTES = 60000 div ucast MILLISECS_PER_BLOCK"

definition HOURS :: u32 where "HOURS = MINUTES * 60"

definition DAYS :: u32 where "DAYS = HOURS * 24"

definition BlockHashCount :: u32 where "BlockHashCount = 2400"

definition SS58Prefix :: u8 where "SS58Prefix = 42"

text \<open>
  The arguments of \<open>BlockWeights::with_sensible_defaults\<close> and \<open>BlockLength::max_with_normal_ratio\<close>; the
  normal ratio is a percentage, \<open>WEIGHT_PER_SECOND\<close> a constant of \<open>frame_support\<close>.
\<close>

definition NORMAL_DISPATCH_RATIO :: nat where "NORMAL_DISPATCH_RATIO = 75"

definition BlockWeights_args :: "u64 \<Rightarrow> u64 \<times> nat" where
  "BlockWeights_args WEIGHT_PER_SECOND = (2 * WEIGHT_PER_SECOND, NORMAL_DISPATCH_RATIO)"

definition BlockLength_args :: "u32 \<times> nat" where
  "BlockLength_args = (5 * 1024 * 1024, NORMAL_DISPATCH_RATIO)"

definition MinimumPeriod :: u64 where "MinimumPeriod = SLOT_DURATION div 2"

definition ExistentialDeposit :: u128 where "ExistentialDeposit = 500"

definition MaxLocks :: u32 where "MaxLocks = 50"

definition TransactionByteFee :: u128 where "TransactionByteFee = 1"

definition DefaultDifficulty :: u32 where "DefaultDifficulty = 100000"

definition MaxClassMetadata :: u32 where "MaxClassMetadata = 0"

definition MaxTokenMetadata :: u32 where "MaxTokenMetadata = 0"

text \<open>\<open>impl pallet_kitties::Config for Runtime\<close>: the external parts stay parameters.\<close>

definition runtime_kitties ::
  "('acc, 'n, 'c, 'sys, 'e) kitties_config \<Rightarrow> ('acc, 'n, 'c, 'sys, 'e) kitties_config" where
  "runtime_kitties T = T\<lparr>default_difficulty := DefaultDifficulty\<rparr>"

definition runtime_call_weight :: "db_weight \<Rightarrow> 'acc Call \<Rightarrow> u64" where
  "runtime_call_weight RocksDbWeight call = call_weight (runtime_WeightInfo RocksDbWeight) call"


section \<open>Composition of the runtime\<close>

datatype pallet =
    System | RandomnessCollectiveFlip | Timestamp | Aura | Grandpa | Balances | TransactionPayment
  | Sudo | TemplateModule | Kitties | Nft

datatype part = PalletPart | CallPart | ConfigPart | StoragePart | EventPart | InherentPart | ValidateUnsignedPart

fun parts :: "pallet \<Rightarrow> part list" where
  "parts System = [PalletPart, CallPart, ConfigPart, StoragePart, EventPart]"
| "parts RandomnessCollectiveFlip = [PalletPart, StoragePart]"
| "parts Timestamp = [PalletPart, CallPart, StoragePart, InherentPart]"
| "parts Aura = [PalletPart, ConfigPart]"
| "parts Grandpa = [PalletPart, CallPart, StoragePart, ConfigPart, EventPart]"
| "parts Balances = [PalletPart, CallPart, StoragePart, ConfigPart, EventPart]"
| "parts TransactionPayment = [PalletPart, StoragePart]"
| "parts Sudo = [PalletPart, CallPart, ConfigPart, StoragePart, EventPart]"
| "parts TemplateModule = [PalletPart, CallPart, StoragePart, EventPart]"
| "parts Kitties = [PalletPart, StoragePart, CallPart, EventPart, ConfigPart, ValidateUnsignedPart]"
| "parts Nft = [PalletPart, StoragePart, ConfigPart]"

datatype ('acc, 'o) RuntimeCall =
    SystemCall 'o | TimestampCall 'o | GrandpaCall 'o | BalancesCall 'o | SudoCall 'o
  | TemplateModuleCall TemplateCall | KittiesCall "'acc Call"

fun pallet_of :: "('acc, 'o) RuntimeCall \<Rightarrow> pallet" where
  "pallet_of (SystemCall c) = System"
| "pallet_of (TimestampCall c) = Timestamp"
| "pallet_of (GrandpaCall c) = Grandpa"
| "pallet_of (BalancesCall c) = Balances"
| "pallet_of (SudoCall c) = Sudo"
| "pallet_of (TemplateModuleCall c) = TemplateModule"
| "pallet_of (KittiesCall c) = Kitties"

lemma pallet_of_callable: "CallPart \<in> set (parts (pallet_of call))"
  by (cases call) simp_all

record ('acc, 'n, 'c, 'sys, 'r) runtime_storage =
  rt_kitties :: "('acc, 'n, 'c, 'sys) kitties_storage"
  rt_template :: "'acc template_storage"
  rt_other :: 'r

datatype 'e RuntimeError =
    KittiesError "'e kitties_error" | TemplateModuleError "(TemplateError, 'e) dispatch_error" | OtherError 'e

type_synonym ('acc, 'n, 'c, 'sys, 'r, 'e) runtime_dispatch =
  "('acc, 'n, 'c, 'sys, 'r) runtime_storage \<Rightarrow>
   (unit, 'e RuntimeError) result \<times> ('acc, 'n, 'c, 'sys, 'r) runtime_storage"

text \<open>\<open>other p c origin\<close> dispatches call \<open>c\<close> of a pallet \<open>p\<close> outside the repository.\<close>

fun dispatch_runtime ::
  "('acc, 'n, 'c, 'sys, 'e) kitties_config \<Rightarrow>
   (pallet \<Rightarrow> 'o \<Rightarrow> 'acc origin \<Rightarrow> ('acc, 'n, 'c, 'sys, 'r, 'e) runtime_dispatch) \<Rightarrow>
   ('acc, 'o) RuntimeCall \<Rightarrow> 'acc origin \<Rightarrow> ('acc, 'n, 'c, 'sys, 'r, 'e) runtime_dispatch" where
  "dispatch_runtime T other (KittiesCall c) origin rs =
     (case dispatch_call (runtime_kitties T) c origin (rt_kitties rs) of
        (r, st) \<Rightarrow> (map_err KittiesError r, rs\<lparr>rt_kitties := st\<rparr>))"
| "dispatch_runtime T other (TemplateModuleCall c) origin rs =
     (case dispatch_template c origin (rt_template rs) of
        (r, st) \<Rightarrow> (map_err TemplateModuleError r, rs\<lparr>rt_template := st\<rparr>))"
| "dispatch_runtime T other (SystemCall c) origin rs = other System c origin rs"
| "dispatch_runtime T other (TimestampCall c) origin rs = other Timestamp c origin rs"
| "dispatch_runtime T other (GrandpaCall c) origin rs = other Grandpa c origin rs"
| "dispatch_runtime T other (BalancesCall c) origin rs = other Balances c origin rs"
| "dispatch_runtime T other (SudoCall c) origin rs = other Sudo c origin rs"

text \<open>
  Unsigned validation goes to the validators of the pallets listed with \<open>ValidateUnsigned\<close>; a call of
  any other pallet has no validator (\<open>None\<close> in the result).
\<close>

definition validate_unsigned_runtime ::
  "('acc, 'n, 'c, 'sys, 'e) kitties_config \<Rightarrow> TransactionSource \<Rightarrow> ('acc, 'o) RuntimeCall \<Rightarrow>
   ('acc, 'n, 'c, 'sys, 'r) runtime_storage \<Rightarrow>
   (ValidTransaction, InvalidTransaction option) result option \<times> ('acc, 'n, 'c, 'sys, 'r) runtime_storage" where
  "validate_unsigned_runtime T source call rs =
     (case call of
        KittiesCall c \<Rightarrow>
          (case validate_unsigned (runtime_kitties T) source c (rt_kitties rs) of
             (r, st) \<Rightarrow> (map_option (map_err Some) r, rs\<lparr>rt_kitties := st\<rparr>))
      | _ \<Rightarrow> (Some (Err None), rs))"


text \<open>
  Before an unsigned extrinsic is dispatched in a block, its \<open>pre_dispatch\<close> is asked: that of the kitties pallet is
  the default one of \<open>ValidateUnsigned\<close>, its own validation with the source \<open>InBlock\<close>, whose writes stay; a pallet without a
  validator lets the extrinsic pass, since that is how inherents (the timestamp of every block) get through.
\<close>

definition pre_dispatch_runtime ::
  "('acc, 'n, 'c, 'sys, 'e) kitties_config \<Rightarrow> ('acc, 'o) RuntimeCall \<Rightarrow>
   ('acc, 'n, 'c, 'sys, 'r) runtime_storage \<Rightarrow>
   (unit, InvalidTransaction) result option \<times> ('acc, 'n, 'c, 'sys, 'r) runtime_storage" where
  "pre_dispatch_runtime T call rs =
     (case call of
        KittiesCall c \<Rightarrow>
          (case validate_unsigned (runtime_kitties T) InBlock c (rt_kitties rs) of
             (None, st) \<Rightarrow> (None, rs\<lparr>rt_kitties := st\<rparr>)
           | (Some (Err e), st) \<Rightarrow> (Some (Err e), rs\<lparr>rt_kitties := st\<rparr>)
           | (Some (Ok v), st) \<Rightarrow> (Some (Ok ()), rs\<lparr>rt_kitties := st\<rparr>))
      | _ \<Rightarrow> (Some (Ok ()), rs))"

text \<open>A validation that does not accept changes nothing.\<close>

lemma validate_unsigned_runtime_rejects:
  assumes "validate_unsigned_runtime T source call rs = (r, rs')" "\<forall>v. r \<noteq> Some (Ok v)"
  shows "rs' = rs"
  using assms
  by (cases call; (cases "case call of KittiesCall c \<Rightarrow> c")?)
    (auto simp: validate_unsigned_runtime_def validate_unsigned_def split: option.splits bool.splits if_splits)


section \<open>Configuration of the pallets\<close>

text \<open>
  The \<open>Config\<close> implementations for the runtime: the constants they provide, and the pallets they wire to each other
  (which pallet stores accounts, follows the timestamp, provides randomness and currency). Weight
  information and event types of the foreign pallets, and the associated types that are the unit type's
  trivial implementation, carry no value.
\<close>

record 'apis system_config =
  cfg_BlockWeights :: "u64 \<times> nat"
  cfg_BlockLength :: "u32 \<times> nat"
  cfg_BlockHashCount :: u32
  cfg_DbWeight :: db_weight
  cfg_Version :: "'apis RuntimeVersion"
  cfg_SS58Prefix :: u8

definition system_Config :: "db_weight \<Rightarrow> u64 \<Rightarrow> 'apis \<Rightarrow> 'apis system_config" where
  "system_Config RocksDbWeight WEIGHT_PER_SECOND api_versions =
     \<lparr>cfg_BlockWeights = BlockWeights_args WEIGHT_PER_SECOND, cfg_BlockLength = BlockLength_args,
      cfg_BlockHashCount = BlockHashCount, cfg_DbWeight = RocksDbWeight, cfg_Version = VERSION api_versions,
      cfg_SS58Prefix = SS58Prefix\<rparr>"

record timestamp_config =
  cfg_OnTimestampSet :: pallet
  cfg_MinimumPeriod :: u64

definition timestamp_Config :: timestamp_config where
  "timestamp_Config = \<lparr>cfg_OnTimestampSet = Aura, cfg_MinimumPeriod = MinimumPeriod\<rparr>"

record balances_config =
  cfg_MaxLocks :: u32
  cfg_ExistentialDeposit :: u128
  cfg_AccountStore :: pallet

definition balances_Config :: balances_config where
  "balances_Config =
     \<lparr>cfg_MaxLocks = MaxLocks, cfg_ExistentialDeposit = ExistentialDeposit, cfg_AccountStore = System\<rparr>"

text \<open>\<open>IdentityFee\<close> charges one unit of balance per unit of weight.\<close>

record payment_config =
  cfg_OnChargeTransaction :: pallet
  cfg_TransactionByteFee :: u128
  cfg_WeightToFee :: "u64 \<Rightarrow> u128"

definition payment_Config :: payment_config where
  "payment_Config =
     \<lparr>cfg_OnChargeTransaction = Balances, cfg_TransactionByteFee = TransactionByteFee,
      cfg_WeightToFee = (\<lambda>w. ucast w)\<rparr>"

record kitties_wiring =
  cfg_Randomness :: pallet
  cfg_Currency :: pallet
  cfg_WeightInfo :: WeightInfo
  cfg_DefaultDifficulty :: u32

definition kitties_Config :: "db_weight \<Rightarrow> kitties_wiring" where
  "kitties_Config RocksDbWeight =
     \<lparr>cfg_Randomness = RandomnessCollectiveFlip, cfg_Currency = Balances,
      cfg_WeightInfo = runtime_WeightInfo RocksDbWeight, cfg_DefaultDifficulty = DefaultDifficulty\<rparr>"

record nft_config =
  cfg_MaxClassMetadata :: u32
  cfg_MaxTokenMetadata :: u32

definition nft_Config :: nft_config where
  "nft_Config = \<lparr>cfg_MaxClassMetadata = MaxClassMetadata, cfg_MaxTokenMetadata = MaxTokenMetadata\<rparr>"

text \<open>
  The wiring fits: every pallet another one is wired to is part of the runtime with the storage it needs, the class
  and the tokens of the kitties pallet (which have empty metadata) respect the metadata limits, and fees
  never wrap, since a weight fits a balance.
\<close>

lemma wired_pallets_stored:
  "StoragePart \<in> set (parts (cfg_AccountStore balances_Config))"
  "StoragePart \<in> set (parts (cfg_Randomness (kitties_Config D)))"
  "StoragePart \<in> set (parts (cfg_Currency (kitties_Config D)))"
  "cfg_Currency (kitties_Config D) = cfg_OnChargeTransaction payment_Config"
  by (simp_all add: balances_Config_def kitties_Config_def payment_Config_def)

lemma unat_weight_fee: "unat (cfg_WeightToFee payment_Config w) = unat w"
proof -
  have "unat w < 2 ^ 128" by (rule order_less_le_trans [OF unat_bound]) simp
  then show ?thesis by (simp add: payment_Config_def unsigned_ucast_eq take_bit_nat_eq_self)
qed


section \<open>The runtime as a call machine\<close>

datatype ('acc, 'o) runtime_input =
    RuntimeDispatch "'acc origin" "('acc, 'o) RuntimeCall"
  | RuntimeValidate TransactionSource "('acc, 'o) RuntimeCall"

fun exec_runtime ::
  "('acc, 'n, 'c, 'sys, 'e) kitties_config \<Rightarrow>
   (pallet \<Rightarrow> 'o \<Rightarrow> 'acc origin \<Rightarrow> ('acc, 'n, 'c, 'sys, 'r, 'e) runtime_dispatch) \<Rightarrow>
   ('acc, 'o) runtime_input \<Rightarrow> ('acc, 'n, 'c, 'sys, 'r) runtime_storage \<Rightarrow>
   ('acc, 'n, 'c, 'sys, 'r) runtime_storage" where
  "exec_runtime T other (RuntimeDispatch origin call) rs = snd (dispatch_runtime T other call origin rs)"
| "exec_runtime T other (RuntimeValidate source call) rs = snd (validate_unsigned_runtime T source call rs)"

text \<open>
  The other pallets reach the kitties pallet only the way anybody does: by its calls (as \<open>Sudo\<close> does
  when it dispatches a nested call), its validator, or by moving balances and advancing the chain.
\<close>

definition others_respect_kitties ::
  "('acc, 'n, 'c, 'sys, 'e) kitties_config \<Rightarrow>
   (pallet \<Rightarrow> 'o \<Rightarrow> 'acc origin \<Rightarrow> ('acc, 'n, 'c, 'sys, 'r, 'e) runtime_dispatch) \<Rightarrow> bool" where
  "others_respect_kitties T other \<longleftrightarrow>
     (\<forall>p c origin rs. \<exists>is. rt_kitties (snd (other p c origin rs)) =
        run_calls (exec_input (runtime_kitties T)) is (rt_kitties rs))"

lemma runtime_kitties_simps [simp]:
  "default_difficulty (runtime_kitties T) = DefaultDifficulty"
  "nft_create_class (runtime_kitties T) = nft_create_class T"
  "nft_mint (runtime_kitties T) = nft_mint T"
  "nft_transfer (runtime_kitties T) = nft_transfer T"
  "nft_tokens (runtime_kitties T) = nft_tokens T"
  "nft_tokens_by_owner (runtime_kitties T) = nft_tokens_by_owner T"
  "nft_next_token_id (runtime_kitties T) = nft_next_token_id T"
  "currency_transfer (runtime_kitties T) = currency_transfer T"
  "encode_solution (runtime_kitties T) = encode_solution T"
  "blake2_128 (runtime_kitties T) = blake2_128 T"
  "default_account (runtime_kitties T) = default_account T"
  by (simp_all add: runtime_kitties_def)

lemma runtime_random_value [simp]: "random_value (runtime_kitties T) = random_value T"
  by (simp add: random_value_def runtime_kitties_def fun_eq_iff)

lemma random_value_nonce [simp]: "random_value T (st\<lparr>auto_breed_nonce := k\<rparr>) = random_value T st"
  by (simp add: random_value_def fun_eq_iff)

lemma runtime_contracts [simp]:
  "nft_contract (runtime_kitties T) V \<longleftrightarrow> nft_contract T V"
  "hash_contract (runtime_kitties T) \<longleftrightarrow> hash_contract T"
  by (simp_all only: nft_contract_def nft_class_contract_def nft_mint_contract_def
      nft_transfer_contract_def nft_index_contract_def hash_contract_def runtime_kitties_simps)

lemma runtime_inv [simp]: "kitties_inv (runtime_kitties T) V st \<longleftrightarrow> kitties_inv T V st"
  by (simp only: kitties_inv_def store_inv_def runtime_contracts runtime_kitties_simps)

text \<open>Whatever the runtime executes, the kitties storage moves by inputs of the kitties pallet.\<close>

lemma exec_runtime_kitties:
  assumes "others_respect_kitties T other"
  shows "\<exists>is. rt_kitties (exec_runtime T other i rs) =
    run_calls (exec_input (runtime_kitties T)) is (rt_kitties rs)"
proof (cases i)
  case (RuntimeDispatch origin call)
  have other: "\<exists>is. rt_kitties (snd (other p c origin rs)) =
      run_calls (exec_input (runtime_kitties T)) is (rt_kitties rs)" for p c
    using assms by (simp add: others_respect_kitties_def)
  show ?thesis
  proof (cases call)
    case (KittiesCall c)
    then show ?thesis
      by (intro exI [of _ "[Dispatch origin c]"]) (simp add: RuntimeDispatch split: prod.splits)
  next
    case (TemplateModuleCall c)
    then show ?thesis by (intro exI [of _ "[]"]) (simp add: RuntimeDispatch split: prod.splits)
  qed (use other RuntimeDispatch in simp_all)
next
  case (RuntimeValidate source call)
  show ?thesis
  proof (cases call)
    case (KittiesCall c)
    then show ?thesis
      by (intro exI [of _ "[Validate source c]"])
        (simp add: RuntimeValidate validate_unsigned_runtime_def split: prod.splits)
  qed (auto simp: RuntimeValidate validate_unsigned_runtime_def intro: exI [of _ "[]"])
qed

lemma run_runtime_kitties:
  assumes "others_respect_kitties T other"
  shows "\<exists>js. rt_kitties (run_calls (exec_runtime T other) is rs) =
    run_calls (exec_input (runtime_kitties T)) js (rt_kitties rs)"
proof (induction "is" arbitrary: rs)
  case Nil
  then show ?case by (intro exI [of _ "[]"]) simp
next
  case (Cons i "is")
  obtain js where "rt_kitties (exec_runtime T other i rs) =
      run_calls (exec_input (runtime_kitties T)) js (rt_kitties rs)"
    using exec_runtime_kitties [OF assms] by blast
  moreover obtain ks where "rt_kitties (run_calls (exec_runtime T other) is (exec_runtime T other i rs)) =
      run_calls (exec_input (runtime_kitties T)) ks (rt_kitties (exec_runtime T other i rs))"
    using Cons.IH by blast
  ultimately show ?case by (intro exI [of _ "js @ ks"]) simp
qed

interpretation runtime: call_machine "exec_runtime T other"
  "\<lambda>rs. others_respect_kitties T other \<and> kitties_inv (runtime_kitties T) V (rt_kitties rs)" for T other V
proof
  fix rs :: "('a, 'b, 'c, 'd, 'g) runtime_storage" and i
  assume "others_respect_kitties T other \<and> kitties_inv (runtime_kitties T) V (rt_kitties rs)"
  then show "others_respect_kitties T other \<and>
      kitties_inv (runtime_kitties T) V (rt_kitties (exec_runtime T other i rs))"
    using exec_runtime_kitties [of T other i rs] pallet.inv_run [of "runtime_kitties T" V "rt_kitties rs"] by metis
qed

end
