(* ===== verification/Offchain.thy ===== *)
theory Offchain
  imports Kitties_Machine
begin

text \<open>
  The off-chain worker of the kitties pallet (\<open>src/pallets/kitties/src/lib.rs\<close>, lines 137 to 142 and
  325 to 374): it takes a storage lock, draws pairs of kitties until it finds two of different
  gender, searches a solution of the proof of work for them, and submits an unsigned
  \<open>auto_breed\<close>. Both searches share one budget of 500 iterations.

  The record \<open>offchain_host\<close> holds what the node provides: the storage lock, the random
  seed, the ChaCha generator and the submission of an extrinsic, on the node's off-chain storage
  \<open>'off\<close>. The worker reads the chain's storage and never writes it. Its loops are total functions on
  the source's \<open>u128\<close> counters.
\<close>

section \<open>The worker\<close>

record ('acc, 'off, 'rng) offchain_host =
  try_lock :: "string \<Rightarrow> u32 \<Rightarrow> 'off \<Rightarrow> bool \<times> 'off"
  unlock :: "string \<Rightarrow> 'off \<Rightarrow> 'off"
  host_random_seed :: "'off \<Rightarrow> u8 list \<times> 'off"
  rng_from_seed :: "u8 list \<Rightarrow> 'rng"
  rng_next_u32 :: "'rng \<Rightarrow> u32 \<times> 'rng"
  submit_unsigned :: "'acc Call \<Rightarrow> 'off \<Rightarrow> bool \<times> 'off"

record ('acc, 'off) worker_state =
  off_db :: 'off
  submitted :: "'acc Call list"

definition MAX_ITERATIONS :: u128 where
  "MAX_ITERATIONS = 500"

definition lock_key :: string where
  "lock_key = ''kitties/lock''"

text \<open>
  The first loop; \<open>None\<close> is its \<open>Err(())\<close>. It returns the pair of ids, the iterations that are
  left and the generator.
\<close>

function pick_parents ::
  "('acc, 'n, 'c, 'sys, 'e) kitties_config \<Rightarrow> ('acc, 'off, 'rng) offchain_host \<Rightarrow>
   ('acc, 'n, 'c, 'sys) kitties_storage \<Rightarrow> u32 \<Rightarrow> u128 \<Rightarrow> 'rng \<Rightarrow> (u32 \<times> u32 \<times> u128 \<times> 'rng) option" where
  "pick_parents T H st kitty_count remaining_iterations rng =
     (let (r1, rng) = rng_next_u32 H rng;
          kitty_id_1 = r1 mod kitty_count;
          (r2, rng) = rng_next_u32 H rng;
          kitty_id_2 = r2 mod kitty_count
      in case nft_tokens T (nft st) (class_id st) kitty_id_1 of
           None \<Rightarrow> None
         | Some kitty_1 \<Rightarrow>
        (case nft_tokens T (nft st) (class_id st) kitty_id_2 of
           None \<Rightarrow> None
         | Some kitty_2 \<Rightarrow>
           if gender (ti_data kitty_1) \<noteq> gender (ti_data kitty_2)
           then Some (kitty_id_1, kitty_id_2, remaining_iterations, rng)
           else if remaining_iterations - 1 = 0 then None
           else pick_parents T H st kitty_count (remaining_iterations - 1) rng))"
  by pat_completeness auto
termination
proof (relation "measure (\<lambda>(T, H, st, count, remaining, rng). if remaining = 0 then 2 ^ 128 else unat remaining)",
    goal_cases)
  case 1
  then show ?case by simp
next
  case (2 T H st count remaining rng)
  then show ?case
    using unat_max_word [where 'a = 128] unat_minus_one [of remaining] unat_gt_0 [of remaining] by auto
qed

text \<open>
  The second loop: \<open>Some (Some s)\<close> is the first solution found, \<open>Some None\<close> that there is none in
  the range, \<open>None\<close> the panic of the check.
\<close>

function find_solution ::
  "('acc, 'n, 'c, 'sys, 'e) kitties_config \<Rightarrow> u32 \<Rightarrow> u32 \<Rightarrow> u32 \<Rightarrow> u128 \<Rightarrow> u128 \<Rightarrow> u128 \<Rightarrow> u128 option option" where
  "find_solution T kitty_1 kitty_2 nonce solution_prefix i remaining_iterations =
     (if i < remaining_iterations then
        (let solution = push_bit 32 solution_prefix + i in
         case validate_solution T kitty_1 kitty_2 nonce solution of
           None \<Rightarrow> None
         | Some True \<Rightarrow> Some (Some solution)
         | Some False \<Rightarrow> find_solution T kitty_1 kitty_2 nonce solution_prefix (i + 1) remaining_iterations)
      else Some None)"
  by pat_completeness auto
termination
proof (relation "measure (\<lambda>(T, k1, k2, nonce, prefix, i, remaining). unat remaining - unat i)", goal_cases)
  case 1
  then show ?case by simp
next
  case (2 T k1 k2 nonce prefix i remaining)
  then show ?case using less_imp_not_max [of i remaining] by (simp add: unat_plus_one word_less_nat_alt)
qed

definition worker_body ::
  "('acc, 'n, 'c, 'sys, 'e) kitties_config \<Rightarrow> ('acc, 'off, 'rng) offchain_host \<Rightarrow>
   ('acc, 'n, 'c, 'sys) kitties_storage \<Rightarrow> ('acc, 'off) worker_state \<Rightarrow>
   (unit, unit) result option \<times> ('acc, 'off) worker_state" where
  "worker_body T H st w =
     (let (seed, d) = host_random_seed H (off_db w);
          w = w\<lparr>off_db := d\<rparr>;
          rng = rng_from_seed H seed
      in case try_into_u32 (nft_next_token_id T (nft st) (class_id st)) of
           None \<Rightarrow> (Some (Err ()), w)
         | Some kitty_count \<Rightarrow>
        if kitty_count = 0 then (Some (Ok ()), w)
        else let nonce = auto_breed_nonce st in
        (case pick_parents T H st kitty_count MAX_ITERATIONS rng of
           None \<Rightarrow> (Some (Err ()), w)
         | Some (kitty_1, kitty_2, remaining_iterations, rng) \<Rightarrow>
           let solution_prefix = ucast (fst (rng_next_u32 H rng)) in
           (case find_solution T kitty_1 kitty_2 nonce solution_prefix 0 remaining_iterations of
              None \<Rightarrow> (None, w)
            | Some None \<Rightarrow> (Some (Ok ()), w)
            | Some (Some solution) \<Rightarrow>
                let call = Call_auto_breed kitty_1 kitty_2 nonce solution in
                (Some (Ok ()), w\<lparr>off_db := snd (submit_unsigned H call (off_db w)),
                                 submitted := submitted w @ [call]\<rparr>))))"

text \<open>The guard of the lock is dropped, and the lock released, on every return.\<close>

definition run_offchain_worker ::
  "('acc, 'n, 'c, 'sys, 'e) kitties_config \<Rightarrow> ('acc, 'off, 'rng) offchain_host \<Rightarrow>
   ('acc, 'n, 'c, 'sys) kitties_storage \<Rightarrow> ('acc, 'off) worker_state \<Rightarrow>
   (unit, unit) result option \<times> ('acc, 'off) worker_state" where
  "run_offchain_worker T H st w =
     (case try_lock H lock_key 1 (off_db w) of
        (False, d) \<Rightarrow> (Some (Err ()), w\<lparr>off_db := d\<rparr>)
      | (True, d) \<Rightarrow>
        (case worker_body T H st (w\<lparr>off_db := d\<rparr>) of
           (None, w) \<Rightarrow> (None, w)
         | (Some r, w) \<Rightarrow> (Some r, w\<lparr>off_db := unlock H lock_key (off_db w)\<rparr>)))"

definition offchain_worker ::
  "('acc, 'n, 'c, 'sys, 'e) kitties_config \<Rightarrow> ('acc, 'off, 'rng) offchain_host \<Rightarrow> u32 \<Rightarrow>
   ('acc, 'n, 'c, 'sys) kitties_storage \<Rightarrow> ('acc, 'off) worker_state \<Rightarrow> ('acc, 'off) worker_state" where
  "offchain_worker T H now st w = snd (run_offchain_worker T H st w)"

declare pick_parents.simps [simp del] find_solution.simps [simp del]


section \<open>The generator's draws\<close>

definition rng_skip :: "('acc, 'off, 'rng) offchain_host \<Rightarrow> nat \<Rightarrow> 'rng \<Rightarrow> 'rng" where
  "rng_skip H k rng = ((\<lambda>r. snd (rng_next_u32 H r)) ^^ k) rng"

definition draw :: "('acc, 'off, 'rng) offchain_host \<Rightarrow> 'rng \<Rightarrow> nat \<Rightarrow> u32" where
  "draw H rng k = fst (rng_next_u32 H (rng_skip H k rng))"

text \<open>The \<open>k\<close>-th pair drawn has different genders.\<close>

definition good_pair ::
  "('acc, 'n, 'c, 'sys, 'e) kitties_config \<Rightarrow> ('acc, 'off, 'rng) offchain_host \<Rightarrow>
   ('acc, 'n, 'c, 'sys) kitties_storage \<Rightarrow> u32 \<Rightarrow> 'rng \<Rightarrow> nat \<Rightarrow> bool" where
  "good_pair T H st count rng k \<longleftrightarrow>
     (case (token T st (draw H rng (2 * k) mod count), token T st (draw H rng (2 * k + 1) mod count)) of
        (Some x, Some y) \<Rightarrow> gender (ti_data x) \<noteq> gender (ti_data y)
      | _ \<Rightarrow> False)"

lemma rng_skip_simps [simp]:
  "rng_skip H 0 rng = rng"
  "rng_skip H k (rng_skip H j rng) = rng_skip H (k + j) rng"
  "snd (rng_next_u32 H (rng_skip H k rng)) = rng_skip H (Suc k) rng"
  by (simp_all add: rng_skip_def funpow_add)

lemma draw_skip [simp]: "draw H (rng_skip H j rng) k = draw H rng (k + j)"
  by (simp add: draw_def)

lemma good_pair_skip [simp]: "good_pair T H st count (rng_skip H 2 rng) k = good_pair T H st count rng (Suc k)"
  by (simp add: good_pair_def)

lemma rng_next_draw:
  "(draw H rng 0, rng_skip H 1 rng) = rng_next_u32 H rng"
  "(draw H rng 1, rng_skip H 2 rng) = rng_next_u32 H (rng_skip H 1 rng)"
  by (simp_all add: draw_def rng_skip_def numeral_2_eq_2)

lemma pick_parents_step:
  "pick_parents T H st count remaining rng =
     (case (token T st (draw H rng 0 mod count), token T st (draw H rng 1 mod count)) of
        (Some x, Some y) \<Rightarrow>
          if gender (ti_data x) \<noteq> gender (ti_data y)
          then Some (draw H rng 0 mod count, draw H rng 1 mod count, remaining, rng_skip H 2 rng)
          else if remaining - 1 = 0 then None
          else pick_parents T H st count (remaining - 1) (rng_skip H 2 rng)
      | _ \<Rightarrow> None)"
  unfolding pick_parents.simps [of T H st count remaining rng] rng_next_draw [symmetric] Let_def prod.case
  by (simp add: rng_next_draw [symmetric, simplified] numeral_2_eq_2 split: option.splits)

lemma pick_parents_sound:
  "pick_parents T H st count remaining rng = Some (t1, t2, left, rng') \<Longrightarrow>
   \<exists>x y. token T st t1 = Some x \<and> token T st t2 = Some y \<and> gender (ti_data x) \<noteq> gender (ti_data y)"
proof (induction T H st count remaining rng rule: pick_parents.induct)
  case (1 T H st count remaining rng)
  note IH = "1.IH" [OF refl rng_next_draw(1) refl refl rng_next_draw(2) refl]
  from "1.prems" IH show ?case
    by (subst (asm) pick_parents_step) (auto split: option.splits if_splits)
qed


section \<open>The first loop\<close>

lemma drawn_exists:
  assumes "count \<noteq> 0" "\<And>t. t < count \<Longrightarrow> token T st t \<noteq> None"
  shows "\<exists>x. token T st (draw H rng j mod count) = Some x"
  using assms by (metis not_Some_eq word_mod_less_divisor word_gt_0)

lemma pick_parents_first:
  assumes "count \<noteq> 0" "\<And>t. t < count \<Longrightarrow> token T st t \<noteq> None"
    and "k < unat remaining" "good_pair T H st count rng k" "\<And>j. j < k \<Longrightarrow> \<not> good_pair T H st count rng j"
  shows "pick_parents T H st count remaining rng =
    Some (draw H rng (2 * k) mod count, draw H rng (2 * k + 1) mod count,
          remaining - of_nat k, rng_skip H (2 * k + 2) rng)"
  using assms(3-5)
proof (induction k arbitrary: remaining rng)
  case 0
  then show ?case
    by (subst pick_parents_step) (auto simp: good_pair_def numeral_2_eq_2 split: option.splits)
next
  case (Suc k)
  have bad: "\<not> good_pair T H st count rng 0" using Suc.prems(3) by simp
  note ex = drawn_exists [OF assms(1,2)]
  have "remaining \<noteq> 0" using Suc.prems(1) by auto
  then have u: "unat (remaining - 1) = unat remaining - 1" by (rule unat_minus_one)
  then have ne: "remaining - 1 \<noteq> 0" using Suc.prems(1) by (auto simp: unat_eq_zero [symmetric])
  have "pick_parents T H st count (remaining - 1) (rng_skip H 2 rng) =
      Some (draw H (rng_skip H 2 rng) (2 * k) mod count, draw H (rng_skip H 2 rng) (2 * k + 1) mod count,
        remaining - 1 - of_nat k, rng_skip H (2 * k + 2) (rng_skip H 2 rng))"
    using Suc.prems by (intro Suc.IH) (auto simp: u)
  moreover have "pick_parents T H st count remaining rng =
      pick_parents T H st count (remaining - 1) (rng_skip H 2 rng)"
    using bad ex [of H rng 0] ex [of H rng 1] ne by (subst pick_parents_step) (auto simp: good_pair_def)
  ultimately show ?case by (simp add: algebra_simps)
qed

lemma pick_parents_none:
  assumes "count \<noteq> 0" "\<And>t. t < count \<Longrightarrow> token T st t \<noteq> None"
    and "remaining \<noteq> 0" "\<And>j. j < unat remaining \<Longrightarrow> \<not> good_pair T H st count rng j"
  shows "pick_parents T H st count remaining rng = None"
  using assms(3,4)
proof (induction "unat remaining" arbitrary: remaining rng)
  case 0
  then show ?case by (simp add: unat_eq_zero)
next
  case (Suc m)
  have bad: "\<not> good_pair T H st count rng 0" using Suc.prems(2) Suc.hyps(2) by (metis zero_less_Suc)
  note ex = drawn_exists [OF assms(1,2)]
  have u: "unat (remaining - 1) = m" using Suc.hyps(2) unat_minus_one [OF Suc.prems(1)] by simp
  have "pick_parents T H st count (remaining - 1) (rng_skip H 2 rng) = None" if "remaining - 1 \<noteq> 0"
    using that Suc.prems(2) Suc.hyps(2) u by (intro Suc.hyps(1)) auto
  then show ?case
    using bad ex [of H rng 0] ex [of H rng 1] by (subst pick_parents_step) (auto simp: good_pair_def)
qed


section \<open>The second loop\<close>

text \<open>
  With a non-zero difficulty the loop is the search for the first valid offset in the list of all offsets.
\<close>

lemma find_solution_eq:
  assumes "default_difficulty T \<noteq> 0" "i \<le> n" "n < 2 ^ 128"
  shows "find_solution T t1 t2 nonce prefix (of_nat i) (of_nat n) =
    Some (map_option (\<lambda>j. push_bit 32 prefix + of_nat j)
      (List.find (\<lambda>j. validate_solution T t1 t2 nonce (push_bit 32 prefix + of_nat j) = Some True) [i..<n]))"
  using assms(2)
proof (induction rule: inc_induct)
  case base
  show ?case by (subst find_solution.simps) simp
next
  case (step i)
  have lt: "(of_nat i :: u128) < of_nat n"
    using step.hyps assms(3) by (simp add: word_less_nat_alt unat_of_nat)
  have succ: "(of_nat i + 1 :: u128) = of_nat (Suc i)" by (simp add: add.commute)
  obtain b where b: "validate_solution T t1 t2 nonce (push_bit 32 prefix + of_nat i) = Some b"
    using assms(1) validate_solution_panics by fastforce
  have "find_solution T t1 t2 nonce prefix (of_nat i) (of_nat n) =
      (if b then Some (Some (push_bit 32 prefix + of_nat i))
       else find_solution T t1 t2 nonce prefix (of_nat (Suc i)) (of_nat n))"
    unfolding find_solution.simps [of T t1 t2 nonce prefix "of_nat i"] succ Let_def b
    using lt by (cases b) simp_all
  with step b show ?case by (simp add: upt_conv_Cons)
qed

lemma find_solution_zero_difficulty:
  "default_difficulty T = 0 \<Longrightarrow> find_solution T t1 t2 nonce prefix i remaining \<noteq> Some (Some s)"
  using validate_solution_panics [of T t1 t2 nonce "push_bit 32 prefix + i"]
  by (subst find_solution.simps) simp

lemma find_solution_panics:
  "find_solution T t1 t2 nonce prefix 0 remaining = None \<Longrightarrow> default_difficulty T = 0"
  using find_solution_eq [of T 0 "unat remaining" t1 t2 nonce prefix] unat_bound [of remaining]
  by (cases "default_difficulty T = 0") auto

lemma find_solution_sound:
  assumes "find_solution T t1 t2 nonce prefix 0 remaining = Some (Some s)"
  shows "validate_solution T t1 t2 nonce s = Some True"
proof -
  have "default_difficulty T \<noteq> 0" using assms find_solution_zero_difficulty by fastforce
  from find_solution_eq [OF this, of 0 "unat remaining" t1 t2 nonce prefix] assms
  obtain j where j: "s = push_bit 32 prefix + of_nat j"
    "List.find (\<lambda>j. validate_solution T t1 t2 nonce (push_bit 32 prefix + of_nat j) = Some True)
       [0..<unat remaining] = Some j"
    using unat_bound [of remaining] by (auto simp: map_option_eq_Some eq_commute [of "Some s"])
  then show ?thesis by (auto simp: find_Some_iff)
qed

lemma solution_of_nat: "push_bit 32 (ucast p) + of_nat j = (of_nat (unat p * 2 ^ 32 + j) :: u128)" for p :: u32
proof -
  have "(ucast p :: u128) = of_nat (unat p)" by simp
  then show ?thesis by (simp add: push_bit_eq_mult)
qed

lemma solution_no_overflow:
  fixes p :: u32
  assumes "j < 2 ^ 32"
  shows "unat (of_nat (unat p * 2 ^ 32 + j) :: u128) = unat p * 2 ^ 32 + j"
proof -
  have "unat p < 2 ^ 32" using unat_bound [of p] by simp
  then have "unat p * 2 ^ 32 + j < 2 ^ 128" using assms by simp
  then show ?thesis unfolding unat_of_nat by simp
qed


text \<open>What a run submits, if anything: a solved \<open>auto_breed\<close> of two kitties of different gender.\<close>

lemma worker_submission:
  assumes "run_offchain_worker T H st w = (r, w')" "submitted w' \<noteq> submitted w"
  shows "\<exists>t1 t2 s x y. submitted w' = submitted w @ [Call_auto_breed t1 t2 (auto_breed_nonce st) s] \<and>
    token T st t1 = Some x \<and> token T st t2 = Some y \<and> gender (ti_data x) \<noteq> gender (ti_data y) \<and>
    validate_solution T t1 t2 (auto_breed_nonce st) s = Some True"
proof -
  from assms obtain t1 t2 s c left g g' p where *:
    "pick_parents T H st c MAX_ITERATIONS g = Some (t1, t2, left, g')"
    "find_solution T t1 t2 (auto_breed_nonce st) p 0 left = Some (Some s)"
    "submitted w' = submitted w @ [Call_auto_breed t1 t2 (auto_breed_nonce st) s]"
    by (auto simp: run_offchain_worker_def worker_body_def Let_def
        split: prod.splits bool.splits option.splits if_splits)
  with pick_parents_sound [OF *(1)] find_solution_sound [OF *(2)] show ?thesis by blast
qed


section \<open>Properties of the worker\<close>

text \<open>
  Whatever the node's randomness and the lock do, one run of the worker submits at most one
  extrinsic, and only one that the chain accepts: an \<open>auto_breed\<close> of two existing kitties of
  different gender, with the current nonce and a valid solution; validating it on the same
  state succeeds, and dispatching it after that can fail only in the NFT mint.
\<close>

theorem worker_submits_valid:
  assumes "run_offchain_worker T H st w = (r, w')" "submitted w' \<noteq> submitted w"
  shows "\<exists>t1 t2 s st2. submitted w' = submitted w @ [Call_auto_breed t1 t2 (auto_breed_nonce st) s] \<and>
    validate_unsigned T source (Call_auto_breed t1 t2 (auto_breed_nonce st) s) st = (Some (Ok kitties_valid), st2) \<and>
    (\<forall>e. fst (auto_breed T NoOrigin t1 t2 (auto_breed_nonce st) s st2) = Err e \<longrightarrow> (\<exists>x. e = External x))"
proof -
  obtain t1 t2 s x y where sub: "submitted w' = submitted w @ [Call_auto_breed t1 t2 (auto_breed_nonce st) s]"
    and xy: "token T st t1 = Some x" "token T st t2 = Some y" "gender (ti_data x) \<noteq> gender (ti_data y)"
    and valid: "validate_solution T t1 t2 (auto_breed_nonce st) s = Some True"
    using worker_submission [OF assms] by blast
  let ?st2 = "st\<lparr>auto_breed_nonce := saturating_add (auto_breed_nonce st) 1\<rparr>"
  have "validate_unsigned T source (Call_auto_breed t1 t2 (auto_breed_nonce st) s) st =
      (Some (Ok kitties_valid), ?st2)"
    using valid by (simp add: validate_unsigned_accepts)
  moreover have "\<exists>z. e = External z"
    if "fst (auto_breed T NoOrigin t1 t2 (auto_breed_nonce st) s ?st2) = Err e" for e
  proof -
    from that obtain st3 where "auto_breed T NoOrigin t1 t2 (auto_breed_nonce st) s ?st2 = (Err e, st3)"
      by (metis prod.collapse)
    with xy show ?thesis by (auto simp: auto_breed_Err do_breed_Err)
  qed
  ultimately show ?thesis using sub by blast
qed

text \<open>A node whose generator counts, and whose lock is a flag.\<close>

definition sample_host :: "(nat, bool, u32) offchain_host" where
  "sample_host =
     \<lparr>try_lock = (\<lambda>key blocks locked. (\<not> locked, True)), unlock = (\<lambda>key locked. False),
      host_random_seed = (\<lambda>d. (replicate 32 0, d)), rng_from_seed = (\<lambda>seed. 0),
      rng_next_u32 = (\<lambda>r. (r, r + 1)), submit_unsigned = (\<lambda>call d. (True, d))\<rparr>"

definition sample_worker :: "(nat, bool) worker_state" where
  "sample_worker = \<lparr>off_db = False, submitted = []\<rparr>"

lemma sample_pick: "pick_parents sample_config sample_host sample_state 2 MAX_ITERATIONS 0 =
    Some (0, 1, 500, 2)"
  by (subst pick_parents.simps)
    (simp add: sample_host_def sample_state_def sample_nft_state_def gender_def MAX_ITERATIONS_def)

lemma sample_find: "find_solution sample_config 0 1 0 2 0 500 = Some (Some 8589934592)"
proof -
  have "from_le_bytes (blake2_128 sample_config (encode_solution sample_config (0, 1, 0, 8589934592))) = 8589934592"
    by (simp add: sample_config_def sample_blake2_def from_le_bytes_surj)
  then have "validate_solution sample_config 0 1 0 8589934592 = Some True"
    by (simp add: validate_solution_def Let_def)
  then show ?thesis by (subst find_solution.simps) (simp add: push_bit_eq_mult)
qed

lemma sample_host_simps:
  "try_lock sample_host k n False = (True, True)" "rng_from_seed sample_host s = 0"
  "host_random_seed sample_host True = (replicate 32 0, True)" "unlock sample_host k True = False"
  "submit_unsigned sample_host c True = (True, True)" "fst (rng_next_u32 sample_host 2) = 2"
  by (simp_all add: sample_host_def)

lemma sample_worker_run:
  "run_offchain_worker sample_config sample_host sample_state sample_worker =
     (Some (Ok ()), \<lparr>off_db = False, submitted = [Call_auto_breed 0 1 0 8589934592]\<rparr>)"
proof -
  have "nft_next_token_id sample_config (nft sample_state) (class_id sample_state) = 2"
    "auto_breed_nonce sample_state = 0"
    by (simp_all add: sample_state_def sample_nft_state_def)
  then show ?thesis
    by (simp add: run_offchain_worker_def worker_body_def sample_worker_def sample_pick sample_find
        sample_host_simps Let_def)
qed

theorem worker_submits_valid_witness:
  "\<exists>st2. validate_unsigned sample_config Local (Call_auto_breed 0 1 0 8589934592) sample_state =
     (Some (Ok kitties_valid), st2)"
proof -
  have "auto_breed_nonce sample_state = 0" by (simp add: sample_state_def)
  with worker_submits_valid [OF sample_worker_run, of Local] show ?thesis
    by (auto simp: sample_worker_def)
qed

lemma worker_run_picked:
  assumes "try_lock H lock_key 1 (off_db w) = (True, d)" "host_random_seed H d = (seed, d')"
    and "nft_next_token_id T (nft st) (class_id st) = count" "count \<noteq> 0"
    and "rng = rng_from_seed H seed" "pick_parents T H st count MAX_ITERATIONS rng = Some (t1, t2, left, g)"
    and "find_solution T t1 t2 (auto_breed_nonce st) (ucast (fst (rng_next_u32 H g))) 0 left = Some F"
  shows "submitted (snd (run_offchain_worker T H st w)) = submitted w @
    (case F of None \<Rightarrow> [] | Some s \<Rightarrow> [Call_auto_breed t1 t2 (auto_breed_nonce st) s])"
    and "fst (run_offchain_worker T H st w) = Some (Ok ())"
  using assms
  by (cases F; simp add: run_offchain_worker_def worker_body_def Let_def)+

lemma worker_run_unpicked:
  assumes "try_lock H lock_key 1 (off_db w) = (True, d)" "host_random_seed H d = (seed, d')"
    and "nft_next_token_id T (nft st) (class_id st) = count" "count \<noteq> 0"
    and "rng = rng_from_seed H seed" "pick_parents T H st count MAX_ITERATIONS rng = None"
  shows "fst (run_offchain_worker T H st w) = Some (Err ())"
  using assms by (simp add: run_offchain_worker_def worker_body_def Let_def)

text \<open>
  C10: What the worker submits, exactly: if the first pair with different genders among the
  first 500 pairs drawn is the \<open>k\<close>-th, the worker tries, for that pair and the current nonce, the
  solutions \<open>prefix * 2^32 + j\<close> for \<open>j = 0, ..., 499 - k\<close> in this order, where \<open>prefix\<close> is the next draw, and
  submits the first valid one, or nothing if none is valid; the arithmetic does not overflow.
\<close>

theorem worker_searches:
  assumes "kitties_inv T V st" "default_difficulty T \<noteq> 0"
    and "try_lock H lock_key 1 (off_db w) = (True, d)" "host_random_seed H d = (seed, d')"
    and "count = nft_next_token_id T (nft st) (class_id st)" "count \<noteq> 0"
    and "rng = rng_from_seed H seed"
    and "k < 500" "good_pair T H st count rng k" "\<forall>j<k. \<not> good_pair T H st count rng j"
  shows "submitted (snd (run_offchain_worker T H st w)) = submitted w @
    (let t1 = draw H rng (2 * k) mod count;
         t2 = draw H rng (2 * k + 1) mod count;
         solution = (\<lambda>j. of_nat (unat (draw H rng (2 * k + 2)) * 2 ^ 32 + j))
     in case List.find (\<lambda>j. validate_solution T t1 t2 (auto_breed_nonce st) (solution j) = Some True) [0..<500 - k] of
          None \<Rightarrow> []
        | Some j \<Rightarrow> [Call_auto_breed t1 t2 (auto_breed_nonce st) (solution j)]) \<and>
    (\<forall>j<500 - k. unat (of_nat (unat (draw H rng (2 * k + 2)) * 2 ^ 32 + j) :: u128) =
       unat (draw H rng (2 * k + 2)) * 2 ^ 32 + j)"
proof -
  let ?t1 = "draw H rng (2 * k) mod count" and ?t2 = "draw H rng (2 * k + 1) mod count"
  let ?p = "draw H rng (2 * k + 2)" and ?n = "auto_breed_nonce st"
  have "token T st t \<noteq> None" if "t < count" for t
    using that kitties_invD(4) [OF assms(1)] assms(5) by blast
  moreover have "unat MAX_ITERATIONS = 500" by (simp add: MAX_ITERATIONS_def)
  ultimately have pick: "pick_parents T H st count MAX_ITERATIONS rng =
      Some (?t1, ?t2, MAX_ITERATIONS - of_nat k, rng_skip H (2 * k + 2) rng)"
    using assms(6,8-10) by (intro pick_parents_first) auto
  have left: "MAX_ITERATIONS - of_nat k = of_nat (500 - k)"
    using assms(8) by (simp add: MAX_ITERATIONS_def of_nat_diff)
  define F where "F = List.find (\<lambda>j. validate_solution T ?t1 ?t2 ?n (of_nat (unat ?p * 2 ^ 32 + j)) = Some True)
    [0..<500 - k]"
  have find: "find_solution T ?t1 ?t2 ?n (ucast ?p) 0 (of_nat (500 - k)) =
      Some (map_option (\<lambda>j. of_nat (unat ?p * 2 ^ 32 + j)) F)"
    using find_solution_eq [OF assms(2), of 0 "500 - k" ?t1 ?t2 ?n "ucast ?p"]
    unfolding solution_of_nat F_def by simp
  have "fst (rng_next_u32 H (rng_skip H (2 * k + 2) rng)) = ?p" by (simp add: draw_def)
  then have find': "find_solution T ?t1 ?t2 ?n (ucast (fst (rng_next_u32 H (rng_skip H (2 * k + 2) rng)))) 0
      (MAX_ITERATIONS - of_nat k) = Some (map_option (\<lambda>j. of_nat (unat ?p * 2 ^ 32 + j)) F)"
    unfolding left using find by simp
  note worker_run_picked(1) [OF assms(3,4) assms(5) [symmetric] assms(6,7) pick find']
  moreover have "\<forall>j<500 - k. unat (of_nat (unat ?p * 2 ^ 32 + j) :: u128) = unat ?p * 2 ^ 32 + j"
    using solution_no_overflow by simp
  ultimately show ?thesis unfolding F_def Let_def by (simp only: case_map_option o_def)
qed

lemma sample_draw: "draw sample_host r k = r + of_nat k"
proof -
  have "rng_skip sample_host k r = r + of_nat k"
    by (induction k) (simp_all add: rng_skip_def sample_host_def algebra_simps)
  then show ?thesis by (simp add: draw_def sample_host_def)
qed

lemma sample_good_pair: "good_pair sample_config sample_host sample_state 2 0 0"
  by (simp add: good_pair_def sample_draw sample_state_def sample_nft_state_def gender_def)

theorem worker_searches_witness:
  "\<exists>calls. submitted (snd (run_offchain_worker sample_config sample_host sample_state sample_worker)) = calls \<and>
     (\<forall>c \<in> set calls. \<exists>s. c = Call_auto_breed 0 1 0 s)"
proof -
  have "auto_breed_nonce sample_state = 0" "submitted sample_worker = []" by (simp_all add: sample_state_def sample_worker_def)
  moreover have "try_lock sample_host lock_key 1 (off_db sample_worker) = (True, True)"
    "host_random_seed sample_host True = (replicate 32 0, True)" "0 = rng_from_seed sample_host (replicate 32 0)"
    by (simp_all add: sample_host_def sample_worker_def)
  moreover have "2 = nft_next_token_id sample_config (nft sample_state) (class_id sample_state)"
    by (simp add: sample_state_def sample_nft_state_def)
  moreover have "default_difficulty sample_config \<noteq> 0" "(2 :: u32) \<noteq> 0" by simp_all
  ultimately show ?thesis
    using worker_searches [OF sample_state_inv _ _ _ _ _ _ _ sample_good_pair, of sample_worker True "replicate 32 0" True]
    by (auto simp: sample_draw Let_def split: option.splits)
qed

text \<open>
  C29: In a reachable state and with a non-zero difficulty the worker never panics, and it returns an
  error exactly if the lock is refused or 500 pairs in a row had one gender; in particular no
  lookup of a drawn kitty fails. Without kitties it returns \<open>Ok\<close> and submits nothing.
\<close>

theorem worker_outcome:
  assumes "kitties_inv T V st" "default_difficulty T \<noteq> 0"
    and "try_lock H lock_key 1 (off_db w) = (locked, d)"
    and "count = nft_next_token_id T (nft st) (class_id st)"
    and "rng = rng_from_seed H (fst (host_random_seed H d))"
  shows "fst (run_offchain_worker T H st w) = Some (
    if locked \<and> (count = 0 \<or> (\<exists>k<500. good_pair T H st count rng k)) then Ok () else Err ())"
proof -
  obtain d' where seed: "host_random_seed H d = (fst (host_random_seed H d), d')" by (metis prod.collapse)
  consider "\<not> locked" | "locked" "count = 0" | "locked" "count \<noteq> 0" by blast
  then show ?thesis
  proof cases
    case 1
    with assms(3) show ?thesis by (simp add: run_offchain_worker_def)
  next
    case 2
    with assms(3,4) show ?thesis by (simp add: run_offchain_worker_def worker_body_def split: prod.splits)
  next
    case 3
    have exist: "token T st t \<noteq> None" if "t < count" for t
      using that kitties_invD(4) [OF assms(1)] assms(4) by blast
    have max: "unat MAX_ITERATIONS = 500" "MAX_ITERATIONS \<noteq> 0" by (simp_all add: MAX_ITERATIONS_def)
    show ?thesis
    proof (cases "\<exists>k<500. good_pair T H st count rng k")
      case False
      then have "pick_parents T H st count MAX_ITERATIONS rng = None"
        using 3(2) exist max by (intro pick_parents_none) auto
      from worker_run_unpicked [OF _ seed assms(4) [symmetric] 3(2) assms(5) this] False 3 assms(3)
      show ?thesis by simp
    next
      case True
      define k where "k = (LEAST k. good_pair T H st count rng k)"
      from True have k: "good_pair T H st count rng k" "k < 500" "\<And>j. j < k \<Longrightarrow> \<not> good_pair T H st count rng j"
        unfolding k_def by (auto intro: LeastI dest: not_less_Least order.strict_trans1 [OF Least_le])
      obtain t1 t2 left g where pick: "pick_parents T H st count MAX_ITERATIONS rng = Some (t1, t2, left, g)"
        using pick_parents_first [OF 3(2) exist _ k(1,3), of MAX_ITERATIONS] k(2) max by auto
      obtain F where "find_solution T t1 t2 (auto_breed_nonce st) (ucast (fst (rng_next_u32 H g))) 0 left = Some F"
        using find_solution_panics assms(2) by fastforce
      from worker_run_picked(2) [OF _ seed assms(4) [symmetric] 3(2) assms(5) pick this] True 3 assms(3)
      show ?thesis by simp
    qed
  qed
qed

theorem worker_outcome_witness:
  "fst (run_offchain_worker sample_config sample_host sample_state sample_worker) = Some (Ok ())"
proof -
  have count: "2 = nft_next_token_id sample_config (nft sample_state) (class_id sample_state)"
    and rng: "0 = rng_from_seed sample_host (fst (host_random_seed sample_host True))"
    and lock: "try_lock sample_host lock_key 1 (off_db sample_worker) = (True, True)"
    and nz: "default_difficulty sample_config \<noteq> 0"
    by (simp_all add: sample_state_def sample_nft_state_def sample_host_def sample_worker_def)
  have "\<exists>k<500. good_pair sample_config sample_host sample_state 2 0 k"
    using sample_good_pair by (intro exI [of _ 0]) simp
  with worker_outcome [OF sample_state_inv nz lock count rng] show ?thesis by simp
qed

end
