(* ===== verification/Runtime_Api.thy ===== *)
theory Runtime_Api
  imports Runtime Offchain
begin

text \<open>
  The \<open>impl_runtime_apis!\<close> block of \<open>src/runtime/src/lib.rs\<close> (lines 361 to 524): what the node can ask the
  runtime. Most entries hand their arguments to the executive or to a pallet outside the repository; the record
  \<open>framework\<close> holds those functions, and each API of the block is one definition over it. The
  benchmark API at the end has logic of its own.
\<close>

section \<open>The functions the APIs call\<close>

record ('rs, 'block, 'header, 'xt, 'hash, 'applied, 'verr, 'inherents, 'check, 'meta, 'auth, 'ks, 'gauth, 'acc, 'info, 'fee)
    framework =
  fw_execute_block :: "'block \<Rightarrow> 'rs \<Rightarrow> 'rs option"
  fw_initialize_block :: "'header \<Rightarrow> 'rs \<Rightarrow> 'rs"
  fw_finalize_block :: "'rs \<Rightarrow> 'header \<times> 'rs"
  fw_metadata :: 'meta
  fw_apply_extrinsic :: "'xt \<Rightarrow> 'rs \<Rightarrow> 'applied \<times> 'rs"
  fw_validate_transaction :: "TransactionSource \<Rightarrow> 'xt \<Rightarrow> 'hash \<Rightarrow> 'rs \<Rightarrow> (ValidTransaction, 'verr) result"
  fw_create_extrinsics :: "'inherents \<Rightarrow> 'rs \<Rightarrow> 'xt list"
  fw_check_extrinsics :: "'inherents \<Rightarrow> 'block \<Rightarrow> 'rs \<Rightarrow> 'check"
  fw_header_number :: "'header \<Rightarrow> u32"
  fw_aura_slot_duration :: u64
  fw_aura_authorities :: "'rs \<Rightarrow> 'auth list"
  fw_generate_session_keys :: "u8 list option \<Rightarrow> 'ks \<Rightarrow> u8 list \<times> 'ks"
  fw_decode_session_keys :: "u8 list \<Rightarrow> (u8 list \<times> u8 list) list option"
  fw_grandpa_authorities :: "'rs \<Rightarrow> 'gauth"
  fw_account_nonce :: "'acc \<Rightarrow> 'rs \<Rightarrow> u32"
  fw_query_info :: "'xt \<Rightarrow> u32 \<Rightarrow> 'rs \<Rightarrow> 'info"
  fw_query_fee_details :: "'xt \<Rightarrow> u32 \<Rightarrow> 'rs \<Rightarrow> 'fee"

text \<open>\<open>Core\<close> and \<open>Metadata\<close>.\<close>

definition api_version :: "'apis \<Rightarrow> 'apis RuntimeVersion" where
  "api_version api_versions = VERSION api_versions"

definition api_execute_block where
  "api_execute_block F block rs = fw_execute_block F block rs"

definition api_initialize_block where
  "api_initialize_block F header rs = fw_initialize_block F header rs"

definition api_metadata where
  "api_metadata F = fw_metadata F"

text \<open>\<open>BlockBuilder\<close> and \<open>TaggedTransactionQueue\<close>; a validation works on a copy of the state and leaves no trace.\<close>

definition api_apply_extrinsic where
  "api_apply_extrinsic F xt rs = fw_apply_extrinsic F xt rs"

definition api_validate_transaction where
  "api_validate_transaction F source tx block_hash rs = fw_validate_transaction F source tx block_hash rs"

definition api_finalize_block where
  "api_finalize_block F rs = fw_finalize_block F rs"

definition api_inherent_extrinsics where
  "api_inherent_extrinsics F data rs = fw_create_extrinsics F data rs"

definition api_check_inherents where
  "api_check_inherents F block data rs = fw_check_extrinsics F data block rs"

text \<open>
  \<open>OffchainWorkerApi\<close>: the executive hands the number of the header to the hook of every pallet. Only
  the kitties pallet has one; it reads the state of the block and writes the node's storage.
\<close>

definition api_offchain_worker where
  "api_offchain_worker F T H header rs w =
     offchain_worker (runtime_kitties T) H (fw_header_number F header) (rt_kitties rs) w"

text \<open>\<open>AuraApi\<close>, \<open>SessionKeys\<close>, \<open>AccountNonceApi\<close> and \<open>TransactionPaymentApi\<close>.\<close>

datatype SlotDuration = from_millis u64

definition api_slot_duration where
  "api_slot_duration F = from_millis (fw_aura_slot_duration F)"

definition api_authorities where
  "api_authorities F rs = fw_aura_authorities F rs"

definition api_generate_session_keys where
  "api_generate_session_keys F seed ks = fw_generate_session_keys F seed ks"

definition api_decode_session_keys where
  "api_decode_session_keys F encoded = fw_decode_session_keys F encoded"

definition api_account_nonce where
  "api_account_nonce F account rs = fw_account_nonce F account rs"

definition api_query_info where
  "api_query_info F uxt len rs = fw_query_info F uxt len rs"

definition api_query_fee_details where
  "api_query_fee_details F uxt len rs = fw_query_fee_details F uxt len rs"

text \<open>
  \<open>GrandpaApi\<close>: equivocations cannot be reported, since the type of key ownership proofs of the runtime
  has no values.
\<close>

definition api_grandpa_authorities where
  "api_grandpa_authorities F rs = fw_grandpa_authorities F rs"

definition submit_report_equivocation_unsigned_extrinsic :: "'proof \<Rightarrow> 'key \<Rightarrow> unit option" where
  "submit_report_equivocation_unsigned_extrinsic equivocation_proof key_owner_proof = None"

definition generate_key_ownership_proof :: "u64 \<Rightarrow> 'auth \<Rightarrow> 'key option" where
  "generate_key_ownership_proof set_id authority_id = None"


section \<open>The benchmark API\<close>

text \<open>
  \<open>add_benchmark\<close> is a macro of the framework: given the configuration, the storage keys not to be counted, the
  batches so far and a pallet's name, it adds that pallet's batch if the configuration selects it, and its \<open>?\<close>
  returns from \<open>dispatch_benchmark\<close> when running the benchmark fails.
\<close>

type_synonym ('config, 'batch) add_benchmark =
  "'config \<times> u8 list list \<Rightarrow> string \<Rightarrow> 'batch list \<Rightarrow> ('batch list, string) result"

text \<open>The keys of block number, total issuance, execution phase, event count and events.\<close>

definition whitelist :: "u8 list list" where
  "whitelist =
     [[0x26, 0xaa, 0x39, 0x4e, 0xea, 0x56, 0x30, 0xe0, 0x7c, 0x48, 0xae, 0x0c, 0x95, 0x58, 0xce, 0xf7,
       0x02, 0xa5, 0xc1, 0xb1, 0x9a, 0xb7, 0xa0, 0x4f, 0x53, 0x6c, 0x51, 0x9a, 0xca, 0x49, 0x83, 0xac],
      [0xc2, 0x26, 0x12, 0x76, 0xcc, 0x9d, 0x1f, 0x85, 0x98, 0xea, 0x4b, 0x6a, 0x74, 0xb1, 0x5c, 0x2f,
       0x57, 0xc8, 0x75, 0xe4, 0xcf, 0xf7, 0x41, 0x48, 0xe4, 0x62, 0x8f, 0x26, 0x4b, 0x97, 0x4c, 0x80],
      [0x26, 0xaa, 0x39, 0x4e, 0xea, 0x56, 0x30, 0xe0, 0x7c, 0x48, 0xae, 0x0c, 0x95, 0x58, 0xce, 0xf7,
       0xff, 0x55, 0x3b, 0x5a, 0x98, 0x62, 0xa5, 0x16, 0x93, 0x9d, 0x82, 0xb3, 0xd3, 0xd8, 0x66, 0x1a],
      [0x26, 0xaa, 0x39, 0x4e, 0xea, 0x56, 0x30, 0xe0, 0x7c, 0x48, 0xae, 0x0c, 0x95, 0x58, 0xce, 0xf7,
       0x0a, 0x98, 0xfd, 0xbe, 0x9c, 0xe6, 0xc5, 0x58, 0x37, 0x57, 0x6c, 0x60, 0xc7, 0xaf, 0x38, 0x50],
      [0x26, 0xaa, 0x39, 0x4e, 0xea, 0x56, 0x30, 0xe0, 0x7c, 0x48, 0xae, 0x0c, 0x95, 0x58, 0xce, 0xf7,
       0x80, 0xd4, 0x1e, 0x5e, 0x16, 0x05, 0x67, 0x65, 0xbc, 0x84, 0x61, 0x85, 0x10, 0x72, 0xc9, 0xd7]]"

definition try_result :: "('a, 'e) result \<Rightarrow> ('a \<Rightarrow> ('b, 'e) result) \<Rightarrow> ('b, 'e) result" where
  "try_result r k = (case r of Ok a \<Rightarrow> k a | Err e \<Rightarrow> Err e)"

definition dispatch_benchmark ::
  "('config, 'batch) add_benchmark \<Rightarrow> 'config \<Rightarrow> ('batch list, string) result" where
  "dispatch_benchmark add config =
     (let batches = [];
          params = (config, whitelist)
      in try_result (add params ''frame_system'' batches) (\<lambda>batches.
         try_result (add params ''pallet_balances'' batches) (\<lambda>batches.
         try_result (add params ''pallet_timestamp'' batches) (\<lambda>batches.
         try_result (add params ''pallet_template'' batches) (\<lambda>batches.
         try_result (add params ''pallet_kitties'' batches) (\<lambda>batches.
         if batches = [] then Err ''Benchmark not found for this pallet.'' else Ok batches))))))"

text \<open>The pallets with benchmarks in the runtime.\<close>

definition benchmarked :: "string list" where
  "benchmarked = [''frame_system'', ''pallet_balances'', ''pallet_timestamp'', ''pallet_template'', ''pallet_kitties'']"

text \<open>What the macro does for a configuration that selects one pallet.\<close>

definition add_benchmark_contract ::
  "('config, 'batch) add_benchmark \<Rightarrow> ('config \<Rightarrow> string) \<Rightarrow> (string \<Rightarrow> ('batch, string) result) \<Rightarrow> bool" where
  "add_benchmark_contract add selected bench \<longleftrightarrow>
     (\<forall>config name batches. add (config, whitelist) name batches =
        (if selected config \<noteq> name then Ok batches
         else (case bench name of Ok b \<Rightarrow> Ok (batches @ [b]) | Err e \<Rightarrow> Err e)))"

text \<open>
  The benchmark API runs the selected pallet's benchmark and nothing else: for a
  pallet with benchmarks it returns exactly that one batch or the error of running it, and for every other name the
  error that there is none.
\<close>

theorem dispatch_benchmark_selects:
  assumes "add_benchmark_contract add selected bench"
  shows "dispatch_benchmark add config =
    (if selected config \<in> set benchmarked
     then (case bench (selected config) of Ok b \<Rightarrow> Ok [b] | Err e \<Rightarrow> Err e)
     else Err ''Benchmark not found for this pallet.'')"
proof -
  have add: "add (config, whitelist) name batches =
      (if selected config \<noteq> name then Ok batches
       else (case bench name of Ok b \<Rightarrow> Ok (batches @ [b]) | Err e \<Rightarrow> Err e))" for name batches
    using assms by (simp add: add_benchmark_contract_def)
  show ?thesis
  proof (cases "selected config \<in> set benchmarked")
    case True
    then show ?thesis
      by (cases "bench (selected config)")
        (auto simp: benchmarked_def dispatch_benchmark_def try_result_def add)
  next
    case False
    then have "selected config \<noteq> name" if "name \<in> set benchmarked" for name using that by auto
    then show ?thesis using False by (simp add: dispatch_benchmark_def try_result_def add benchmarked_def)
  qed
qed

theorem dispatch_benchmark_selects_witness:
  "dispatch_benchmark (\<lambda>p name batches. if fst p \<noteq> name then Ok batches else Ok (batches @ [name])) ''pallet_kitties'' =
     Ok [''pallet_kitties'']"
proof -
  have "add_benchmark_contract (\<lambda>p name batches. if fst p \<noteq> name then Ok batches else Ok (batches @ [name])) id Ok"
    by (simp add: add_benchmark_contract_def)
  from dispatch_benchmark_selects [OF this, of "''pallet_kitties''"] show ?thesis by (simp add: benchmarked_def)
qed

end
