(* ===== verification/Kitties_Properties.thy ===== *)
theory Kitties_Properties
  imports Kitties_Ledger
begin

text \<open>
  The properties of the kitties pallet: refinement of the ledger, invariants over every
  sequence of inputs, and the exact behaviour of the calls. The witnesses run on
  the sample configuration of theory \<open>Kitties_Contract\<close>.
\<close>

section \<open>From genesis\<close>

definition fresh_storage :: "('n \<Rightarrow> bool) \<Rightarrow> ('acc, 'n, 'c, 'sys) kitties_storage \<Rightarrow> bool" where
  "fresh_storage V st \<longleftrightarrow>
     V (nft st) \<and> kitty_prices st = (\<lambda>_. None) \<and> auto_breed_nonce st = 0 \<and> events st = []"

lemma genesis_build_Some:
  "genesis_build T st0 = Some st \<longleftrightarrow>
     (\<exists>cls n. nft_create_class T (default_account T) [] () (nft st0) = (Ok cls, n) \<and>
        st = st0\<lparr>nft := n, class_id := cls\<rparr>)"
  by (auto simp: genesis_build_def split: prod.splits result.splits)

lemma genesis_start:
  assumes "nft_contract T V" "hash_contract T" "fresh_storage V st0" "genesis_build T st0 = Some st"
  shows "kitties_inv T V st" "replay ledger_step empty_ledger (events st) (ledger_of T st)"
proof -
  from assms(4) obtain cls n where
    *: "nft_create_class T (default_account T) [] () (nft st0) = (Ok cls, n)"
      "st = st0\<lparr>nft := n, class_id := cls\<rparr>"
    by (auto simp: genesis_build_Some)
  have V: "V (nft st0)" using assms(3) by (simp add: fresh_storage_def)
  note c = nft_classD [OF assms(1) V *(1)]
  show "kitties_inv T V st"
    using assms(1-3) c by (simp add: kitties_inv_def store_inv_def fresh_storage_def *(2))
  show "replay ledger_step empty_ledger (events st) (ledger_of T st)"
    using assms(3) c(2) by (simp add: fresh_storage_def *(2) ledger_of_def empty_ledger_def)
qed

text \<open>A run of the sample configuration that the witnesses share.\<close>

definition sample_genesis :: "(nat, nat sample_nft, nat \<Rightarrow> u128, u8 list) kitties_storage" where
  "sample_genesis = (case genesis_build sample_config sample_initial of Some st \<Rightarrow> st | None \<Rightarrow> sample_initial)"

lemma sample_genesis: "genesis_build sample_config sample_initial = Some sample_genesis"
  by (simp add: sample_genesis_def genesis_build_def sample_create_class_def Let_def)

lemma sample_fresh: "fresh_storage (\<lambda>_. True) sample_initial"
  by (simp add: fresh_storage_def sample_initial_def)

definition sample_inputs :: "(nat, nat \<Rightarrow> u128, u8 list) input list" where
  "sample_inputs =
     [Dispatch (Signed 1) Call_create, Dispatch (Signed 1) (Call_set_price 0 (Some 40)),
      Dispatch (Signed 2) (Call_buy 1 0 50)]"

lemmas sample_run_defs = sample_genesis_def genesis_build_def sample_initial_def sample_create_class_def
  sample_inputs_def create_def set_price_def buy_def buy_closure_def orml_mint_def orml_transfer_def pay_def
  sample_mint_def sample_transfer_def sample_pay_def sample_by_owner_def storage_defs transactional_def
  map_try_mutate_exists_def random_value_def sample_blake2_def Let_def

lemma sample_run_events:
  "events (run_calls (exec_input sample_config) sample_inputs sample_genesis) =
     [KittyCreated 1 0 (Kitty (replicate 16 0)), KittyPriceUpdated 1 0 (Some 40), KittySold 1 2 0 40]"
  by (simp add: sample_run_defs) (simp add: sample_config_def sample_run_defs)

section \<open>Refinement and invariants\<close>

text \<open>
  C1: After genesis and any sequence of dispatched calls (with any origins and arguments),
  validations and changes of the surrounding chain, the kitties and prices in storage are the
  ledger that results from replaying the pallet's own event log from the empty ledger, and every
  logged event was legitimate when it happened: prices set and kitties given away by their owner only,
  sales at the listed price, kittens from two kitties of different gender.
\<close>

theorem kitties_refine_ledger:
  assumes "nft_contract T V" "hash_contract T" "fresh_storage V st0" "genesis_build T st0 = Some st"
  shows "replay ledger_step empty_ledger (events (run_calls (exec_input T) is st))
    (ledger_of T (run_calls (exec_input T) is st))"
  using genesis_start [OF assms] by (rule sourced.replay_run)

theorem kitties_refine_ledger_witness:
  "\<exists>L. replay ledger_step empty_ledger
     [KittyCreated (1 :: nat) 0 (Kitty (replicate 16 0)), KittyPriceUpdated 1 0 (Some 40), KittySold 1 2 0 40] L"
  using kitties_refine_ledger [OF sample_contracts(1,3) sample_fresh sample_genesis, of sample_inputs]
  unfolding sample_run_events by blast

text \<open>
  C16: In every state reached from genesis the token ids of the kitty class are exactly the
  ids below the class's next id, every kitty has sixteen bytes of DNA, and every price belongs to an
  existing kitty.
\<close>

theorem kitties_reachable_inv:
  assumes "nft_contract T V" "hash_contract T" "fresh_storage V st0" "genesis_build T st0 = Some st"
    and "st' = run_calls (exec_input T) is st"
  shows "(nft_tokens T (nft st') (class_id st') t \<noteq> None \<longleftrightarrow>
      t < nft_next_token_id T (nft st') (class_id st')) \<and>
    (\<forall>x. nft_tokens T (nft st') (class_id st') t = Some x \<longrightarrow> wf_kitty (ti_data x)) \<and>
    (kitty_prices st' t \<noteq> None \<longrightarrow> nft_tokens T (nft st') (class_id st') t \<noteq> None)"
proof -
  have "kitties_inv T V st'"
    using genesis_start(1) [OF assms(1-4)] unfolding assms(5) by (rule pallet.inv_run)
  then show ?thesis using kitties_invD(4-6) by fastforce
qed

theorem kitties_reachable_inv_witness:
  "sn_tokens (nft (run_calls (exec_input sample_config) sample_inputs sample_genesis))
     (class_id (run_calls (exec_input sample_config) sample_inputs sample_genesis)) 0 \<noteq> None \<longleftrightarrow>
   0 < sn_next (nft (run_calls (exec_input sample_config) sample_inputs sample_genesis))
     (class_id (run_calls (exec_input sample_config) sample_inputs sample_genesis))"
  using kitties_reachable_inv [OF sample_contracts(1,3) sample_fresh sample_genesis refl, of sample_inputs 0]
  by simp


section \<open>Buying\<close>

text \<open>
  C6: A successful \<open>buy\<close> is a swap: it was signed by somebody other than the named owner, the kitty
  was listed at a price within the buyer's limit and belonged to the named owner; afterwards it
  belongs to the buyer with its DNA unchanged, is no longer listed, exactly the listed price has moved
  from the buyer's to the owner's free balance without overflow, no other balance, kitty or price has
  changed, and one \<open>KittySold\<close> event with these values has been logged.
\<close>

theorem buy_swaps:
  assumes "nft_contract T V" "V (nft st)" "currency_contract T B"
    and "buy T origin owner t max_price st = (Ok u, st')"
  shows "\<exists>buyer p x. origin = Signed buyer \<and> buyer \<noteq> owner \<and> kitty_prices st t = Some p \<and> p \<le> max_price \<and>
    nft_tokens T (nft st) (class_id st) t = Some x \<and> ti_owner x = owner \<and>
    nft_tokens T (nft st') (class_id st') =
      (nft_tokens T (nft st) (class_id st))(t \<mapsto> x\<lparr>ti_owner := buyer\<rparr>) \<and>
    kitty_prices st' = (kitty_prices st)(t := None) \<and>
    p \<le> B (currency st) buyer \<and> unat (B (currency st) owner) + unat p < 2 ^ 128 \<and>
    B (currency st') = (B (currency st))
      (buyer := B (currency st) buyer - p, owner := B (currency st) owner + p) \<and>
    events st' = events st @ [KittySold owner buyer t p]"
proof -
  from assms(4) obtain buyer p n c where *: "origin = Signed buyer" "buyer \<noteq> owner"
    "kitty_prices st t = Some p" "p \<le> max_price"
    "nft_transfer T owner buyer (class_id st, t) (nft st) = (Ok (), n)"
    "currency_transfer T buyer owner p KeepAlive (currency st) = (Ok (), c)"
    "st' = st\<lparr>nft := n, currency := c, kitty_prices := (kitty_prices st)(t := None),
              events := events st @ [KittySold owner buyer t p]\<rparr>"
    by (auto simp: buy_Ok)
  from nft_transferD(3) [OF assms(1,2) *(5)] obtain x where x:
    "nft_tokens T (nft st) (class_id st) t = Some x" "ti_owner x = owner"
    "nft_tokens T n = (nft_tokens T (nft st))(class_id st :=
       (nft_tokens T (nft st) (class_id st))(t \<mapsto> x\<lparr>ti_owner := buyer\<rparr>))"
    by blast
  note pay = currencyD [OF assms(3) *(2,6)]
  from * x pay show ?thesis by (intro exI [of _ buyer] exI [of _ p] exI [of _ x]) simp
qed

lemmas sample_buy_defs = buy_def buy_closure_def orml_transfer_def pay_def sample_transfer_def sample_pay_def
  storage_defs transactional_def map_try_mutate_exists_def sample_state_def sample_nft_state_def

theorem buy_swaps_witness:
  "\<exists>st'. buy sample_config (Signed 2) 1 0 50 sample_state = (Ok (), st') \<and>
     currency st' 2 = 60 \<and> currency st' 1 = 140 \<and> kitty_prices st' 0 = None"
proof -
  obtain st' where run: "buy sample_config (Signed 2) 1 0 50 sample_state = (Ok (), st')"
    by (simp add: sample_buy_defs)
  have "kitty_prices sample_state 0 = Some 40" "currency sample_state = (\<lambda>_. 100)"
    by (simp_all add: sample_state_def)
  with buy_swaps [OF sample_contracts(1) _ sample_contracts(2) run] run show ?thesis
    by auto
qed

text \<open>
  C7: A failed \<open>buy\<close> leaves the whole storage exactly as it was, whatever the external calls
  did before they failed, and the pallet's own errors name the first violated condition:
  unsigned origin, buying from oneself, no listed price, a price above the limit; any other error
  comes from the NFT or currency transfer.
\<close>

theorem buy_fails_atomically:
  assumes "buy T origin owner t max_price st = (Err e, st')"
  shows "st' = st \<and>
    e = (case origin of
        Signed buyer \<Rightarrow>
          if buyer = owner then PalletError BuyFromSelf
          else (case kitty_prices st t of
              None \<Rightarrow> PalletError NotForSale
            | Some p \<Rightarrow> if p > max_price then PalletError PriceTooLow else e)
      | _ \<Rightarrow> BadOrigin) \<and>
    (\<forall>buyer p. origin = Signed buyer \<longrightarrow> buyer \<noteq> owner \<longrightarrow> kitty_prices st t = Some p \<longrightarrow> p \<le> max_price \<longrightarrow>
       (\<exists>x. e = External x))"
proof -
  have "st' = st" using assms by (rule buy_Err_unchanged)
  then show ?thesis
    using assms
    by (cases origin; cases "kitty_prices st t")
      (auto simp: buy_def buy_closure_def take_slot_eq attempt_simps not_le split: if_splits)
qed

theorem buy_fails_atomically_witness:
  "buy sample_config (Signed 2) 1 0 39 sample_state = (Err (PalletError PriceTooLow), sample_state)"
proof -
  obtain e st' where run: "buy sample_config (Signed 2) 1 0 39 sample_state = (Err e, st')"
    by (simp add: sample_buy_defs)
  have "kitty_prices sample_state 0 = Some 40" by (simp add: sample_state_def)
  with buy_fails_atomically [OF run] run show ?thesis by simp
qed

text \<open>
  C26: \<open>buy\<close> succeeds whenever it should: if the kitty is listed by its owner at a price within
  the limit, the buyer is somebody else and the currency accepts the payment, the call returns
  \<open>Ok\<close>.
\<close>

theorem buy_succeeds:
  assumes "nft_contract T V" "V (nft st)"
    and "nft_tokens T (nft st) (class_id st) t = Some x" "buyer \<noteq> ti_owner x"
    and "kitty_prices st t = Some p" "p \<le> max_price"
    and "fst (currency_transfer T buyer (ti_owner x) p KeepAlive (currency st)) = Ok ()"
  shows "fst (buy T (Signed buyer) (ti_owner x) t max_price st) = Ok ()"
proof -
  obtain n where "nft_transfer T (ti_owner x) buyer (class_id st, t) (nft st) = (Ok (), n)"
    using nft_transfer_succeeds [OF assms(1,2,3)] by blast
  moreover obtain c where "currency_transfer T buyer (ti_owner x) p KeepAlive (currency st) = (Ok (), c)"
    using assms(7) by (metis prod.collapse)
  ultimately have "\<exists>st'. buy T (Signed buyer) (ti_owner x) t max_price st = (Ok (), st')"
    using assms(4-6) by (simp add: buy_Ok)
  then show ?thesis by auto
qed

theorem buy_succeeds_witness:
  "fst (buy sample_config (Signed 2) 1 0 50 sample_state) = Ok ()"
proof -
  have tok: "nft_tokens sample_config (nft sample_state) (class_id sample_state) 0 =
      Some \<lparr>ti_owner = 1, ti_data = Kitty (replicate 16 0)\<rparr>"
    and price: "kitty_prices sample_state 0 = Some 40"
    and paid: "fst (currency_transfer sample_config 2 1 40 KeepAlive (currency sample_state)) = Ok ()"
    by (simp_all add: sample_state_def sample_nft_state_def sample_pay_def)
  from buy_succeeds [OF sample_contracts(1) _ tok _ price, of 2 50] paid show ?thesis by simp
qed


section \<open>Other calls\<close>

text \<open>
  C25: No failed call of the pallet leaves a trace: if a dispatched call returns an error, the
  storage is the one it started from (for every call but \<open>buy\<close> this relies on the NFT operations
  failing before they write).
\<close>

theorem failed_calls_change_nothing:
  assumes "nft_contract T V" "V (nft st)" "dispatch_call T call origin st = (Err e, st')"
  shows "st' = st"
  using assms by (rule dispatch_Err_unchanged)

theorem failed_calls_change_nothing_witness:
  "snd (dispatch_call sample_config (Call_transfer 3 1) (Signed 1) sample_state) = sample_state"
proof -
  obtain e st' where run: "dispatch_call sample_config (Call_transfer 3 1) (Signed 1) sample_state = (Err e, st')"
    by (simp add: transfer_def sample_buy_defs)
  from failed_calls_change_nothing [OF sample_contracts(1) _ run] run show ?thesis by simp
qed

text \<open>
  C23: A successful \<open>create\<close> gives the signer a new kitty under the next free id, with the
  sixteen bytes hashed from the random seed, the signer and the extrinsic index as its DNA and no
  price; existing kitties and prices stay, and \<open>KittyCreated\<close> is logged.
\<close>

theorem create_mints:
  assumes "kitties_inv T V st" "create T origin st = (Ok u, st')"
  shows "\<exists>who t. origin = Signed who \<and> t = nft_next_token_id T (nft st) (class_id st) \<and>
    nft_tokens T (nft st) (class_id st) t = None \<and> length (random_value T st who) = 16 \<and>
    nft_tokens T (nft st') (class_id st') = (nft_tokens T (nft st) (class_id st))
      (t \<mapsto> \<lparr>ti_owner = who, ti_data = Kitty (random_value T st who)\<rparr>) \<and>
    kitty_prices st' = kitty_prices st \<and> kitty_prices st' t = None \<and>
    nft_next_token_id T (nft st') (class_id st') = t + 1 \<and>
    events st' = events st @ [KittyCreated who t (Kitty (random_value T st who))]"
proof -
  from assms(2) obtain who t n where *: "origin = Signed who"
    "nft_mint T who (class_id st) [] (Kitty (random_value T st who)) (nft st) = (Ok t, n)"
    "st' = st\<lparr>nft := n, events := events st @ [KittyCreated who t (Kitty (random_value T st who))]\<rparr>"
    by (auto simp: create_Ok)
  note m = nft_mintD [OF kitties_invD(1,3) [OF assms(1)] *(2)]
  have free: "token T st t = None" by (rule fresh_token [OF assms(1) *(2)])
  then have "kitty_prices st t = None" using kitties_invD(6) [OF assms(1), of t] by fastforce
  moreover have "length (random_value T st who) = 16"
    using wf_random_value [OF kitties_invD(2) [OF assms(1)]] by (simp add: wf_dna_def)
  ultimately show ?thesis
    using free * m(2,4,5) by (intro exI [of _ who] exI [of _ t]) simp
qed

theorem create_mints_witness:
  "\<exists>st'. create sample_config (Signed 7) sample_state = (Ok (), st') \<and>
     events st' = [KittyCreated 7 2 (Kitty (random_value sample_config sample_state 7))]"
proof -
  obtain st' where run: "create sample_config (Signed 7) sample_state = (Ok (), st')"
    by (simp add: create_def orml_mint_def sample_mint_def sample_state_def sample_nft_state_def Let_def)
  have "events sample_state = []" "sn_next (nft sample_state) (class_id sample_state) = 2"
    by (simp_all add: sample_state_def sample_nft_state_def)
  with create_mints [OF sample_state_inv run] run show ?thesis by auto
qed

text \<open>
  C21: \<open>transfer\<close> succeeds exactly for the signer who owns the kitty. To somebody else it changes the
  owner, delists the kitty and logs \<open>KittyTransferred\<close>; to oneself it changes no kitty, keeps the
  price and logs nothing. No other kitty or price is touched.
\<close>

theorem transfer_behaviour:
  assumes "nft_contract T V" "V (nft st)"
  shows "(fst (transfer T (Signed who) to t st) = Ok () \<longleftrightarrow>
      (\<exists>x. nft_tokens T (nft st) (class_id st) t = Some x \<and> ti_owner x = who)) \<and>
    (\<forall>st'. transfer T (Signed who) to t st = (Ok (), st') \<longrightarrow>
       nft_tokens T (nft st') (class_id st') = (nft_tokens T (nft st) (class_id st))
         (t := map_option (\<lambda>x. x\<lparr>ti_owner := to\<rparr>) (nft_tokens T (nft st) (class_id st) t)) \<and>
       kitty_prices st' = (if who = to then kitty_prices st else (kitty_prices st)(t := None)) \<and>
       events st' = events st @ (if who = to then [] else [KittyTransferred who to t]))"
proof
  show "fst (transfer T (Signed who) to t st) = Ok () \<longleftrightarrow>
      (\<exists>x. nft_tokens T (nft st) (class_id st) t = Some x \<and> ti_owner x = who)"
  proof
    assume "fst (transfer T (Signed who) to t st) = Ok ()"
    then obtain st' where "transfer T (Signed who) to t st = (Ok (), st')" by (metis prod.collapse)
    then obtain n where "nft_transfer T who to (class_id st, t) (nft st) = (Ok (), n)"
      by (auto simp: transfer_Ok)
    from nft_transferD(3) [OF assms this]
    show "\<exists>x. nft_tokens T (nft st) (class_id st) t = Some x \<and> ti_owner x = who" by blast
  next
    assume "\<exists>x. nft_tokens T (nft st) (class_id st) t = Some x \<and> ti_owner x = who"
    then obtain n where "nft_transfer T who to (class_id st, t) (nft st) = (Ok (), n)"
      using nft_transfer_succeeds [OF assms] by blast
    then have "\<exists>st'. transfer T (Signed who) to t st = (Ok (), st')" by (simp add: transfer_Ok)
    then show "fst (transfer T (Signed who) to t st) = Ok ()" by auto
  qed
  show "\<forall>st'. transfer T (Signed who) to t st = (Ok (), st') \<longrightarrow>
       nft_tokens T (nft st') (class_id st') = (nft_tokens T (nft st) (class_id st))
         (t := map_option (\<lambda>x. x\<lparr>ti_owner := to\<rparr>) (nft_tokens T (nft st) (class_id st) t)) \<and>
       kitty_prices st' = (if who = to then kitty_prices st else (kitty_prices st)(t := None)) \<and>
       events st' = events st @ (if who = to then [] else [KittyTransferred who to t])"
    using nft_transferD(3) [OF assms] by (auto simp: transfer_Ok split: if_splits) force+
qed

theorem transfer_behaviour_witness:
  "fst (transfer sample_config (Signed 1) 5 0 sample_state) = Ok () \<and>
   fst (transfer sample_config (Signed 2) 5 0 sample_state) \<noteq> Ok ()"
  using transfer_behaviour [OF sample_contracts(1), where st = sample_state and who = 1 and to = 5 and t = 0]
    transfer_behaviour [OF sample_contracts(1), where st = sample_state and who = 2 and to = 5 and t = 0]
  by (simp add: sample_state_def sample_nft_state_def)

text \<open>
  C22: \<open>set_price\<close> is reserved to the owner: unsigned it returns \<open>BadOrigin\<close>, and for a signer who does not
  own the kitty \<open>NotOwner\<close>, and changes nothing; for the owner it always succeeds, the price getter then
  returns the new price (\<open>None\<close> delists), every other price is unchanged, and of two calls the second one decides.
\<close>

theorem set_price_behaviour:
  assumes "nft_contract T V" "V (nft st)"
  shows "set_price T (Signed who) t p st =
    (if \<exists>x. nft_tokens T (nft st) (class_id st) t = Some x \<and> ti_owner x = who
     then (Ok (), st\<lparr>kitty_prices := (kitty_prices st)(t := p),
                    events := events st @ [KittyPriceUpdated who t p]\<rparr>)
     else (Err (PalletError NotOwner), st)) \<and>
    set_price T NoOrigin t p st = (Err BadOrigin, st) \<and>
    set_price T Root t p st = (Err BadOrigin, st) \<and>
    kitty_prices (snd (set_price T (Signed who) t q (snd (set_price T (Signed who) t p st)))) =
      kitty_prices (snd (set_price T (Signed who) t q st))"
  using nft_indexD [OF assms]
  by (auto simp: set_price_def storage_defs ensure_def)

theorem set_price_behaviour_witness:
  "set_price sample_config (Signed 1) 1 (Some 5) sample_state = (Err (PalletError NotOwner), sample_state) \<and>
   kitty_prices (snd (set_price sample_config (Signed 2) 1 (Some 5) sample_state)) 1 = Some 5"
  using set_price_behaviour [OF sample_contracts(1), where st = sample_state and who = 1 and t = 1 and p = "Some 5"]
    set_price_behaviour [OF sample_contracts(1), where st = sample_state and who = 2 and t = 1 and p = "Some 5"]
  by (simp add: sample_state_def sample_nft_state_def)

text \<open>The error of breeding two kitties for an owner: equal genders, else the error of the mint.\<close>

definition breeding_error ::
  "('acc, 'n, 'c, 'sys, 'e) kitties_config \<Rightarrow> ('acc, 'n, 'c, 'sys) kitties_storage \<Rightarrow> 'acc \<Rightarrow> Kitty \<Rightarrow> Kitty \<Rightarrow>
   'e kitties_error \<Rightarrow> bool" where
  "breeding_error T st owner k1 k2 e \<longleftrightarrow>
     (if gender k1 = gender k2 then e = PalletError SameGender
      else \<exists>x n. e = External x \<and> nft_mint T owner (class_id st) []
        (Kitty (breed_dna (dna k1) (dna k2) (random_value T st owner))) (nft st) = (Err x, n))"

lemma do_breed_error: "do_breed T owner k1 k2 st = (Err e, st') \<Longrightarrow> breeding_error T st owner k1 k2 e"
  by (auto simp: do_breed_Err breeding_error_def)

lemma breed_Err_kinds:
  assumes "breed T (Signed who) t1 t2 st = (Err e, st')"
  shows "(kitties T st who t1 = None \<or> kitties T st who t2 = None) \<and> e = PalletError InvalidKittyId \<or>
    (\<exists>k1 k2. kitties T st who t1 = Some k1 \<and> kitties T st who t2 = Some k2 \<and> breeding_error T st who k1 k2 e)"
  using assms by (auto simp: breed_Err dest: do_breed_error)

text \<open>
  C20: A successful \<open>breed\<close> needs a signer who owns both parents, which have different genders; it
  adds exactly one kitty, owned by the signer, under an unused id, with sixteen bytes of DNA, bred under the signer's
  random value, of which every bit equals the bit of one of the parents. A failed \<open>breed\<close> changes nothing and returns
  \<open>InvalidKittyId\<close> exactly if the signer does not own both parents, \<open>SameGender\<close> exactly if
  they do but the genders agree, and otherwise the error of the mint of this very kitty.
\<close>

theorem breed_behaviour:
  assumes "kitties_inv T V st"
  shows "case breed T (Signed who) t1 t2 st of
      (Ok u, st') \<Rightarrow> \<exists>k1 k2 t k. kitties T st who t1 = Some k1 \<and> kitties T st who t2 = Some k2 \<and>
        gender k1 \<noteq> gender k2 \<and> token T st t = None \<and>
        token T st' = (token T st)(t \<mapsto> \<lparr>ti_owner = who, ti_data = k\<rparr>) \<and>
        k = Kitty (breed_dna (dna k1) (dna k2) (random_value T st who)) \<and>
        wf_kitty k \<and> (\<forall>i<16. \<forall>n. bit (dna k ! i) n \<in> {bit (dna k1 ! i) n, bit (dna k2 ! i) n}) \<and>
        kitty_prices st' = kitty_prices st \<and> events st' = events st @ [KittyBred who t k]
    | (Err e, st') \<Rightarrow> st' = st \<and>
        (e = PalletError InvalidKittyId \<longleftrightarrow> kitties T st who t1 = None \<or> kitties T st who t2 = None) \<and>
        (e = PalletError SameGender \<longleftrightarrow> (\<exists>k1 k2. kitties T st who t1 = Some k1 \<and>
           kitties T st who t2 = Some k2 \<and> gender k1 = gender k2)) \<and>
        (\<forall>k1 k2. kitties T st who t1 = Some k1 \<longrightarrow> kitties T st who t2 = Some k2 \<longrightarrow> gender k1 \<noteq> gender k2 \<longrightarrow>
           (\<exists>x n. e = External x \<and> nft_mint T who (class_id st) []
              (Kitty (breed_dna (dna k1) (dna k2) (random_value T st who))) (nft st) = (Err x, n)))"
proof (cases "breed T (Signed who) t1 t2 st")
  case (Pair r st')
  show ?thesis
  proof (cases r)
    case (Ok u)
    with Pair obtain k1 k2 t n k where *: "kitties T st who t1 = Some k1" "kitties T st who t2 = Some k2"
      "gender k1 \<noteq> gender k2" "k = Kitty (breed_dna (dna k1) (dna k2) (random_value T st who))"
      "nft_mint T who (class_id st) [] k (nft st) = (Ok t, n)"
      "st' = st\<lparr>nft := n, events := events st @ [KittyBred who t k]\<rparr>"
      by (auto simp: breed_Ok do_breed_Ok)
    have wf: "wf_dna (dna k1)"
      using *(1) kitties_invD(5) [OF assms] by (auto simp: kitties_eq_Some wf_kitty_def)
    have "bit (dna k ! i) m \<in> {bit (dna k1 ! i) m, bit (dna k2 ! i) m}" if "i < 16" for i m
      using that wf bit_imp_le_length [of "dna k1 ! i" m]
      by (auto simp: *(4) breed_dna_nth combine.bit_mix)
    moreover have "wf_kitty k" using wf by (simp add: *(4) wf_kitty_def wf_breed_dna)
    moreover have "token T st' = (token T st)(t \<mapsto> \<lparr>ti_owner = who, ti_data = k\<rparr>)"
      using nft_mintD(5) [OF kitties_invD(1,3) [OF assms] *(5)] by (simp add: *(6))
    ultimately show ?thesis
      unfolding Pair Ok prod.case result.case
      using fresh_token [OF assms *(5)] *(1-4,6)
      by (intro exI [of _ k1] exI [of _ k2] exI [of _ t] exI [of _ k]) simp
  next
    case (Err e)
    with Pair have "st' = st" using breed_Err_unchanged [OF kitties_invD(1,3) [OF assms]] by blast
    then show ?thesis
      unfolding Pair Err prod.case result.case using breed_Err_kinds [OF Pair [unfolded Err]]
      by (auto simp: breeding_error_def split: if_splits)
  qed
qed

theorem breed_behaviour_witness:
  "breed sample_config (Signed 1) 0 0 sample_state = (Err (PalletError SameGender), sample_state)"
proof -
  have k: "kitties sample_config sample_state 1 0 = Some (Kitty (replicate 16 0))"
    by (simp add: kitties_def sample_state_def sample_nft_state_def)
  show ?thesis
    using breed_behaviour [OF sample_state_inv, of 1 0 0] k
    by (auto split: prod.splits result.splits)
qed

lemma auto_breed_Err_kinds:
  assumes "auto_breed T NoOrigin t1 t2 nonce solution st = (Err e, st')"
  shows "(token T st t1 = None \<or> token T st t2 = None) \<and> e = PalletError InvalidKittyId \<or>
    (\<exists>x1 x2. token T st t1 = Some x1 \<and> token T st t2 = Some x2 \<and>
       breeding_error T st (ti_owner x1) (ti_data x1) (ti_data x2) e)"
  using assms by (auto simp: auto_breed_Err dest: do_breed_error)

lemma auto_breed_eq_breed:
  assumes "kitties T st who t1 = Some k1" "kitties T st who t2 = Some k2"
  shows "auto_breed T NoOrigin t1 t2 nonce solution st = breed T (Signed who) t1 t2 st"
proof -
  from assms obtain x1 x2 where "token T st t1 = Some x1" "token T st t2 = Some x2"
    "ti_owner x1 = who" "ti_data x1 = k1" "ti_data x2 = k2"
    by (auto simp: kitties_eq_Some)
  with assms show ?thesis by (simp add: auto_breed_def breed_def)
qed

text \<open>
  C24: \<open>auto_breed\<close> is only for unsigned extrinsics and checks neither nonce nor solution itself. On two
  kitties of one owner it does exactly what \<open>breed\<close> signed by the owner does. In general a success adds one kitty
  under the next id, bred under the random value of the first parent's owner, who gets it, whoever owns the
  second parent; prices and nonce stay and one \<open>KittyBred\<close> is logged. A failure changes nothing; its error
  is \<open>InvalidKittyId\<close> exactly if a parent does not exist, \<open>SameGender\<close> exactly if both do and the genders
  agree, and otherwise the error of the mint of this very kitty.
\<close>

theorem auto_breed_behaviour:
  assumes "nft_contract T V" "V (nft st)"
  shows "(\<forall>orig. orig \<noteq> NoOrigin \<longrightarrow> auto_breed T orig t1 t2 nonce solution st = (Err BadOrigin, st)) \<and>
    auto_breed T NoOrigin t1 t2 nonce solution st = auto_breed T NoOrigin t1 t2 nonce' solution' st \<and>
    (\<forall>who k1 k2. kitties T st who t1 = Some k1 \<longrightarrow> kitties T st who t2 = Some k2 \<longrightarrow>
       auto_breed T NoOrigin t1 t2 nonce solution st = breed T (Signed who) t1 t2 st) \<and>
    (case auto_breed T NoOrigin t1 t2 nonce solution st of
       (Ok u, st') \<Rightarrow> \<exists>x1 x2 t k. token T st t1 = Some x1 \<and> token T st t2 = Some x2 \<and>
         gender (ti_data x1) \<noteq> gender (ti_data x2) \<and> t = nft_next_token_id T (nft st) (class_id st) \<and>
         k = Kitty (breed_dna (dna (ti_data x1)) (dna (ti_data x2)) (random_value T st (ti_owner x1))) \<and>
         token T st' = (token T st)(t \<mapsto> \<lparr>ti_owner = ti_owner x1, ti_data = k\<rparr>) \<and>
         kitty_prices st' = kitty_prices st \<and> auto_breed_nonce st' = auto_breed_nonce st \<and>
         events st' = events st @ [KittyBred (ti_owner x1) t k]
     | (Err e, st') \<Rightarrow> st' = st \<and>
         (e = PalletError InvalidKittyId \<longleftrightarrow> token T st t1 = None \<or> token T st t2 = None) \<and>
         (e = PalletError SameGender \<longleftrightarrow> (\<exists>x1 x2. token T st t1 = Some x1 \<and> token T st t2 = Some x2 \<and>
            gender (ti_data x1) = gender (ti_data x2))) \<and>
         (\<forall>x1 x2. token T st t1 = Some x1 \<longrightarrow> token T st t2 = Some x2 \<longrightarrow>
            gender (ti_data x1) \<noteq> gender (ti_data x2) \<longrightarrow>
            (\<exists>x n. e = External x \<and> nft_mint T (ti_owner x1) (class_id st) []
               (Kitty (breed_dna (dna (ti_data x1)) (dna (ti_data x2)) (random_value T st (ti_owner x1)))) (nft st) =
                 (Err x, n))))"
proof (intro conjI allI impI)
  fix orig :: "'a origin" assume "orig \<noteq> NoOrigin"
  then show "auto_breed T orig t1 t2 nonce solution st = (Err BadOrigin, st)"
    by (cases orig) (simp_all add: auto_breed_def)
next
  show "auto_breed T NoOrigin t1 t2 nonce solution st = auto_breed T NoOrigin t1 t2 nonce' solution' st"
    by (simp add: auto_breed_def)
next
  fix who k1 k2 assume "kitties T st who t1 = Some k1" "kitties T st who t2 = Some k2"
  then show "auto_breed T NoOrigin t1 t2 nonce solution st = breed T (Signed who) t1 t2 st"
    by (rule auto_breed_eq_breed)
next
  obtain r st' where run: "auto_breed T NoOrigin t1 t2 nonce solution st = (r, st')" by fastforce
  show "case auto_breed T NoOrigin t1 t2 nonce solution st of
       (Ok u, st') \<Rightarrow> \<exists>x1 x2 t k. token T st t1 = Some x1 \<and> token T st t2 = Some x2 \<and>
         gender (ti_data x1) \<noteq> gender (ti_data x2) \<and> t = nft_next_token_id T (nft st) (class_id st) \<and>
         k = Kitty (breed_dna (dna (ti_data x1)) (dna (ti_data x2)) (random_value T st (ti_owner x1))) \<and>
         token T st' = (token T st)(t \<mapsto> \<lparr>ti_owner = ti_owner x1, ti_data = k\<rparr>) \<and>
         kitty_prices st' = kitty_prices st \<and> auto_breed_nonce st' = auto_breed_nonce st \<and>
         events st' = events st @ [KittyBred (ti_owner x1) t k]
     | (Err e, st') \<Rightarrow> st' = st \<and>
         (e = PalletError InvalidKittyId \<longleftrightarrow> token T st t1 = None \<or> token T st t2 = None) \<and>
         (e = PalletError SameGender \<longleftrightarrow> (\<exists>x1 x2. token T st t1 = Some x1 \<and> token T st t2 = Some x2 \<and>
            gender (ti_data x1) = gender (ti_data x2))) \<and>
         (\<forall>x1 x2. token T st t1 = Some x1 \<longrightarrow> token T st t2 = Some x2 \<longrightarrow>
            gender (ti_data x1) \<noteq> gender (ti_data x2) \<longrightarrow>
            (\<exists>x n. e = External x \<and> nft_mint T (ti_owner x1) (class_id st) []
               (Kitty (breed_dna (dna (ti_data x1)) (dna (ti_data x2)) (random_value T st (ti_owner x1)))) (nft st) =
                 (Err x, n)))"
  proof (cases r)
    case (Ok u)
    with run obtain x1 x2 t n k where *: "token T st t1 = Some x1" "token T st t2 = Some x2"
      "gender (ti_data x1) \<noteq> gender (ti_data x2)"
      "k = Kitty (breed_dna (dna (ti_data x1)) (dna (ti_data x2)) (random_value T st (ti_owner x1)))"
      "nft_mint T (ti_owner x1) (class_id st) [] k (nft st) = (Ok t, n)"
      "st' = st\<lparr>nft := n, events := events st @ [KittyBred (ti_owner x1) t k]\<rparr>"
      by (auto simp: auto_breed_Ok do_breed_Ok)
    then show ?thesis
      unfolding run Ok prod.case result.case using nft_mintD(2,5) [OF assms *(5)]
      by (intro exI [of _ x1] exI [of _ x2] exI [of _ t] exI [of _ k]) simp
  next
    case (Err e)
    have "st' = st" using auto_breed_Err_unchanged [OF assms run [unfolded Err]] .
    then show ?thesis
      unfolding run Err prod.case result.case using auto_breed_Err_kinds [OF run [unfolded Err]]
      by (auto simp: breeding_error_def split: if_splits)
  qed
qed

theorem auto_breed_behaviour_witness:
  "auto_breed sample_config (Signed 1) 0 1 0 0 sample_state = (Err BadOrigin, sample_state) \<and>
   is_ok (fst (auto_breed sample_config NoOrigin 0 1 7 9 sample_state))"
proof -
  have "is_ok (fst (auto_breed sample_config NoOrigin 0 1 0 0 sample_state))"
    by (simp add: auto_breed_def do_breed_def orml_mint_def sample_mint_def sample_state_def
        sample_nft_state_def gender_def Let_def)
  with auto_breed_behaviour [OF sample_contracts(1), where st = sample_state and ?t1.0 = 0 and ?t2.0 = 1
      and nonce = 0 and solution = 0 and nonce' = 7 and solution' = 9]
  show ?thesis by auto
qed

end
