(* ===== verification/Kitties_Ownership.thy ===== *)
theory Kitties_Ownership
  imports Kitties_Properties
begin

text \<open>
  Who may do what to a kitty: ownership and asking price change only on the authority of the owner or through a
  paid purchase, and a kitty that exists is never lost. The theorems look at a single input of the machine of
  theory \<open>Kitties_Machine\<close>, whatever its origin, or at any sequence of inputs.
\<close>

section \<open>Ownership\<close>

lemma owner_after_mint:
  assumes "kitties_inv T V st" "nft_mint T who (class_id st) [] k (nft st) = (Ok t', n)"
    and "token T st t = Some x"
  shows "nft_tokens T n (class_id st) t = Some x"
proof -
  have "t \<noteq> t'" using fresh_token [OF assms(1,2)] assms(3) by auto
  then show ?thesis
    using nft_mintD(5) [OF kitties_invD(1,3) [OF assms(1)] assms(2)] assms(3) by simp
qed

lemma owner_after_transfer:
  assumes "kitties_inv T V st" "nft_transfer T from to (class_id st, t') (nft st) = (Ok u, n)"
    and "token T st t = Some x"
  shows "nft_tokens T n (class_id st) t = Some (if t = t' then x\<lparr>ti_owner := to\<rparr> else x)"
    and "t = t' \<Longrightarrow> ti_owner x = from"
  using nft_transferD(3) [OF kitties_invD(1,3) [OF assms(1)] assms(2)] assms(3) by auto

lemma owner_before_transfer:
  assumes "kitties_inv T V st" "nft_transfer T from to (class_id st, t) (nft st) = (Ok u, n)"
  shows "\<exists>x. token T st t = Some x \<and> ti_owner x = from"
  using nft_transferD(3) [OF kitties_invD(1,3) [OF assms(1)] assms(2)] by blast

text \<open>
  C4: The owner of a kitty changes only by the owner's own signed \<open>transfer\<close> to the new owner, or
  by the new owner's signed \<open>buy\<close> at a price the kitty was listed for, which the old owner has
  then received; in both cases the kitty is delisted. No other input to the pallet, from
  whatever origin, moves a kitty, and no input changes its DNA or removes it.
\<close>

theorem ownership_change_authorised:
  assumes "kitties_inv T V st" "currency_contract T B"
    and "nft_tokens T (nft st) (class_id st) t = Some x"
    and "st' = exec_input T i st"
  shows "\<exists>y. nft_tokens T (nft st') (class_id st') t = Some y \<and> ti_data y = ti_data x \<and>
    (ti_owner y = ti_owner x \<or>
     kitty_prices st' t = None \<and>
     (i = Dispatch (Signed (ti_owner x)) (Call_transfer (ti_owner y) t) \<or>
      (\<exists>max_price p. i = Dispatch (Signed (ti_owner y)) (Call_buy (ti_owner x) t max_price) \<and>
         kitty_prices st t = Some p \<and> p \<le> max_price \<and>
         B (currency st') (ti_owner x) = B (currency st) (ti_owner x) + p)))"
proof (cases i)
  case (Dispatch orig call)
  obtain r where d: "dispatch_call T call orig st = (r, st')"
    using assms(4) Dispatch by (metis exec_input.simps(1) prod.collapse)
  show ?thesis
  proof (cases r)
    case (Err e)
    with d have "st' = st" using dispatch_Err_unchanged [OF kitties_invD(1,3) [OF assms(1)]] by blast
    with assms(3) show ?thesis by simp
  next
    case (Ok u)
    show ?thesis
    proof (cases call)
      case (Call_transfer to t')
      with d Ok owner_after_transfer [OF assms(1) _ assms(3)] Dispatch show ?thesis
        by (auto simp: transfer_Ok assms(3))
    next
      case (Call_buy owner t' m)
      with d Ok obtain buyer p n c where *: "orig = Signed buyer" "buyer \<noteq> owner" "p \<le> m"
        "kitty_prices st t' = Some p" "nft_transfer T owner buyer (class_id st, t') (nft st) = (Ok (), n)"
        "currency_transfer T buyer owner p KeepAlive (currency st) = (Ok (), c)"
        "st' = st\<lparr>nft := n, currency := c, kitty_prices := (kitty_prices st)(t' := None),
                  events := events st @ [KittySold owner buyer t' p]\<rparr>"
        by (auto simp: buy_Ok)
      with owner_after_transfer [OF assms(1) *(5) assms(3)] currencyD(3) [OF assms(2) *(2,6)] Dispatch
        Call_buy show ?thesis by auto
    qed (use d Ok owner_after_mint [OF assms(1) _ assms(3)] assms(3)
         in \<open>auto simp: create_Ok breed_Ok auto_breed_Ok do_breed_Ok set_price_Ok\<close>)
  qed
next
  case (Validate source call)
  then obtain k where "st' = st\<lparr>auto_breed_nonce := k\<rparr>"
    using assms(4) validate_unsigned_frame by (metis exec_input.simps(2) prod.collapse)
  with assms(3) show ?thesis by simp
next
  case (Environment c s)
  with assms(3,4) show ?thesis by simp
qed

theorem ownership_change_authorised_witness:
  "\<exists>y. sn_tokens (nft (exec_input sample_config (Dispatch (Signed 2) (Call_buy 1 0 50)) sample_state))
     (class_id (exec_input sample_config (Dispatch (Signed 2) (Call_buy 1 0 50)) sample_state)) 0 = Some y \<and>
     ti_data y = Kitty (replicate 16 0)"
proof -
  have tok: "nft_tokens sample_config (nft sample_state) (class_id sample_state) 0 =
      Some \<lparr>ti_owner = 1, ti_data = Kitty (replicate 16 0)\<rparr>"
    by (simp add: sample_state_def sample_nft_state_def)
  from ownership_change_authorised [OF sample_state_inv sample_contracts(2) tok refl,
      of "Dispatch (Signed 2) (Call_buy 1 0 50)"]
  show ?thesis by auto
qed

text \<open>
  C5: The asking price of a kitty is in its owner's hands: an input changes it only if it is the owner's signed
  \<open>set_price\<close> to exactly the new price, the owner's signed \<open>transfer\<close> of the kitty to somebody
  else, or another account's \<open>buy\<close> from the owner at a limit that covers the price, and the last two delist the
  kitty. Breeding, minting, validation, failed calls and whatever else happens on the chain leave every price as it is.
\<close>

theorem price_change_authorised:
  assumes "kitties_inv T V st" "st' = exec_input T i st" "kitty_prices st' t \<noteq> kitty_prices st t"
  shows "\<exists>x. nft_tokens T (nft st) (class_id st) t = Some x \<and>
    (i = Dispatch (Signed (ti_owner x)) (Call_set_price t (kitty_prices st' t)) \<or>
     kitty_prices st' t = None \<and>
     ((\<exists>to. to \<noteq> ti_owner x \<and> i = Dispatch (Signed (ti_owner x)) (Call_transfer to t)) \<or>
      (\<exists>buyer max_price p. buyer \<noteq> ti_owner x \<and> i = Dispatch (Signed buyer) (Call_buy (ti_owner x) t max_price) \<and>
         kitty_prices st t = Some p \<and> p \<le> max_price)))"
proof -
  note N = kitties_invD(1,3) [OF assms(1)]
  note moved = owner_before_transfer [OF assms(1)]
  show ?thesis
  proof (cases i)
    case (Dispatch orig call)
    obtain r where d: "dispatch_call T call orig st = (r, st')"
      using assms(2) Dispatch by (metis exec_input.simps(1) prod.collapse)
    then obtain u where Ok: "r = Ok u"
      using dispatch_Err_unchanged [OF N] assms(3) by (cases r) blast+
    show ?thesis
    proof (cases call)
      case (Call_transfer to t')
      with d Ok obtain who n where *: "orig = Signed who" "nft_transfer T who to (class_id st, t') (nft st) = (Ok (), n)"
        "st' = (if who = to then st\<lparr>nft := n\<rparr> else st\<lparr>nft := n, kitty_prices := (kitty_prices st)(t' := None),
                 events := events st @ [KittyTransferred who to t']\<rparr>)"
        by (auto simp: transfer_Ok)
      then have "t' = t" "who \<noteq> to" using assms(3) by (auto split: if_splits)
      with moved [OF *(2)] * Dispatch Call_transfer show ?thesis by auto
    next
      case (Call_set_price t' p)
      with d Ok obtain who where *: "orig = Signed who" "nft_tokens_by_owner T (nft st) who (class_id st, t')"
        "st' = st\<lparr>kitty_prices := (kitty_prices st)(t' := p), events := events st @ [KittyPriceUpdated who t' p]\<rparr>"
        by (auto simp: set_price_Ok)
      then have "t' = t" using assms(3) by (auto split: if_splits)
      with nft_indexD [OF N] * Dispatch Call_set_price show ?thesis by auto
    next
      case (Call_buy owner t' m)
      with d Ok obtain who p n c where *: "orig = Signed who" "who \<noteq> owner" "kitty_prices st t' = Some p" "p \<le> m"
        "nft_transfer T owner who (class_id st, t') (nft st) = (Ok (), n)"
        "st' = st\<lparr>nft := n, currency := c, kitty_prices := (kitty_prices st)(t' := None),
                  events := events st @ [KittySold owner who t' p]\<rparr>"
        by (auto simp: buy_Ok)
      then have "t' = t" using assms(3) by (auto split: if_splits)
      with moved [OF *(5)] * Dispatch Call_buy show ?thesis by auto
    qed (use d Ok assms(3) in \<open>auto simp: create_Ok breed_Ok auto_breed_Ok do_breed_Ok\<close>)
  next
    case (Validate source call)
    then obtain k where "st' = st\<lparr>auto_breed_nonce := k\<rparr>"
      using assms(2) validate_unsigned_frame by (metis exec_input.simps(2) prod.collapse)
    with assms(3) show ?thesis by simp
  next
    case (Environment c s)
    with assms(2,3) show ?thesis by simp
  qed
qed

theorem price_change_authorised_witness:
  "\<exists>x. nft_tokens sample_config (nft sample_state) (class_id sample_state) 0 = Some x \<and> ti_owner x = 1 \<and>
     kitty_prices (exec_input sample_config (Dispatch (Signed 1) (Call_set_price 0 (Some 55))) sample_state) 0 = Some 55"
proof -
  have run: "kitty_prices (exec_input sample_config (Dispatch (Signed 1) (Call_set_price 0 (Some 55))) sample_state) 0 = Some 55"
    by (simp add: set_price_def sample_by_owner_def storage_defs sample_state_def sample_nft_state_def)
  moreover have "kitty_prices sample_state 0 = Some 40" by (simp add: sample_state_def)
  ultimately show ?thesis
    using price_change_authorised [OF sample_state_inv refl,
        of "Dispatch (Signed 1) (Call_set_price 0 (Some 55))" 0] by auto
qed

text \<open>The kitties that exist, as an observation of the state that only grows.\<close>

definition kitty_set ::
  "('acc, 'n, 'c, 'sys, 'e) kitties_config \<Rightarrow> ('acc, 'n, 'c, 'sys) kitties_storage \<Rightarrow> (u32 \<times> Kitty) set" where
  "kitty_set T st = {(t, ti_data x) | t x. token T st t = Some x}"

lemma kitty_set_ledger_step:
  assumes "ledger_step (ledger_of T st) e (ledger_of T st')"
  shows "kitty_set T st \<subseteq> kitty_set T st'"
proof -
  have "\<exists>y. l_tokens L' t = Some y \<and> ti_data y = ti_data x"
    if "ledger_step L e L'" "l_tokens L t = Some x" for L L' e t x
    using that by (induction rule: ledger_step.induct) auto
  from this [OF assms] show ?thesis by (fastforce simp: kitty_set_def)
qed

interpretation kept: monotone_machine "exec_input T" "kitties_inv T V" "kitty_set T" for T V
proof unfold_locales
  fix st i assume "kitties_inv T V st"
  from sim_exec_input [OF this, of i] consider "ledger_of T (exec_input T i st) = ledger_of T st" |
    e where "ledger_step (ledger_of T st) e (ledger_of T (exec_input T i st))" by blast
  then show "kitty_set T st \<le> kitty_set T (exec_input T i st)"
    by cases (simp add: kitty_set_def ledger_of_def, rule kitty_set_ledger_step)
qed

text \<open>
  C17: Kitties are forever: whatever inputs follow, a kitty that exists keeps existing
  under its id with the same DNA.
\<close>

theorem kitties_persist:
  assumes "kitties_inv T V st" "nft_tokens T (nft st) (class_id st) t = Some x"
    and "st' = run_calls (exec_input T) is st"
  shows "\<exists>y. nft_tokens T (nft st') (class_id st') t = Some y \<and> ti_data y = ti_data x"
proof -
  have "(t, ti_data x) \<in> kitty_set T st" using assms(2) by (auto simp: kitty_set_def)
  then have "(t, ti_data x) \<in> kitty_set T st'"
    using kept.obs_run [OF assms(1), of "is"] assms(3) by auto
  then show ?thesis by (auto simp: kitty_set_def)
qed

theorem kitties_persist_witness:
  "\<exists>y. sn_tokens (nft (run_calls (exec_input sample_config) sample_inputs sample_state))
     (class_id (run_calls (exec_input sample_config) sample_inputs sample_state)) 1 = Some y \<and>
     ti_data y = Kitty (replicate 16 1)"
proof -
  have tok: "nft_tokens sample_config (nft sample_state) (class_id sample_state) 1 =
      Some \<lparr>ti_owner = 2, ti_data = Kitty (replicate 16 1)\<rparr>"
    by (simp add: sample_state_def sample_nft_state_def)
  from kitties_persist [OF sample_state_inv tok refl, of sample_inputs] show ?thesis by simp
qed

end
