(* ===== verification/Kitties_Nonce.thy ===== *)
theory Kitties_Nonce
  imports Kitties_Properties
begin

text \<open>
  The validation of unsigned transactions: which hashes solve the proof of work, how the nonce of automatic
  breedings moves, that it keeps a transaction from being accepted twice, and where it fails to.
\<close>

section \<open>Proof of work and nonces\<close>

text \<open>
  C27: With a non-zero difficulty the check never panics and accepts a solution exactly if the
  hash, read as a little-endian number, is below the quotient of the largest \<open>u128\<close> and
  the difficulty; out of all \<open>2^128\<close> hashes exactly that many are accepted. With difficulty zero
  every check panics.
\<close>

theorem validate_solution_threshold:
  "(default_difficulty T = 0 \<longrightarrow> validate_solution T t1 t2 nonce solution = None) \<and>
   (default_difficulty T \<noteq> 0 \<longrightarrow>
      validate_solution T t1 t2 nonce solution =
        Some (unat (from_le_bytes (blake2_128 T (encode_solution T (t1, t2, nonce, solution)))) <
              (2 ^ 128 - 1) div unat (default_difficulty T)) \<and>
      card {hash. length hash = 16 \<and>
              unat (from_le_bytes hash) < (2 ^ 128 - 1) div unat (default_difficulty T)} =
        (2 ^ 128 - 1) div unat (default_difficulty T))"
proof (intro conjI impI)
  assume "default_difficulty T = 0"
  then show "validate_solution T t1 t2 nonce solution = None"
    by (simp add: validate_solution_def Let_def)
next
  let ?d = "default_difficulty T"
  let ?k = "(- 1 :: u128) div ucast ?d"
  assume nz: "?d \<noteq> 0"
  note k = unat_threshold [of ?d]
  show "validate_solution T t1 t2 nonce solution =
      Some (unat (from_le_bytes (blake2_128 T (encode_solution T (t1, t2, nonce, solution)))) <
            (2 ^ 128 - 1) div unat ?d)"
    using nz by (rule validate_solution_nat)
  have "card {hash. length hash = 16 \<and> from_le_bytes hash < ?k} = card {x. x < ?k}"
  proof (rule bij_betw_same_card)
    show "bij_betw from_le_bytes {hash. length hash = 16 \<and> from_le_bytes hash < ?k} {x. x < ?k}"
      using bij_from_le_bytes unfolding bij_betw_def by (auto simp: inj_on_def)
  qed
  then have "card {hash. length hash = 16 \<and> from_le_bytes hash < ?k} = unat ?k"
    by (simp only: card_word_less)
  then show "card {hash. length hash = 16 \<and> unat (from_le_bytes hash) < (2 ^ 128 - 1) div unat ?d} =
      (2 ^ 128 - 1) div unat ?d"
    unfolding word_less_nat_alt k .
qed

theorem validate_solution_threshold_witness:
  "validate_solution sample_config 0 1 0 5 = Some True \<and> default_difficulty sample_config \<noteq> 0"
proof -
  have "unat (from_le_bytes (blake2_128 sample_config (encode_solution sample_config (0, 1, 0, 5)))) < 10"
    by (simp add: sample_config_def sample_blake2_def from_le_bytes_surj)
  then show ?thesis using validate_solution_threshold [of sample_config 0 1 0 5] by simp
qed

lemma dispatch_nonce:
  assumes "dispatch_call T call orig st = (r, st')"
  shows "auto_breed_nonce st' = auto_breed_nonce st"
proof -
  have "auto_breed_nonce st' = auto_breed_nonce st" if "do_breed T who k1 k2 st = (r, st')" for who k1 k2
    using that by (cases r) (auto simp: do_breed_Ok do_breed_Err)
  moreover have "auto_breed_nonce st' = auto_breed_nonce st" if "buy T orig owner t m st = (r, st')" for owner t m
    using that by (cases r) (auto simp: buy_Ok dest: buy_Err_unchanged)
  ultimately show ?thesis
    using assms by (cases call; cases r) (auto simp: call_Ok call_Err simp del: do_breed_Ok do_breed_Err)
qed

interpretation nonces: monotone_machine "exec_input T" "\<lambda>_. True" auto_breed_nonce for T
proof unfold_locales
  fix st i
  show "auto_breed_nonce st \<le> auto_breed_nonce (exec_input T i st)"
  proof (cases i)
    case (Dispatch orig call)
    then show ?thesis using dispatch_nonce by (metis exec_input.simps(1) order_refl prod.collapse)
  next
    case (Validate source call)
    then show ?thesis
      by (cases call) (auto simp: validate_unsigned_def saturating_add_ge split: option.splits bool.splits)
  qed simp
qed simp

text \<open>
  C15: No replay below the last nonce: once an unsigned \<open>auto_breed\<close> with some nonce other than the
  largest \<open>u32\<close> has been validated, no \<open>auto_breed\<close> with that nonce, whatever its kitties and
  solution, is ever validated again, whatever inputs the pallet processes in between.
\<close>

theorem nonce_never_reused:
  assumes "validate_unsigned T source (Call_auto_breed t1 t2 nonce solution) st = (Some (Ok v), st')"
    and "nonce \<noteq> - 1"
  shows "fst (validate_unsigned T source' (Call_auto_breed t1' t2' nonce solution')
    (run_calls (exec_input T) is st')) \<noteq> Some (Ok v')"
proof
  let ?st = "run_calls (exec_input T) is st'"
  assume "fst (validate_unsigned T source' (Call_auto_breed t1' t2' nonce solution') ?st) = Some (Ok v')"
  then obtain st2 where "validate_unsigned T source' (Call_auto_breed t1' t2' nonce solution') ?st =
      (Some (Ok v'), st2)" by (metis prod.collapse)
  then have eq: "auto_breed_nonce ?st = nonce" by (simp add: validate_unsigned_accepts)
  have "auto_breed_nonce st' = saturating_add nonce 1"
    using assms(1) by (auto simp: validate_unsigned_accepts)
  moreover have "auto_breed_nonce st' \<le> auto_breed_nonce ?st"
    using nonces.obs_run [of st' T "is"] by simp
  ultimately show False
    using saturating_add_one_strict [OF assms(2)] eq by simp
qed

lemma sample_validates:
  assumes "auto_breed_nonce st = nonce"
  shows "validate_unsigned sample_config InBlock (Call_auto_breed 0 1 nonce 5) st =
    (Some (Ok kitties_valid), st\<lparr>auto_breed_nonce := saturating_add nonce 1\<rparr>)"
proof -
  have "from_le_bytes (blake2_128 sample_config (encode_solution sample_config (0, 1, nonce, 5))) = 5"
    by (simp add: sample_config_def sample_blake2_def from_le_bytes_surj)
  then have "validate_solution sample_config 0 1 nonce 5 = Some True"
    by (simp add: validate_solution_def Let_def)
  with assms show ?thesis by (simp add: validate_unsigned_accepts)
qed

theorem nonce_never_reused_witness:
  "fst (validate_unsigned sample_config InBlock (Call_auto_breed 0 1 0 5)
     (run_calls (exec_input sample_config) sample_inputs
       (snd (validate_unsigned sample_config InBlock (Call_auto_breed 0 1 0 5) sample_state)))) \<noteq>
   Some (Ok kitties_valid)"
proof -
  have "auto_breed_nonce sample_state = 0" by (simp add: sample_state_def)
  note run = sample_validates [OF this]
  from nonce_never_reused [OF run, of InBlock 0 1 5 sample_inputs kitties_valid] run
  show ?thesis by simp
qed

text \<open>
  C28: At the largest nonce the replay protection ends: the saturating increment leaves the nonce at
  \<open>u32::MAX\<close>, so a transaction validated there leaves the storage unchanged and is valid again
  and again.
\<close>

theorem nonce_replay_at_max:
  assumes "validate_unsigned T source (Call_auto_breed t1 t2 (- 1) solution) st = (Some (Ok v), st')"
  shows "st' = st \<and>
    validate_unsigned T source' (Call_auto_breed t1 t2 (- 1) solution) st' = (Some (Ok v), st')"
proof -
  have n: "auto_breed_nonce st = - 1" using assms by (simp add: validate_unsigned_accepts)
  with assms have "st' = st\<lparr>auto_breed_nonce := auto_breed_nonce st\<rparr>"
    by (auto simp: validate_unsigned_accepts)
  then have st': "st' = st" by simp
  moreover from assms have "validate_unsigned T source' (Call_auto_breed t1 t2 (- 1) solution) st =
      (Some (Ok v), st')" by (simp add: validate_unsigned_accepts)
  ultimately show ?thesis by simp
qed

theorem nonce_replay_at_max_witness:
  "validate_unsigned sample_config Local (Call_auto_breed 0 1 (- 1) 5) (sample_state\<lparr>auto_breed_nonce := - 1\<rparr>) =
   (Some (Ok kitties_valid), sample_state\<lparr>auto_breed_nonce := - 1\<rparr>)"
proof -
  have "auto_breed_nonce (sample_state\<lparr>auto_breed_nonce := - 1\<rparr>) = - 1" by simp
  note run = sample_validates [OF this]
  from nonce_replay_at_max [OF run] show ?thesis by simp
qed

text \<open>
  Only \<open>auto_breed\<close> calls can be submitted unsigned: every other call is rejected as
  \<open>InvalidCall\<close>; an \<open>auto_breed\<close> call with a wrong nonce or a wrong solution is rejected as
  \<open>BadProof\<close>; and a rejected or panicking validation changes nothing.
\<close>

theorem validate_unsigned_rejects:
  assumes "default_difficulty T \<noteq> 0"
  shows "\<exists>r st'. validate_unsigned T source call st = (Some r, st') \<and>
    (case r of
       Ok v \<Rightarrow> v = kitties_valid \<and> (\<exists>t1 t2 s. call = Call_auto_breed t1 t2 (auto_breed_nonce st) s \<and>
         validate_solution T t1 t2 (auto_breed_nonce st) s = Some True) \<and>
         unat (auto_breed_nonce st') = min (unat (auto_breed_nonce st) + 1) (2 ^ 32 - 1)
     | Err BadProof \<Rightarrow> st' = st \<and> (\<exists>t1 t2 n s. call = Call_auto_breed t1 t2 n s \<and>
         (n \<noteq> auto_breed_nonce st \<or> validate_solution T t1 t2 n s = Some False))
     | Err InvalidCall \<Rightarrow> st' = st \<and> (\<forall>t1 t2 n s. call \<noteq> Call_auto_breed t1 t2 n s))"
proof (cases call)
  case (Call_auto_breed t1 t2 n s)
  have "validate_solution T t1 t2 n s \<noteq> None"
    using validate_solution_panics [of T t1 t2 n s] assms by simp
  then show ?thesis
    by (cases "validate_solution T t1 t2 n s"; cases "the (validate_solution T t1 t2 n s)")
      (auto simp: Call_auto_breed validate_unsigned_def unat_saturating_add)
qed (simp_all add: validate_unsigned_def)

theorem validate_unsigned_rejects_witness:
  "\<exists>st'. validate_unsigned sample_config Local (Call_buy 1 0 50) sample_state = (Some (Err InvalidCall), st')"
proof -
  have nz: "default_difficulty sample_config \<noteq> 0" by simp
  from validate_unsigned_rejects [OF nz, of Local "Call_buy 1 0 50" sample_state]
  show ?thesis by (elim exE conjE) (auto split: result.split_asm InvalidTransaction.split_asm)
qed

end
