(* ===== verification/Executive.thy ===== *)
theory Executive
  imports Runtime_Api Kitties_Ownership Kitties_Nonce
begin

text \<open>
  How extrinsics and blocks reach the runtime. The block machinery, \<open>frame_executive\<close>, is not in the repository:
  the runtime instantiates it (\<open>src/runtime/src/lib.rs\<close>, lines 334 to 359) and its APIs forward to it, so here it is the
  parameter \<open>framework\<close> of theory \<open>Runtime_Api\<close>. This theory has the transaction types of the runtime and, as
  contracts, the documented behaviour that the properties rely on: the relation \<open>executed\<close> says which effects on the
  runtime's storage the execution of a list of extrinsics may have. It leaves open what the framework adds around the
  runtime's own code: fees, weights, nonces of accounts, the opening and closing of blocks, and which extrinsics
  it refuses.
\<close>

section \<open>Extrinsics\<close>

datatype signed_extension =
    CheckSpecVersion | CheckTxVersion | CheckGenesis | CheckEra | CheckNonce | CheckWeight
  | ChargeTransactionPayment

definition SignedExtra :: "signed_extension list" where
  "SignedExtra =
     [CheckSpecVersion, CheckTxVersion, CheckGenesis, CheckEra, CheckNonce, CheckWeight, ChargeTransactionPayment]"

text \<open>An extrinsic, with the account that signed it, if it is signed.\<close>

record ('acc, 'o) CheckedExtrinsic =
  signer :: "'acc option"
  xt_call :: "('acc, 'o) RuntimeCall"

abbreviation unsigned_xt :: "('acc, 'o) RuntimeCall \<Rightarrow> ('acc, 'o) CheckedExtrinsic" where
  "unsigned_xt call \<equiv> \<lparr>signer = None, xt_call = call\<rparr>"


section \<open>What executing extrinsics does to the runtime\<close>

text \<open>
  To the kitties pallet, everything the framework does around a dispatch is a change of its environment, the
  currency and the system: fees, account nonces, block number, randomness.
\<close>

definition environment_change ::
  "('acc, 'n, 'c, 'sys, 'r) runtime_storage \<Rightarrow> ('acc, 'n, 'c, 'sys, 'r) runtime_storage \<Rightarrow> bool" where
  "environment_change rs rs' \<longleftrightarrow> (\<exists>c s. rt_kitties rs' = rt_kitties rs\<lparr>currency := c, sys := s\<rparr>)"

text \<open>
  A signed extrinsic is dispatched with its signer as origin; an unsigned one passes \<open>pre_dispatch\<close> and is dispatched
  without origin. The result of the dispatch, also an error, ends neither the extrinsic nor the block.
\<close>

inductive executed ::
  "('acc, 'n, 'c, 'sys, 'e) kitties_config \<Rightarrow>
   (pallet \<Rightarrow> 'o \<Rightarrow> 'acc origin \<Rightarrow> ('acc, 'n, 'c, 'sys, 'r, 'e) runtime_dispatch) \<Rightarrow>
   ('acc, 'o) CheckedExtrinsic list \<Rightarrow> ('acc, 'n, 'c, 'sys, 'r) runtime_storage \<Rightarrow>
   ('acc, 'n, 'c, 'sys, 'r) runtime_storage \<Rightarrow> bool"
  for T other where
  quiet: "environment_change rs rs' \<Longrightarrow> executed T other [] rs rs'"
| signed: "environment_change rs rs1 \<Longrightarrow> signer xt = Some who \<Longrightarrow>
    dispatch_runtime T other (xt_call xt) (Signed who) rs1 = (res, rs2) \<Longrightarrow>
    executed T other xts rs2 rs' \<Longrightarrow> executed T other (xt # xts) rs rs'"
| unsigned: "environment_change rs rs1 \<Longrightarrow> signer xt = None \<Longrightarrow>
    pre_dispatch_runtime T (xt_call xt) rs1 = (Some (Ok ()), rs2) \<Longrightarrow>
    dispatch_runtime T other (xt_call xt) NoOrigin rs2 = (res, rs3) \<Longrightarrow>
    executed T other xts rs3 rs' \<Longrightarrow> executed T other (xt # xts) rs rs'"

inductive_cases executed_NilE: "executed T other [] rs rs'"
inductive_cases executed_ConsE: "executed T other (xt # xts) rs rs'"

text \<open>
  The contract of the framework: a block that executes without panic has had its extrinsics executed, in their
  order; \<open>xts_of\<close> are the extrinsics of a block, inherents included. Nothing is said of which blocks these are.
\<close>

definition executive_contract where
  "executive_contract F T other xts_of \<longleftrightarrow>
     (\<forall>block rs rs'. fw_execute_block F block rs = Some rs' \<longrightarrow> executed T other (xts_of block) rs rs')"

text \<open>The import of a chain of blocks through \<open>Core::execute_block\<close> of the runtime; \<open>None\<close> is an invalid block.\<close>

fun import_blocks where
  "import_blocks F [] rs = Some rs"
| "import_blocks F (block # blocks) rs = Option.bind (api_execute_block F block rs) (import_blocks F blocks)"


section \<open>Changes of the environment\<close>

lemma environment_change_refl [simp]: "environment_change rs rs"
  unfolding environment_change_def
  by (intro exI [of _ "currency (rt_kitties rs)"] exI [of _ "sys (rt_kitties rs)"]) simp

lemma environment_change_trans:
  "environment_change rs1 rs2 \<Longrightarrow> environment_change rs2 rs3 \<Longrightarrow> environment_change rs1 rs3"
  unfolding environment_change_def by fastforce

lemma environment_change_input:
  "environment_change rs rs' \<Longrightarrow> \<exists>i. rt_kitties rs' = exec_input T i (rt_kitties rs)"
  unfolding environment_change_def by (metis exec_input.simps(3))

lemma environment_nonce:
  "environment_change rs rs' \<Longrightarrow> auto_breed_nonce (rt_kitties rs') = auto_breed_nonce (rt_kitties rs)"
  by (auto simp: environment_change_def)


section \<open>The kitties pallet under execution\<close>

text \<open>Whatever is executed, the kitties storage moves by inputs of the kitties pallet.\<close>

definition kitties_reach ::
  "('acc, 'n, 'c, 'sys, 'e) kitties_config \<Rightarrow> ('acc, 'n, 'c, 'sys, 'r) runtime_storage \<Rightarrow>
   ('acc, 'n, 'c, 'sys, 'r) runtime_storage \<Rightarrow> bool" where
  "kitties_reach T rs rs' \<longleftrightarrow>
     (\<exists>is. rt_kitties rs' = run_calls (exec_input (runtime_kitties T)) is (rt_kitties rs))"

lemma kitties_reach_trans: "kitties_reach T a b \<Longrightarrow> kitties_reach T b c \<Longrightarrow> kitties_reach T a c"
  unfolding kitties_reach_def by (metis run_calls_append)

lemma environment_reach: "environment_change a b \<Longrightarrow> kitties_reach T a b"
  using environment_change_input [of a b "runtime_kitties T"] unfolding kitties_reach_def
  by (metis run_calls.simps)

lemma dispatch_reach:
  assumes "others_respect_kitties T other" "dispatch_runtime T other call origin a = (res, b)"
  shows "kitties_reach T a b"
  using exec_runtime_kitties [OF assms(1), of "RuntimeDispatch origin call" a] assms(2)
  by (simp add: kitties_reach_def)

lemma pre_dispatch_reach:
  assumes "pre_dispatch_runtime T call a = (r, b)"
  shows "kitties_reach T a b"
proof (cases call)
  case (KittiesCall c)
  with assms have "rt_kitties b = run_calls (exec_input (runtime_kitties T)) [Validate InBlock c] (rt_kitties a)"
    by (auto simp: pre_dispatch_runtime_def split: prod.splits option.splits result.splits)
  then show ?thesis unfolding kitties_reach_def by blast
qed (use assms in \<open>auto simp: pre_dispatch_runtime_def kitties_reach_def intro: exI [of _ "[]"]\<close>)

lemma executed_reach:
  assumes "others_respect_kitties T other" "executed T other xts rs rs'"
  shows "kitties_reach T rs rs'"
  using assms(2)
proof (induction rule: executed.induct)
  case (quiet rs rs')
  then show ?case by (rule environment_reach)
next
  case (signed rs rs1 xt who res rs2 xts rs')
  then show ?case
    using environment_reach dispatch_reach [OF assms(1)] kitties_reach_trans by metis
next
  case (unsigned rs rs1 xt rs2 res rs3 xts rs')
  then show ?case
    using environment_reach pre_dispatch_reach dispatch_reach [OF assms(1)] kitties_reach_trans by metis
qed

text \<open>Lists of extrinsics, and so the blocks of a chain, compose.\<close>

lemma executed_environment:
  "environment_change rs rs1 \<Longrightarrow> executed T other xts rs1 rs' \<Longrightarrow> executed T other xts rs rs'"
  by (erule executed.cases) (blast intro: executed.intros environment_change_trans)+

lemma executed_append:
  "executed T other xs a b \<Longrightarrow> executed T other ys b c \<Longrightarrow> executed T other (xs @ ys) a c"
  by (induction rule: executed.induct) (auto intro: executed_environment executed.intros)

lemma import_executed:
  assumes "executive_contract F T other xts_of"
  shows "import_blocks F blocks rs = Some rs' \<Longrightarrow> executed T other (concat (map xts_of blocks)) rs rs'"
proof (induction blocks arbitrary: rs)
  case Nil
  then show ?case by (auto intro: executed.quiet)
next
  case (Cons block blocks)
  then obtain rs1 where "api_execute_block F block rs = Some rs1" "import_blocks F blocks rs1 = Some rs'"
    by (auto simp: bind_eq_Some_conv)
  moreover from this(1) have "executed T other (xts_of block) rs rs1"
    using assms by (simp add: executive_contract_def api_execute_block_def)
  ultimately show ?case using Cons.IH executed_append by fastforce
qed

lemma import_reach:
  assumes "executive_contract F T other xts_of" "others_respect_kitties T other" "import_blocks F blocks rs = Some rs'"
  shows "kitties_reach T rs rs'"
  using executed_reach [OF assms(2) import_executed [OF assms(1,3)]] .

lemma reach_inv:
  "kitties_reach T rs rs' \<Longrightarrow> kitties_inv T V (rt_kitties rs) \<Longrightarrow> kitties_inv T V (rt_kitties rs')"
  using pallet.inv_run [of "runtime_kitties T" V "rt_kitties rs"] unfolding kitties_reach_def by fastforce

lemma reach_nonce:
  "kitties_reach T rs rs' \<Longrightarrow> auto_breed_nonce (rt_kitties rs) \<le> auto_breed_nonce (rt_kitties rs')"
  using nonces.obs_run [of "rt_kitties rs" "runtime_kitties T"] unfolding kitties_reach_def by fastforce

lemma reach_token:
  assumes "kitties_reach T rs rs'" "kitties_inv T V (rt_kitties rs)" "token T (rt_kitties rs) t = Some x"
  obtains y where "token T (rt_kitties rs') t = Some y" "ti_data y = ti_data x"
proof -
  obtain js where js: "rt_kitties rs' = run_calls (exec_input (runtime_kitties T)) js (rt_kitties rs)"
    using assms(1) unfolding kitties_reach_def by blast
  have "(t, ti_data x) \<in> kitty_set (runtime_kitties T) (rt_kitties rs)" using assms(3) by (auto simp: kitty_set_def)
  then have "(t, ti_data x) \<in> kitty_set (runtime_kitties T) (rt_kitties rs')"
    using kept.obs_run [of "runtime_kitties T" V "rt_kitties rs" js] assms(2) js by auto
  then show thesis using that by (auto simp: kitty_set_def)
qed


section \<open>Unsigned breedings\<close>

lemma dispatch_runtime_nonce:
  assumes "dispatch_runtime T other (KittiesCall call) origin rs = (r, rs')"
  shows "auto_breed_nonce (rt_kitties rs') = auto_breed_nonce (rt_kitties rs)"
  using assms dispatch_nonce by (auto split: prod.splits)

lemma pre_dispatch_breeding:
  "pre_dispatch_runtime T (KittiesCall (Call_auto_breed t1 t2 nonce s)) rs = (Some (Ok ()), rs') \<longleftrightarrow>
     validate_solution (runtime_kitties T) t1 t2 nonce s = Some True \<and> nonce = auto_breed_nonce (rt_kitties rs) \<and>
     rs' = rs\<lparr>rt_kitties := rt_kitties rs\<lparr>auto_breed_nonce := saturating_add nonce 1\<rparr>\<rparr>"
  by (auto simp: pre_dispatch_runtime_def validate_unsigned_def split: option.splits bool.splits if_splits)

text \<open>The nonces of the unsigned breedings among some extrinsics, in their order.\<close>

fun breeding_nonce :: "('acc, 'o) CheckedExtrinsic \<Rightarrow> u32 option" where
  "breeding_nonce \<lparr>signer = None, xt_call = KittiesCall (Call_auto_breed t1 t2 nonce s)\<rparr> = Some nonce"
| "breeding_nonce _ = None"

abbreviation breeding_nonces :: "('acc, 'o) CheckedExtrinsic list \<Rightarrow> u32 list" where
  "breeding_nonces xts \<equiv> List.map_filter breeding_nonce xts"

lemma breeding_nonce_Some:
  "breeding_nonce xt = Some nonce \<longleftrightarrow> (\<exists>t1 t2 s. xt = unsigned_xt (KittiesCall (Call_auto_breed t1 t2 nonce s)))"
  by (cases xt rule: breeding_nonce.cases) auto

lemma breeding_nonces_Cons:
  "breeding_nonces (xt # xts) =
     (case breeding_nonce xt of None \<Rightarrow> breeding_nonces xts | Some n \<Rightarrow> n # breeding_nonces xts)"
  by (simp add: List.map_filter_def split: option.splits)

definition nonce_after :: "u32 \<Rightarrow> u32 \<Rightarrow> bool" where
  "nonce_after m n \<longleftrightarrow> m < n \<or> m = - 1 \<and> n = - 1"

text \<open>The nonces used are at least the one stored, in ascending order, and strictly so below the largest one.\<close>

lemma executed_nonces:
  assumes "others_respect_kitties T other" "executed T other xts rs rs'"
  shows "sorted_wrt nonce_after (breeding_nonces xts) \<and>
    (\<forall>n \<in> set (breeding_nonces xts). auto_breed_nonce (rt_kitties rs) \<le> n)"
  using assms(2)
proof (induction rule: executed.induct)
  case (quiet rs rs')
  then show ?case by (simp add: List.map_filter_def)
next
  case (signed rs rs1 xt who res rs2 xts rs')
  have "auto_breed_nonce (rt_kitties rs) \<le> auto_breed_nonce (rt_kitties rs2)"
    using reach_nonce environment_reach [OF signed.hyps(1)] dispatch_reach [OF assms(1) signed.hyps(3)]
      kitties_reach_trans by metis
  moreover have "breeding_nonce xt = None"
    using signed.hyps(2) by (cases "breeding_nonce xt") (auto simp: breeding_nonce_Some)
  ultimately show ?case using signed.IH by (auto simp: breeding_nonces_Cons)
next
  case (unsigned rs rs1 xt rs2 res rs3 xts rs')
  show ?case
  proof (cases "breeding_nonce xt")
    case None
    have "auto_breed_nonce (rt_kitties rs) \<le> auto_breed_nonce (rt_kitties rs3)"
      using reach_nonce environment_reach [OF unsigned.hyps(1)] pre_dispatch_reach [OF unsigned.hyps(3)]
        dispatch_reach [OF assms(1) unsigned.hyps(4)] kitties_reach_trans by metis
    then show ?thesis using unsigned.IH None by (auto simp: breeding_nonces_Cons)
  next
    case (Some n)
    then obtain t1 t2 s where xt: "xt = unsigned_xt (KittiesCall (Call_auto_breed t1 t2 n s))"
      by (auto simp: breeding_nonce_Some)
    have n: "n = auto_breed_nonce (rt_kitties rs)"
      and "auto_breed_nonce (rt_kitties rs2) = saturating_add n 1"
      using unsigned.hyps(3) environment_nonce [OF unsigned.hyps(1)] by (auto simp: xt pre_dispatch_breeding)
    moreover have "auto_breed_nonce (rt_kitties rs3) = auto_breed_nonce (rt_kitties rs2)"
      by (rule dispatch_runtime_nonce [OF unsigned.hyps(4) [unfolded xt CheckedExtrinsic.select_convs]])
    ultimately have next_nonce: "auto_breed_nonce (rt_kitties rs3) = saturating_add n 1" by simp
    have "nonce_after n m" if "m \<in> set (breeding_nonces xts)" for m
    proof (cases "n = - 1")
      case True
      then have "- 1 \<le> m" using that unsigned.IH next_nonce by simp
      then show ?thesis using True by (simp add: nonce_after_def word_order.extremum_uniqueI)
    next
      case False
      then show ?thesis
        using that unsigned.IH next_nonce saturating_add_one_strict [OF False] by (auto simp: nonce_after_def)
    qed
    moreover from this have "\<forall>m \<in> set (breeding_nonces xts). n \<le> m"
      unfolding nonce_after_def by (metis order.refl order.strict_implies_order)
    ultimately show ?thesis using unsigned.IH Some n by (auto simp: breeding_nonces_Cons)
  qed
qed

end
