(* ===== verification/Runtime_Properties.thy ===== *)
theory Runtime_Properties
  imports Kitties_Ownership Kitties_Nonce Runtime
begin

text \<open>
  The properties of the runtime's composition: what the kitties pallet guarantees still holds when
  it runs next to the other pallets, unsigned transactions are restricted to solved \<open>auto_breed\<close>
  calls, each call reaches only the storage of its pallet, and the time constants fit together.
\<close>

section \<open>A sample runtime\<close>

text \<open>The other pallets accept their calls without effect.\<close>

definition sample_other ::
  "pallet \<Rightarrow> unit \<Rightarrow> nat origin \<Rightarrow> (nat, nat sample_nft, nat \<Rightarrow> u128, u8 list, unit, sample_error) runtime_dispatch" where
  "sample_other p c origin rs = (Ok (), rs)"

definition sample_runtime :: "(nat, nat sample_nft, nat \<Rightarrow> u128, u8 list, unit) runtime_storage" where
  "sample_runtime =
     \<lparr>rt_kitties = sample_genesis, rt_template = \<lparr>something = None, template_events = []\<rparr>, rt_other = ()\<rparr>"

definition sample_runtime_inputs :: "(nat, unit) runtime_input list" where
  "sample_runtime_inputs =
     [RuntimeDispatch (Signed 1) (KittiesCall Call_create), RuntimeDispatch Root (SudoCall ()),
      RuntimeDispatch (Signed 1) (TemplateModuleCall (Call_do_something 7)),
      RuntimeDispatch (Signed 1) (KittiesCall (Call_set_price 0 (Some 40)))]"

lemma sample_others: "others_respect_kitties sample_config sample_other"
  unfolding others_respect_kitties_def
  by (intro allI exI [of _ "[]"]) (simp add: sample_other_def)

lemma sample_runtime_genesis:
  "genesis_build (runtime_kitties sample_config) sample_initial = Some (rt_kitties sample_runtime)"
  using sample_genesis by (simp add: genesis_build_def sample_runtime_def)

lemma ledger_of_runtime [simp]: "ledger_of (runtime_kitties T) st = ledger_of T st"
  by (simp add: ledger_of_def)


section \<open>Composition\<close>

text \<open>
  The guarantees of the kitties pallet survive its composition with the other pallets: from the
  genesis of the runtime on, after any sequence of runtime calls with any origins and of unsigned
  validations, the kitties storage satisfies its invariant and is the ledger replayed from its event
  log, provided the other pallets touch it only through its calls, its validator and its environment.
\<close>

theorem runtime_refines_ledger:
  assumes "nft_contract T V" "hash_contract T" "fresh_storage V st0"
    and "genesis_build (runtime_kitties T) st0 = Some (rt_kitties rs)"
    and "others_respect_kitties T other"
    and "rs' = run_calls (exec_runtime T other) is rs"
  shows "kitties_inv (runtime_kitties T) V (rt_kitties rs') \<and>
    replay ledger_step empty_ledger (events (rt_kitties rs')) (ledger_of T (rt_kitties rs'))"
proof -
  have start: "kitties_inv (runtime_kitties T) V (rt_kitties rs)"
    "replay ledger_step empty_ledger (events (rt_kitties rs)) (ledger_of (runtime_kitties T) (rt_kitties rs))"
    using genesis_start [OF _ _ assms(3,4)] assms(1,2) by simp_all
  obtain js where js: "rt_kitties rs' = run_calls (exec_input (runtime_kitties T)) js (rt_kitties rs)"
    using run_runtime_kitties [OF assms(5)] assms(6) by blast
  have "kitties_inv (runtime_kitties T) V (rt_kitties rs')"
    using runtime.inv_run [of T other V rs "is"] start(1) assms(5,6) by simp
  moreover from sourced.replay_run [OF start, of js]
  have "replay ledger_step empty_ledger (events (rt_kitties rs')) (ledger_of T (rt_kitties rs'))"
    by (simp add: js)
  ultimately show ?thesis by simp
qed

theorem runtime_refines_ledger_witness:
  "kitties_inv (runtime_kitties sample_config) (\<lambda>_. True)
     (rt_kitties (run_calls (exec_runtime sample_config sample_other) sample_runtime_inputs sample_runtime))"
  using runtime_refines_ledger [OF sample_contracts(1,3) sample_fresh sample_runtime_genesis sample_others refl,
      of sample_runtime_inputs]
  by blast

text \<open>
  C18: With the difficulty of the runtime, validating an unsigned transaction never panics. It is
  accepted exactly if it is an \<open>auto_breed\<close> call of the kitties pallet with the current
  nonce and a hash below \<open>(2^128 - 1) div 100000\<close>; a rejected transaction changes nothing, and an
  accepted one changes nothing but the nonce.
\<close>

theorem runtime_unsigned_only_auto_breed:
  "\<exists>r rs'. validate_unsigned_runtime T source call rs = (Some r, rs') \<and>
     (r = Ok kitties_valid \<or> (\<exists>e. r = Err e \<and> rs' = rs)) \<and>
     (r = Ok kitties_valid \<longleftrightarrow>
        (\<exists>t1 t2 s. call = KittiesCall (Call_auto_breed t1 t2 (auto_breed_nonce (rt_kitties rs)) s) \<and>
           unat (from_le_bytes (blake2_128 T (encode_solution T (t1, t2, auto_breed_nonce (rt_kitties rs), s)))) <
             (2 ^ 128 - 1) div 100000)) \<and>
     (\<exists>k. rs' = rs\<lparr>rt_kitties := rt_kitties rs\<lparr>auto_breed_nonce := k\<rparr>\<rparr>)"
proof (cases "\<exists>t1 t2 n s. call = KittiesCall (Call_auto_breed t1 t2 n s)")
  case True
  then obtain t1 t2 n s where call: "call = KittiesCall (Call_auto_breed t1 t2 n s)" by blast
  have "unat DefaultDifficulty = 100000" "DefaultDifficulty \<noteq> 0"
    by (simp_all add: DefaultDifficulty_def)
  then have "validate_solution (runtime_kitties T) t1 t2 n s =
      Some (unat (from_le_bytes (blake2_128 T (encode_solution T (t1, t2, n, s)))) < (2 ^ 128 - 1) div 100000)"
    using validate_solution_nat [of "runtime_kitties T" t1 t2 n s] by simp
  then show ?thesis
    by (auto simp: call validate_unsigned_runtime_def validate_unsigned_def
        intro: exI [of _ "auto_breed_nonce (rt_kitties rs)"] split: bool.splits)
next
  case False
  then show ?thesis
    by (cases call; (cases "case call of KittiesCall c \<Rightarrow> c")?)
      (auto simp: validate_unsigned_runtime_def validate_unsigned_def
        intro: exI [of _ "auto_breed_nonce (rt_kitties rs)"])
qed

text \<open>
  The dispatch that the composition derives: a pallet has calls in the runtime exactly if it is
  listed with its \<open>Call\<close> part, so no call reaches the NFT pallet directly; only the kitties pallet
  validates unsigned transactions; a kitties call works on the kitties storage as the pallet
  says, a template call on the template's, and neither touches anything else.
\<close>

theorem runtime_routing:
  fixes T :: "('acc, 'n, 'c, 'sys, 'e) kitties_config" and rs :: "('acc, 'n, 'c, 'sys, 'r) runtime_storage"
    and other :: "pallet \<Rightarrow> 'o \<Rightarrow> 'acc origin \<Rightarrow> ('acc, 'n, 'c, 'sys, 'r, 'e) runtime_dispatch"
  shows "((\<exists>call :: ('acc, 'o) RuntimeCall. pallet_of call = p) \<longleftrightarrow> CallPart \<in> set (parts p)) \<and>
   \<not> CallPart \<in> set (parts Nft) \<and>
   (ValidateUnsignedPart \<in> set (parts p) \<longleftrightarrow> p = Kitties) \<and>
   snd (dispatch_runtime T other (KittiesCall c) origin rs) =
     rs\<lparr>rt_kitties := snd (dispatch_call (runtime_kitties T) c origin (rt_kitties rs))\<rparr> \<and>
   (fst (dispatch_runtime T other (KittiesCall c) origin rs) = Ok () \<longleftrightarrow>
      fst (dispatch_call (runtime_kitties T) c origin (rt_kitties rs)) = Ok ()) \<and>
   snd (dispatch_runtime T other (TemplateModuleCall d) origin rs) =
     rs\<lparr>rt_template := snd (dispatch_template d origin (rt_template rs) ::
       (unit, (TemplateError, 'e) dispatch_error) result \<times> 'acc template_storage)\<rparr>"
proof -
  have "(\<exists>call :: ('acc, 'o) RuntimeCall. pallet_of call = p) \<longleftrightarrow> CallPart \<in> set (parts p)"
  proof
    assume "\<exists>call :: ('acc, 'o) RuntimeCall. pallet_of call = p"
    then show "CallPart \<in> set (parts p)" by (metis pallet_of_callable)
  next
    assume "CallPart \<in> set (parts p)"
    then show "\<exists>call :: ('acc, 'o) RuntimeCall. pallet_of call = p"
      by (cases p) (auto intro: pallet_of.simps)
  qed
  moreover have "ValidateUnsignedPart \<in> set (parts p) \<longleftrightarrow> p = Kitties" by (cases p) simp_all
  ultimately show ?thesis by (auto split: prod.splits)
qed


section \<open>Time\<close>

text \<open>
  The time constants agree with the block time of two seconds: none of the \<open>u32\<close> products
  wraps, a minute, an hour and a day of blocks last as long as they should, and twice the
  minimum period between timestamps is the slot duration.
\<close>

theorem runtime_time:
  "unat MINUTES * unat MILLISECS_PER_BLOCK = 60 * 1000 \<and>
   unat HOURS * unat MILLISECS_PER_BLOCK = 60 * 60 * 1000 \<and>
   unat DAYS * unat MILLISECS_PER_BLOCK = 24 * 60 * 60 * 1000 \<and>
   2 * unat MinimumPeriod = unat SLOT_DURATION \<and> unat SLOT_DURATION = 2 * 1000"
  by (simp add: MINUTES_def HOURS_def DAYS_def MinimumPeriod_def SLOT_DURATION_def MILLISECS_PER_BLOCK_def
      unat_div unsigned_ucast_eq)

end
