(* ===== verification/Kitties_Events.thy ===== *)
theory Kitties_Events
  imports Kitties_Properties
begin

text \<open>
  The event log as a complete account of the pallet, and the conservation of money. A reader of the events who applies
  them one by one, with no access to the storage, ends up with the kitties and prices of the storage: the
  function \<open>apply_event\<close> is that reader; it agrees with every step of the ledger relation of theory \<open>Kitties_Ledger\<close>.
\<close>

section \<open>Applying events\<close>

definition move_kitty :: "'acc \<Rightarrow> u32 \<Rightarrow> 'acc ledger \<Rightarrow> 'acc ledger" where
  "move_kitty to t L =
     L\<lparr>l_tokens := (l_tokens L)(t := map_option (\<lambda>x. x\<lparr>ti_owner := to\<rparr>) (l_tokens L t)),
       l_prices := (l_prices L)(t := None)\<rparr>"

fun apply_event :: "'acc Event \<Rightarrow> 'acc ledger \<Rightarrow> 'acc ledger" where
  "apply_event (KittyCreated who t k) L = L\<lparr>l_tokens := (l_tokens L)(t \<mapsto> \<lparr>ti_owner = who, ti_data = k\<rparr>)\<rparr>"
| "apply_event (KittyBred who t k) L = L\<lparr>l_tokens := (l_tokens L)(t \<mapsto> \<lparr>ti_owner = who, ti_data = k\<rparr>)\<rparr>"
| "apply_event (KittyTransferred from to t) L = move_kitty to t L"
| "apply_event (KittyPriceUpdated who t p) L = L\<lparr>l_prices := (l_prices L)(t := p)\<rparr>"
| "apply_event (KittySold from to t p) L = move_kitty to t L"

lemma ledger_step_apply: "ledger_step L e L' \<Longrightarrow> L' = apply_event e L"
  by (induction rule: ledger_step.induct) (simp_all add: move_kitty_def)

lemma replay_fold: "replay ledger_step L es L' \<Longrightarrow> L' = fold apply_event es L"
  by (induction rule: replay.induct) (auto dest: ledger_step_apply)

section \<open>Properties\<close>

lemma sum_payment:
  fixes b :: "'acc \<Rightarrow> u128"
  assumes "finite A" "from \<in> A" "to \<in> A" "from \<noteq> to" "v \<le> b from" "unat (b to) + unat v < 2 ^ 128"
  shows "(\<Sum>a\<in>A. unat ((b(from := b from - v, to := b to + v)) a)) = (\<Sum>a\<in>A. unat (b a))"
proof -
  let ?b = "b(from := b from - v, to := b to + v)"
  have A: "A = insert from (insert to (A - {from, to}))" using assms(2,3) by blast
  have split: "(\<Sum>a\<in>A. unat (c a)) = unat (c from) + (unat (c to) + (\<Sum>a\<in>A - {from, to}. unat (c a)))"
    for c :: "'acc \<Rightarrow> u128"
    using assms(1,4) by (subst A) simp
  have "unat (b from - v) = unat (b from) - unat v" using assms(5) by (simp add: unat_sub_if_size word_le_nat_alt)
  moreover have "unat (b to + v) = unat (b to) + unat v" using assms(6) by (simp add: unat_word_ariths)
  moreover have "unat v \<le> unat (b from)" using assms(5) by (simp add: word_le_nat_alt)
  moreover have "(\<Sum>a\<in>A - {from, to}. unat (?b a)) = (\<Sum>a\<in>A - {from, to}. unat (b a))"
    by (rule sum.cong) auto
  ultimately show ?thesis unfolding split [of ?b] split [of b] using assms(4) by simp
qed

lemma dispatch_currency:
  assumes "dispatch_call T call origin st = (r, st')" "\<forall>owner t m. call \<noteq> Call_buy owner t m"
  shows "currency st' = currency st"
proof -
  have "currency st' = currency st" if "do_breed T who k1 k2 st = (r, st')" for who k1 k2
    using that by (cases r) (auto simp: do_breed_Ok do_breed_Err)
  then show ?thesis
    using assms by (cases call; cases r) (auto simp: call_Ok call_Err simp del: do_breed_Ok do_breed_Err)
qed

text \<open>
  C13: The pallet conserves money: whatever call is dispatched and however it ends, the sum of the free
  balances of any finite set of accounts that contains the buyer and the owner named in a purchase is the same
  before and after; every call but \<open>buy\<close> leaves the currency's storage untouched.
\<close>

theorem calls_conserve_money:
  assumes "currency_contract T B" "dispatch_call T call origin st = (r, st')" "finite A"
    and "\<And>who owner t m. origin = Signed who \<Longrightarrow> call = Call_buy owner t m \<Longrightarrow> who \<in> A \<and> owner \<in> A"
  shows "(\<Sum>a\<in>A. unat (B (currency st') a)) = (\<Sum>a\<in>A. unat (B (currency st) a)) \<and>
    ((\<forall>owner t m. call \<noteq> Call_buy owner t m) \<longrightarrow> currency st' = currency st)"
proof (cases "\<exists>owner t m. call = Call_buy owner t m")
  case False
  then show ?thesis using dispatch_currency [OF assms(2)] by auto
next
  case True
  then obtain owner t m where call: "call = Call_buy owner t m" by blast
  show ?thesis
  proof (cases r)
    case (Err e)
    then have "st' = st" using assms(2) by (auto simp: call dest: buy_Err_unchanged)
    then show ?thesis by simp
  next
    case (Ok u)
    then obtain who p c where *: "origin = Signed who" "who \<noteq> owner"
      "currency_transfer T who owner p KeepAlive (currency st) = (Ok (), c)" "currency st' = c"
      using assms(2) by (auto simp: call buy_Ok)
    note pay = currencyD [OF assms(1) *(2,3)]
    have "who \<in> A" "owner \<in> A" using assms(4) *(1) call by auto
    from sum_payment [OF assms(3) this *(2) pay(1,2)] show ?thesis by (simp add: pay(3) *(4) call)
  qed
qed

theorem calls_conserve_money_witness:
  "\<exists>st'. dispatch_call sample_config (Call_buy 1 0 50) (Signed 2) sample_state = (Ok (), st') \<and>
     (\<Sum>a\<in>{1, 2, 3}. unat (currency st' a)) = 300"
proof -
  obtain st' where run: "dispatch_call sample_config (Call_buy 1 0 50) (Signed 2) sample_state = (Ok (), st')"
    by (simp add: sample_buy_defs)
  have "(\<Sum>a\<in>{1, 2, 3}. unat (currency sample_state a)) = 300" by (simp add: sample_state_def)
  with calls_conserve_money [OF sample_contracts(2) run, of "{1, 2, 3}"] run show ?thesis by auto
qed

end
