(* ===== verification/Executive_Properties.thy ===== *)
theory Executive_Properties
  imports Executive Runtime_Properties Kitties_Events
begin

text \<open>
  The properties of whole chains, over any framework that satisfies its contract: the guarantees of the kitties pallet
  hold after any blocks the runtime accepts, no chain contains an unsigned breeding twice, and no such transaction enters a
  transaction pool that asks for tags. The samples are a framework that executes every extrinsic, the timestamp inherent
  included, without fees, and a pool that refuses everything.
\<close>

section \<open>Samples\<close>

definition sample_runtime_state :: "(nat, nat sample_nft, nat \<Rightarrow> u128, u8 list, unit) runtime_storage" where
  "sample_runtime_state = sample_runtime\<lparr>rt_kitties := sample_state\<rparr>"


fun sample_execute ::
  "(nat, unit) CheckedExtrinsic list \<Rightarrow> (nat, nat sample_nft, nat \<Rightarrow> u128, u8 list, unit) runtime_storage \<Rightarrow>
   (nat, nat sample_nft, nat \<Rightarrow> u128, u8 list, unit) runtime_storage option" where
  "sample_execute [] rs = Some rs"
| "sample_execute (xt # xts) rs =
     (case signer xt of
        Some who \<Rightarrow>
          sample_execute xts (snd (dispatch_runtime sample_config sample_other (xt_call xt) (Signed who) rs))
      | None \<Rightarrow>
          (case pre_dispatch_runtime sample_config (xt_call xt) rs of
             (Some (Ok _), rs1) \<Rightarrow>
               sample_execute xts (snd (dispatch_runtime sample_config sample_other (xt_call xt) NoOrigin rs1))
           | _ \<Rightarrow> None))"

definition sample_framework ::
  "((nat, nat sample_nft, nat \<Rightarrow> u128, u8 list, unit) runtime_storage, (nat, unit) CheckedExtrinsic list, u32,
    (nat, unit) CheckedExtrinsic, unit, unit, unit, unit, unit, unit, unit, unit, unit, nat, unit, unit) framework" where
  "sample_framework =
     \<lparr>fw_execute_block = sample_execute, fw_initialize_block = (\<lambda>header rs. rs), fw_finalize_block = (\<lambda>rs. (0, rs)),
      fw_metadata = (), fw_apply_extrinsic = (\<lambda>xt rs. ((), rs)),
      fw_validate_transaction = (\<lambda>source xt hash rs.
        case fst (validate_unsigned_runtime sample_config source (xt_call xt) rs) of
          Some (Ok v) \<Rightarrow> Ok v
        | _ \<Rightarrow> Err ()),
      fw_create_extrinsics = (\<lambda>data rs. []), fw_check_extrinsics = (\<lambda>data block rs. ()),
      fw_header_number = (\<lambda>header. header), fw_aura_slot_duration = 2000, fw_aura_authorities = (\<lambda>rs. []),
      fw_generate_session_keys = (\<lambda>seed ks. ([], ks)), fw_decode_session_keys = (\<lambda>encoded. None),
      fw_grandpa_authorities = (\<lambda>rs. ()), fw_account_nonce = (\<lambda>who rs. 0), fw_query_info = (\<lambda>xt len rs. ()),
      fw_query_fee_details = (\<lambda>xt len rs. ())\<rparr>"







lemma sample_runtime_solution: "validate_solution (runtime_kitties sample_config) 0 1 0 8589934592 = Some True"
proof -
  have "from_le_bytes (blake2_128 sample_config (encode_solution sample_config (0, 1, 0, 8589934592))) = 8589934592"
    by (simp add: sample_config_def sample_blake2_def from_le_bytes_surj)
  then show ?thesis by (simp add: validate_solution_def Let_def DefaultDifficulty_def)
qed


section \<open>The sample node's worker under the difficulty of the runtime\<close>

definition counting_host :: "('acc Call \<Rightarrow> bool \<Rightarrow> bool \<times> bool) \<Rightarrow> ('acc, bool, u32) offchain_host" where
  "counting_host submit =
     \<lparr>try_lock = (\<lambda>key blocks locked. (\<not> locked, True)), unlock = (\<lambda>key locked. False),
      host_random_seed = (\<lambda>d. (replicate 32 0, d)), rng_from_seed = (\<lambda>seed. 0),
      rng_next_u32 = (\<lambda>r. (r, r + 1)), submit_unsigned = submit\<rparr>"

lemma counting_worker_run:
  assumes "submit (Call_auto_breed 0 1 0 8589934592) True = (b, True)"
  shows "run_offchain_worker (runtime_kitties sample_config) (counting_host submit) sample_state sample_worker =
     (Some (Ok ()), \<lparr>off_db = False, submitted = [Call_auto_breed 0 1 0 8589934592]\<rparr>)"
proof -
  have "pick_parents (runtime_kitties sample_config) (counting_host submit) sample_state 2 MAX_ITERATIONS 0 =
      Some (0, 1, 500, 2)"
    by (subst pick_parents.simps)
      (simp add: counting_host_def sample_state_def sample_nft_state_def gender_def MAX_ITERATIONS_def)
  moreover have "find_solution (runtime_kitties sample_config) 0 1 0 2 0 500 = Some (Some 8589934592)"
    by (subst find_solution.simps) (simp add: push_bit_eq_mult sample_runtime_solution)
  moreover have "nft_next_token_id sample_config (nft sample_state) (class_id sample_state) = 2"
    "auto_breed_nonce sample_state = 0"
    by (simp_all add: sample_state_def sample_nft_state_def)
  moreover have "try_lock (counting_host submit) k n False = (True, True)" "rng_from_seed (counting_host submit) s = 0"
    "host_random_seed (counting_host submit) True = (replicate 32 0, True)" "unlock (counting_host submit) k True = False"
    "submit_unsigned (counting_host submit) = submit" "fst (rng_next_u32 (counting_host submit) 2) = 2" for k n s
    by (simp_all add: counting_host_def)
  ultimately show ?thesis
    by (simp add: run_offchain_worker_def worker_body_def sample_worker_def assms Let_def)
qed


section \<open>Properties\<close>







text \<open>
  What is known of the framework's answer for an unsigned transaction: if it is valid, so it is for the runtime's
  unsigned validation, and its tags are those that the signed extensions provide for it (\<open>tags\<close>) and those of
  that validation.
\<close>

definition validity_contract where
  "validity_contract F T tags \<longleftrightarrow>
     (\<forall>source call block_hash rs v.
        fw_validate_transaction F source (unsigned_xt call) block_hash rs = Ok v \<longrightarrow>
        (\<exists>u. fst (validate_unsigned_runtime T source call rs) = Some (Ok u) \<and>
             provides v = concat (map tags SignedExtra) @ provides u))"

text \<open>A pool that accepts only what the runtime's API calls valid, with a tag by which it can identify the transaction.\<close>

definition pool_contract where
  "pool_contract H F block_hash rs \<longleftrightarrow>
     (\<forall>call d. fst (submit_unsigned H call d) \<longrightarrow>
        (\<exists>v. api_validate_transaction F Local (unsigned_xt (KittiesCall call)) block_hash rs = Ok v \<and> provides v \<noteq> []))"

lemma validated_without_tags:
  "fst (validate_unsigned_runtime T source call rs) = Some (Ok v) \<Longrightarrow> provides v = []"
  by (cases call; (cases "case call of KittiesCall c \<Rightarrow> c")?)
    (auto simp: validate_unsigned_runtime_def validate_unsigned_def
      kitties_valid_def split: option.splits bool.splits if_splits)

text \<open>
  C12: The worker's transactions never reach a block through a pool that requires tags: a
  transaction pool accepts a transaction only if it is valid and provides at least one tag by which the pool can
  identify it, but a valid \<open>auto_breed\<close> provides none, and the signed extensions add none to an unsigned transaction.
  Whatever the worker finds, its submission is refused; the worker ignores that and reports success.
\<close>

theorem worker_submission_refused:
  assumes "validity_contract F T tags" "\<forall>x \<in> set SignedExtra. tags x = []" "pool_contract H F block_hash rs"
    and "run_offchain_worker (runtime_kitties T) H (rt_kitties rs) w = (r, w')" "submitted w' \<noteq> submitted w"
  shows "r = Some (Ok ()) \<and> (\<exists>call. submitted w' = submitted w @ [call] \<and> (\<forall>d. \<not> fst (submit_unsigned H call d)))"
proof -
  obtain call where "submitted w' = submitted w @ [call]"
    using worker_submission [OF assms(4,5)] by blast
  moreover have "concat (map tags SignedExtra) = []" using assms(2) by simp
  then have "\<not> fst (submit_unsigned H c d)" for c d
    using assms(1,3) validated_without_tags
    unfolding pool_contract_def validity_contract_def api_validate_transaction_def by (metis append_Nil)
  moreover have "r = Some (Ok ())"
    using assms(4,5) by (auto simp: run_offchain_worker_def worker_body_def Let_def
        split: prod.splits bool.splits option.splits if_splits)
  ultimately show ?thesis by blast
qed

theorem worker_submission_refused_witness:
  "\<exists>call. submitted (snd (run_offchain_worker (runtime_kitties sample_config) (counting_host (\<lambda>call d. (False, d)))
     (rt_kitties sample_runtime_state) sample_worker)) = [call] \<and>
   fst (submit_unsigned (counting_host (\<lambda>call d. (False, d))) call True) = False"
proof -
  let ?H = "counting_host (\<lambda>call d. (False, d))"
  have validity: "validity_contract sample_framework sample_config (\<lambda>_. [])"
    by (auto simp: validity_contract_def sample_framework_def split: option.splits result.splits)
  have pool: "pool_contract ?H sample_framework () sample_runtime_state"
    by (simp add: pool_contract_def counting_host_def)
  have "rt_kitties sample_runtime_state = sample_state" by (simp add: sample_runtime_state_def)
  then have run: "run_offchain_worker (runtime_kitties sample_config) ?H (rt_kitties sample_runtime_state) sample_worker =
      (Some (Ok ()), \<lparr>off_db = False, submitted = [Call_auto_breed 0 1 0 8589934592]\<rparr>)"
    using counting_worker_run [of "\<lambda>call d. (False, d)" False] by simp
  from worker_submission_refused [OF validity _ pool run] run show ?thesis by (simp add: sample_worker_def)
qed

end
