(* ===== verification/Worker_Chain.thy ===== *)
theory Worker_Chain
  imports Executive_Properties
begin

text \<open>
  From the off-chain worker to the chain: what the runtime API \<open>offchain_worker\<close> of a node submits, followed through
  the blocks that may come before it is included, its \<open>pre_dispatch\<close>, its dispatch, and the blocks after it.
\<close>

section \<open>Dispatching an accepted breeding\<close>

lemma dispatch_auto_breed:
  assumes inv: "kitties_inv T V st" and xy: "token T st t1 = Some x" "token T st t2 = Some y"
    and g: "gender (ti_data x) \<noteq> gender (ti_data y)"
    and run: "dispatch_call T (Call_auto_breed t1 t2 nonce s) NoOrigin st = (r, st')"
  shows "case r of
      Err e \<Rightarrow> st' = st \<and> (\<exists>z. e = External z)
    | Ok u \<Rightarrow> token T st' = (token T st)(nft_next_token_id T (nft st) (class_id st) \<mapsto>
          \<lparr>ti_owner = ti_owner x,
           ti_data = Kitty (breed_dna (dna (ti_data x)) (dna (ti_data y)) (random_value T st (ti_owner x)))\<rparr>) \<and>
        auto_breed_nonce st' = auto_breed_nonce st"
proof (cases r)
  case (Ok u)
  with run xy obtain t n where
    mint: "nft_mint T (ti_owner x) (class_id st) []
      (Kitty (breed_dna (dna (ti_data x)) (dna (ti_data y)) (random_value T st (ti_owner x)))) (nft st) = (Ok t, n)"
    and st': "nft st' = n" "class_id st' = class_id st" "auto_breed_nonce st' = auto_breed_nonce st"
    by (auto simp: auto_breed_Ok do_breed_Ok)
  from nft_mintD(2,5) [OF kitties_invD(1,3) [OF inv] mint] st' Ok show ?thesis by simp
next
  case (Err e)
  with run xy g have "\<exists>z. e = External z" by (auto simp: auto_breed_Err do_breed_Err)
  moreover have "st' = st" using dispatch_Err_unchanged [OF kitties_invD(1,3) [OF inv] run [unfolded Err]] .
  ultimately show ?thesis by (simp add: Err)
qed

lemma dispatch_runtime_auto_breed:
  assumes inv: "kitties_inv T V (rt_kitties rs)"
    and xy: "token T (rt_kitties rs) t1 = Some x" "token T (rt_kitties rs) t2 = Some y"
      "gender (ti_data x) \<noteq> gender (ti_data y)"
    and nonce: "auto_breed_nonce (rt_kitties rs) \<noteq> nonce"
    and run: "dispatch_runtime T other (KittiesCall (Call_auto_breed t1 t2 nonce s)) NoOrigin rs = (q, rs2)"
  shows "fst (validate_unsigned_runtime T source (KittiesCall (Call_auto_breed t1 t2 nonce s)) rs2) \<noteq> Some (Ok v)"
    and "q = Err e \<Longrightarrow> rs2 = rs \<and> (\<exists>z. e = KittiesError (External z))"
    and "q = Ok u \<Longrightarrow> token T (rt_kitties rs2) = (token T (rt_kitties rs))
      (nft_next_token_id T (nft (rt_kitties rs)) (class_id (rt_kitties rs)) \<mapsto>
         \<lparr>ti_owner = ti_owner x, ti_data = Kitty (breed_dna (dna (ti_data x)) (dna (ti_data y))
            (random_value T (rt_kitties rs) (ti_owner x)))\<rparr>)"
proof -
  let ?st = "rt_kitties rs"
  obtain q' st2 where d: "dispatch_call (runtime_kitties T) (Call_auto_breed t1 t2 nonce s) NoOrigin ?st = (q', st2)"
    by (cases "dispatch_call (runtime_kitties T) (Call_auto_breed t1 t2 nonce s) NoOrigin ?st")
  have eq: "q = map_err KittiesError q'" "rs2 = rs\<lparr>rt_kitties := st2\<rparr>"
    using run d by simp_all
  note out = dispatch_auto_breed [OF _ _ _ xy(3) d, simplified, OF inv xy(1,2)]
  then have "auto_breed_nonce st2 \<noteq> nonce" using nonce by (cases q') auto
  then show "fst (validate_unsigned_runtime T source (KittiesCall (Call_auto_breed t1 t2 nonce s)) rs2) \<noteq> Some (Ok v)"
    by (auto simp: validate_unsigned_runtime_def validate_unsigned_def eq(2) split: option.splits bool.splits)
  show "q = Err e \<Longrightarrow> rs2 = rs \<and> (\<exists>z. e = KittiesError (External z))"
    using out by (cases q') (auto simp: eq)
  show "q = Ok u \<Longrightarrow> token T (rt_kitties rs2) = (token T ?st)(nft_next_token_id T (nft ?st) (class_id ?st) \<mapsto>
      \<lparr>ti_owner = ti_owner x, ti_data = Kitty (breed_dna (dna (ti_data x)) (dna (ti_data y)) (random_value T ?st (ti_owner x)))\<rparr>)"
    using out by (cases q') (auto simp: eq)
qed


section \<open>The worker's submission\<close>




end
