(* ===== verification/Chain_Spec.thy ===== *)
theory Chain_Spec
  imports Runtime
begin

text \<open>
  The chain specifications of \<open>src/node/src/chain_spec.rs\<close>: keys and accounts derived from seeds, the
  development and the local test network, and the genesis configuration they share. Key derivation
  (\<open>Pair::from_string\<close> of the three key types and \<open>into_account\<close>) is a parameter; \<open>None\<close> is the panic of
  \<open>expect\<close>. The genesis of a specification is built lazily, so its panic is a value of the
  specification and not of the function that returns it.
\<close>

section \<open>Keys from seeds\<close>

record ('aura, 'grandpa, 'pub, 'acc) key_scheme =
  aura_from_string :: "string \<Rightarrow> 'aura option"
  grandpa_from_string :: "string \<Rightarrow> 'grandpa option"
  sr25519_from_string :: "string \<Rightarrow> 'pub option"
  into_account :: "'pub \<Rightarrow> 'acc"

definition get_from_seed :: "(string \<Rightarrow> 'k option) \<Rightarrow> string \<Rightarrow> 'k option" where
  "get_from_seed from_string seed = from_string (''//'' @ seed)"

definition get_account_id_from_seed :: "('aura, 'grandpa, 'pub, 'acc) key_scheme \<Rightarrow> string \<Rightarrow> 'acc option" where
  "get_account_id_from_seed K seed = map_option (into_account K) (get_from_seed (sr25519_from_string K) seed)"

definition authority_keys_from_seed ::
  "('aura, 'grandpa, 'pub, 'acc) key_scheme \<Rightarrow> string \<Rightarrow> ('aura \<times> 'grandpa) option" where
  "authority_keys_from_seed K s =
     Option.bind (get_from_seed (aura_from_string K) s) (\<lambda>a.
     Option.bind (get_from_seed (grandpa_from_string K) s) (\<lambda>g. Some (a, g)))"

text \<open>A \<open>vec!\<close> of expressions that may panic.\<close>

fun all_some :: "'a option list \<Rightarrow> 'a list option" where
  "all_some [] = Some []"
| "all_some (x # xs) = Option.bind x (\<lambda>y. Option.bind (all_some xs) (\<lambda>ys. Some (y # ys)))"

lemma all_some_map_eq:
  assumes "\<And>x. x \<in> set xs \<Longrightarrow> f x = Some (g x)"
  shows "all_some (map f xs) = Some (map g xs)"
  using assms by (induction xs) simp_all


section \<open>Genesis\<close>

record ('aura, 'grandpa, 'acc, 'nft) GenesisConfig =
  system_code :: "u8 list"
  system_changes_trie_config :: "unit option"
  balances :: "('acc \<times> u128) list"
  aura_authorities :: "'aura list"
  grandpa_authorities :: "('grandpa \<times> u64) list"
  sudo_key :: 'acc
  kitties_genesis :: unit
  nft_tokens_genesis :: "'nft list"

text \<open>The default of the NFT configuration is an empty list of tokens.\<close>

definition testnet_genesis ::
  "u8 list \<Rightarrow> ('aura \<times> 'grandpa) list \<Rightarrow> 'acc \<Rightarrow> 'acc list \<Rightarrow> bool \<Rightarrow>
   ('aura, 'grandpa, 'acc, 'nft) GenesisConfig" where
  "testnet_genesis wasm_binary initial_authorities root_key endowed_accounts enable_println =
     \<lparr>system_code = wasm_binary, system_changes_trie_config = None,
      balances = map (\<lambda>k. (k, push_bit 60 1)) endowed_accounts,
      aura_authorities = map (\<lambda>x. fst x) initial_authorities,
      grandpa_authorities = map (\<lambda>x. (snd x, 1)) initial_authorities,
      sudo_key = root_key, kitties_genesis = (), nft_tokens_genesis = []\<rparr>"

datatype ChainType = Development | LocalChain

record 'g ChainSpec =
  spec_title :: string
  spec_id :: string
  chain_type :: ChainType
  genesis :: "'g option"
  bootnodes :: "string list"
  telemetry :: "string option"
  protocol_id :: "string option"
  properties :: "string option"
  extensions :: "unit option"

definition from_genesis ::
  "string \<Rightarrow> string \<Rightarrow> ChainType \<Rightarrow> 'g option \<Rightarrow> 'g ChainSpec" where
  "from_genesis title spec ctype g =
     \<lparr>spec_title = title, spec_id = spec, chain_type = ctype, genesis = g, bootnodes = [],
      telemetry = None, protocol_id = None, properties = None, extensions = None\<rparr>"

definition development_config ::
  "('aura, 'grandpa, 'pub, 'acc) key_scheme \<Rightarrow> u8 list option \<Rightarrow>
   (('aura, 'grandpa, 'acc, 'nft) GenesisConfig ChainSpec, string) result" where
  "development_config K WASM_BINARY =
     (case ok_or WASM_BINARY ''Development wasm not available'' of
        Err e \<Rightarrow> Err e
      | Ok wasm_binary \<Rightarrow> Ok (from_genesis ''Development'' ''dev'' Development
          (Option.bind (all_some [authority_keys_from_seed K ''Alice'']) (\<lambda>authorities.
           Option.bind (get_account_id_from_seed K ''Alice'') (\<lambda>root.
           Option.bind (all_some
             [get_account_id_from_seed K ''Alice'', get_account_id_from_seed K ''Bob'',
              get_account_id_from_seed K ''Alice//stash'', get_account_id_from_seed K ''Bob//stash''])
             (\<lambda>endowed. Some (testnet_genesis wasm_binary authorities root endowed True)))))))"

definition local_testnet_config ::
  "('aura, 'grandpa, 'pub, 'acc) key_scheme \<Rightarrow> u8 list option \<Rightarrow>
   (('aura, 'grandpa, 'acc, 'nft) GenesisConfig ChainSpec, string) result" where
  "local_testnet_config K WASM_BINARY =
     (case ok_or WASM_BINARY ''Development wasm not available'' of
        Err e \<Rightarrow> Err e
      | Ok wasm_binary \<Rightarrow> Ok (from_genesis ''Local Testnet'' ''local_testnet'' LocalChain
          (Option.bind (all_some [authority_keys_from_seed K ''Alice'', authority_keys_from_seed K ''Bob''])
             (\<lambda>authorities.
           Option.bind (get_account_id_from_seed K ''Alice'') (\<lambda>root.
           Option.bind (all_some
             [get_account_id_from_seed K ''Alice'', get_account_id_from_seed K ''Bob'',
              get_account_id_from_seed K ''Charlie'', get_account_id_from_seed K ''Dave'',
              get_account_id_from_seed K ''Eve'', get_account_id_from_seed K ''Ferdie'',
              get_account_id_from_seed K ''Alice//stash'', get_account_id_from_seed K ''Bob//stash'',
              get_account_id_from_seed K ''Charlie//stash'', get_account_id_from_seed K ''Dave//stash'',
              get_account_id_from_seed K ''Eve//stash'', get_account_id_from_seed K ''Ferdie//stash''])
             (\<lambda>endowed. Some (testnet_genesis wasm_binary authorities root endowed True)))))))"


section \<open>The contract of a test network\<close>

text \<open>
  What both specifications share, from the seeds of their authorities and of their endowed accounts:
  a sudo account that is endowed, at least one authority, and no seed twice.
\<close>

definition seeded_genesis ::
  "('aura, 'grandpa, 'pub, 'acc) key_scheme \<Rightarrow> u8 list \<Rightarrow> string list \<Rightarrow> string \<Rightarrow> string list \<Rightarrow>
   ('aura, 'grandpa, 'acc, 'nft) GenesisConfig option" where
  "seeded_genesis K code authority_seeds root_seed endowed_seeds =
     Option.bind (all_some (map (authority_keys_from_seed K) authority_seeds)) (\<lambda>authorities.
     Option.bind (get_account_id_from_seed K root_seed) (\<lambda>root.
     Option.bind (all_some (map (get_account_id_from_seed K) endowed_seeds)) (\<lambda>endowed.
     Some (testnet_genesis code authorities root endowed True))))"

text \<open>
  What the specifications rely on from key derivation: the seeds they use give a key of each
  type, and different ones give different accounts.
\<close>

definition test_seeds :: "string list" where
  "test_seeds =
     [''Alice'', ''Bob'', ''Charlie'', ''Dave'', ''Eve'', ''Ferdie'', ''Alice//stash'', ''Bob//stash'',
      ''Charlie//stash'', ''Dave//stash'', ''Eve//stash'', ''Ferdie//stash'']"

definition keys_contract :: "('aura, 'grandpa, 'pub, 'acc) key_scheme \<Rightarrow> bool" where
  "keys_contract K \<longleftrightarrow>
     (\<forall>s \<in> set test_seeds. aura_from_string K (''//'' @ s) \<noteq> None \<and>
        grandpa_from_string K (''//'' @ s) \<noteq> None \<and> sr25519_from_string K (''//'' @ s) \<noteq> None) \<and>
     inj_on (get_account_id_from_seed K) (set test_seeds)"

text \<open>
  What the balances pallet asserts of its genesis: no account twice, no balance below the existential
  deposit; and that the total issuance fits a \<open>u128\<close>.
\<close>

definition balances_ok :: "('acc \<times> u128) list \<Rightarrow> bool" where
  "balances_ok bs \<longleftrightarrow> distinct (map fst bs) \<and> (\<forall>b \<in> set (map snd bs). ExistentialDeposit \<le> b) \<and>
     (\<Sum>b\<leftarrow>map snd bs. unat b) < 2 ^ 128"

definition seed_account :: "('aura, 'grandpa, 'pub, 'acc) key_scheme \<Rightarrow> string \<Rightarrow> 'acc" where
  "seed_account K s = the (get_account_id_from_seed K s)"

definition seed_authority :: "('aura, 'grandpa, 'pub, 'acc) key_scheme \<Rightarrow> string \<Rightarrow> 'aura \<times> 'grandpa" where
  "seed_authority K s = the (authority_keys_from_seed K s)"

lemma get_account_total:
  assumes "keys_contract K" "s \<in> set test_seeds"
  shows "get_account_id_from_seed K s = Some (seed_account K s)"
proof -
  obtain k where "sr25519_from_string K (''//'' @ s) = Some k"
    using assms unfolding keys_contract_def by blast
  then show ?thesis by (simp add: seed_account_def get_account_id_from_seed_def get_from_seed_def)
qed

lemma authority_keys_total:
  assumes "keys_contract K" "s \<in> set test_seeds"
  shows "authority_keys_from_seed K s = Some (seed_authority K s)"
proof -
  obtain a g where "aura_from_string K (''//'' @ s) = Some a" "grandpa_from_string K (''//'' @ s) = Some g"
    using assms unfolding keys_contract_def by blast
  then show ?thesis by (simp add: seed_authority_def authority_keys_from_seed_def get_from_seed_def)
qed

lemma account_inj:
  assumes "keys_contract K"
  shows "inj_on (seed_account K) (set test_seeds)"
proof (rule inj_onI)
  fix s t assume st: "s \<in> set test_seeds" "t \<in> set test_seeds" "seed_account K s = seed_account K t"
  then have "get_account_id_from_seed K s = get_account_id_from_seed K t"
    using get_account_total [OF assms] by simp
  then show "s = t" using assms st(1,2) by (auto simp: keys_contract_def dest: inj_onD)
qed

locale test_network =
  fixes spec :: "('aura, 'grandpa, 'pub, 'acc) key_scheme \<Rightarrow> u8 list option \<Rightarrow>
      (('aura, 'grandpa, 'acc, 'nft) GenesisConfig ChainSpec, string) result"
    and authority_seeds :: "string list" and root_seed :: string and endowed_seeds :: "string list"
  assumes spec_None: "spec K None = Err ''Development wasm not available''"
    and spec_Some: "\<exists>s. spec K (Some code) = Ok s \<and>
      genesis s = seeded_genesis K code authority_seeds root_seed endowed_seeds"
    and seeds: "authority_seeds \<noteq> []" "root_seed \<in> set endowed_seeds" "distinct endowed_seeds"
      "set authority_seeds \<subseteq> set test_seeds" "set endowed_seeds \<subseteq> set test_seeds"
begin

lemma genesis_total:
  assumes "keys_contract K"
  shows "\<exists>s. spec K (Some code) = Ok s \<and> genesis s = Some (testnet_genesis code
    (map (seed_authority K) authority_seeds) (seed_account K root_seed) (map (seed_account K) endowed_seeds) True)"
proof -
  have "all_some (map (authority_keys_from_seed K) authority_seeds) = Some (map (seed_authority K) authority_seeds)"
    using seeds(4) by (intro all_some_map_eq authority_keys_total [OF assms]) auto
  moreover have "all_some (map (get_account_id_from_seed K) endowed_seeds) = Some (map (seed_account K) endowed_seeds)"
    using seeds(5) by (intro all_some_map_eq get_account_total [OF assms]) auto
  moreover have "get_account_id_from_seed K root_seed = Some (seed_account K root_seed)"
    using seeds(2,5) by (intro get_account_total [OF assms]) auto
  ultimately show ?thesis
    using spec_Some [of K code] by (simp add: seeded_genesis_def)
qed

lemma endowed_ok:
  assumes "keys_contract K"
  shows "balances_ok (map (\<lambda>k. (k, push_bit 60 1)) (map (seed_account K) endowed_seeds))"
proof -
  have "distinct (map (seed_account K) endowed_seeds)"
    using inj_on_subset [OF account_inj [OF assms] seeds(5)] seeds(3) by (simp add: distinct_map)
  moreover have "length endowed_seeds \<le> length test_seeds"
    using card_mono [OF _ seeds(5)] distinct_card [OF seeds(3)] card_length [of test_seeds] by simp
  then have "length endowed_seeds * 2 ^ 60 < (2 :: nat) ^ 128" by (simp add: test_seeds_def)
  ultimately show ?thesis
    by (simp add: balances_ok_def comp_def ExistentialDeposit_def push_bit_eq_mult sum_list_triv)
qed

lemma genesis_sound:
  assumes "keys_contract K"
  shows "\<exists>s g. spec K (Some code) = Ok s \<and> genesis s = Some g \<and> system_code g = code \<and>
    balances_ok (balances g) \<and> (\<forall>b \<in> set (map snd (balances g)). unat b = 2 ^ 60) \<and>
    sudo_key g \<in> set (map fst (balances g)) \<and> aura_authorities g \<noteq> [] \<and>
    length (grandpa_authorities g) = length (aura_authorities g) \<and>
    (\<forall>w \<in> set (map snd (grandpa_authorities g)). w = 1)"
proof -
  let ?g = "testnet_genesis code (map (seed_authority K) authority_seeds) (seed_account K root_seed)
    (map (seed_account K) endowed_seeds) True"
  have "balances_ok (balances ?g)" using endowed_ok [OF assms] by (simp add: testnet_genesis_def)
  moreover have "\<forall>b \<in> set (map snd (balances ?g)). unat b = 2 ^ 60"
    by (auto simp: testnet_genesis_def push_bit_eq_mult)
  moreover have "sudo_key ?g \<in> set (map fst (balances ?g))"
    using seeds(2) by (auto simp: testnet_genesis_def image_iff)
  moreover have "aura_authorities ?g \<noteq> []" "length (grandpa_authorities ?g) = length (aura_authorities ?g)"
    "\<forall>w \<in> set (map snd (grandpa_authorities ?g)). w = 1" "system_code ?g = code"
    using seeds(1) by (auto simp: testnet_genesis_def)
  ultimately show ?thesis using genesis_total [OF assms, of code] by blast
qed

end

interpretation development: test_network development_config "[''Alice'']" "''Alice''"
  "[''Alice'', ''Bob'', ''Alice//stash'', ''Bob//stash'']"
  by unfold_locales (simp_all add: development_config_def from_genesis_def seeded_genesis_def test_seeds_def)

interpretation local_testnet: test_network local_testnet_config "[''Alice'', ''Bob'']" "''Alice''"
  "[''Alice'', ''Bob'', ''Charlie'', ''Dave'', ''Eve'', ''Ferdie'', ''Alice//stash'', ''Bob//stash'',
    ''Charlie//stash'', ''Dave//stash'', ''Eve//stash'', ''Ferdie//stash'']"
  by unfold_locales (simp_all add: local_testnet_config_def from_genesis_def seeded_genesis_def test_seeds_def)


section \<open>Properties\<close>

text \<open>
  C37: Both chain specifications fail exactly when the runtime was built without its Wasm
  binary. Otherwise, with valid keys, building the genesis does not panic and gives a chain that can
  start: the code is the binary, every endowed account appears once with \<open>2^60\<close>, which
  is at least the existential deposit, the total fits a \<open>u128\<close>, the sudo key is one of
  the endowed accounts, there is an authority, and block production and finality have the same number of
  authorities, each with weight one.
\<close>

theorem chain_spec_genesis:
  assumes "keys_contract K" "spec = development_config \<or> spec = local_testnet_config"
  shows "(spec K wasm = Err ''Development wasm not available'' \<longleftrightarrow> wasm = None) \<and>
    (\<forall>code. wasm = Some code \<longrightarrow>
      (\<exists>s g. spec K wasm = Ok s \<and> genesis s = Some g \<and> system_code g = code \<and>
        balances_ok (balances g) \<and> (\<forall>b \<in> set (map snd (balances g)). unat b = 2 ^ 60) \<and>
        sudo_key g \<in> set (map fst (balances g)) \<and> aura_authorities g \<noteq> [] \<and>
        length (grandpa_authorities g) = length (aura_authorities g) \<and>
        (\<forall>w \<in> set (map snd (grandpa_authorities g)). w = 1)))"
proof (cases wasm)
  case None
  then show ?thesis using assms(2) development.spec_None local_testnet.spec_None by auto
next
  case (Some code)
  from assms(2) show ?thesis
  proof
    assume "spec = development_config"
    then show ?thesis using development.genesis_sound [OF assms(1), of code] Some by (elim exE) auto
  next
    assume "spec = local_testnet_config"
    then show ?thesis using local_testnet.genesis_sound [OF assms(1), of code] Some by (elim exE) auto
  qed
qed

text \<open>Keys that spell out their seed.\<close>

definition sample_keys :: "(string, string, string, string) key_scheme" where
  "sample_keys = \<lparr>aura_from_string = Some, grandpa_from_string = Some, sr25519_from_string = Some, into_account = id\<rparr>"

lemma sample_keys: "keys_contract sample_keys"
  by (auto simp: keys_contract_def sample_keys_def get_account_id_from_seed_def get_from_seed_def inj_on_def)

theorem chain_spec_genesis_witness:
  "\<exists>s g. (local_testnet_config sample_keys (Some [0, 1]) ::
       ((string, string, string, unit) GenesisConfig ChainSpec, string) result) = Ok s \<and>
     genesis s = Some g \<and> balances_ok (balances g)"
  using chain_spec_genesis [OF sample_keys, of local_testnet_config "Some [0, 1]"] by blast

end
