(* ===== verification/Service.thy ===== *)
theory Service
  imports Prelude
begin

text \<open>
  The construction of a node in \<open>src/node/src/service.rs\<close>, with the RPC extensions of
  \<open>src/node/src/rpc.rs\<close>. The client, network, pool, consensus and task code it assembles is not in the
  repository: a call to it is a value of the type \<open>service_call\<close>, the state of a construction is the
  sequence of the calls made so far, and a host says which calls fail with which error (and the slot
  duration the chain reports). Clones, handles and plain constructors without effect are left out.

  The constructions are compared with their plans, the sequence of calls a given
  configuration asks for: the code makes the calls of the plan in order and stops at the first that
  fails.
\<close>

section \<open>Configuration and calls\<close>

datatype Role = Full | Light | Authority

fun is_authority :: "Role \<Rightarrow> bool" where
  "is_authority Authority = True"
| "is_authority Full = False"
| "is_authority Light = False"

datatype peers_set = Grandpa_peers | Other_peers string

record Configuration =
  keystore_remote :: "string option"
  telemetry_endpoints :: "string list option"
  role :: Role
  offchain_worker_enabled :: bool
  force_authoring :: bool
  disable_grandpa :: bool
  extra_sets :: "peers_set list"
  node_name :: string

datatype can_author = CanAuthorWithNativeVersion | NeverCanAuthor

record grandpa_config =
  gossip_duration_ms :: nat
  justification_period :: u32
  voter_name :: "string option"
  observer_enabled :: bool
  has_keystore :: bool
  local_role :: Role
  reports_to :: "string list option"

text \<open>
  The RPC extensions: \<open>create_full\<close> gets the client, the pool and whether unsafe calls are denied, and
  returns the extensions in the order in which they are added.
\<close>

record ('client, 'pool) FullDeps =
  deps_client :: 'client
  deps_pool :: 'pool
  deps_deny_unsafe :: bool

datatype ('client, 'pool) rpc_extension =
    FullSystem 'client 'pool bool
  | TransactionPaymentRpc 'client

definition create_full :: "('client, 'pool) FullDeps \<Rightarrow> ('client, 'pool) rpc_extension list" where
  "create_full deps =
     (let io = [];
          client = deps_client deps;
          pool = deps_pool deps;
          deny_unsafe = deps_deny_unsafe deps;
          io = io @ [FullSystem client pool deny_unsafe];
          io = io @ [TransactionPaymentRpc client]
      in io)"

text \<open>The builders that the services hand to \<open>spawn_tasks\<close>, which calls them for every connection.\<close>

datatype rpc_builder = Create_full | No_extensions

fun build_rpc :: "rpc_builder \<Rightarrow> 'client \<Rightarrow> 'pool \<Rightarrow> bool \<Rightarrow> ('client, 'pool) rpc_extension list" where
  "build_rpc Create_full client pool deny_unsafe =
     create_full \<lparr>deps_client = client, deps_pool = pool, deps_deny_unsafe = deny_unsafe\<rparr>"
| "build_rpc No_extensions client pool deny_unsafe = []"

text \<open>
  Whoever connects, the extensions work on the node's own client and pool, and only the system
  extension depends on whether unsafe calls are denied.
\<close>

lemma build_rpc_deps:
  "e \<in> set (build_rpc b client pool deny_unsafe) \<Longrightarrow>
     e = FullSystem client pool deny_unsafe \<or> e = TransactionPaymentRpc client"
  by (cases b) (auto simp: create_full_def)

datatype service_call =
    TelemetryWorker_new nat
  | New_telemetry "string list"
  | New_full_parts "string list option"
  | New_light_parts "string list option"
  | New_full_pool bool
  | New_light_pool
  | Block_import "string list option"
  | Slot_duration
  | Import_queue u64 can_author "string list option"
  | Set_remote_keystore
  | Build_network bool "peers_set list"
  | Build_offchain_workers
  | Spawn_tasks rpc_builder "string list option"
  | Start_aura u64 bool "string list option"
  | Run_grandpa_voter grandpa_config
  | Run_grandpa_observer grandpa_config
  | Spawn string
  | Spawn_blocking string
  | Spawn_essential_blocking string
  | Start_network

type_synonym trace = "service_call list"

record 'e host =
  fails :: "trace \<Rightarrow> service_call \<Rightarrow> 'e option"
  chain_slot_duration :: u64

datatype 'e ServiceError = OtherError string | Failed 'e

definition invoke :: "'e host \<Rightarrow> service_call \<Rightarrow> trace \<Rightarrow> (unit, 'e ServiceError) result \<times> trace" where
  "invoke H c tr = (case fails H tr c of None \<Rightarrow> Ok () | Some e \<Rightarrow> Err (Failed e), tr @ [c])"

definition perform :: "service_call \<Rightarrow> trace \<Rightarrow> (unit, 'e ServiceError) result \<times> trace" where
  "perform c tr = (Ok (), tr @ [c])"

definition only_if :: "bool \<Rightarrow> ('s \<Rightarrow> (unit, 'e) result \<times> 's) \<Rightarrow> 's \<Rightarrow> (unit, 'e) result \<times> 's" where
  "only_if b f s = (if b then f s else (Ok (), s))"


section \<open>Construction of the services\<close>

text \<open>The endpoints that are reported to, if there are any.\<close>

definition telemetry_of :: "Configuration \<Rightarrow> string list option" where
  "telemetry_of config =
     (case telemetry_endpoints config of
        None \<Rightarrow> None
      | Some endpoints \<Rightarrow> if endpoints = [] then None else Some endpoints)"

definition start_telemetry ::
  "'e host \<Rightarrow> Configuration \<Rightarrow> trace \<Rightarrow> (string list option, 'e ServiceError) result \<times> trace" where
  "start_telemetry H config tr =
     (case telemetry_of config of
        None \<Rightarrow> (Ok None, tr)
      | Some endpoints \<Rightarrow>
          attempt (invoke H (TelemetryWorker_new 16) tr) (\<lambda>_ tr.
          attempt (perform (New_telemetry endpoints) tr) (\<lambda>_ tr. (Ok (Some endpoints), tr))))"

text \<open>What \<open>new_full\<close> uses of the partial components: the telemetry.\<close>

definition new_partial ::
  "'e host \<Rightarrow> Configuration \<Rightarrow> trace \<Rightarrow> (string list option, 'e ServiceError) result \<times> trace" where
  "new_partial H config tr =
     (if keystore_remote config \<noteq> None then (Err (OtherError ''Remote Keystores are not supported.''), tr)
      else
        attempt (start_telemetry H config tr) (\<lambda>telemetry tr.
        attempt (invoke H (New_full_parts telemetry) tr) (\<lambda>_ tr.
        attempt (only_if (telemetry \<noteq> None) (perform (Spawn ''telemetry'')) tr) (\<lambda>_ tr.
        attempt (perform (New_full_pool (is_authority (role config))) tr) (\<lambda>_ tr.
        attempt (invoke H (Block_import telemetry) tr) (\<lambda>_ tr.
        attempt (invoke H Slot_duration tr) (\<lambda>_ tr.
        attempt (invoke H (Import_queue (chain_slot_duration H) CanAuthorWithNativeVersion telemetry) tr) (\<lambda>_ tr.
        (Ok telemetry, tr)))))))))"

definition remote_keystore :: "string \<Rightarrow> (unit, string) result" where
  "remote_keystore url = Err ''Remote Keystore not supported.''"

definition new_full :: "'e host \<Rightarrow> Configuration \<Rightarrow> trace \<Rightarrow> (unit, 'e ServiceError) result \<times> trace" where
  "new_full H config tr =
     attempt (new_partial H config tr) (\<lambda>telemetry tr.
     attempt (case keystore_remote config of
         None \<Rightarrow> (Ok (), tr)
       | Some url \<Rightarrow>
           (case remote_keystore url of
              Ok k \<Rightarrow> perform Set_remote_keystore tr
            | Err e \<Rightarrow> (Err (OtherError (''Error hooking up remote keystore for '' @ url @ '': '' @ e)), tr)))
       (\<lambda>_ tr.
     let config = config\<lparr>extra_sets := extra_sets config @ [Grandpa_peers]\<rparr> in
     attempt (invoke H (Build_network False (extra_sets config)) tr) (\<lambda>_ tr.
     attempt (only_if (offchain_worker_enabled config) (perform Build_offchain_workers) tr) (\<lambda>_ tr.
     let role = role config;
         force_authoring = force_authoring config;
         name = node_name config;
         enable_grandpa = \<not> disable_grandpa config
     in
     attempt (invoke H (Spawn_tasks Create_full telemetry) tr) (\<lambda>_ tr.
     attempt (only_if (is_authority role) (\<lambda>tr.
         attempt (invoke H Slot_duration tr) (\<lambda>_ tr.
         attempt (invoke H (Start_aura (chain_slot_duration H) force_authoring telemetry) tr) (\<lambda>_ tr.
         perform (Spawn_essential_blocking ''aura'') tr))) tr) (\<lambda>_ tr.
     let keystore = is_authority role;
         grandpa_config = \<lparr>gossip_duration_ms = 333, justification_period = 512, voter_name = Some name,
           observer_enabled = False, has_keystore = keystore, local_role = role, reports_to = telemetry\<rparr>
     in
     attempt (only_if enable_grandpa (\<lambda>tr.
         attempt (invoke H (Run_grandpa_voter grandpa_config) tr) (\<lambda>_ tr.
         perform (Spawn_essential_blocking ''grandpa-voter'') tr)) tr) (\<lambda>_ tr.
     attempt (perform Start_network tr) (\<lambda>_ tr.
     (Ok (), tr)))))))))"

definition new_light :: "'e host \<Rightarrow> Configuration \<Rightarrow> trace \<Rightarrow> (unit, 'e ServiceError) result \<times> trace" where
  "new_light H config tr =
     attempt (start_telemetry H config tr) (\<lambda>telemetry tr.
     attempt (invoke H (New_light_parts telemetry) tr) (\<lambda>_ tr.
     attempt (only_if (telemetry \<noteq> None) (perform (Spawn ''telemetry'')) tr) (\<lambda>_ tr.
     let config = config\<lparr>extra_sets := extra_sets config @ [Grandpa_peers]\<rparr> in
     attempt (perform New_light_pool tr) (\<lambda>_ tr.
     attempt (invoke H (Block_import telemetry) tr) (\<lambda>_ tr.
     attempt (invoke H Slot_duration tr) (\<lambda>_ tr.
     attempt (invoke H (Import_queue (chain_slot_duration H) NeverCanAuthor telemetry) tr) (\<lambda>_ tr.
     attempt (invoke H (Build_network True (extra_sets config)) tr) (\<lambda>_ tr.
     attempt (only_if (offchain_worker_enabled config) (perform Build_offchain_workers) tr) (\<lambda>_ tr.
     let enable_grandpa = \<not> disable_grandpa config in
     attempt (only_if enable_grandpa (\<lambda>tr.
         let name = node_name config;
             grandpa_config = \<lparr>gossip_duration_ms = 333, justification_period = 512, voter_name = Some name,
               observer_enabled = False, has_keystore = False, local_role = role config, reports_to = telemetry\<rparr>
         in
         attempt (invoke H (Run_grandpa_observer grandpa_config) tr) (\<lambda>_ tr.
         perform (Spawn_blocking ''grandpa-observer'') tr)) tr) (\<lambda>_ tr.
     attempt (invoke H (Spawn_tasks No_extensions telemetry) tr) (\<lambda>_ tr.
     attempt (perform Start_network tr) (\<lambda>_ tr.
     (Ok (), tr)))))))))))))"


section \<open>Plans\<close>

fun fallible :: "service_call \<Rightarrow> bool" where
  "fallible (New_telemetry _) = False"
| "fallible (New_full_pool _) = False"
| "fallible New_light_pool = False"
| "fallible Build_offchain_workers = False"
| "fallible Set_remote_keystore = False"
| "fallible (Spawn _) = False"
| "fallible (Spawn_blocking _) = False"
| "fallible (Spawn_essential_blocking _) = False"
| "fallible Start_network = False"
| "fallible _ = True"

fun run_plan :: "'e host \<Rightarrow> service_call list \<Rightarrow> trace \<Rightarrow> (unit, 'e ServiceError) result \<times> trace" where
  "run_plan H [] tr = (Ok (), tr)"
| "run_plan H (c # cs) tr =
     attempt (if fallible c then invoke H c tr else perform c tr) (\<lambda>_ tr. run_plan H cs tr)"

definition telemetry_plan :: "Configuration \<Rightarrow> service_call list" where
  "telemetry_plan config =
     (case telemetry_of config of None \<Rightarrow> [] | Some es \<Rightarrow> [TelemetryWorker_new 16, New_telemetry es])"

definition partial_plan :: "u64 \<Rightarrow> Configuration \<Rightarrow> service_call list" where
  "partial_plan d config =
     (let t = telemetry_of config in
      telemetry_plan config @ [New_full_parts t] @ (if t = None then [] else [Spawn ''telemetry'']) @
      [New_full_pool (role config = Authority), Block_import t, Slot_duration,
       Import_queue d CanAuthorWithNativeVersion t])"

definition finality :: "Configuration \<Rightarrow> bool \<Rightarrow> grandpa_config" where
  "finality config keystore =
     \<lparr>gossip_duration_ms = 333, justification_period = 512, voter_name = Some (node_name config),
      observer_enabled = False, has_keystore = keystore, local_role = role config,
      reports_to = telemetry_of config\<rparr>"

definition full_plan :: "u64 \<Rightarrow> Configuration \<Rightarrow> service_call list" where
  "full_plan d config =
     (let t = telemetry_of config; authority = (role config = Authority) in
      partial_plan d config @
      [Build_network False (extra_sets config @ [Grandpa_peers])] @
      (if offchain_worker_enabled config then [Build_offchain_workers] else []) @
      [Spawn_tasks Create_full t] @
      (if authority
       then [Slot_duration, Start_aura d (force_authoring config) t, Spawn_essential_blocking ''aura'']
       else []) @
      (if disable_grandpa config then []
       else [Run_grandpa_voter (finality config authority), Spawn_essential_blocking ''grandpa-voter'']) @
      [Start_network])"

definition light_plan :: "u64 \<Rightarrow> Configuration \<Rightarrow> service_call list" where
  "light_plan d config =
     (let t = telemetry_of config in
      telemetry_plan config @ [New_light_parts t] @ (if t = None then [] else [Spawn ''telemetry'']) @
      [New_light_pool, Block_import t, Slot_duration, Import_queue d NeverCanAuthor t,
       Build_network True (extra_sets config @ [Grandpa_peers])] @
      (if offchain_worker_enabled config then [Build_offchain_workers] else []) @
      (if disable_grandpa config then []
       else [Run_grandpa_observer (finality config False), Spawn_blocking ''grandpa-observer'']) @
      [Spawn_tasks No_extensions t, Start_network])"



section \<open>Running a plan\<close>

lemma run_plan_append:
  "run_plan H (xs @ ys) tr = attempt (run_plan H xs tr) (\<lambda>_ tr. run_plan H ys tr)"
  by (induction xs arbitrary: tr) (auto simp: attempt_def split: prod.splits result.splits)

lemma run_plan_outcome:
  assumes "run_plan H plan tr = (r, tr')"
  shows "(r = Ok () \<and> tr' = tr @ plan) \<or>
    (\<exists>front c rest e. plan = front @ c # rest \<and> fallible c \<and> fails H (tr @ front) c = Some e \<and>
       r = Err (Failed e) \<and> tr' = tr @ front @ [c])"
  using assms
proof (induction plan arbitrary: tr)
  case Nil
  then show ?case by simp
next
  case (Cons c cs)
  show ?case
  proof (cases "fallible c \<and> fails H tr c \<noteq> None")
    case True
    then obtain e where "fallible c" "fails H tr c = Some e" by blast
    with Cons.prems have "r = Err (Failed e)" "tr' = tr @ [] @ [c]" by (simp_all add: invoke_def)
    with \<open>fallible c\<close> \<open>fails H tr c = Some e\<close> show ?thesis
      by (intro disjI2 exI [of _ "[]"] exI [of _ c] exI [of _ cs] exI [of _ e]) simp
  next
    case False
    then have "run_plan H cs (tr @ [c]) = (r, tr')"
      using Cons.prems by (auto simp: invoke_def perform_def split: if_splits)
    from Cons.IH [OF this] show ?thesis
    proof
      assume "\<exists>front c' rest e. cs = front @ c' # rest \<and> fallible c' \<and>
        fails H ((tr @ [c]) @ front) c' = Some e \<and> r = Err (Failed e) \<and> tr' = (tr @ [c]) @ front @ [c']"
      then obtain front c' rest e where "cs = front @ c' # rest" "fallible c'"
        "fails H (tr @ c # front) c' = Some e" "r = Err (Failed e)" "tr' = tr @ (c # front) @ [c']"
        by auto
      then show ?thesis
        by (intro disjI2 exI [of _ "c # front"] exI [of _ c'] exI [of _ rest] exI [of _ e]) simp
    qed simp
  qed
qed

lemma run_plan_subset: "set (snd (run_plan H plan tr)) \<subseteq> set tr \<union> set plan"
proof -
  obtain r tr' where run: "run_plan H plan tr = (r, tr')" by (cases "run_plan H plan tr")
  from run_plan_outcome [OF run] show ?thesis by (auto simp: run)
qed

lemma run_plan_succeeds:
  assumes "\<And>front c rest. plan = front @ c # rest \<Longrightarrow> fallible c \<Longrightarrow> fails H (tr @ front) c = None"
  shows "run_plan H plan tr = (Ok (), tr @ plan)"
proof (cases "run_plan H plan tr")
  case (Pair r tr')
  with run_plan_outcome [OF Pair] assms show ?thesis by fastforce
qed

lemma only_if_simps [simp]: "only_if True f s = f s" "only_if False f s = (Ok (), s)"
  by (simp_all add: only_if_def)

lemma attempt_assoc:
  "attempt (attempt r f) g = attempt r (\<lambda>a s. attempt (f a s) g)"
  by (auto simp: attempt_def split: prod.splits result.splits)

lemma perform_attempt [simp]: "attempt (perform c tr) k = k () (tr @ [c])"
  by (simp add: perform_def)

lemma run_plan_fun:
  "run_plan H [] = (\<lambda>tr. (Ok (), tr))"
  "run_plan H (c # cs) = (\<lambda>tr.
     attempt (if fallible c then invoke H c tr else perform c tr) (\<lambda>_. run_plan H cs))"
  by (simp_all add: fun_eq_iff)

lemmas plan_simps = run_plan_append run_plan_fun attempt_assoc Let_def

lemma start_telemetry_plan:
  "attempt (start_telemetry H config tr) k =
   attempt (run_plan H (telemetry_plan config) tr) (\<lambda>_ tr. k (telemetry_of config) tr)"
  by (cases "telemetry_of config")
    (simp_all add: start_telemetry_def telemetry_plan_def attempt_assoc)

lemma is_authority_iff [simp]: "is_authority r \<longleftrightarrow> r = Authority"
  by (cases r) simp_all

lemma new_partial_plan:
  assumes "keystore_remote config = None"
  shows "attempt (new_partial H config tr) k =
    attempt (run_plan H (partial_plan (chain_slot_duration H) config) tr) (\<lambda>_ tr. k (telemetry_of config) tr)"
  using assms
  by (cases "telemetry_of config")
    (simp_all add: new_partial_def partial_plan_def start_telemetry_plan plan_simps)

lemma new_full_plan:
  assumes "keystore_remote config = None"
  shows "new_full H config tr = run_plan H (full_plan (chain_slot_duration H) config) tr"
  using assms
  by (cases "offchain_worker_enabled config"; cases "role config = Authority"; cases "disable_grandpa config")
    (simp_all add: new_full_def new_partial_plan full_plan_def finality_def plan_simps perform_def)

lemma new_light_plan: "new_light H config tr = run_plan H (light_plan (chain_slot_duration H) config) tr"
  by (cases "offchain_worker_enabled config"; cases "disable_grandpa config"; cases "telemetry_of config")
    (simp_all add: new_light_def start_telemetry_plan light_plan_def finality_def plan_simps perform_def)


section \<open>The contract of a service\<close>

text \<open>A service that follows a plan in which starting the network comes last.\<close>

locale planned_service =
  fixes service :: "'e host \<Rightarrow> Configuration \<Rightarrow> trace \<Rightarrow> (unit, 'e ServiceError) result \<times> trace"
    and accepts :: "Configuration \<Rightarrow> bool"
    and plan :: "u64 \<Rightarrow> Configuration \<Rightarrow> service_call list"
  assumes follows: "accepts config \<Longrightarrow>
      service H config tr = run_plan H (plan (chain_slot_duration H) config) tr"
    and network_last: "\<exists>front. plan d config = front @ [Start_network] \<and> Start_network \<notin> set front"
begin

lemma starts_network_iff:
  assumes "accepts config"
  shows "Start_network \<in> set (snd (service H config [])) \<longleftrightarrow> fst (service H config []) = Ok ()"
proof -
  let ?plan = "plan (chain_slot_duration H) config"
  obtain front where front: "?plan = front @ [Start_network]" "Start_network \<notin> set front"
    using network_last by blast
  obtain r tr where run: "run_plan H ?plan [] = (r, tr)" by (cases "run_plan H ?plan []")
  from run_plan_outcome [OF run] show ?thesis
  proof
    assume "\<exists>front c rest e. ?plan = front @ c # rest \<and> fallible c \<and> fails H ([] @ front) c = Some e \<and>
      r = Err (Failed e) \<and> tr = [] @ front @ [c]"
    then obtain xs c ys e where "front @ [Start_network] = xs @ c # ys" "fallible c" "r = Err (Failed e)" "tr = xs @ [c]"
      using front(1) by auto
    moreover from this have "c \<noteq> Start_network" by auto
    ultimately have "Start_network \<notin> set tr"
      using front(2) by (cases ys rule: rev_cases) auto
    then show ?thesis using follows [OF assms] run \<open>r = Err (Failed e)\<close> by simp
  qed (use follows [OF assms] run front(1) in simp)
qed

lemma complete:
  assumes "accepts config" "service H config [] = (Ok u, tr)"
  shows "tr = plan (chain_slot_duration H) config"
  using assms follows [of config H "[]"] run_plan_outcome [of H "plan (chain_slot_duration H) config" "[]" "Ok u" tr]
  by auto

lemma last_call:
  "accepts config \<Longrightarrow> fst (service H config []) = Ok () \<Longrightarrow> last (snd (service H config [])) = Start_network"
proof -
  assume "accepts config" "fst (service H config []) = Ok ()"
  moreover obtain r tr where run: "run_plan H (plan (chain_slot_duration H) config) [] = (r, tr)"
    by (cases "run_plan H (plan (chain_slot_duration H) config) []")
  ultimately have "tr = plan (chain_slot_duration H) config"
    using follows run_plan_outcome [OF run] by auto
  then show ?thesis using follows [OF \<open>accepts config\<close>] run network_last [of "chain_slot_duration H" config] by auto
qed

lemma never:
  assumes "accepts config" "c \<notin> set (plan (chain_slot_duration H) config)"
  shows "c \<notin> set (snd (service H config []))"
  using assms follows run_plan_subset [of H "plan (chain_slot_duration H) config" "[]"] by auto

end

lemma telemetry_plan_set: "set (telemetry_plan config) \<subseteq> {TelemetryWorker_new 16} \<union> range New_telemetry"
  by (auto simp: telemetry_plan_def split: option.splits)

interpretation full: planned_service new_full "\<lambda>config. keystore_remote config = None" full_plan
proof
  fix d config
  let ?front = "butlast (full_plan d config)"
  have "full_plan d config = ?front @ [Start_network]" by (simp add: full_plan_def Let_def butlast_append)
  moreover have "Start_network \<notin> set ?front"
    using telemetry_plan_set [of config]
    by (auto simp: full_plan_def partial_plan_def Let_def butlast_append split: if_splits)
  ultimately show "\<exists>front. full_plan d config = front @ [Start_network] \<and> Start_network \<notin> set front" by blast
qed (rule new_full_plan)

interpretation light: planned_service new_light "\<lambda>_. True" light_plan
proof
  fix d config
  let ?front = "butlast (light_plan d config)"
  have "light_plan d config = ?front @ [Start_network]" by (simp add: light_plan_def Let_def butlast_append)
  moreover have "Start_network \<notin> set ?front"
    using telemetry_plan_set [of config]
    by (auto simp: light_plan_def Let_def butlast_append split: if_splits)
  ultimately show "\<exists>front. light_plan d config = front @ [Start_network] \<and> Start_network \<notin> set front" by blast
qed (rule new_light_plan)


section \<open>Properties\<close>

lemma new_full_remote:
  "keystore_remote config = Some url \<Longrightarrow>
   new_full H config tr = (Err (OtherError ''Remote Keystores are not supported.''), tr)"
  by (simp add: new_full_def new_partial_def)

lemma follows_plan:
  assumes "service H config [] = run_plan H plan []"
  shows "case service H config [] of
      (Ok u, tr) \<Rightarrow> tr = plan
    | (Err (Failed e), tr) \<Rightarrow>
        (\<exists>front c rest. plan = front @ c # rest \<and> tr = front @ [c] \<and> fallible c \<and> fails H front c = Some e)
    | (Err (OtherError s), tr) \<Rightarrow> False"
proof (cases "run_plan H plan []")
  case (Pair r tr)
  from run_plan_outcome [OF this] show ?thesis unfolding assms Pair by auto
qed

text \<open>
  C30: Building a full node makes the calls of its plan in order: telemetry if there are
  endpoints, client, pool, block import, import queue, network, off-chain workers if enabled, RPC and
  tasks, block authoring for an authority, the finality voter unless disabled, and the start of the
  network. It succeeds with all of them made or stops at the first one that fails, with its
  error. A remote keystore is refused before anything is done, so the later attempt to connect to one is
  never reached.
\<close>

theorem new_full_follows_plan:
  "case new_full H config [] of
     (Ok u, tr) \<Rightarrow> keystore_remote config = None \<and> tr = full_plan (chain_slot_duration H) config
   | (Err (Failed e), tr) \<Rightarrow> keystore_remote config = None \<and>
       (\<exists>front c rest. full_plan (chain_slot_duration H) config = front @ c # rest \<and> tr = front @ [c] \<and>
          fallible c \<and> fails H front c = Some e)
   | (Err (OtherError s), tr) \<Rightarrow> keystore_remote config \<noteq> None \<and> tr = [] \<and>
       s = ''Remote Keystores are not supported.''"
proof (cases "keystore_remote config")
  case None
  have "new_full H config [] = run_plan H (full_plan (chain_slot_duration H) config) []"
    using None by (rule full.follows)
  from follows_plan [where service = new_full, OF this] None show ?thesis
    by (auto split: prod.splits result.splits ServiceError.splits)
next
  case (Some url)
  then show ?thesis by (simp add: new_full_remote)
qed

text \<open>
  C33: Building a light node makes the calls of its plan in order and succeeds with all of them
  made or stops at the first one that fails: the plan has no block authoring and no finality
  voter, only an observer without keystore, an import queue that never authors, and no RPC extensions.
\<close>

theorem new_light_follows_plan:
  "(case new_light H config [] of
      (Ok u, tr) \<Rightarrow> tr = light_plan (chain_slot_duration H) config
    | (Err (Failed e), tr) \<Rightarrow>
        (\<exists>front c rest. light_plan (chain_slot_duration H) config = front @ c # rest \<and> tr = front @ [c] \<and>
           fallible c \<and> fails H front c = Some e)
    | (Err (OtherError s), tr) \<Rightarrow> False) \<and>
   (\<forall>d f t. Start_aura d f t \<notin> set (snd (new_light H config []))) \<and>
   (\<forall>g. Run_grandpa_voter g \<notin> set (snd (new_light H config []))) \<and>
   (\<forall>d t. Import_queue d CanAuthorWithNativeVersion t \<notin> set (snd (new_light H config []))) \<and>
   (\<forall>g. has_keystore g \<or> disable_grandpa config \<longrightarrow> Run_grandpa_observer g \<notin> set (snd (new_light H config []))) \<and>
   (\<forall>t. Spawn_tasks Create_full t \<notin> set (snd (new_light H config [])))"
proof -
  let ?plan = "light_plan (chain_slot_duration H) config"
  have "new_light H config [] = run_plan H ?plan []" by (rule light.follows) simp
  note follows = follows_plan [where service = new_light, OF this]
  have "Start_aura d f t \<notin> set ?plan" "Run_grandpa_voter g \<notin> set ?plan"
    "Import_queue d CanAuthorWithNativeVersion t \<notin> set ?plan" "Spawn_tasks Create_full t \<notin> set ?plan"
    "has_keystore g \<or> disable_grandpa config \<Longrightarrow> Run_grandpa_observer g \<notin> set ?plan" for d f t g
    using telemetry_plan_set [of config] by (auto simp: light_plan_def finality_def Let_def split: if_splits)
  then show ?thesis using follows light.never [where H = H and config = config] by auto
qed

theorem new_light_follows_plan_witness:
  "Run_grandpa_observer \<lparr>gossip_duration_ms = 333, justification_period = 512, voter_name = None,
       observer_enabled = False, has_keystore = True, local_role = Light, reports_to = None\<rparr> \<notin>
     set (snd (new_light \<lparr>fails = (\<lambda>tr c. None :: unit option), chain_slot_duration = 2000\<rparr>
       \<lparr>keystore_remote = None, telemetry_endpoints = None, role = Light, offchain_worker_enabled = True,
        force_authoring = False, disable_grandpa = False, extra_sets = [], node_name = ''n''\<rparr> []))"
  using new_light_follows_plan [of "\<lparr>fails = (\<lambda>tr c. None :: unit option), chain_slot_duration = 2000\<rparr>"
      "\<lparr>keystore_remote = None, telemetry_endpoints = None, role = Light, offchain_worker_enabled = True,
        force_authoring = False, disable_grandpa = False, extra_sets = [], node_name = ''n''\<rparr>"]
  by simp

text \<open>
  C31: A node joins the network only when everything else stands: both constructions start
  the network exactly if they succeed, and as their last call. Only a full node that is an authority authors blocks or
  takes part in finality with a keystore: any other full node has no block authoring, its voter and no observer, and no
  keystore; a light node, whatever its role, has neither block authoring nor a voter, only an observer without keystore.
\<close>

theorem network_starts_last:
  "(Start_network \<in> set (snd (new_full H config [])) \<longleftrightarrow> fst (new_full H config []) = Ok ()) \<and>
   (Start_network \<in> set (snd (new_light H config [])) \<longleftrightarrow> fst (new_light H config []) = Ok ()) \<and>
   (fst (new_full H config []) = Ok () \<longrightarrow> last (snd (new_full H config [])) = Start_network) \<and>
   (fst (new_light H config []) = Ok () \<longrightarrow> last (snd (new_light H config [])) = Start_network) \<and>
   (role config \<noteq> Authority \<longrightarrow>
      (\<forall>d f t. Start_aura d f t \<notin> set (snd (new_full H config []))) \<and>
      (\<forall>g. has_keystore g \<longrightarrow> Run_grandpa_voter g \<notin> set (snd (new_full H config [])))) \<and>
   (\<forall>g. Run_grandpa_observer g \<notin> set (snd (new_full H config []))) \<and>
   (\<forall>d f t. Start_aura d f t \<notin> set (snd (new_light H config []))) \<and>
   (\<forall>g. Run_grandpa_voter g \<notin> set (snd (new_light H config []))) \<and>
   (\<forall>g. has_keystore g \<longrightarrow> Run_grandpa_observer g \<notin> set (snd (new_light H config [])))"
proof -
  let ?full = "full_plan (chain_slot_duration H) config" and ?light = "light_plan (chain_slot_duration H) config"
  have "Start_aura d f t \<notin> set ?light" "Run_grandpa_voter g \<notin> set ?light"
    "has_keystore g \<Longrightarrow> Run_grandpa_observer g \<notin> set ?light" for d f t g
    using telemetry_plan_set [of config] by (auto simp: light_plan_def finality_def Let_def split: if_splits)
  then have light: "Start_aura d f t \<notin> set (snd (new_light H config []))"
    "Run_grandpa_voter g \<notin> set (snd (new_light H config []))"
    "has_keystore g \<Longrightarrow> Run_grandpa_observer g \<notin> set (snd (new_light H config []))" for d f t g
    using light.never [where H = H and config = config] by auto
  show ?thesis
  proof (cases "keystore_remote config")
    case None
    have "Start_aura d f t \<notin> set ?full" "has_keystore g \<Longrightarrow> Run_grandpa_voter g \<notin> set ?full"
      if "role config \<noteq> Authority" for d f t g
      using telemetry_plan_set [of config] that
      by (auto simp: full_plan_def partial_plan_def finality_def Let_def split: if_splits)
    moreover have "Run_grandpa_observer g \<notin> set ?full" for g
      using telemetry_plan_set [of config]
      by (auto simp: full_plan_def partial_plan_def Let_def split: if_splits)
    ultimately show ?thesis
      using light full.starts_network_iff [OF None, of H] light.starts_network_iff [of H config]
        full.last_call [OF None, of H] light.last_call [of H config] full.never [OF None, where H = H] by auto
  next
    case (Some url)
    then show ?thesis
      using light light.starts_network_iff [of H config] light.last_call [of H config] by (simp add: new_full_remote)
  qed
qed

theorem network_starts_last_witness:
  "last (snd (new_full \<lparr>fails = (\<lambda>tr c. None :: unit option), chain_slot_duration = 2000\<rparr>
     \<lparr>keystore_remote = None, telemetry_endpoints = Some [''url''], role = Authority,
      offchain_worker_enabled = True, force_authoring = False, disable_grandpa = False, extra_sets = [],
      node_name = ''n''\<rparr> [])) = Start_network"
proof -
  let ?H = "\<lparr>fails = (\<lambda>tr c. None :: unit option), chain_slot_duration = 2000\<rparr>"
  let ?c = "\<lparr>keystore_remote = None, telemetry_endpoints = Some [''url''], role = Authority,
      offchain_worker_enabled = True, force_authoring = False, disable_grandpa = False, extra_sets = [],
      node_name = ''n''\<rparr>"
  have "fst (new_full ?H ?c []) = Ok ()"
    by (simp add: full.follows run_plan_succeeds)
  then show ?thesis using network_starts_last [of ?H ?c] by simp
qed

end
