(* ===== verification/Command.thy ===== *)
theory Command
  imports Chain_Spec Service
begin

text \<open>
  The command line of the node: \<open>src/node/src/cli.rs\<close> and \<open>src/node/src/command.rs\<close>. Argument parsing, the
  runners and the commands themselves come from \<open>sc_cli\<close> and are a parameter: \<open>create_runner\<close> gives the
  configuration a command runs with, and \<open>outcome\<close> the result of what is finally run. The
  state records the service calls made by theory \<open>Service\<close> and the commands that were run.
\<close>

section \<open>Command line and chain specification\<close>

datatype 'cmd Subcommand =
    Key 'cmd | BuildSpec 'cmd | CheckBlock 'cmd | ExportBlocks 'cmd | ExportState 'cmd | ImportBlocks 'cmd
  | PurgeChain 'cmd | Revert 'cmd | Benchmark 'cmd

record 'cmd Cli =
  subcommand :: "'cmd Subcommand option"
  run_cmd :: 'cmd

definition cli_impl_name :: string where "cli_impl_name = ''Substrate Node''"

text \<open>Three strings come from the environment of the build: \<open>env\<close> reads a variable of it.\<close>

definition cli_impl_version :: "(string \<Rightarrow> string) \<Rightarrow> string" where
  "cli_impl_version env = env ''SUBSTRATE_CLI_IMPL_VERSION''"

definition cli_description :: "(string \<Rightarrow> string) \<Rightarrow> string" where
  "cli_description env = env ''CARGO_PKG_DESCRIPTION''"

definition cli_author :: "(string \<Rightarrow> string) \<Rightarrow> string" where
  "cli_author env = env ''CARGO_PKG_AUTHORS''"

definition support_url :: string where "support_url = ''support.anonymous.an''"

definition copyright_start_year :: int where "copyright_start_year = 2017"

definition native_runtime_version :: "'apis \<Rightarrow> 'apis RuntimeVersion" where
  "native_runtime_version api_versions = VERSION api_versions"

definition load_spec ::
  "('aura, 'grandpa, 'pub, 'acc) key_scheme \<Rightarrow> u8 list option \<Rightarrow>
   (string \<Rightarrow> (('aura, 'grandpa, 'acc, 'nft) GenesisConfig ChainSpec, string) result) \<Rightarrow> string \<Rightarrow>
   (('aura, 'grandpa, 'acc, 'nft) GenesisConfig ChainSpec, string) result" where
  "load_spec K WASM_BINARY from_json_file spec =
     (if spec = ''dev'' then development_config K WASM_BINARY
      else if spec = '''' \<or> spec = ''local'' then local_testnet_config K WASM_BINARY
      else from_json_file spec)"


section \<open>Running a command\<close>

text \<open>What is finally run, with the parts of the configuration or of the service that are handed to it.\<close>

datatype 'cmd action =
    Run_key 'cmd
  | Run_build_spec 'cmd Configuration
  | Run_check_block 'cmd
  | Run_export_blocks 'cmd Configuration
  | Run_export_state 'cmd Configuration
  | Run_import_blocks 'cmd
  | Run_purge_chain 'cmd Configuration
  | Run_revert 'cmd
  | Run_benchmark 'cmd Configuration
  | Run_until_exit

datatype ('e, 'x) cli_error = ServiceErr "'e ServiceError" | Input string | CliErr 'x

record ('cmd, 'x) cli_host =
  create_runner :: "'cmd \<Rightarrow> (Configuration, 'x) result"
  outcome :: "'cmd action \<Rightarrow> (unit, 'x) result"
  runtime_benchmarks :: bool

record 'cmd node_state =
  services :: trace
  actions :: "'cmd action list"

type_synonym ('cmd, 'e, 'x) command =
  "'cmd node_state \<Rightarrow> (unit, ('e, 'x) cli_error) result \<times> 'cmd node_state"

definition execute :: "('cmd, 'x) cli_host \<Rightarrow> 'cmd action \<Rightarrow> ('cmd, 'e, 'x) command" where
  "execute C a st = (map_err CliErr (outcome C a), st\<lparr>actions := actions st @ [a]\<rparr>)"

definition with_runner ::
  "('cmd, 'x) cli_host \<Rightarrow> 'cmd \<Rightarrow> (Configuration \<Rightarrow> ('cmd, 'e, 'x) command) \<Rightarrow> ('cmd, 'e, 'x) command" where
  "with_runner C cmd f st = attempt (map_err CliErr (create_runner C cmd), st) f"

definition service ::
  "(trace \<Rightarrow> ('a, 'e ServiceError) result \<times> trace) \<Rightarrow> 'cmd node_state \<Rightarrow>
   ('a, ('e, 'x) cli_error) result \<times> 'cmd node_state" where
  "service f st = (case f (services st) of (r, tr) \<Rightarrow> (map_err ServiceErr r, st\<lparr>services := tr\<rparr>))"

definition run :: "'e host \<Rightarrow> ('cmd, 'x) cli_host \<Rightarrow> 'cmd Cli \<Rightarrow> ('cmd, 'e, 'x) command" where
  "run H C cli st =
     (case subcommand cli of
        Some (Key cmd) \<Rightarrow> execute C (Run_key cmd) st
      | Some (BuildSpec cmd) \<Rightarrow>
          with_runner C cmd (\<lambda>config st. execute C (Run_build_spec cmd config) st) st
      | Some (CheckBlock cmd) \<Rightarrow>
          with_runner C cmd (\<lambda>config st.
            attempt (service (new_partial H config) st) (\<lambda>_ st. execute C (Run_check_block cmd) st)) st
      | Some (ExportBlocks cmd) \<Rightarrow>
          with_runner C cmd (\<lambda>config st.
            attempt (service (new_partial H config) st) (\<lambda>_ st. execute C (Run_export_blocks cmd config) st)) st
      | Some (ExportState cmd) \<Rightarrow>
          with_runner C cmd (\<lambda>config st.
            attempt (service (new_partial H config) st) (\<lambda>_ st. execute C (Run_export_state cmd config) st)) st
      | Some (ImportBlocks cmd) \<Rightarrow>
          with_runner C cmd (\<lambda>config st.
            attempt (service (new_partial H config) st) (\<lambda>_ st. execute C (Run_import_blocks cmd) st)) st
      | Some (PurgeChain cmd) \<Rightarrow>
          with_runner C cmd (\<lambda>config st. execute C (Run_purge_chain cmd config) st) st
      | Some (Revert cmd) \<Rightarrow>
          with_runner C cmd (\<lambda>config st.
            attempt (service (new_partial H config) st) (\<lambda>_ st. execute C (Run_revert cmd) st)) st
      | Some (Benchmark cmd) \<Rightarrow>
          if runtime_benchmarks C
          then with_runner C cmd (\<lambda>config st. execute C (Run_benchmark cmd config) st) st
          else (Err (Input (''Benchmarking wasn'' @ [CHR 0x27] @ ''t enabled when building the node. '' @
            ''You can enable it with `--features runtime-benchmarks`.'')), st)
      | None \<Rightarrow>
          with_runner C (run_cmd cli) (\<lambda>config st.
            attempt (service (\<lambda>tr. case role config of
                  Light \<Rightarrow> new_light H config tr
                | _ \<Rightarrow> new_full H config tr) st) (\<lambda>_ st.
            execute C Run_until_exit st)) st)"


text \<open>
  \<open>main\<close> of \<open>src/node/src/main.rs\<close>: \<open>run\<close> on the command line that \<open>Cli::from_args\<close> parsed, from a process
  that has done nothing yet.
\<close>

definition new_node :: "'cmd node_state" where
  "new_node = \<lparr>services = [], actions = []\<rparr>"

definition node_main :: "'e host \<Rightarrow> ('cmd, 'x) cli_host \<Rightarrow> 'cmd Cli \<Rightarrow> (unit, ('e, 'x) cli_error) result \<times> 'cmd node_state" where
  "node_main H C cli = run H C cli new_node"


section \<open>Properties\<close>

text \<open>The commands that open the chain through \<open>new_partial\<close>.\<close>

fun opens_chain :: "'cmd Subcommand \<Rightarrow> 'cmd option" where
  "opens_chain (CheckBlock cmd) = Some cmd"
| "opens_chain (ExportBlocks cmd) = Some cmd"
| "opens_chain (ExportState cmd) = Some cmd"
| "opens_chain (ImportBlocks cmd) = Some cmd"
| "opens_chain (Revert cmd) = Some cmd"
| "opens_chain _ = None"

lemma new_partial_remote:
  "keystore_remote config \<noteq> None \<Longrightarrow>
   new_partial H config tr = (Err (OtherError ''Remote Keystores are not supported.''), tr)"
  by (simp add: new_partial_def)

text \<open>
  A configuration with a remote keystore is refused by every command that opens the chain and by
  every node but a light one: the error says so, no service call is made and no command is run.
\<close>

theorem remote_keystore_refused:
  assumes "create_runner C cmd = Ok config" "keystore_remote config = Some url"
    and "(\<exists>sub. subcommand cli = Some sub \<and> opens_chain sub = Some cmd) \<or>
      subcommand cli = None \<and> run_cmd cli = cmd \<and> role config \<noteq> Light"
  shows "run H C cli st = (Err (ServiceErr (OtherError ''Remote Keystores are not supported.'')), st)"
  using assms(3)
proof
  assume "\<exists>sub. subcommand cli = Some sub \<and> opens_chain sub = Some cmd"
  then obtain sub where "subcommand cli = Some sub" "opens_chain sub = Some cmd" by blast
  with assms(1,2) show ?thesis
    by (cases sub) (simp_all add: run_def with_runner_def service_def new_partial_remote)
next
  assume "subcommand cli = None \<and> run_cmd cli = cmd \<and> role config \<noteq> Light"
  with assms(1,2) show ?thesis
    by (cases "role config") (simp_all add: run_def with_runner_def service_def new_full_remote)
qed

definition sample_Configuration :: Configuration where
  "sample_Configuration =
     \<lparr>keystore_remote = Some ''url'', telemetry_endpoints = None, role = Full, offchain_worker_enabled = True,
      force_authoring = False, disable_grandpa = False, extra_sets = [], node_name = ''node''\<rparr>"

theorem remote_keystore_refused_witness:
  "run \<lparr>fails = (\<lambda>tr c. None :: unit option), chain_slot_duration = 2000\<rparr>
     \<lparr>create_runner = (\<lambda>_ :: unit. Ok sample_Configuration :: (Configuration, unit) result), outcome = (\<lambda>_. Ok ()),
      runtime_benchmarks = False\<rparr>
     \<lparr>subcommand = Some (Revert ()), run_cmd = ()\<rparr> new_node =
   (Err (ServiceErr (OtherError ''Remote Keystores are not supported.'')), new_node)"
  by (rule remote_keystore_refused [where cmd = "()" and config = sample_Configuration and url = "''url''"])
    (simp_all add: sample_Configuration_def)

text \<open>
  C38: Without a subcommand the program starts a node and nothing else: a light one
  exactly for the light role, a full one otherwise. It waits for the node's end only if the whole plan
  of that node, including the start of the network, was carried out.
\<close>

theorem run_starts_node:
  assumes "subcommand cli = None" "create_runner C (run_cmd cli) = Ok config"
    and "node_main H C cli = (r, st)"
  shows "set (actions st) \<subseteq> {Run_until_exit} \<and>
    services st = snd ((if role config = Light then new_light else new_full) H config []) \<and>
    (actions st = [Run_until_exit] \<longleftrightarrow>
       fst ((if role config = Light then new_light else new_full) H config []) = Ok ()) \<and>
    (actions st = [Run_until_exit] \<longleftrightarrow> Start_network \<in> set (services st)) \<and>
    (r = Ok () \<longrightarrow> actions st = [Run_until_exit] \<and> services st =
       (if role config = Light then light_plan else full_plan) (chain_slot_duration H) config)"
proof -
  let ?new = "(if role config = Light then new_light else new_full) H config"
  obtain x tr where x: "?new [] = (x, tr)" by (cases "?new []")
  have run: "(r, st) = attempt (map_err ServiceErr x, new_node\<lparr>services := tr\<rparr>) (\<lambda>_ st. execute C Run_until_exit st)"
    using assms x by (cases "role config") (simp_all add: node_main_def run_def with_runner_def service_def new_node_def)
  then have st: "services st = tr" "set (actions st) \<subseteq> {Run_until_exit}"
      "actions st = [Run_until_exit] \<longleftrightarrow> x = Ok ()" "r = Ok () \<longrightarrow> x = Ok ()"
    by (cases x; simp add: execute_def new_node_def)+
  have net: "Start_network \<in> set tr \<longleftrightarrow> x = Ok ()"
    using x full.starts_network_iff [of config H] light.starts_network_iff [of H config]
      new_full_remote [of config _ H "[]"]
    by (cases "keystore_remote config") (auto split: if_splits)
  have plan: "x = Ok () \<Longrightarrow> tr = (if role config = Light then light_plan else full_plan) (chain_slot_duration H) config"
    using x full.complete [of config H] light.complete [of H config] new_full_remote [of config _ H "[]"]
    by (cases "keystore_remote config") (auto split: if_splits)
  show ?thesis using x st net plan by auto
qed

theorem run_starts_node_witness:
  "\<exists>st. node_main \<lparr>fails = (\<lambda>tr c. None :: unit option), chain_slot_duration = 2000\<rparr>
     \<lparr>create_runner = (\<lambda>_ :: unit. Ok (sample_Configuration\<lparr>role := Light\<rparr>) :: (Configuration, unit) result),
      outcome = (\<lambda>_. Ok ()), runtime_benchmarks = False\<rparr>
     \<lparr>subcommand = None, run_cmd = ()\<rparr> = (Ok (), st) \<and>
   services st = light_plan 2000 (sample_Configuration\<lparr>role := Light\<rparr>)"
proof -
  let ?H = "\<lparr>fails = (\<lambda>tr c. None :: unit option), chain_slot_duration = 2000\<rparr>"
  let ?C = "\<lparr>create_runner = (\<lambda>_ :: unit. Ok (sample_Configuration\<lparr>role := Light\<rparr>) :: (Configuration, unit) result),
      outcome = (\<lambda>_. Ok ()), runtime_benchmarks = False\<rparr>"
  let ?cli = "\<lparr>subcommand = None, run_cmd = ()\<rparr>"
  obtain st where run: "node_main ?H ?C ?cli = (Ok (), st)"
    by (simp add: node_main_def run_def with_runner_def service_def new_node_def light.follows run_plan_succeeds execute_def)
  note run_starts_node [OF _ _ run, THEN conjunct2, THEN conjunct2, THEN conjunct2, THEN conjunct2]
  then have "services st = light_plan 2000 (sample_Configuration\<lparr>role := Light\<rparr>)" by simp
  with run show ?thesis by blast
qed

end
