(* ===== verification/Benchmarking.thy ===== *)
theory Benchmarking
  imports Kitties_Machine Template
begin

text \<open>
  The benchmarks of \<open>src/pallets/kitties/src/benchmarking.rs\<close> and \<open>src/pallets/template/src/benchmarking.rs\<close>
  that produced the weights of theory \<open>Weights\<close>: each prepares the storage and then makes the measured
  call. They are measurements of the successful path of a call, which is the most expensive one, only if the
  prepared call does succeed; that is what is proved. The accounts \<open>caller\<close>, \<open>to\<close> and \<open>seller\<close> and
  the function that sets a free balance come from the benchmarking framework and the currency.
\<close>

section \<open>Benchmarks\<close>

definition default_kitty :: Kitty where
  "default_kitty = Kitty (replicate 16 0)"

definition bench_create ::
  "('acc, 'n, 'c, 'sys, 'e) kitties_config \<Rightarrow> 'acc \<Rightarrow> ('acc, 'n, 'c, 'sys, 'e) dispatch" where
  "bench_create T caller st = create T (Signed caller) st"

definition bench_breed ::
  "('acc, 'n, 'c, 'sys, 'e) kitties_config \<Rightarrow> 'acc \<Rightarrow> ('acc, 'n, 'c, 'sys, 'e) dispatch" where
  "bench_breed T caller st =
     (let kitty = default_kitty in
      attempt (orml_mint T caller (class_id st) [] kitty st) (\<lambda>kitty_id st.
      let kitty = Kitty ((dna kitty)[0 := 1]) in
      attempt (orml_mint T caller (class_id st) [] kitty st) (\<lambda>kitty_id2 st.
      breed T (Signed caller) kitty_id kitty_id2 st)))"

definition bench_transfer ::
  "('acc, 'n, 'c, 'sys, 'e) kitties_config \<Rightarrow> 'acc \<Rightarrow> 'acc \<Rightarrow> ('acc, 'n, 'c, 'sys, 'e) dispatch" where
  "bench_transfer T caller to st =
     attempt (orml_mint T caller (class_id st) [] default_kitty st) (\<lambda>kitty_id st.
     transfer T (Signed caller) to kitty_id st)"

definition bench_set_price ::
  "('acc, 'n, 'c, 'sys, 'e) kitties_config \<Rightarrow> 'acc \<Rightarrow> ('acc, 'n, 'c, 'sys, 'e) dispatch" where
  "bench_set_price T caller st =
     attempt (orml_mint T caller (class_id st) [] default_kitty st) (\<lambda>kitty_id st.
     set_price T (Signed caller) kitty_id (Some 100) st)"

definition bench_buy ::
  "('acc, 'n, 'c, 'sys, 'e) kitties_config \<Rightarrow> ('acc \<Rightarrow> u128 \<Rightarrow> 'c \<Rightarrow> 'c) \<Rightarrow> 'acc \<Rightarrow> 'acc \<Rightarrow>
   ('acc, 'n, 'c, 'sys, 'e) dispatch" where
  "bench_buy T make_free_balance_be caller seller st =
     (let st = st\<lparr>currency := make_free_balance_be caller 1000 (currency st)\<rparr> in
      attempt (orml_mint T seller (class_id st) [] default_kitty st) (\<lambda>kitty_id st.
      attempt (set_price T (Signed seller) kitty_id (Some 500) st) (\<lambda>_ st.
      buy T (Signed caller) seller kitty_id 500 st)))"

text \<open>The template's benchmark runs for every \<open>s\<close> from \<open>0\<close> to \<open>100\<close> and checks the stored value.\<close>

definition bench_do_something :: "'acc \<Rightarrow> u32 \<Rightarrow> 'acc template_storage \<Rightarrow> bool" where
  "bench_do_something caller s st =
     (case do_something (Signed caller) s st :: (unit, (TemplateError, unit) dispatch_error) result \<times> _ of
        (Ok _, st) \<Rightarrow> something st = Some s
      | (Err _, _) \<Rightarrow> False)"


section \<open>The prepared calls succeed\<close>

lemma minted:
  assumes "nft_contract T V" "V (nft st)" "orml_mint T who (class_id st) [] k st = (Ok t, st')"
  shows "V (nft st')" "class_id st' = class_id st" "currency st' = currency st"
    "token T st' = (token T st)(t \<mapsto> \<lparr>ti_owner = who, ti_data = k\<rparr>)"
    "t = nft_next_token_id T (nft st) (class_id st)"
    "nft_next_token_id T (nft st') (class_id st') = t + 1"
  using assms(3) nft_mintD [OF assms(1,2)] by (auto simp: orml_mint_eq)

lemma set_price_of_owner:
  assumes "nft_contract T V" "V (nft st)" "token T st t = Some x" "ti_owner x = who"
  shows "set_price T (Signed who) t p st = (Ok (), st\<lparr>kitty_prices := (kitty_prices st)(t := p),
    events := events st @ [KittyPriceUpdated who t p]\<rparr>)"
  using nft_indexD [OF assms(1,2)] assms(3,4) by (simp add: set_price_Ok)

lemma buy_listed:
  assumes "nft_contract T V" "V (nft st)" "token T st t = Some x" "ti_owner x = seller" "who \<noteq> seller"
    and "kitty_prices st t = Some p" "p \<le> m"
    and "fst (currency_transfer T who seller p KeepAlive (currency st)) = Ok ()"
  shows "fst (buy T (Signed who) seller t m st) = Ok ()"
proof -
  obtain n where "nft_transfer T seller who (class_id st, t) (nft st) = (Ok (), n)"
    using nft_transfer_succeeds [OF assms(1-3)] assms(4) by blast
  moreover obtain c where "currency_transfer T who seller p KeepAlive (currency st) = (Ok (), c)"
    using assms(8) by (metis prod.collapse)
  ultimately have "\<exists>st'. buy T (Signed who) seller t m st = (Ok (), st')"
    using assms(5-7) by (simp add: buy_Ok)
  then show ?thesis by auto
qed

text \<open>A benchmark fails only outside the pallet: in a mint.\<close>

lemma bench_breed_outcome:
  assumes "nft_contract T V" "V (nft st)" "bench_breed T caller st = (Err e, st')"
  shows "\<exists>x. e = External x"
proof (cases "orml_mint T caller (class_id st) [] default_kitty st")
  case (Pair r1 st1)
  show ?thesis
  proof (cases r1)
    case (Ok t1)
    note m1 = minted [OF assms(1,2) Pair [unfolded Ok]]
    let ?k2 = "Kitty ((dna default_kitty)[0 := 1])"
    show ?thesis
    proof (cases "orml_mint T caller (class_id st1) [] ?k2 st1")
      case (Pair r2 st2)
      show ?thesis
      proof (cases r2)
        case (Ok t2)
        note m2 = minted [OF assms(1) m1(1) Pair [unfolded Ok]]
        have t2: "t2 = t1 + 1" using m2(5) m1(6) by simp
        have "t1 \<noteq> t1 + 1" by simp
        then have "kitties T st2 caller t1 = Some default_kitty" "kitties T st2 caller t2 = Some ?k2"
          using m1(4) m2(4) t2 by (simp_all add: kitties_eq_Some)
        moreover have "gender default_kitty \<noteq> gender ?k2"
          by (simp add: gender_neq_bit default_kitty_def)
        moreover have "breed T (Signed caller) t1 t2 st2 = (Err e, st')"
          using assms(3) \<open>orml_mint T caller (class_id st) [] default_kitty st = (r1, st1)\<close> Pair \<open>r1 = Ok t1\<close> Ok
          by (simp add: bench_breed_def)
        ultimately show ?thesis by (auto simp: breed_Err do_breed_Err)
      next
        case (Err x)
        then show ?thesis
          using assms(3) Pair \<open>orml_mint T caller (class_id st) [] default_kitty st = (r1, st1)\<close> \<open>r1 = Ok t1\<close>
          by (auto simp: bench_breed_def orml_mint_eq)
      qed
    qed
  next
    case (Err x)
    then show ?thesis using assms(3) Pair by (auto simp: bench_breed_def orml_mint_eq)
  qed
qed

lemma bench_after_mint:
  assumes "nft_contract T V" "V (nft st)" "is_ok (fst (nft_mint T caller (class_id st) [] default_kitty (nft st)))"
  shows "fst (bench_transfer T caller to st) = Ok ()" "fst (bench_set_price T caller st) = Ok ()"
proof -
  obtain t st1 where mint: "orml_mint T caller (class_id st) [] default_kitty st = (Ok t, st1)"
    using assms(3) by (cases "nft_mint T caller (class_id st) [] default_kitty (nft st)") (auto simp: orml_mint_def elim: is_ok.elims)
  note m = minted [OF assms(1,2) mint]
  have tok: "token T st1 t = Some \<lparr>ti_owner = caller, ti_data = default_kitty\<rparr>" using m(4) by simp
  obtain n where "nft_transfer T caller to (class_id st1, t) (nft st1) = (Ok (), n)"
    using nft_transfer_succeeds [OF assms(1) m(1) tok] by auto
  then have "\<exists>st'. transfer T (Signed caller) to t st1 = (Ok (), st')" by (simp add: transfer_Ok)
  then show "fst (bench_transfer T caller to st) = Ok ()" by (auto simp: bench_transfer_def mint)
  show "fst (bench_set_price T caller st) = Ok ()"
    using set_price_of_owner [OF assms(1) m(1) tok] by (simp add: bench_set_price_def mint)
qed

lemma bench_buy_after_mint:
  assumes "nft_contract T V" "V (nft st)" "caller \<noteq> seller"
    and "is_ok (fst (nft_mint T seller (class_id st) [] default_kitty (nft st)))"
    and "fst (currency_transfer T caller seller 500 KeepAlive (mfb caller 1000 (currency st))) = Ok ()"
  shows "fst (bench_buy T mfb caller seller st) = Ok ()"
proof -
  let ?st = "st\<lparr>currency := mfb caller 1000 (currency st)\<rparr>"
  have V: "V (nft ?st)" using assms(2) by simp
  obtain t st1 where mint: "orml_mint T seller (class_id ?st) [] default_kitty ?st = (Ok t, st1)"
    using assms(4) by (cases "nft_mint T seller (class_id st) [] default_kitty (nft st)") (auto simp: orml_mint_def elim: is_ok.elims)
  note m = minted [OF assms(1) V mint]
  have tok: "token T st1 t = Some \<lparr>ti_owner = seller, ti_data = default_kitty\<rparr>" using m(4) by simp
  let ?st2 = "st1\<lparr>kitty_prices := (kitty_prices st1)(t := Some 500),
    events := events st1 @ [KittyPriceUpdated seller t (Some 500)]\<rparr>"
  have "set_price T (Signed seller) t (Some 500) st1 = (Ok (), ?st2)"
    using set_price_of_owner [OF assms(1) m(1) tok] by simp
  moreover have "fst (buy T (Signed caller) seller t 500 ?st2) = Ok ()"
  proof (rule buy_listed [OF assms(1)])
    show "token T ?st2 t = Some \<lparr>ti_owner = seller, ti_data = default_kitty\<rparr>" using tok by simp
  qed (use assms(3,5) m in simp_all)
  ultimately show ?thesis using mint by (simp add: bench_buy_def)
qed


section \<open>Property\<close>

text \<open>
  C36: The benchmarks measure calls that succeed: \<open>create\<close> and \<open>breed\<close> can fail only in a mint (the two
  kitties prepared for \<open>breed\<close> belong to the caller and differ in gender); once the
  kitty is minted, \<open>transfer\<close>, \<open>set_price\<close> and, if the currency accepts the payment of 500 out of 1000,
  \<open>buy\<close> succeed; and the check of the template's benchmark holds for every value.
\<close>

theorem benchmarks_measure_success:
  assumes "nft_contract T V" "V (nft st)" "caller \<noteq> seller"
    and "fst (currency_transfer T caller seller 500 KeepAlive (mfb caller 1000 (currency st))) = Ok ()"
  shows "(\<forall>e. fst (bench_create T caller st) = Err e \<longrightarrow> (\<exists>x. e = External x)) \<and>
    (\<forall>e. fst (bench_breed T caller st) = Err e \<longrightarrow> (\<exists>x. e = External x)) \<and>
    (is_ok (fst (nft_mint T caller (class_id st) [] default_kitty (nft st))) \<longrightarrow>
       fst (bench_transfer T caller to st) = Ok () \<and> fst (bench_set_price T caller st) = Ok ()) \<and>
    (is_ok (fst (nft_mint T seller (class_id st) [] default_kitty (nft st))) \<longrightarrow>
       fst (bench_buy T mfb caller seller st) = Ok ()) \<and>
    bench_do_something caller s ts"
proof (intro conjI allI impI)
  fix e assume "fst (bench_create T caller st) = Err e"
  then show "\<exists>x. e = External x"
    by (cases "create T (Signed caller) st") (auto simp: bench_create_def create_Err)
next
  fix e assume "fst (bench_breed T caller st) = Err e"
  then show "\<exists>x. e = External x"
    using bench_breed_outcome [OF assms(1,2)] by (cases "bench_breed T caller st") auto
next
  show "bench_do_something caller s ts" by (simp add: bench_do_something_def do_something_def Let_def)
qed (use bench_after_mint [OF assms(1,2)] bench_buy_after_mint [OF assms(1-3)] assms(4) in simp_all)

theorem benchmarks_measure_success_witness:
  "fst (bench_buy sample_config (\<lambda>who v c. c(who := v)) 7 8 sample_state) = Ok ()"
proof -
  have "fst (currency_transfer sample_config 7 8 500 KeepAlive
      ((\<lambda>who v c. c(who := v)) 7 1000 (currency sample_state))) = Ok ()"
    by (simp add: sample_pay_def sample_state_def)
  moreover have "is_ok (fst (nft_mint sample_config 8 (class_id sample_state) [] default_kitty (nft sample_state)))"
    by (simp add: sample_mint_def sample_state_def sample_nft_state_def)
  ultimately show ?thesis
    using benchmarks_measure_success [OF sample_nft_contract, where st = sample_state and caller = 7 and seller = 8
        and mfb = "\<lambda>who v c. c(who := v)"] by simp
qed

end
