(* ===== verification/Template_Mock.thy ===== *)
theory Template_Mock
  imports Template Runtime
begin

text \<open>
  The mock runtime of the template pallet, \<open>src/pallets/template/src/mock.rs\<close>, and the pallet's tests
  in \<open>tests.rs\<close>. The mock consists of the system and the template pallet, with \<open>u64\<close> accounts and
  free database operations; \<open>new_test_ext\<close> is its default genesis. The tests are definitions that
  compute whether their assertions hold, and they do.
\<close>

section \<open>The mock runtime\<close>

datatype mock_pallet = MockSystem | MockTemplateModule

fun mock_parts :: "mock_pallet \<Rightarrow> part list" where
  "mock_parts MockSystem = [PalletPart, CallPart, ConfigPart, StoragePart, EventPart]"
| "mock_parts MockTemplateModule = [PalletPart, CallPart, StoragePart, EventPart]"

definition mock_BlockHashCount :: u64 where "mock_BlockHashCount = 250"

definition mock_SS58Prefix :: u8 where "mock_SS58Prefix = 42"

text \<open>The implementation \<open>()\<close> of \<open>DbWeight\<close>: every operation is free.\<close>

definition mock_DbWeight :: db_weight where
  "mock_DbWeight = \<lparr>db_reads = (\<lambda>_. 0), db_writes = (\<lambda>_. 0), db_reads_writes = (\<lambda>_ _. 0)\<rparr>"

definition new_test_ext :: "u64 template_storage" where
  "new_test_ext = \<lparr>something = None, template_events = []\<rparr>"


section \<open>The tests\<close>

definition it_works_for_default_value :: bool where
  "it_works_for_default_value \<longleftrightarrow>
     (case do_something (Signed 1) 42 new_test_ext :: (unit, (TemplateError, unit) dispatch_error) result \<times> _ of
        (Ok _, st) \<Rightarrow> something st = Some 42
      | (Err _, _) \<Rightarrow> False)"

text \<open>\<open>assert_noop!\<close>: the given error, and the storage unchanged.\<close>

definition correct_error_for_none_value :: bool where
  "correct_error_for_none_value \<longleftrightarrow>
     (case cause_error (Signed 1) new_test_ext :: (unit, (TemplateError, unit) dispatch_error) result \<times> _ of
        (r, st) \<Rightarrow> r = Err (PalletError NoneValue) \<and> st = new_test_ext)"

lemma template_tests_pass: "it_works_for_default_value" "correct_error_for_none_value"
  by (simp_all add: it_works_for_default_value_def correct_error_for_none_value_def new_test_ext_def
      do_something_def cause_error_def Let_def)

text \<open>The default genesis satisfies the pallet's invariant, and the calls have the base weight.\<close>

lemma mock_inv: "template_inv new_test_ext"
  by (simp add: template_inv_def new_test_ext_def)

lemma mock_weight: "template_weight mock_DbWeight call = 10000"
  by (cases call) (simp_all add: mock_DbWeight_def)

end
