(* ===== verification/Codec.thy ===== *)
theory Codec
  imports Kitties
begin

text \<open>
  The SCALE format of the two tuples that the kitties pallet hashes, in \<open>random_value\<close> and \<open>validate_solution\<close>: integers
  are little-endian at their width, a tuple is the concatenation of its parts, an option is a byte \<open>0\<close>, or \<open>1\<close> followed by
  the value. The encoder is the library's, and the pallet's model has it as a parameter; only the tests, which compare
  with fixed hashes, instantiate it with this format.
\<close>

definition enc_u32 :: "u32 \<Rightarrow> u8 list" where
  "enc_u32 x = to_le_bytes 4 (ucast x)"

definition enc_u64 :: "u64 \<Rightarrow> u8 list" where
  "enc_u64 x = to_le_bytes 8 (ucast x)"

definition enc_u128 :: "u128 \<Rightarrow> u8 list" where
  "enc_u128 x = to_le_bytes 16 x"

definition enc_pair :: "('a \<Rightarrow> u8 list) \<Rightarrow> ('b \<Rightarrow> u8 list) \<Rightarrow> 'a \<times> 'b \<Rightarrow> u8 list" where
  "enc_pair ea eb p = ea (fst p) @ eb (snd p)"

definition enc_option :: "('a \<Rightarrow> u8 list) \<Rightarrow> 'a option \<Rightarrow> u8 list" where
  "enc_option e x = (case x of None \<Rightarrow> [0] | Some y \<Rightarrow> 1 # e y)"

definition enc_solution :: "u32 \<times> u32 \<times> u32 \<times> u128 \<Rightarrow> u8 list" where
  "enc_solution = enc_pair enc_u32 (enc_pair enc_u32 (enc_pair enc_u32 enc_u128))"

end
