(* ===== verification/Kitties_Mock.thy ===== *)
theory Kitties_Mock
  imports Kitties_Calls Codec
begin

text \<open>
  The mock runtime and the tests of the kitties pallet, \<open>src/pallets/kitties/src/tests.rs\<close>. The mock gives the
  pallet \<open>u64\<close> accounts, a random seed that the tests set, and the difficulty \<open>3\<close>; \<open>orml_nft\<close>, the balances
  pallet and BLAKE2 stay parameters, with what the tests rely on as contracts. A test is the list of its
  assertions, each a step on the storage that fails (\<open>None\<close>) if the assertion does. Amounts are \<open>u128\<close> as in
  the runtime; the mock's are small \<open>u64\<close>s.
\<close>

section \<open>The mock runtime\<close>

definition test_ExistentialDeposit :: u128 where "test_ExistentialDeposit = 1"

definition test_DefaultDifficulty :: u32 where "test_DefaultDifficulty = 3"

text \<open>\<open>MockRandom\<close>: the seed the tests have set, \<open>H256::default()\<close> at first, and block \<open>0\<close>.\<close>

definition mock_random :: "u8 list \<Rightarrow> u8 list \<times> u32" where
  "mock_random seed = (seed, 0)"

text \<open>
  \<open>impl Config for Test\<close>: of the configuration of the pallet, the randomness and the difficulty are the mock's, the
  encodings are the library's, and the genesis of the system pallet sets the extrinsic index to \<open>0\<close>.
\<close>

definition test_Config :: "(u64, 'n, 'c, u8 list, 'e) kitties_config \<Rightarrow> (u64, 'n, 'c, u8 list, 'e) kitties_config" where
  "test_Config T = T\<lparr>
     random_seed := mock_random,
     extrinsic_index := (\<lambda>_. Some 0),
     encode_random := enc_pair (\<lambda>seed. seed) (enc_pair enc_u64 (enc_option enc_u32)),
     encode_solution := enc_solution,
     default_difficulty := test_DefaultDifficulty\<rparr>"

text \<open>
  The genesis: the storage of the NFT pallet is empty, account \<open>200\<close> holds \<open>500\<close>, and the pallet
  builds its own genesis on it.
\<close>

definition test_balances :: "u64 \<Rightarrow> u128" where
  "test_balances = (\<lambda>_. 0)(200 := 500)"

definition new_test_ext_kitties ::
  "(u64, 'n, 'c, u8 list, 'e) kitties_config \<Rightarrow> 'n \<Rightarrow> 'c \<Rightarrow> (u64, 'n, 'c, u8 list) kitties_storage option" where
  "new_test_ext_kitties T no_nfts balances =
     genesis_build T
       \<lparr>kitty_prices = Map.empty, class_id = 0, auto_breed_nonce = 0, nft = no_nfts, currency = balances,
        sys = replicate 32 0, events = []\<rparr>"


section \<open>Assertions\<close>

definition assert_ok :: "('s \<Rightarrow> ('a, 'e) result \<times> 's) \<Rightarrow> 's \<Rightarrow> 's option" where
  "assert_ok call st = (case call st of (Ok a, st') \<Rightarrow> Some st' | (Err e, st') \<Rightarrow> None)"

text \<open>\<open>assert_noop!\<close>: the given error, and the storage unchanged.\<close>

definition assert_noop :: "('s \<Rightarrow> ('a, 'e) result \<times> 's) \<Rightarrow> 'e \<Rightarrow> 's \<Rightarrow> 's option" where
  "assert_noop call e st = (if call st = (Err e, st) then Some st else None)"

definition assert_that :: "('s \<Rightarrow> bool) \<Rightarrow> 's \<Rightarrow> 's option" where
  "assert_that p st = (if p st then Some st else None)"

definition assert_last_event ::
  "'acc Event \<Rightarrow> ('acc, 'n, 'c, 'sys) kitties_storage \<Rightarrow> ('acc, 'n, 'c, 'sys) kitties_storage option" where
  "assert_last_event e = assert_that (\<lambda>st. events st \<noteq> [] \<and> last (events st) = e)"

text \<open>\<open>Nft::tokens(class_id, id).unwrap().owner\<close>, compared with the expected owner.\<close>

definition assert_owner ::
  "('acc, 'n, 'c, 'sys, 'e) kitties_config \<Rightarrow> u32 \<Rightarrow> 'acc \<Rightarrow>
   ('acc, 'n, 'c, 'sys) kitties_storage \<Rightarrow> ('acc, 'n, 'c, 'sys) kitties_storage option" where
  "assert_owner T kitty_id who =
     assert_that (\<lambda>st. map_option ti_owner (nft_tokens T (nft st) (class_id st) kitty_id) = Some who)"

text \<open>An \<open>assert_eq!\<close> on the value that \<open>validate_unsigned\<close> returns.\<close>

definition assert_validity ::
  "('acc, 'n, 'c, 'sys, 'e) kitties_config \<Rightarrow> 'acc Call \<Rightarrow> (ValidTransaction, InvalidTransaction) result \<Rightarrow>
   ('acc, 'n, 'c, 'sys) kitties_storage \<Rightarrow> ('acc, 'n, 'c, 'sys) kitties_storage option" where
  "assert_validity T call v st =
     (case validate_unsigned T InBlock call st of (q, st') \<Rightarrow> if q = Some v then Some st' else None)"

text \<open>\<open>MockRandom::set\<close> and \<open>System::reset_events\<close>.\<close>

definition set_random ::
  "u8 list \<Rightarrow> ('acc, 'n, 'c, u8 list) kitties_storage \<Rightarrow> ('acc, 'n, 'c, u8 list) kitties_storage option" where
  "set_random seed st = Some (st\<lparr>sys := seed\<rparr>)"

definition reset_events ::
  "('acc, 'n, 'c, 'sys) kitties_storage \<Rightarrow> ('acc, 'n, 'c, 'sys) kitties_storage option" where
  "reset_events st = Some (st\<lparr>events := []\<rparr>)"

text \<open>A test passes if every step succeeds.\<close>

fun steps_pass :: "('s \<Rightarrow> 's option) list \<Rightarrow> 's \<Rightarrow> bool" where
  "steps_pass [] st = True"
| "steps_pass (step # steps) st = (case step st of None \<Rightarrow> False | Some st' \<Rightarrow> steps_pass steps st')"

definition passes ::
  "('s \<Rightarrow> 's option) list \<Rightarrow> 's option \<Rightarrow> bool" where
  "passes steps ext = (case ext of None \<Rightarrow> False | Some st \<Rightarrow> steps_pass steps st)"


section \<open>The tests\<close>

definition kitty_100 :: Kitty where
  "kitty_100 = Kitty [59, 250, 138, 82, 209, 39, 141, 109, 163, 238, 183, 145, 235, 168, 18, 122]"

definition can_create where
  "can_create T =
     [assert_ok (create T (Signed 100)),
      assert_that (\<lambda>st. kitties T st 100 0 = Some kitty_100),
      assert_owner T 0 100,
      assert_last_event (KittyCreated (100 :: u64) 0 kitty_100)]"

definition gender_test :: bool where
  "gender_test \<longleftrightarrow> gender (Kitty (replicate 16 0)) = Male \<and>
     gender (Kitty [1, 0, 0, 0, 0, 0, 0, 0, 0, 0, 0, 0, 0, 0, 0, 0]) = Female"

definition can_breed where
  "can_breed T =
     (let kitty = Kitty [187, 250, 235, 118, 211, 247, 237, 253, 187, 239, 191, 185, 239, 171, 211, 122] in
     [assert_ok (create T (Signed 100)),
      set_random (replicate 32 2),
      assert_ok (create T (Signed 100)),
      assert_noop (breed T (Signed 100) 0 11) (PalletError InvalidKittyId),
      assert_noop (breed T (Signed 100) 0 0) (PalletError SameGender),
      assert_noop (breed T (Signed 101) 0 1) (PalletError InvalidKittyId),
      assert_ok (breed T (Signed 100) 0 1),
      assert_that (\<lambda>st. kitties T st 100 2 = Some kitty),
      assert_owner T 2 100,
      assert_last_event (KittyBred (100 :: u64) 2 kitty)])"

definition can_transfer where
  "can_transfer T no_permission =
     [assert_ok (create T (Signed 100)),
      assert_ok (set_price T (Signed 100) 0 (Some 10)),
      assert_noop (transfer T (Signed 101) 200 0) (External no_permission),
      assert_ok (transfer T (Signed 100) 200 0),
      assert_owner T 0 200,
      assert_that (\<lambda>st. kitty_prices st 0 = None),
      assert_last_event (KittyTransferred (100 :: u64) 200 0)]"

definition handle_self_transfer where
  "handle_self_transfer T token_not_found =
     [assert_ok (create T (Signed 100)),
      reset_events,
      assert_noop (transfer T (Signed 100) 100 1) (External token_not_found),
      assert_ok (transfer T (Signed 100) 100 0),
      assert_owner T 0 (100 :: u64),
      assert_that (\<lambda>st. length (events st) = 0)]"

definition can_set_price where
  "can_set_price T =
     [assert_ok (create T (Signed 100)),
      assert_noop (set_price T (Signed 200) 0 (Some 10)) (PalletError NotOwner),
      assert_ok (set_price T (Signed 100) 0 (Some 10)),
      assert_last_event (KittyPriceUpdated (100 :: u64) 0 (Some 10)),
      assert_that (\<lambda>st. kitty_prices st 0 = Some 10),
      assert_ok (set_price T (Signed 100) 0 None),
      assert_that (\<lambda>st. kitty_prices st 0 = None),
      assert_last_event (KittyPriceUpdated 100 0 None)]"

definition can_buy where
  "can_buy T free_balance insufficient_balance =
     [assert_ok (create T (Signed 100)),
      assert_noop (buy T (Signed 100) 100 0 10) (PalletError BuyFromSelf),
      assert_noop (buy T (Signed 200) 100 1 10) (PalletError NotForSale),
      assert_noop (buy T (Signed 200) 100 0 10) (PalletError NotForSale),
      assert_ok (set_price T (Signed 100) 0 (Some 600)),
      assert_noop (buy T (Signed 200) 100 0 500) (PalletError PriceTooLow),
      assert_noop (buy T (Signed 200) 100 0 600) (External insufficient_balance),
      assert_ok (set_price T (Signed 100) 0 (Some 400)),
      assert_ok (buy T (Signed 200) 100 0 500),
      assert_that (\<lambda>st. kitty_prices st 0 = None),
      assert_owner T 0 200,
      assert_that (\<lambda>st. free_balance (currency st) 100 = (400 :: u128)),
      assert_that (\<lambda>st. free_balance (currency st) 200 = 100),
      assert_last_event (KittySold (100 :: u64) 200 0 400)]"

definition can_auto_breed where
  "can_auto_breed T =
     (let kitty = Kitty [34, 170, 2, 80, 145, 37, 4, 36, 35, 32, 179, 144, 169, 40, 2, 18] in
     [assert_ok (create T (Signed 100)),
      assert_ok (create T (Signed 101)),
      assert_noop (auto_breed T NoOrigin 0 2 0 0) (PalletError InvalidKittyId),
      assert_noop (auto_breed T NoOrigin 0 0 0 0) (PalletError SameGender),
      assert_noop (auto_breed T (Signed 100) 0 1 0 0) BadOrigin,
      assert_ok (auto_breed T NoOrigin 0 1 0 0),
      assert_that (\<lambda>st. kitties T st 100 2 = Some kitty),
      assert_owner T 2 100,
      assert_last_event (KittyBred (100 :: u64) 2 kitty)])"

definition can_validate_unsigned where
  "can_validate_unsigned T =
     (let valid = \<lparr>priority = 0, requires = [], provides = [], longevity = 64, propagate = True\<rparr> in
     [assert_validity T (Call_auto_breed 0 1 0 0) (Err BadProof),
      assert_validity T (Call_auto_breed 0 1 0 1) (Err BadProof),
      assert_validity T (Call_auto_breed 0 1 0 2) (Ok valid),
      assert_that (\<lambda>st. auto_breed_nonce st = 1),
      assert_validity T (Call_auto_breed 0 1 0 2) (Err BadProof),
      assert_validity T (Call_auto_breed 0 1 1 11) (Err BadProof),
      assert_validity T (Call_auto_breed 0 1 1 12) (Err BadProof),
      assert_validity T (Call_auto_breed 0 1 1 13) (Ok valid),
      assert_that (\<lambda>st. auto_breed_nonce st = 2)])"


section \<open>What the tests rely on\<close>

text \<open>
  \<open>orml_nft\<close>: next to its contract, the class of the genesis can be created, minting in an existing class succeeds
  while there are ids, and a transfer fails with \<open>TokenNotFound\<close> or \<open>NoPermission\<close>.
\<close>

definition test_nft_contract ::
  "('acc, 'n, 'c, 'sys, 'e) kitties_config \<Rightarrow> ('n \<Rightarrow> bool) \<Rightarrow> ('n \<Rightarrow> u32 \<Rightarrow> bool) \<Rightarrow> 'n \<Rightarrow> 'e \<Rightarrow> 'e \<Rightarrow> bool" where
  "test_nft_contract T V has_class no_nfts token_not_found no_permission \<longleftrightarrow>
     nft_contract T V \<and> V no_nfts \<and>
     (\<exists>cls n. nft_create_class T (default_account T) [] () no_nfts = (Ok cls, n) \<and> has_class n cls) \<and>
     (\<forall>who cls d n. V n \<longrightarrow> has_class n cls \<longrightarrow> nft_next_token_id T n cls \<noteq> - 1 \<longrightarrow>
        (\<exists>t n'. nft_mint T who cls [] d n = (Ok t, n') \<and> has_class n' cls)) \<and>
     (\<forall>from to cls t n r n'. V n \<longrightarrow> has_class n cls \<longrightarrow> nft_transfer T from to (cls, t) n = (r, n') \<longrightarrow>
        has_class n' cls \<and>
        (\<forall>e. r = Err e \<longrightarrow> e = (if nft_tokens T n cls t = None then token_not_found else no_permission)))"

text \<open>
  The balances pallet: a payment from too small a balance fails with \<open>InsufficientBalance\<close>; one that leaves both
  accounts with the existential deposit and does not overflow succeeds.
\<close>

definition test_currency_contract ::
  "('acc, 'n, 'c, 'sys, 'e) kitties_config \<Rightarrow> ('c \<Rightarrow> 'acc \<Rightarrow> u128) \<Rightarrow> 'e \<Rightarrow> bool" where
  "test_currency_contract T B insufficient_balance \<longleftrightarrow>
     currency_contract T B \<and>
     (\<forall>from to v c. from \<noteq> to \<longrightarrow> B c from < v \<longrightarrow>
        fst (currency_transfer T from to v KeepAlive c) = Err insufficient_balance) \<and>
     (\<forall>from to v c. from \<noteq> to \<longrightarrow> v \<le> B c from \<longrightarrow> test_ExistentialDeposit \<le> B c from - v \<longrightarrow>
        unat (B c to) + unat v < 2 ^ 128 \<longrightarrow> test_ExistentialDeposit \<le> B c to + v \<longrightarrow>
        fst (currency_transfer T from to v KeepAlive c) = Ok ())"

text \<open>
  The values of BLAKE2b-128 at the byte strings that the tests hash: a seed of zeros with account \<open>100\<close>, with
  account \<open>101\<close>, a seed of twos with account \<open>100\<close>, each at extrinsic index \<open>0\<close>; and the proof-of-work
  payloads of kitties \<open>0\<close> and \<open>1\<close> with the nonces and solutions of \<open>can_validate_unsigned\<close>.
\<close>

definition blake2_vectors :: "(u8 list \<times> u8 list) list" where
  "blake2_vectors =
     [(replicate 32 0 @ [100, 0, 0, 0, 0, 0, 0, 0, 1, 0, 0, 0, 0],
       [59, 250, 138, 82, 209, 39, 141, 109, 163, 238, 183, 145, 235, 168, 18, 122]),
      (replicate 32 0 @ [101, 0, 0, 0, 0, 0, 0, 0, 1, 0, 0, 0, 0],
       [226, 171, 3, 217, 191, 173, 4, 182, 99, 48, 251, 148, 189, 127, 7, 19]),
      (replicate 32 2 @ [100, 0, 0, 0, 0, 0, 0, 0, 1, 0, 0, 0, 0],
       [138, 178, 107, 116, 67, 242, 232, 253, 56, 225, 143, 56, 13, 43, 209, 8]),
      ([0, 0, 0, 0, 1, 0, 0, 0, 0, 0, 0, 0] @
         [0, 0, 0, 0, 0, 0, 0, 0, 0, 0, 0, 0, 0, 0, 0, 0],
       [230, 180, 74, 235, 49, 234, 151, 32, 61, 56, 189, 87, 201, 166, 12, 133]),
      ([0, 0, 0, 0, 1, 0, 0, 0, 0, 0, 0, 0] @
         [1, 0, 0, 0, 0, 0, 0, 0, 0, 0, 0, 0, 0, 0, 0, 0],
       [80, 57, 163, 215, 36, 154, 161, 53, 243, 84, 175, 250, 128, 82, 184, 211]),
      ([0, 0, 0, 0, 1, 0, 0, 0, 0, 0, 0, 0] @
         [2, 0, 0, 0, 0, 0, 0, 0, 0, 0, 0, 0, 0, 0, 0, 0],
       [230, 188, 150, 249, 31, 181, 27, 161, 168, 183, 245, 66, 230, 40, 125, 43]),
      ([0, 0, 0, 0, 1, 0, 0, 0, 1, 0, 0, 0] @
         [11, 0, 0, 0, 0, 0, 0, 0, 0, 0, 0, 0, 0, 0, 0, 0],
       [88, 33, 7, 37, 11, 220, 18, 203, 164, 162, 245, 214, 146, 254, 124, 238]),
      ([0, 0, 0, 0, 1, 0, 0, 0, 1, 0, 0, 0] @
         [12, 0, 0, 0, 0, 0, 0, 0, 0, 0, 0, 0, 0, 0, 0, 0],
       [180, 220, 64, 86, 220, 151, 27, 106, 94, 105, 43, 65, 61, 162, 71, 89]),
      ([0, 0, 0, 0, 1, 0, 0, 0, 1, 0, 0, 0] @
         [13, 0, 0, 0, 0, 0, 0, 0, 0, 0, 0, 0, 0, 0, 0, 0],
       [9, 214, 175, 72, 85, 79, 199, 253, 81, 236, 6, 36, 142, 73, 72, 8])]"

definition blake2_contract :: "('acc, 'n, 'c, 'sys, 'e) kitties_config \<Rightarrow> bool" where
  "blake2_contract T \<longleftrightarrow> list_all (\<lambda>(input, hash). blake2_128 T input = hash) blake2_vectors"

lemma test_Config_simps [simp]:
  "nft_create_class (test_Config T) = nft_create_class T"
  "nft_mint (test_Config T) = nft_mint T"
  "nft_transfer (test_Config T) = nft_transfer T"
  "nft_tokens (test_Config T) = nft_tokens T"
  "nft_tokens_by_owner (test_Config T) = nft_tokens_by_owner T"
  "nft_next_token_id (test_Config T) = nft_next_token_id T"
  "currency_transfer (test_Config T) = currency_transfer T"
  "blake2_128 (test_Config T) = blake2_128 T"
  "default_account (test_Config T) = default_account T"
  "random_seed (test_Config T) = mock_random"
  "extrinsic_index (test_Config T) s = Some 0"
  "encode_random (test_Config T) = enc_pair (\<lambda>seed. seed) (enc_pair enc_u64 (enc_option enc_u32))"
  "encode_solution (test_Config T) = enc_solution"
  "default_difficulty (test_Config T) = 3"
  by (simp_all add: test_Config_def test_DefaultDifficulty_def)

lemma test_contracts [simp]:
  "nft_contract (test_Config T) V \<longleftrightarrow> nft_contract T V"
  "currency_contract (test_Config T) B \<longleftrightarrow> currency_contract T B"
  "test_nft_contract (test_Config T) V has_class no_nfts e1 e2 \<longleftrightarrow> test_nft_contract T V has_class no_nfts e1 e2"
  "test_currency_contract (test_Config T) B e \<longleftrightarrow> test_currency_contract T B e"
  by (simp_all only: nft_contract_def nft_class_contract_def nft_mint_contract_def nft_transfer_contract_def
      nft_index_contract_def currency_contract_def test_nft_contract_def test_currency_contract_def test_Config_simps)

end
