(* ===== verification/Kitties_Tests.thy ===== *)
theory Kitties_Tests
  imports Kitties_Mock
begin

text \<open>
  Every test of the kitties pallet passes, byte for byte: the kitties the tests expect come out of the pallet's
  model and the encodings of theory \<open>Codec\<close>, given the values of BLAKE2 at the encoded payloads. The
  proofs run the tests on a view of the storage: each kind of step is one rule from the view before it to the view after it,
  whatever NFT pallet and currency are behind the view.
\<close>

section \<open>The hashes of the mock\<close>

lemma to_le_bytes_numeral:
  "to_le_bytes (numeral k) x = ucast x # to_le_bytes (pred_numeral k) (drop_bit 8 x)"
  by (simp add: numeral_eq_Suc)

lemmas eval_encodings = enc_pair_def enc_u64_def enc_u32_def enc_u128_def enc_option_def enc_solution_def
  to_le_bytes_numeral

lemma test_encodings:
  "enc_u64 100 = [100, 0, 0, 0, 0, 0, 0, 0]" "enc_u64 101 = [101, 0, 0, 0, 0, 0, 0, 0]"
  "enc_u32 0 = [0, 0, 0, 0]" "enc_u32 1 = [1, 0, 0, 0]"
  by (simp_all add: eval_encodings)

text \<open>What \<open>random_value\<close> hashes in the mock: seed, account, and the index \<open>Some 0\<close>.\<close>

definition test_random :: "(u64, 'n, 'c, u8 list, 'e) kitties_config \<Rightarrow> u8 list \<Rightarrow> u64 \<Rightarrow> u8 list" where
  "test_random T seed who = blake2_128 T (seed @ enc_u64 who @ [1, 0, 0, 0, 0])"

lemma random_value_test [simp]: "random_value (test_Config T) st who = test_random T (sys st) who"
  by (simp add: random_value_def test_random_def mock_random_def enc_pair_def enc_option_def test_encodings)

lemma test_hashes:
  assumes "blake2_contract T"
  shows "test_random T (replicate 32 0) 100 =
      [59, 250, 138, 82, 209, 39, 141, 109, 163, 238, 183, 145, 235, 168, 18, 122]"
    and "test_random T (replicate 32 0) 101 =
      [226, 171, 3, 217, 191, 173, 4, 182, 99, 48, 251, 148, 189, 127, 7, 19]"
    and "test_random T (replicate 32 2) 100 =
      [138, 178, 107, 116, 67, 242, 232, 253, 56, 225, 143, 56, 13, 43, 209, 8]"
  using assms by (simp_all add: blake2_contract_def blake2_vectors_def test_random_def test_encodings)

text \<open>The mock's threshold is a third of the largest \<open>u128\<close>.\<close>

lemma test_threshold: "(- 1 :: u128) div ucast (3 :: u32) = 0x55555555555555555555555555555555"
  by (simp add: word_div_def unsigned_minus_1_eq_mask mask_eq_exp_minus_1)

lemma test_solutions:
  assumes "blake2_contract T"
  shows "validate_solution (test_Config T) 0 1 0 0 = Some False"
    and "validate_solution (test_Config T) 0 1 0 1 = Some False"
    and "validate_solution (test_Config T) 0 1 0 2 = Some True"
    and "validate_solution (test_Config T) 0 1 1 11 = Some False"
    and "validate_solution (test_Config T) 0 1 1 12 = Some False"
    and "validate_solution (test_Config T) 0 1 1 13 = Some True"
  using assms by (simp_all add: blake2_contract_def blake2_vectors_def validate_solution_def test_threshold
     eval_encodings Let_def)


section \<open>Running the assertions\<close>

text \<open>
  What the tests can observe of a storage, and when a storage looks like that. Each step of a test is then a
  rule from one view to the next.
\<close>

record view =
  v_tokens :: "u32 \<Rightarrow> u64 token_info option"
  v_next :: u32
  v_prices :: "u32 \<Rightarrow> u128 option"
  v_balances :: "u64 \<Rightarrow> u128"
  v_seed :: "u8 list"
  v_nonce :: u32
  v_events :: "u64 Event list"

definition sees ::
  "(u64, 'n, 'c, u8 list, 'e) kitties_config \<Rightarrow> ('n \<Rightarrow> bool) \<Rightarrow> ('n \<Rightarrow> u32 \<Rightarrow> bool) \<Rightarrow> ('c \<Rightarrow> u64 \<Rightarrow> u128) \<Rightarrow>
   view \<Rightarrow> (u64, 'n, 'c, u8 list) kitties_storage \<Rightarrow> bool" where
  "sees T V has_class B v st \<longleftrightarrow>
     V (nft st) \<and> has_class (nft st) (class_id st) \<and>
     nft_tokens T (nft st) (class_id st) = v_tokens v \<and> nft_next_token_id T (nft st) (class_id st) = v_next v \<and>
     kitty_prices st = v_prices v \<and> B (currency st) = v_balances v \<and> sys st = v_seed v \<and>
     auto_breed_nonce st = v_nonce v \<and> events st = v_events v"

lemma test_nftD:
  assumes "test_nft_contract T V has_class no_nfts tnf np"
  shows "nft_contract T V" "V no_nfts"
    and "\<exists>cls n. nft_create_class T (default_account T) [] () no_nfts = (Ok cls, n) \<and> has_class n cls"
    and "V n \<Longrightarrow> has_class n cls \<Longrightarrow> nft_next_token_id T n cls \<noteq> - 1 \<Longrightarrow>
      \<exists>t n'. nft_mint T who cls [] d n = (Ok t, n') \<and> has_class n' cls"
    and "V n \<Longrightarrow> has_class n cls \<Longrightarrow> nft_transfer T from to (cls, t) n = (r, n') \<Longrightarrow> has_class n' cls"
    and "V n \<Longrightarrow> has_class n cls \<Longrightarrow> nft_transfer T from to (cls, t) n = (Err e, n') \<Longrightarrow>
      e = (if nft_tokens T n cls t = None then tnf else np)"
  using assms unfolding test_nft_contract_def by blast+

lemma mint_view:
  assumes "test_nft_contract T V has_class no_nfts tnf np" "sees T V has_class B v st" "v_next v \<noteq> - 1"
  obtains n where "nft_mint T who (class_id st) [] d (nft st) = (Ok (v_next v), n)"
    and "sees T V has_class B (v\<lparr>v_tokens := (v_tokens v)(v_next v \<mapsto> \<lparr>ti_owner = who, ti_data = d\<rparr>),
        v_next := v_next v + 1\<rparr>) (st\<lparr>nft := n\<rparr>)"
proof -
  have st: "V (nft st)" "has_class (nft st) (class_id st)" "nft_next_token_id T (nft st) (class_id st) = v_next v"
    using assms(2) by (simp_all add: sees_def)
  then obtain t n where mint: "nft_mint T who (class_id st) [] d (nft st) = (Ok t, n)" "has_class n (class_id st)"
    using test_nftD(4) [OF assms(1) st(1,2)] assms(3) by metis
  note * = nft_mintD [OF test_nftD(1) [OF assms(1)] st(1) mint(1)]
  show thesis
    by (rule that [of n]) (use assms(2) mint * in \<open>simp_all add: sees_def\<close>)
qed

lemma step_create:
  assumes "sees (test_Config T) V has_class B v st" "test_nft_contract (test_Config T) V has_class no_nfts tnf np" "v_next v \<noteq> - 1"
    and "k = test_random T (v_seed v) who"
    and "\<And>st'. sees (test_Config T) V has_class B (v\<lparr>v_tokens := (v_tokens v)(v_next v \<mapsto> \<lparr>ti_owner = who, ti_data = Kitty k\<rparr>),
        v_next := v_next v + 1, v_events := v_events v @ [KittyCreated who (v_next v) (Kitty k)]\<rparr>) st' \<Longrightarrow>
      steps_pass steps st'"
  shows "steps_pass (assert_ok (create (test_Config T) (Signed who)) # steps) st"
proof -
  obtain n where n: "nft_mint (test_Config T) who (class_id st) [] (Kitty k) (nft st) = (Ok (v_next v), n)"
    "sees (test_Config T) V has_class B (v\<lparr>v_tokens := (v_tokens v)(v_next v \<mapsto> \<lparr>ti_owner = who, ti_data = Kitty k\<rparr>),
        v_next := v_next v + 1\<rparr>) (st\<lparr>nft := n\<rparr>)"
    using mint_view [OF assms(2,1,3)] by blast
  let ?st = "st\<lparr>nft := n, events := events st @ [KittyCreated who (v_next v) (Kitty k)]\<rparr>"
  have "create (test_Config T) (Signed who) st = (Ok (), ?st)" using n(1) assms(1,4) by (simp add: create_Ok sees_def)
  moreover have "steps_pass steps ?st"
    by (rule assms(5)) (use n(2) assms(1) in \<open>simp add: sees_def\<close>)
  ultimately show ?thesis by (simp add: assert_ok_def)
qed

lemma step_do_breed:
  assumes "sees (test_Config T) V has_class B v st" "test_nft_contract (test_Config T) V has_class no_nfts tnf np" "v_next v \<noteq> - 1"
    and "gender k1 \<noteq> gender k2" "k = breed_dna (dna k1) (dna k2) (test_random T (v_seed v) who)"
    and "f st = do_breed (test_Config T) who k1 k2 st"
    and "\<And>st'. sees (test_Config T) V has_class B (v\<lparr>v_tokens := (v_tokens v)(v_next v \<mapsto> \<lparr>ti_owner = who, ti_data = Kitty k\<rparr>),
        v_next := v_next v + 1, v_events := v_events v @ [KittyBred who (v_next v) (Kitty k)]\<rparr>) st' \<Longrightarrow>
      steps_pass steps st'"
  shows "steps_pass (assert_ok f # steps) st"
proof -
  obtain n where n: "nft_mint (test_Config T) who (class_id st) [] (Kitty k) (nft st) = (Ok (v_next v), n)"
    "sees (test_Config T) V has_class B (v\<lparr>v_tokens := (v_tokens v)(v_next v \<mapsto> \<lparr>ti_owner = who, ti_data = Kitty k\<rparr>),
        v_next := v_next v + 1\<rparr>) (st\<lparr>nft := n\<rparr>)"
    using mint_view [OF assms(2,1,3)] by blast
  let ?st = "st\<lparr>nft := n, events := events st @ [KittyBred who (v_next v) (Kitty k)]\<rparr>"
  have "f st = (Ok (), ?st)" using n(1) assms(1,4-6) by (simp add: do_breed_Ok sees_def)
  moreover have "steps_pass steps ?st"
    by (rule assms(7)) (use n(2) assms(1) in \<open>simp add: sees_def\<close>)
  ultimately show ?thesis by (simp add: assert_ok_def)
qed

lemma sees_kitties:
  "sees (test_Config T) V has_class B v st \<Longrightarrow> kitties (test_Config T) st who t = (case v_tokens v t of None \<Rightarrow> None
     | Some x \<Rightarrow> if ti_owner x = who then Some (ti_data x) else None)"
  by (simp add: sees_def kitties_def split: option.splits)

lemma step_breed:
  assumes "sees (test_Config T) V has_class B v st" "test_nft_contract (test_Config T) V has_class no_nfts tnf np" "v_next v \<noteq> - 1"
    and "v_tokens v t1 = Some x1" "ti_owner x1 = who" "v_tokens v t2 = Some x2" "ti_owner x2 = who"
    and "gender (ti_data x1) \<noteq> gender (ti_data x2)"
    and "k = breed_dna (dna (ti_data x1)) (dna (ti_data x2)) (test_random T (v_seed v) who)"
    and "\<And>st'. sees (test_Config T) V has_class B (v\<lparr>v_tokens := (v_tokens v)(v_next v \<mapsto> \<lparr>ti_owner = who, ti_data = Kitty k\<rparr>),
        v_next := v_next v + 1, v_events := v_events v @ [KittyBred who (v_next v) (Kitty k)]\<rparr>) st' \<Longrightarrow>
      steps_pass steps st'"
  shows "steps_pass (assert_ok (breed (test_Config T) (Signed who) t1 t2) # steps) st"
  by (rule step_do_breed [OF assms(1-3,8,9) _ assms(10)])
    (use assms(4-7) in \<open>simp_all add: breed_def sees_kitties [OF assms(1)]\<close>)

lemma step_auto_breed:
  assumes "sees (test_Config T) V has_class B v st" "test_nft_contract (test_Config T) V has_class no_nfts tnf np" "v_next v \<noteq> - 1"
    and "v_tokens v t1 = Some x1" "v_tokens v t2 = Some x2" "who = ti_owner x1"
    and "gender (ti_data x1) \<noteq> gender (ti_data x2)"
    and "k = breed_dna (dna (ti_data x1)) (dna (ti_data x2)) (test_random T (v_seed v) who)"
    and "\<And>st'. sees (test_Config T) V has_class B (v\<lparr>v_tokens := (v_tokens v)(v_next v \<mapsto> \<lparr>ti_owner = who, ti_data = Kitty k\<rparr>),
        v_next := v_next v + 1, v_events := v_events v @ [KittyBred who (v_next v) (Kitty k)]\<rparr>) st' \<Longrightarrow>
      steps_pass steps st'"
  shows "steps_pass (assert_ok (auto_breed (test_Config T) NoOrigin t1 t2 nonce s) # steps) st"
  by (rule step_do_breed [OF assms(1-3,7,8) _ assms(9)])
    (use assms(1,4-6) in \<open>simp_all add: auto_breed_def sees_def\<close>)

text \<open>A transfer of the NFT pallet, seen from the view.\<close>

lemma transfer_view:
  assumes "test_nft_contract T V has_class no_nfts tnf np" "sees T V has_class B v st"
    and "v_tokens v t = Some x" "ti_owner x = who"
  obtains n where "nft_transfer T who to (class_id st, t) (nft st) = (Ok (), n)"
    and "sees T V has_class B (v\<lparr>v_tokens := (v_tokens v)(t \<mapsto> x\<lparr>ti_owner := to\<rparr>)\<rparr>) (st\<lparr>nft := n\<rparr>)"
proof -
  note C = test_nftD(1) [OF assms(1)]
  have st: "V (nft st)" "has_class (nft st) (class_id st)" "nft_tokens T (nft st) (class_id st) t = Some x"
    using assms(2,3) by (simp_all add: sees_def)
  obtain n where n: "nft_transfer T who to (class_id st, t) (nft st) = (Ok (), n)"
    using nft_transfer_succeeds [OF C st(1,3), of to] assms(4) by auto
  note * = nft_transferD [OF C st(1) n] test_nftD(5) [OF assms(1) st(1,2) n]
  show thesis
    by (rule that [of n]) (use assms(2,3) n * in \<open>auto simp: sees_def\<close>)
qed

lemma transfer_fails:
  assumes "test_nft_contract T V has_class no_nfts tnf np" "sees T V has_class B v st"
    and "\<forall>x. v_tokens v t = Some x \<longrightarrow> ti_owner x \<noteq> who"
  shows "transfer T (Signed who) to t st = (Err (External (if v_tokens v t = None then tnf else np)), st)"
proof (cases "nft_transfer T who to (class_id st, t) (nft st)")
  case (Pair r n)
  have st: "V (nft st)" "has_class (nft st) (class_id st)" "nft_tokens T (nft st) (class_id st) = v_tokens v"
    using assms(2) by (simp_all add: sees_def)
  note C = test_nftD(1) [OF assms(1)]
  show ?thesis
  proof (cases r)
    case (Ok u)
    then show ?thesis using nft_transferD(3) [OF C st(1) Pair [unfolded Ok]] assms(3) st(3) by auto
  next
    case (Err e)
    then have "n = nft st" "e = (if v_tokens v t = None then tnf else np)"
      using nft_transfer_ErrD(1) [OF C st(1)] test_nftD(6) [OF assms(1) st(1,2)] Pair st(3) by auto
    then show ?thesis using Pair Err by (auto simp: transfer_Err)
  qed
qed

lemma step_transfer:
  assumes "sees T V has_class B v st" "test_nft_contract T V has_class no_nfts tnf np"
    and "v_tokens v t = Some x" "ti_owner x = who"
    and "\<And>st'. sees T V has_class B (if who = to then v\<lparr>v_tokens := (v_tokens v)(t \<mapsto> x)\<rparr>
        else v\<lparr>v_tokens := (v_tokens v)(t \<mapsto> x\<lparr>ti_owner := to\<rparr>), v_prices := (v_prices v)(t := None),
               v_events := v_events v @ [KittyTransferred who to t]\<rparr>) st' \<Longrightarrow> steps_pass steps st'"
  shows "steps_pass (assert_ok (transfer T (Signed who) to t) # steps) st"
proof -
  obtain n where n: "nft_transfer T who to (class_id st, t) (nft st) = (Ok (), n)"
    "sees T V has_class B (v\<lparr>v_tokens := (v_tokens v)(t \<mapsto> x\<lparr>ti_owner := to\<rparr>)\<rparr>) (st\<lparr>nft := n\<rparr>)"
    using transfer_view [OF assms(2,1,3,4)] by blast
  let ?st = "if who = to then st\<lparr>nft := n\<rparr> else st\<lparr>nft := n, kitty_prices := (kitty_prices st)(t := None),
    events := events st @ [KittyTransferred who to t]\<rparr>"
  have "transfer T (Signed who) to t st = (Ok (), ?st)" using n(1) by (simp add: transfer_Ok)
  moreover have "x\<lparr>ti_owner := who\<rparr> = x" using assms(4) by (cases x) simp
  then have "steps_pass steps ?st"
    by (intro assms(5)) (use n(2) assms(1) in \<open>auto simp: sees_def\<close>)
  ultimately show ?thesis by (simp add: assert_ok_def)
qed

lemma sees_owner_index:
  assumes "sees T V has_class B v st" "test_nft_contract T V has_class no_nfts tnf np"
  shows "nft_tokens_by_owner T (nft st) who (class_id st, t) \<longleftrightarrow> (\<exists>x. v_tokens v t = Some x \<and> ti_owner x = who)"
  using nft_indexD [OF test_nftD(1) [OF assms(2)], of "nft st"] assms(1) by (simp add: sees_def)

lemma step_set_price:
  assumes "sees T V has_class B v st" "test_nft_contract T V has_class no_nfts tnf np"
    and "v_tokens v t = Some x" "ti_owner x = who"
    and "\<And>st'. sees T V has_class B (v\<lparr>v_prices := (v_prices v)(t := p),
        v_events := v_events v @ [KittyPriceUpdated who t p]\<rparr>) st' \<Longrightarrow> steps_pass steps st'"
  shows "steps_pass (assert_ok (set_price T (Signed who) t p) # steps) st"
proof -
  let ?st = "st\<lparr>kitty_prices := (kitty_prices st)(t := p), events := events st @ [KittyPriceUpdated who t p]\<rparr>"
  have "set_price T (Signed who) t p st = (Ok (), ?st)"
    using sees_owner_index [OF assms(1,2)] assms(3,4) by (simp add: set_price_Ok)
  moreover have "steps_pass steps ?st"
    by (rule assms(5)) (use assms(1) in \<open>simp add: sees_def\<close>)
  ultimately show ?thesis by (simp add: assert_ok_def)
qed

lemma set_price_fails:
  assumes "sees T V has_class B v st" "test_nft_contract T V has_class no_nfts tnf np"
    and "\<forall>x. v_tokens v t = Some x \<longrightarrow> ti_owner x \<noteq> who"
  shows "set_price T (Signed who) t p st = (Err (PalletError NotOwner), st)"
  using sees_owner_index [OF assms(1,2)] assms(3) by (auto simp: set_price_Err)

lemma step_buy:
  assumes "sees T V has_class B v st" "test_nft_contract T V has_class no_nfts tnf np"
    and "test_currency_contract T B insufficient" "who \<noteq> owner" "v_prices v t = Some p" "p \<le> m"
    and "v_tokens v t = Some x" "ti_owner x = owner"
    and "p \<le> v_balances v who" "test_ExistentialDeposit \<le> v_balances v who - p"
    and "unat (v_balances v owner) + unat p < 2 ^ 128" "test_ExistentialDeposit \<le> v_balances v owner + p"
    and "\<And>st'. sees T V has_class B (v\<lparr>v_tokens := (v_tokens v)(t \<mapsto> x\<lparr>ti_owner := who\<rparr>),
        v_prices := (v_prices v)(t := None),
        v_balances := (v_balances v)(who := v_balances v who - p, owner := v_balances v owner + p),
        v_events := v_events v @ [KittySold owner who t p]\<rparr>) st' \<Longrightarrow> steps_pass steps st'"
  shows "steps_pass (assert_ok (buy T (Signed who) owner t m) # steps) st"
proof -
  obtain n where n: "nft_transfer T owner who (class_id st, t) (nft st) = (Ok (), n)"
    "sees T V has_class B (v\<lparr>v_tokens := (v_tokens v)(t \<mapsto> x\<lparr>ti_owner := who\<rparr>)\<rparr>) (st\<lparr>nft := n\<rparr>)"
    using transfer_view [OF assms(2,1,7,8)] by blast
  have B: "B (currency st) = v_balances v" "currency_contract T B"
    using assms(1,3) by (simp_all add: sees_def test_currency_contract_def)
  have "fst (currency_transfer T who owner p KeepAlive (currency st)) = Ok ()"
    using assms(3,4,9-12) B(1) unfolding test_currency_contract_def by metis
  then obtain c where c: "currency_transfer T who owner p KeepAlive (currency st) = (Ok (), c)"
    by (metis prod.collapse)
  let ?st = "st\<lparr>nft := n, currency := c, kitty_prices := (kitty_prices st)(t := None),
    events := events st @ [KittySold owner who t p]\<rparr>"
  have "buy T (Signed who) owner t m st = (Ok (), ?st)"
    using n(1) c assms(1,4-6) by (simp add: buy_Ok sees_def)
  moreover have "steps_pass steps ?st"
    by (rule assms(13)) (use n(2) assms(1) B(1) currencyD(3) [OF B(2) assms(4) c] in \<open>simp add: sees_def\<close>)
  ultimately show ?thesis by (simp add: assert_ok_def)
qed

text \<open>The purchases that fail, in the order of the checks.\<close>

lemma buy_fails:
  assumes "sees T V has_class B v st"
  shows "buy T (Signed who) who t m st = (Err (PalletError BuyFromSelf), st)"
    and "who \<noteq> owner \<Longrightarrow> v_prices v t = None \<Longrightarrow> buy T (Signed who) owner t m st = (Err (PalletError NotForSale), st)"
    and "who \<noteq> owner \<Longrightarrow> v_prices v t = Some p \<Longrightarrow> m < p \<Longrightarrow>
      buy T (Signed who) owner t m st = (Err (PalletError PriceTooLow), st)"
  using assms
  by (auto simp: sees_def buy_def transactional_def map_try_mutate_exists_def buy_closure_def ensure_def dest: leD)

lemma buy_without_money:
  assumes "sees T V has_class B v st" "test_nft_contract T V has_class no_nfts tnf np"
    and "test_currency_contract T B insufficient" "who \<noteq> owner" "v_prices v t = Some p" "p \<le> m"
    and "v_tokens v t = Some x" "ti_owner x = owner" "v_balances v who < p"
  shows "buy T (Signed who) owner t m st = (Err (External insufficient), st)"
proof -
  obtain n where n: "nft_transfer T owner who (class_id st, t) (nft st) = (Ok (), n)"
    using transfer_view [OF assms(2,1,7,8)] by blast
  have "B (currency st) = v_balances v" using assms(1) by (simp add: sees_def)
  then have "fst (currency_transfer T who owner p KeepAlive (currency st)) = Err insufficient"
    using assms(3,4,9) unfolding test_currency_contract_def by metis
  then obtain c where c: "currency_transfer T who owner p KeepAlive (currency st) = (Err insufficient, c)"
    by (metis prod.collapse)
  show ?thesis using n c assms(1,4-6)
    by (simp add: sees_def buy_def transactional_def map_try_mutate_exists_def buy_closure_def
        orml_transfer_def pay_def)
qed

text \<open>Assertions that leave the storage alone, and the three steps that set a part of it.\<close>

lemma step_noop: "call st = (Err e, st) \<Longrightarrow> steps_pass steps st \<Longrightarrow> steps_pass (assert_noop call e # steps) st"
  by (simp add: assert_noop_def)

lemma step_that: "p st \<Longrightarrow> steps_pass steps st \<Longrightarrow> steps_pass (assert_that p # steps) st"
  by (simp add: assert_that_def)

lemma step_last_event:
  "events st = es @ [e] \<Longrightarrow> steps_pass steps st \<Longrightarrow> steps_pass (assert_last_event e # steps) st"
  by (simp add: assert_last_event_def assert_that_def)

lemma step_owner:
  "nft_tokens T (nft st) (class_id st) t = Some x \<Longrightarrow> ti_owner x = who \<Longrightarrow> steps_pass steps st \<Longrightarrow>
     steps_pass (assert_owner T t who # steps) st"
  by (simp add: assert_owner_def assert_that_def)

lemma step_set_random:
  assumes "sees T V has_class B v st"
    and "\<And>st'. sees T V has_class B (v\<lparr>v_seed := seed\<rparr>) st' \<Longrightarrow> steps_pass steps st'"
  shows "steps_pass (set_random seed # steps) st"
  using assms(1) assms(2) [of "st\<lparr>sys := seed\<rparr>"] by (simp add: set_random_def sees_def)

lemma step_reset_events:
  assumes "sees T V has_class B v st"
    and "\<And>st'. sees T V has_class B (v\<lparr>v_events := []\<rparr>) st' \<Longrightarrow> steps_pass steps st'"
  shows "steps_pass (reset_events # steps) st"
  using assms(1) assms(2) [of "st\<lparr>events := []\<rparr>"] by (simp add: reset_events_def sees_def)

lemma step_invalid:
  assumes "validate_solution T t1 t2 nonce s = Some valid" "\<not> valid \<or> nonce \<noteq> auto_breed_nonce st"
    and "steps_pass steps st"
  shows "steps_pass (assert_validity T (Call_auto_breed t1 t2 nonce s) (Err BadProof) # steps) st"
  using assms by (cases valid) (simp_all add: assert_validity_def validate_unsigned_def)

lemma step_valid:
  assumes "sees T V has_class B v st"
    and "validate_solution T t1 t2 nonce s = Some True" "nonce = v_nonce v" "nonce' = saturating_add nonce 1"
    and "\<And>st'. sees T V has_class B (v\<lparr>v_nonce := nonce'\<rparr>) st' \<Longrightarrow> steps_pass steps st'"
  shows "steps_pass (assert_validity T (Call_auto_breed t1 t2 nonce s)
      (Ok \<lparr>priority = 0, requires = [], provides = [], longevity = 64, propagate = True\<rparr>) # steps) st"
  using assms(1-4) assms(5) [of "st\<lparr>auto_breed_nonce := nonce'\<rparr>"]
  by (simp add: assert_validity_def validate_unsigned_def kitties_valid_def sees_def)


section \<open>Every test passes\<close>

text \<open>The view after \<open>new_test_ext\<close>.\<close>

definition test_view :: view where
  "test_view =
     \<lparr>v_tokens = Map.empty, v_next = 0, v_prices = Map.empty, v_balances = test_balances,
      v_seed = replicate 32 0, v_nonce = 0, v_events = []\<rparr>"

lemma passes_new_test_ext_kitties:
  assumes "test_nft_contract T V has_class no_nfts tnf np" "B balances = test_balances"
    and "\<And>st. sees (test_Config T) V has_class B test_view st \<Longrightarrow> steps_pass steps st"
  shows "passes steps (new_test_ext_kitties (test_Config T) no_nfts balances)"
proof -
  obtain cls n where n: "nft_create_class T (default_account T) [] () no_nfts = (Ok cls, n)" "has_class n cls"
    using test_nftD(3) [OF assms(1)] by blast
  note * = nft_classD [OF test_nftD(1,2) [OF assms(1)] n(1)]
  show ?thesis
    by (simp add: passes_def new_test_ext_kitties_def genesis_build_def n(1))
      (rule assms(3), simp add: sees_def test_view_def n(2) * assms(2))
qed

text \<open>The tests, from a storage that looks like the genesis.\<close>

lemma test_breedings:
  "breed_dna [59, 250, 138, 82, 209, 39, 141, 109, 163, 238, 183, 145, 235, 168, 18, 122]
     [138, 178, 107, 116, 67, 242, 232, 253, 56, 225, 143, 56, 13, 43, 209, 8]
     [138, 178, 107, 116, 67, 242, 232, 253, 56, 225, 143, 56, 13, 43, 209, 8] =
   [187, 250, 235, 118, 211, 247, 237, 253, 187, 239, 191, 185, 239, 171, 211, 122]"
  "breed_dna [59, 250, 138, 82, 209, 39, 141, 109, 163, 238, 183, 145, 235, 168, 18, 122]
     [226, 171, 3, 217, 191, 173, 4, 182, 99, 48, 251, 148, 189, 127, 7, 19]
     [59, 250, 138, 82, 209, 39, 141, 109, 163, 238, 183, 145, 235, 168, 18, 122] =
   [34, 170, 2, 80, 145, 37, 4, 36, 35, 32, 179, 144, 169, 40, 2, 18]"
  by (simp_all add: breed_dna_def combine_dna_def numeral_eq_Suc)

lemma create_passes:
  assumes "test_nft_contract (test_Config T) V has_class no_nfts tnf np" "blake2_contract T"
    and "sees (test_Config T) V has_class B test_view st"
  shows "steps_pass (can_create (test_Config T)) st"
proof -
  note create = step_create [OF _ assms(1)] and F = test_hashes [OF assms(2)]
  show ?thesis
    unfolding can_create_def using assms(3) unfolding test_view_def
    apply (elim create; (simp add: F; fail)?)
    apply (simp add: assert_that_def assert_owner_def assert_last_event_def sees_kitties)
    apply (simp add: sees_def kitty_100_def)
    done
qed

lemma breed_passes:
  assumes "test_nft_contract (test_Config T) V has_class no_nfts tnf np" "blake2_contract T"
    and "sees (test_Config T) V has_class B test_view st"
  shows "steps_pass (can_breed (test_Config T)) st"
proof -
  note create = step_create [OF _ assms(1)] and breed = step_breed [OF _ assms(1)]
    and F = test_hashes [OF assms(2)] test_breedings gender_def
  show ?thesis
    unfolding can_breed_def Let_def using assms(3) unfolding test_view_def
    apply (elim create, (simp add: F; fail)+)
    apply (elim step_set_random)
    apply (elim create, (simp add: F; fail)+)
    apply (rule step_noop, simp add: breed_def sees_kitties)
    apply (rule step_noop, simp add: breed_def sees_kitties do_breed_def)
    apply (rule step_noop, simp add: breed_def sees_kitties)
    apply (elim breed, (simp add: F; fail)+)
    apply (simp add: assert_that_def assert_owner_def assert_last_event_def sees_kitties)
    apply (simp add: sees_def)
    done
qed

lemma transfer_passes:
  assumes "test_nft_contract (test_Config T) V has_class no_nfts tnf np"
    and "sees (test_Config T) V has_class B test_view st"
  shows "steps_pass (can_transfer (test_Config T) np) st"
proof -
  note create = step_create [OF _ assms(1)] and price = step_set_price [OF _ assms(1)]
    and transfer = step_transfer [OF _ assms(1)]
  show ?thesis
    unfolding can_transfer_def using assms(2) unfolding test_view_def
    apply (elim create, (simp; fail)+)
    apply (elim price, (simp; fail)+)
    apply (rule step_noop, simp add: transfer_fails [OF assms(1)])
    apply (elim transfer, (simp; fail)+)
    apply (simp add: assert_that_def assert_owner_def assert_last_event_def sees_def)
    done
qed

lemma self_transfer_passes:
  assumes "test_nft_contract (test_Config T) V has_class no_nfts tnf np"
    and "sees (test_Config T) V has_class B test_view st"
  shows "steps_pass (handle_self_transfer (test_Config T) tnf) st"
proof -
  note create = step_create [OF _ assms(1)] and transfer = step_transfer [OF _ assms(1)]
  show ?thesis
    unfolding handle_self_transfer_def using assms(2) unfolding test_view_def
    apply (elim create, (simp; fail)+)
    apply (elim step_reset_events)
    apply (rule step_noop, simp add: transfer_fails [OF assms(1)])
    apply (elim transfer, (simp; fail)+)
    apply (simp add: assert_that_def assert_owner_def sees_def)
    done
qed

lemma set_price_passes:
  assumes "test_nft_contract (test_Config T) V has_class no_nfts tnf np"
    and "sees (test_Config T) V has_class B test_view st"
  shows "steps_pass (can_set_price (test_Config T)) st"
proof -
  note create = step_create [OF _ assms(1)] and price = step_set_price [OF _ assms(1)]
  show ?thesis
    unfolding can_set_price_def using assms(2) unfolding test_view_def
    apply (elim create, (simp; fail)+)
    apply (rule step_noop, simp add: set_price_fails [OF _ assms(1)])
    apply (elim price, (simp; fail)+)
    apply (rule step_last_event, simp add: sees_def)
    apply (rule step_that, simp add: sees_def)
    apply (elim price, (simp; fail)+)
    apply (simp add: assert_that_def assert_last_event_def sees_def)
    done
qed

lemma buy_passes:
  assumes "test_nft_contract (test_Config T) V has_class no_nfts tnf np"
    and "test_currency_contract (test_Config T) B insufficient"
    and "sees (test_Config T) V has_class B test_view st"
  shows "steps_pass (can_buy (test_Config T) B insufficient) st"
proof -
  note create = step_create [OF _ assms(1)] and price = step_set_price [OF _ assms(1)]
    and buy = step_buy [OF _ assms(1,2)]
  show ?thesis
    unfolding can_buy_def using assms(3) unfolding test_view_def
    apply (elim create, (simp; fail)+)
    apply (rule step_noop, simp add: buy_fails)
    apply (rule step_noop, simp add: buy_fails)
    apply (rule step_noop, simp add: buy_fails)
    apply (elim price, (simp; fail)+)
    apply (rule step_noop, simp add: buy_fails)
    apply (rule step_noop, simp add: buy_without_money [OF _ assms(1,2)] test_balances_def)
    apply (elim price, (simp; fail)+)
    apply (elim buy, (simp add: test_balances_def test_ExistentialDeposit_def; fail)+)
    apply (simp add: assert_that_def assert_owner_def assert_last_event_def sees_def test_balances_def)
    done
qed

lemma auto_breed_passes:
  assumes "test_nft_contract (test_Config T) V has_class no_nfts tnf np" "blake2_contract T"
    and "sees (test_Config T) V has_class B test_view st"
  shows "steps_pass (can_auto_breed (test_Config T)) st"
proof -
  note create = step_create [OF _ assms(1)] and breed = step_auto_breed [OF _ assms(1)]
    and F = test_hashes [OF assms(2)] test_breedings gender_def
  show ?thesis
    unfolding can_auto_breed_def Let_def using assms(3) unfolding test_view_def
    apply (elim create, (simp add: F; fail)+)
    apply (rule step_noop, simp add: auto_breed_def sees_def)
    apply (rule step_noop, simp add: auto_breed_def sees_def do_breed_def)
    apply (rule step_noop, simp add: auto_breed_def)
    apply (elim breed, (simp add: F; fail)+)
    apply (simp add: assert_that_def assert_owner_def assert_last_event_def sees_kitties)
    apply (simp add: sees_def)
    done
qed

lemma validate_unsigned_passes:
  assumes "blake2_contract T" "sees (test_Config T) V has_class B test_view st"
  shows "steps_pass (can_validate_unsigned (test_Config T)) st"
proof -
  note solutions = test_solutions [OF assms(1)]
  have add: "saturating_add 0 1 = (1 :: u32)" "saturating_add 1 1 = (2 :: u32)"
    by (simp_all add: saturating_add_def)
  show ?thesis
    unfolding can_validate_unsigned_def Let_def using assms(2) unfolding test_view_def
    apply -
    apply (rule step_invalid [OF solutions(1)], simp)
    apply (rule step_invalid [OF solutions(2)], simp)
    apply (elim step_valid, (simp add: solutions add; fail)+)
    apply (rule step_that, simp add: sees_def)
    apply (rule step_invalid [OF solutions(3)], simp add: sees_def)
    apply (rule step_invalid [OF solutions(4)], simp)
    apply (rule step_invalid [OF solutions(5)], simp)
    apply (elim step_valid, (simp add: solutions add; fail)+)
    apply (simp add: assert_that_def sees_def)
    done
qed

lemma gender_passes: "gender_test"
  by (simp add: gender_test_def gender_def)

text \<open>
  C8: The test suite of the kitties pallet holds of the model: run on the mock's genesis, every assertion of every test is
  satisfied, down to the bytes of the kitties, the proof-of-work solutions, the last
  events and the unchanged storage after each expected error. The NFT pallet, the balances pallet and
  BLAKE2 are any that satisfy their contracts; BLAKE2 has the nine published values the tests depend on.
\<close>

theorem kitties_tests_pass:
  assumes "test_nft_contract T V has_class no_nfts token_not_found no_permission"
    and "test_currency_contract T B insufficient_balance" "blake2_contract T" "B balances = test_balances"
    and "C = test_Config T"
  shows "gender_test \<and>
    (\<forall>test \<in> set [can_create C, can_breed C, can_transfer C no_permission, handle_self_transfer C token_not_found,
        can_set_price C, can_buy C B insufficient_balance, can_auto_breed C, can_validate_unsigned C].
      passes test (new_test_ext_kitties C no_nfts balances))"
proof -
  have nft: "test_nft_contract (test_Config T) V has_class no_nfts token_not_found no_permission"
    and currency: "test_currency_contract (test_Config T) B insufficient_balance"
    using assms(1,2) by simp_all
  have start: "passes test (new_test_ext_kitties C no_nfts balances)"
    if "\<And>st. sees (test_Config T) V has_class B test_view st \<Longrightarrow> steps_pass test st" for test
    using passes_new_test_ext_kitties [where B = B and balances = balances, OF assms(1) assms(4) that] assms(5) by simp
  note tests = create_passes [OF nft assms(3)] breed_passes [OF nft assms(3)] transfer_passes [OF nft]
    self_transfer_passes [OF nft] set_price_passes [OF nft] buy_passes [OF nft currency]
    auto_breed_passes [OF nft assms(3)] validate_unsigned_passes [OF assms(3)]
  show ?thesis using gender_passes by (auto simp: assms(5) intro!: start [unfolded assms(5)] tests)
qed

text \<open>A table of the nine values, and the mock over the sample ledger.\<close>

definition blake2_table :: "u8 list \<Rightarrow> u8 list" where
  "blake2_table input = (case map_of blake2_vectors input of Some hash \<Rightarrow> hash | None \<Rightarrow> replicate 16 0)"

definition sample_test :: "(u64, u64 sample_nft, u64 \<Rightarrow> u128, u8 list, sample_error) kitties_config" where
  "sample_test =
     \<lparr>nft_create_class = sample_create_class, nft_mint = sample_mint, nft_transfer = sample_transfer,
      nft_tokens = sn_tokens, nft_tokens_by_owner = sample_by_owner, nft_next_token_id = sn_next,
      currency_transfer = sample_pay, random_seed = mock_random, extrinsic_index = (\<lambda>_. None),
      encode_random = (\<lambda>_. []), encode_solution = (\<lambda>_. []), blake2_128 = blake2_table, default_account = 0,
      default_difficulty = 1\<rparr>"

lemma sample_test_nft:
  "test_nft_contract sample_test (\<lambda>_. True) (\<lambda>n c. c < sn_classes n)
     \<lparr>sn_classes = 0, sn_next = (\<lambda>_. 0), sn_tokens = (\<lambda>_ _. None)\<rparr> TokenNotFound NoPermission"
proof -
  have "nft_contract sample_test (\<lambda>_. True)" by (rule sample_nft_contract_of) (simp_all add: sample_test_def)
  then show ?thesis
    by (auto simp: test_nft_contract_def sample_test_def sample_create_class_def sample_mint_def
        sample_transfer_def Let_def split: option.splits if_splits)
qed

lemma sample_test_currency: "test_currency_contract sample_test (\<lambda>c. c) InsufficientBalance"
proof -
  have "currency_contract sample_test (\<lambda>c. c)" by (rule sample_currency_contract_of) (simp add: sample_test_def)
  then show ?thesis by (auto simp: test_currency_contract_def sample_test_def sample_pay_def)
qed

lemma sample_test_blake2: "blake2_contract sample_test"
  by (simp add: blake2_contract_def blake2_vectors_def blake2_table_def sample_test_def)

theorem kitties_tests_pass_witness:
  "passes (can_breed (test_Config sample_test)) (new_test_ext_kitties (test_Config sample_test)
     \<lparr>sn_classes = 0, sn_next = (\<lambda>_. 0), sn_tokens = (\<lambda>_ _. None)\<rparr> test_balances)"
  using kitties_tests_pass [where B = "\<lambda>c. c" and balances = test_balances,
      OF sample_test_nft sample_test_currency sample_test_blake2 _ refl] by simp

end
