(* ===== verification/Chain_Start.thy ===== *)
theory Chain_Start
  imports Executive_Properties Chain_Spec
begin

text \<open>
  The start of a chain: the genesis configuration of a chain specification (\<open>src/node/src/chain_spec.rs\<close>) is built
  into the storage of the runtime by the pallets that \<open>construct_runtime!\<close> lists with a \<open>Config\<close> part, in the order of
  that list, and blocks are imported on it. The genesis of the balances pallet (\<open>None\<close> is the panic of its
  assertions) and that of the NFT pallet are parameters.
\<close>

section \<open>The genesis of the runtime\<close>





section \<open>Properties\<close>







end
