(* ===== verification/Spec2Isabelle.thy ===== *)
theory Spec2Isabelle
  imports Worker_Chain Command Benchmarking Template_Mock Kitties_Tests Chain_Start
begin

text \<open>
  Verification of Substrate Kitties: a blockchain node (\<open>src/node\<close>) whose runtime (\<open>src/runtime\<close>) contains
  a pallet of tradable, breedable kitties (\<open>src/pallets/kitties\<close>) and a template pallet
  (\<open>src/pallets/template\<close>).

  \<^bold>\<open>The program.\<close> The kitties pallet keeps a price per kitty, the id of its NFT class and a nonce; the
  kitties themselves are tokens of \<open>orml_nft\<close>. Signed accounts create, breed, transfer, price and buy
  kitties. Every node also runs the pallet's off-chain worker, which draws pairs of kitties, searches a
  solution of a proof of work and submits an unsigned \<open>auto_breed\<close>; the pallet validates that transaction
  against the solution and the nonce. The runtime composes the pallet with ten others and fixes its
  difficulty and weights; the node builds chain specifications, services and commands around it.

  \<^bold>\<open>The theories and the code they model.\<close>

  \<^item> \<open>Prelude\<close>: Rust's integers, \<open>Result\<close> and \<open>?\<close> (\<open>attempt\<close>), checked and saturating arithmetic, little-endian
    bytes. \<open>Frame\<close>: origins, dispatch errors, storage maps, \<open>#[transactional]\<close>; the locales \<open>storage_map\<close>,
    \<open>call_machine\<close> and \<open>monotone_machine\<close>.
  \<^item> \<open>Kitty\<close>: \<open>Kitty\<close>, \<open>gender\<close>, \<open>combine_dna\<close> and the breeding loop of \<open>do_breed\<close> (locale \<open>byte_mixer\<close>).
  \<^item> \<open>Kitties\<close>: storage, genesis, the six calls, their helpers, \<open>validate_solution\<close> and \<open>validate_unsigned\<close> of
    \<open>pallets/kitties/src/lib.rs\<close>, one definition per function. The storage is the record \<open>kitties_storage\<close>,
    passed explicitly; a call returns its result and the storage it leaves.
  \<^item> \<open>Kitties_Contract\<close>: what the pallet relies on from the code it calls, and a sample configuration
    that satisfies it. \<open>Kitties_Calls\<close>: each call's success and failure as an equation. \<open>Kitties_Machine\<close>:
    the pallet as a machine of calls, validations and changes of the surrounding chain, and its storage invariant.
    \<open>Kitties_Ledger\<close>: the abstract ledger and the simulation (locale \<open>event_sourced\<close>).
    \<open>Kitties_Properties\<close>: refinement, invariants and the behaviour of the calls. \<open>Kitties_Ownership\<close>: who may
    change owner and price, and that kitties persist. \<open>Kitties_Nonce\<close>: proof of work and replay.
    \<open>Kitties_Events\<close>: the event log read back as storage, and the conservation of money.
  \<^item> \<open>Kitties_Mock\<close>, \<open>Kitties_Tests\<close>: the mock runtime of \<open>pallets/kitties/src/tests.rs\<close>, its tests as lists of
    assertions, and the proof that they pass, by rules that run a test on a view of the storage.
  \<^item> \<open>Codec\<close>: the SCALE format of the two tuples the pallet hashes, which only the tests instantiate.
  \<^item> \<open>Offchain\<close>: \<open>offchain_worker\<close> and \<open>run_offchain_worker\<close> with both loops.
  \<^item> \<open>Weights\<close>: \<open>pallets/kitties/src/weights.rs\<close> and \<open>runtime/src/weights/pallet_kitties.rs\<close> (locale \<open>weight_info\<close>).
    \<open>Template\<close>, \<open>Template_Mock\<close>: the template pallet, its mock runtime and tests. \<open>Benchmarking\<close>: the benchmarks
    of both pallets.
  \<^item> \<open>Runtime\<close>, \<open>Runtime_Properties\<close>: version, constants, configuration of the kitties pallet,
    \<open>construct_runtime!\<close> with the dispatch, the unsigned validation and the \<open>pre_dispatch\<close> it derives, and the wiring of
    the other pallets' configurations. \<open>Runtime_Api\<close>: the \<open>impl_runtime_apis!\<close> block, over the functions it forwards to.
    \<open>Executive\<close>, \<open>Executive_Properties\<close>: \<open>SignedExtra\<close>, the extrinsics of the runtime, blocks imported through the
    runtime's API, and the properties of whole chains over any framework that satisfies \<open>executive_contract\<close>.
  \<^item> \<open>Chain_Spec\<close> (locale \<open>test_network\<close>), \<open>Service\<close> (locale \<open>planned_service\<close>), \<open>Command\<close>: the node's
    \<open>chain_spec.rs\<close>, \<open>service.rs\<close> with \<open>rpc.rs\<close>, \<open>command.rs\<close> with \<open>cli.rs\<close> and \<open>main.rs\<close>.
  \<^item> \<open>Chain_Start\<close>: from a chain specification through the genesis of the runtime to the chain.
  \<^item> \<open>Worker_Chain\<close>: what the worker submits through its runtime API, followed through the extrinsics that are executed
    before it is included and those after. This theory: the way of an automatic breeding through worker, runtime and
    pallet.

  \<^bold>\<open>What is shown.\<close> Every run of the pallet from genesis, alone and inside the runtime, refines the
  ledger, and so does every chain of blocks: storage is the replay of the event log, and every event was
  legitimate. Ownership
  changes only by the owner's transfer or a paid sale, a price only by the owner or with a sale; sales are atomic; failed calls change nothing; ids are
  contiguous and kitties never vanish. Each call is characterised on every branch. Unsigned
  transactions are accepted only with a solved proof of work and the current nonce, at most once below the last
  nonce (and again and again at it), also across blocks and failed dispatches. They provide no tag, so a pool that requires
  one refuses them. Money is conserved. The pallet's test suite passes on the model byte for byte.
  The worker terminates, and submits only transactions the chain accepts: each passes \<open>pre_dispatch\<close> whatever else is
  executed before it, as long as the nonce stays, and once it is executed it never is again. Weights do not wrap. Both
  chain specifications give a genesis the balances pallet accepts. Nodes are built in the order of an explicit plan, with
  the network started last; only authorities author blocks and vote with a keystore, and light nodes do neither.

  \<^bold>\<open>Code outside the repository\<close> is a parameter: the record \<open>kitties_config\<close> (\<open>orml_nft\<close>, currency, randomness,
  encoding, BLAKE2), \<open>offchain_host\<close>, \<open>framework\<close> (\<open>frame_executive\<close> and the other functions the runtime APIs forward
  to), \<open>db_weight\<close>, \<open>key_scheme\<close>, \<open>host\<close> and \<open>cli_host\<close>, and the dispatch of the other pallets. The predicates
  \<open>nft_contract\<close>, \<open>currency_contract\<close>, \<open>hash_contract\<close>, \<open>keys_contract\<close>, \<open>executive_contract\<close>, \<open>validity_contract\<close>,
  \<open>pool_contract\<close>, \<open>genesis_contract\<close>, \<open>add_benchmark_contract\<close>, \<open>test_nft_contract\<close>, \<open>test_currency_contract\<close>,
  \<open>blake2_contract\<close> and \<open>others_respect_kitties\<close> name what the theorems assume of it; the witnesses instantiate them.
  The other pallets' effect on the kitties storage is any sequence of its inputs; in particular
  validation counts as an input that keeps its write of the nonce, as it does when a block is executed.

  \<^bold>\<open>Bounds.\<close> All loops are total functions on the source's counters; there is no fuel. The worker's budget
  of 500 iterations is the source's. A panic is the value \<open>None\<close>; the only ones are a zero difficulty, a failing
  genesis and an underivable key.

  \<^bold>\<open>Not modelled:\<close> the associated types of pallet configurations that only name a type of the framework and
  carry no value, the module lists and the build scripts, which only call build tools. The executive, the signed
  extensions and with them the fees (the runtime contributes only the two constants of \<open>payment_Config\<close>), the opening and
  closing of blocks and the other pallets are parameters. What macros generate from a declaration (the SCALE derives, the
  session keys of \<open>impl_opaque_keys!\<close>) has no code in the repository and no definition here.
\<close>

section \<open>From the off-chain worker to the new kitty\<close>

text \<open>
  C2: The whole way of an automatic breeding: what the off-chain worker of a node submits on
  a state of the runtime passes the runtime's unsigned validation on that state. Dispatched after
  that, without origin, it either fails in the NFT mint or gives the owner of the first parent a
  new kitty under the next id, with DNA mixed from both parents; and unless the nonce was the last one,
  the same transaction is not accepted a second time, in either case.
\<close>

theorem worker_transaction_breeds:
  assumes "kitties_inv (runtime_kitties T) V (rt_kitties rs)"
    and "run_offchain_worker (runtime_kitties T) H (rt_kitties rs) w = (r, w')"
    and "submitted w' = submitted w @ [call]"
    and "auto_breed_nonce (rt_kitties rs) \<noteq> - 1"
  shows "\<exists>rs1. validate_unsigned_runtime T InBlock (KittiesCall call) rs = (Some (Ok kitties_valid), rs1) \<and>
    (\<forall>q rs2. dispatch_runtime T other (KittiesCall call) NoOrigin rs1 = (q, rs2) \<longrightarrow>
       (\<forall>source v. fst (validate_unsigned_runtime T source (KittiesCall call) rs2) \<noteq> Some (Ok v)) \<and>
       (case q of
          Err e \<Rightarrow> rs2 = rs1 \<and> (\<exists>z. e = KittiesError (External z))
        | Ok u \<Rightarrow> (\<exists>t1 t2 s x y. call = Call_auto_breed t1 t2 (auto_breed_nonce (rt_kitties rs)) s \<and>
            token T (rt_kitties rs) t1 = Some x \<and> token T (rt_kitties rs) t2 = Some y \<and>
            token T (rt_kitties rs2) = (token T (rt_kitties rs))
              (nft_next_token_id T (nft (rt_kitties rs)) (class_id (rt_kitties rs)) \<mapsto>
                \<lparr>ti_owner = ti_owner x, ti_data = Kitty (breed_dna (dna (ti_data x)) (dna (ti_data y))
                   (random_value T (rt_kitties rs) (ti_owner x)))\<rparr>))))"
proof -
  let ?T = "runtime_kitties T" and ?st = "rt_kitties rs"
  obtain t1 t2 s x y where call: "call = Call_auto_breed t1 t2 (auto_breed_nonce ?st) s"
    and xy: "token T ?st t1 = Some x" "token T ?st t2 = Some y" "gender (ti_data x) \<noteq> gender (ti_data y)"
    and valid: "validate_solution ?T t1 t2 (auto_breed_nonce ?st) s = Some True"
    using worker_submission [OF assms(2)] assms(3) by auto
  let ?rs1 = "rs\<lparr>rt_kitties := ?st\<lparr>auto_breed_nonce := saturating_add (auto_breed_nonce ?st) 1\<rparr>\<rparr>"
  have accepted: "validate_unsigned_runtime T InBlock (KittiesCall call) rs = (Some (Ok kitties_valid), ?rs1)"
    using valid by (simp add: validate_unsigned_runtime_def validate_unsigned_def call)
  have pre: "kitties_inv T V (rt_kitties ?rs1)" "token T (rt_kitties ?rs1) t1 = Some x"
      "token T (rt_kitties ?rs1) t2 = Some y" "gender (ti_data x) \<noteq> gender (ti_data y)"
      "auto_breed_nonce (rt_kitties ?rs1) \<noteq> auto_breed_nonce ?st"
    using assms(1) xy saturating_add_one_strict [OF assms(4)] by simp_all
  note step = dispatch_runtime_auto_breed [OF pre, of other s, folded call]
  show ?thesis
  proof (intro exI [of _ ?rs1] conjI allI impI)
    fix q rs2 assume d: "dispatch_runtime T other (KittiesCall call) NoOrigin ?rs1 = (q, rs2)"
    show "case q of
        Err e \<Rightarrow> rs2 = ?rs1 \<and> (\<exists>z. e = KittiesError (External z))
      | Ok u \<Rightarrow> (\<exists>t1 t2 s x y. call = Call_auto_breed t1 t2 (auto_breed_nonce ?st) s \<and>
          token T ?st t1 = Some x \<and> token T ?st t2 = Some y \<and>
          token T (rt_kitties rs2) = (token T ?st)(nft_next_token_id T (nft ?st) (class_id ?st) \<mapsto>
            \<lparr>ti_owner = ti_owner x, ti_data = Kitty (breed_dna (dna (ti_data x)) (dna (ti_data y))
               (random_value T ?st (ti_owner x)))\<rparr>))"
      using step(2,3) [OF d] xy call by (cases q) auto
  qed (use accepted step(1) in blast)+
qed

theorem worker_transaction_breeds_witness:
  "\<exists>rs1. validate_unsigned_runtime sample_config InBlock
     (KittiesCall (Call_auto_breed 0 1 0 8589934592) :: (nat, unit) RuntimeCall) sample_runtime_state =
       (Some (Ok kitties_valid), rs1)"
proof -
  have "rt_kitties sample_runtime_state = sample_state" by (simp add: sample_runtime_state_def)
  moreover have "auto_breed_nonce sample_state \<noteq> - 1" by (simp add: sample_state_def)
  moreover have "kitties_inv (runtime_kitties sample_config) (\<lambda>_. True) sample_state"
    using sample_state_inv by simp
  ultimately show ?thesis
    using worker_transaction_breeds [where T = sample_config and V = "\<lambda>_. True" and rs = sample_runtime_state
        and other = sample_other and H = "counting_host (\<lambda>call d. (True, d))" and w = sample_worker
        and call = "Call_auto_breed 0 1 0 8589934592"] counting_worker_run [of "\<lambda>call d. (True, d)" True]
    by (auto simp: sample_worker_def)
qed

end
